(* ===== verification/Prelude.thy ===== *)
theory Prelude
  imports Main "HOL-Library.Word" "HOL-Library.Signed_Division" "HOL-Library.Multiset"
begin

text \<open>
  Shared vocabulary of the development: the Go types the components use, the pieces of the Go
  language and of its standard library that the sources call (truncating division, maps read
  with a zero default, \<open>sort.Slice\<close>, decimal printing), and the generic lemmas on them.

  A \<open>k8s.io/utils/cpuset.CPUSet\<close> is an immutable finite set of CPU numbers, so it is an
  \<^typ>\<open>int set\<close>: \<open>New\<close> is \<^const>\<open>set\<close>, \<open>Size\<close> the cardinality, \<open>Union\<close>,
  \<open>Difference\<close>, \<open>Intersection\<close> and \<open>Contains\<close> the set operations, \<open>List\<close> the
  ascending enumeration. \<open>UnsortedList\<close> enumerates in no fixed order; every use of it in the
  sources is sorted by a total order or collected into a set again, and the lemmas about
  \<open>sort_slice\<close> show that the enumeration order then does not matter. Its textual
  \<open>Parse\<close> and \<open>String\<close> are never unfolded: they are parameters where the code calls them.

  A Go map is an association list with distinct keys; the order of the list is one iteration
  order of the map.
\<close>

named_theorems set_queries "the set-theoretic meaning of the topology queries"
named_theorems acc_simps "unfolding rules of the CPU accumulator"
named_theorems policy_simps "unfolding rules of the resource policies"

type_synonym uint64 = "64 word"
type_synonym CPUSet = "int set"
type_synonym ('k, 'v) go_map = "('k \<times> 'v) list"

section \<open>CPU sets\<close>

definition Size :: "CPUSet \<Rightarrow> int" where
  "Size s = int (card s)"

definition IsEmpty :: "CPUSet \<Rightarrow> bool" where
  "IsEmpty s \<longleftrightarrow> Size s = 0"

definition List :: "CPUSet \<Rightarrow> int list" where
  "List s = sorted_list_of_set s"

lemma Size_nonneg [simp]: "0 \<le> Size s"
  by (simp add: Size_def)

lemma Size_empty [simp]: "Size {} = 0"
  by (simp add: Size_def)

lemma Size_singleton [simp]: "Size {c} = 1"
  by (simp add: Size_def)

lemma IsEmpty_iff: "finite s \<Longrightarrow> IsEmpty s \<longleftrightarrow> s = {}"
  by (simp add: IsEmpty_def Size_def)

lemma Size_mono: "finite t \<Longrightarrow> s \<subseteq> t \<Longrightarrow> Size s \<le> Size t"
  by (simp add: Size_def card_mono)

lemma Size_Un_disjoint:
  "finite s \<Longrightarrow> finite t \<Longrightarrow> s \<inter> t = {} \<Longrightarrow> Size (s \<union> t) = Size s + Size t"
  by (simp add: Size_def card_Un_disjoint)

lemma Size_Diff_subset: "finite t \<Longrightarrow> t \<subseteq> s \<Longrightarrow> Size (s - t) = Size s - Size t" if "finite s"
  using that by (simp add: Size_def card_Diff_subset card_mono)

lemma Size_eq_subset: "finite t \<Longrightarrow> s \<subseteq> t \<Longrightarrow> Size s = Size t \<Longrightarrow> s = t"
  by (simp add: Size_def card_subset_eq)

lemma Size_le_subset_eq: "finite t \<Longrightarrow> s \<subseteq> t \<Longrightarrow> Size t \<le> Size s \<Longrightarrow> s = t"
  by (simp add: Size_def card_seteq)

lemma set_List [simp]: "finite s \<Longrightarrow> set (List s) = s"
  by (simp add: List_def)

lemma distinct_List [simp]: "distinct (List s)"
  by (simp add: List_def)

lemma sorted_List [simp]: "sorted (List s)"
  by (simp add: List_def)

lemma length_List: "finite s \<Longrightarrow> int (length (List s)) = Size s"
  by (simp add: List_def Size_def)

section \<open>Go integers\<close>

text \<open>
  The division and remainder of Go truncate towards zero. CPU counts are Go \<open>int\<close>s far
  below \<open>2 ^ 63\<close> and are kept as \<^typ>\<open>int\<close>; memory amounts are \<open>uint64\<close> and wrap.
\<close>

definition go_div :: "int \<Rightarrow> int \<Rightarrow> int" where
  "go_div a b = a sdiv b"

definition go_mod :: "int \<Rightarrow> int \<Rightarrow> int" where
  "go_mod a b = a smod b"

lemma go_div_nonneg [simp]: "0 \<le> a \<Longrightarrow> 0 \<le> b \<Longrightarrow> go_div a b = a div b"
  by (simp add: go_div_def signed_divide_int_def sgn_if)

lemma go_mod_nonneg [simp]: "0 \<le> a \<Longrightarrow> 0 \<le> b \<Longrightarrow> go_mod a b = a mod b"
  by (simp add: go_mod_def signed_modulo_int_def signed_divide_int_def sgn_if
      minus_div_mult_eq_mod)

section \<open>Go maps\<close>

definition go_map_ok :: "('k, 'v) go_map \<Rightarrow> bool" where
  "go_map_ok m \<longleftrightarrow> distinct (map fst m)"

text \<open>Reading a missing key gives the zero value; \<open>m[k] = v\<close> replaces or adds.\<close>

definition go_lookup :: "'v \<Rightarrow> ('k, 'v) go_map \<Rightarrow> 'k \<Rightarrow> 'v" where
  "go_lookup zero m k = (case map_of m k of None \<Rightarrow> zero | Some v \<Rightarrow> v)"

fun go_update :: "('k, 'v) go_map \<Rightarrow> 'k \<Rightarrow> 'v \<Rightarrow> ('k, 'v) go_map" where
  "go_update [] k v = [(k, v)]"
| "go_update ((k', v') # m) k v = (if k' = k then (k, v) # m else (k', v') # go_update m k v)"

lemma map_of_go_update [simp]: "map_of (go_update m k v) = (map_of m)(k \<mapsto> v)"
  by (induction m k v rule: go_update.induct) auto

lemma keys_go_update: "fst ` set (go_update m k v) = insert k (fst ` set m)"
  by (induction m k v rule: go_update.induct) auto

lemma go_map_ok_update [simp]: "go_map_ok m \<Longrightarrow> go_map_ok (go_update m k v)"
  unfolding go_map_ok_def
  by (induction m k v rule: go_update.induct)
    (auto simp: keys_go_update simp flip: image_set)

lemma go_lookup_update: "go_lookup z (go_update m k v) j = (if j = k then v else go_lookup z m j)"
  by (simp add: go_lookup_def)

lemma go_update_same: "map_of m k = Some v \<Longrightarrow> go_update m k v = m"
  by (induction m k v rule: go_update.induct) (auto split: if_splits)

lemma go_update_twice [simp]: "go_update (go_update m k v) k w = go_update m k w"
  by (induction m k v rule: go_update.induct) auto

lemma map_fst_go_update: "k \<in> fst ` set m \<Longrightarrow> map fst (go_update m k v) = map fst m"
  by (induction m k v rule: go_update.induct) auto

lemma go_update_fresh: "k \<notin> fst ` set m \<Longrightarrow> go_update m k v = m @ [(k, v)]"
  by (induction m k v rule: go_update.induct) auto

lemma go_update_all:
  "distinct (map fst (dst @ src)) \<Longrightarrow> foldl (\<lambda>m (k, v). go_update m k v) dst src = dst @ src"
proof (induction src arbitrary: dst)
  case (Cons a src)
  from Cons.IH [of "dst @ [a]"] Cons.prems show ?case
    by (cases a) (auto simp: go_update_fresh)
qed simp

lemma go_map_eqI:
  "map fst m = map fst m' \<Longrightarrow> go_map_ok m \<Longrightarrow> map_of m = map_of m' \<Longrightarrow> m = m'"
proof (induction m arbitrary: m')
  case (Cons a m)
  then obtain b n where m': "m' = b # n" by (cases m') auto
  obtain k v w where ab: "a = (k, v)" "b = (k, w)"
    using Cons.prems(1) m' by (cases a, cases b) auto
  have "k \<notin> set (map fst m)" "k \<notin> set (map fst n)"
    using Cons.prems(1,2) m' ab unfolding go_map_ok_def by force+
  then have none: "map_of m k = None" "map_of n k = None"
    by (simp_all add: map_of_eq_None_iff)
  have eq: "map_of (a # m) x = map_of (b # n) x" for x
    using Cons.prems(3) unfolding m' by (rule fun_cong)
  have "v = w" using eq [of k] ab by simp
  moreover have "map_of m x = map_of n x" for x
    using eq [of x] none ab by (cases "x = k") auto
  ultimately show ?case using Cons m' ab by (auto simp: go_map_ok_def)
qed simp

section \<open>sort.Slice\<close>

text \<open>
  \<open>sort.Slice(xs, less)\<close> permutes its argument into an order in which no element is less
  than an earlier one. Insertion of each element behind the elements less than it is one such
  algorithm. Where \<open>less\<close> is a strict total order the result is unique.
\<close>

fun insort_by :: "('a \<Rightarrow> 'a \<Rightarrow> bool) \<Rightarrow> 'a \<Rightarrow> 'a list \<Rightarrow> 'a list" where
  "insort_by lt x [] = [x]"
| "insort_by lt x (y # ys) = (if lt y x then y # insort_by lt x ys else x # y # ys)"

definition sort_slice :: "('a \<Rightarrow> 'a \<Rightarrow> bool) \<Rightarrow> 'a list \<Rightarrow> 'a list" where
  "sort_slice lt xs = foldr (insort_by lt) xs []"

lemma mset_insort_by [simp]: "mset (insort_by lt x ys) = add_mset x (mset ys)"
  by (induction ys) auto

lemma mset_sort_slice [simp]: "mset (sort_slice lt xs) = mset xs"
  by (induction xs) (auto simp: sort_slice_def)

lemma set_sort_slice [simp]: "set (sort_slice lt xs) = set xs"
  by (metis mset_sort_slice set_mset_mset)

lemma distinct_sort_slice [simp]: "distinct (sort_slice lt xs) \<longleftrightarrow> distinct xs"
  by (metis mset_eq_imp_distinct_iff mset_sort_slice)

lemma length_sort_slice [simp]: "length (sort_slice lt xs) = length xs"
  by (metis mset_sort_slice size_mset)

locale strict_weak_order =
  fixes lt :: "'a \<Rightarrow> 'a \<Rightarrow> bool"
  assumes lt_asym: "lt x y \<Longrightarrow> \<not> lt y x"
    and lt_negtrans: "lt x z \<Longrightarrow> lt x y \<or> lt y z"
begin

lemma insort_by_sorted:
  "sorted_wrt (\<lambda>x y. \<not> lt y x) ys \<Longrightarrow> sorted_wrt (\<lambda>x y. \<not> lt y x) (insort_by lt x ys)"
proof (induction ys)
  case Nil
  then show ?case by simp
next
  case (Cons y ys)
  have mem: "set (insort_by lt x ys) = insert x (set ys)"
    by (metis mset_insort_by set_mset_add_mset_insert set_mset_mset)
  show ?case
  proof (cases "lt y x")
    case True
    with Cons mem show ?thesis by (auto dest: lt_asym)
  next
    case False
    with Cons.prems show ?thesis by (auto dest: lt_negtrans)
  qed
qed

lemma sort_slice_sorted: "sorted_wrt (\<lambda>x y. \<not> lt y x) (sort_slice lt xs)"
  unfolding sort_slice_def by (induction xs) (auto intro: insort_by_sorted)

end

locale strict_total_order = strict_weak_order +
  assumes lt_total: "x \<noteq> y \<Longrightarrow> lt x y \<or> lt y x"
begin

lemma sorted_unique:
  "sorted_wrt (\<lambda>x y. \<not> lt y x) xs \<Longrightarrow> sorted_wrt (\<lambda>x y. \<not> lt y x) ys \<Longrightarrow>
   mset xs = mset ys \<Longrightarrow> xs = ys"
proof (induction xs arbitrary: ys)
  case Nil
  then show ?case by simp
next
  case (Cons x xs)
  then obtain y zs where ys: "ys = y # zs" by (cases ys) auto
  have "x \<in> set ys" "y \<in> set (x # xs)"
    using Cons.prems(3) ys by (metis list.set_intros(1) set_mset_mset)+
  with Cons.prems ys have "x = y" using lt_total by auto
  with Cons ys show ?case by simp
qed

lemma sort_slice_perm: "mset xs = mset ys \<Longrightarrow> sort_slice lt xs = sort_slice lt ys"
  by (rule sorted_unique) (simp_all add: sort_slice_sorted)

end

section \<open>Lists\<close>

lemma concat_distinct:
  assumes "distinct xs" and "\<And>x. x \<in> set xs \<Longrightarrow> distinct (f x)"
    and "\<And>x y. x \<in> set xs \<Longrightarrow> y \<in> set xs \<Longrightarrow> x \<noteq> y \<Longrightarrow> set (f x) \<inter> set (f y) = {}"
  shows "distinct (concat (map f xs))"
  using assms by (induction xs) fastforce+

section \<open>Decimal printing\<close>

text \<open>The \<open>%d\<close> verb of \<open>fmt.Sprintf\<close>.\<close>

definition digit_char :: "nat \<Rightarrow> char" where
  "digit_char d = char_of (48 + d)"

fun show_nat :: "nat \<Rightarrow> string" where
  "show_nat n = (if n < 10 then [digit_char n] else show_nat (n div 10) @ [digit_char (n mod 10)])"

declare show_nat.simps [simp del]

definition show_int :: "int \<Rightarrow> string" where
  "show_int i = (if i < 0 then CHR ''-'' # show_nat (nat (- i)) else show_nat (nat i))"

end
