(* ===== verification/Topology.thy ===== *)
theory Topology
  imports Prelude
begin

text \<open>
  The CPU and memory topology of a host
  (\<open>src/pkg/providers/cloudcapacity/cpumanager/topology/topology.go\<close> and
  \<open>alignment.go\<close>). A \<open>CPUDetails\<close> is a Go map from a logical CPU to its place in the
  hierarchy (NUMA node, socket, physical core, L3 cache); the queries select and project its
  entries. The lemmas in the collection \<open>set_queries\<close> give their meaning as sets, from which
  it follows that no query depends on the iteration order of the map.
\<close>

section \<open>Data\<close>

record CPUInfo =
  NUMANodeID :: int
  SocketID :: int
  CoreID :: int
  UncoreCacheID :: int

type_synonym CPUDetails = "(int, CPUInfo) go_map"

record CPUTopology =
  NumCPUs :: int
  NumCores :: int
  NumUncoreCache :: int
  NumSockets :: int
  NumNUMANodes :: int
  Details :: CPUDetails

record MemTopology =
  TotalMemory :: uint64
  MemNUMANodes :: "(int, uint64) go_map"

record Topology =
  CPUTopo :: CPUTopology
  MemTopo :: MemTopology

datatype topology_error = UnknownCPU int | NoCPUsProvided | CPUsNotUnique

section \<open>Averages\<close>

definition CPUsPerCore :: "CPUTopology \<Rightarrow> int" where
  "CPUsPerCore t = (if NumCores t = 0 then 0 else go_div (NumCPUs t) (NumCores t))"

definition CPUsPerSocket :: "CPUTopology \<Rightarrow> int" where
  "CPUsPerSocket t = (if NumSockets t = 0 then 0 else go_div (NumCPUs t) (NumSockets t))"

definition CPUsPerUncore :: "CPUTopology \<Rightarrow> int" where
  "CPUsPerUncore t = (if NumUncoreCache t = 0 then 0 else go_div (NumCPUs t) (NumUncoreCache t))"

section \<open>Lookups of one CPU\<close>

definition CPUCoreID :: "CPUTopology \<Rightarrow> int \<Rightarrow> topology_error + int" where
  "CPUCoreID t cpu =
     (case map_of (Details t) cpu of None \<Rightarrow> Inl (UnknownCPU cpu) | Some info \<Rightarrow> Inr (CoreID info))"

definition CPUSocketID :: "CPUTopology \<Rightarrow> int \<Rightarrow> topology_error + int" where
  "CPUSocketID t cpu =
     (case map_of (Details t) cpu of None \<Rightarrow> Inl (UnknownCPU cpu) | Some info \<Rightarrow> Inr (SocketID info))"

definition CPUNUMANodeID :: "CPUTopology \<Rightarrow> int \<Rightarrow> topology_error + int" where
  "CPUNUMANodeID t cpu =
     (case map_of (Details t) cpu of None \<Rightarrow> Inl (UnknownCPU cpu) | Some info \<Rightarrow> Inr (NUMANodeID info))"

section \<open>Queries\<close>

text \<open>
  Every query appends, for each entry of the map (and for each requested id), a component of the
  matching entries to a slice and makes a set of it. \<open>select\<close> is that loop.
\<close>

definition select :: "(int \<times> CPUInfo \<Rightarrow> int) \<Rightarrow> (CPUInfo \<Rightarrow> int) \<Rightarrow> CPUDetails \<Rightarrow> int list \<Rightarrow> int list" where
  "select val key d ids = concat (map (\<lambda>id. map val (filter (\<lambda>(cpu, info). key info = id) d)) ids)"

definition KeepOnly :: "CPUDetails \<Rightarrow> CPUSet \<Rightarrow> CPUDetails" where
  "KeepOnly d cpus = filter (\<lambda>(cpu, info). cpu \<in> cpus) d"

definition UncoreCaches :: "CPUDetails \<Rightarrow> CPUSet" where
  "UncoreCaches d = set (map (\<lambda>(cpu, info). UncoreCacheID info) d)"

definition UncoreInNUMANodes :: "CPUDetails \<Rightarrow> int list \<Rightarrow> CPUSet" where
  "UncoreInNUMANodes d ids = set (select (UncoreCacheID \<circ> snd) NUMANodeID d ids)"

definition coresInUncoreCache :: "CPUDetails \<Rightarrow> int list \<Rightarrow> CPUSet" where
  "coresInUncoreCache d ids = set (select (CoreID \<circ> snd) UncoreCacheID d ids)"

text \<open>\<open>None\<close> is the slice-bounds panic of a negative count.\<close>

definition CoresNeededInUncoreCache :: "CPUDetails \<Rightarrow> int \<Rightarrow> int list \<Rightarrow> CPUSet option" where
  "CoresNeededInUncoreCache d numCoresNeeded ids =
     (let coreIDs = coresInUncoreCache d ids
      in if Size coreIDs \<le> numCoresNeeded then Some coreIDs
         else if numCoresNeeded < 0 then None
         else Some (set (take (nat numCoresNeeded) (List coreIDs))))"

definition CPUsInUncoreCaches :: "CPUDetails \<Rightarrow> int list \<Rightarrow> CPUSet" where
  "CPUsInUncoreCaches d ids = set (select fst UncoreCacheID d ids)"

definition NUMANodes :: "CPUDetails \<Rightarrow> CPUSet" where
  "NUMANodes d = set (map (\<lambda>(cpu, info). NUMANodeID info) d)"

definition NUMANodesInSockets :: "CPUDetails \<Rightarrow> int list \<Rightarrow> CPUSet" where
  "NUMANodesInSockets d ids = set (select (NUMANodeID \<circ> snd) SocketID d ids)"

definition Sockets :: "CPUDetails \<Rightarrow> CPUSet" where
  "Sockets d = set (map (\<lambda>(cpu, info). SocketID info) d)"

definition CPUsInSockets :: "CPUDetails \<Rightarrow> int list \<Rightarrow> CPUSet" where
  "CPUsInSockets d ids = set (select fst SocketID d ids)"

definition SocketsInNUMANodes :: "CPUDetails \<Rightarrow> int list \<Rightarrow> CPUSet" where
  "SocketsInNUMANodes d ids = set (select (SocketID \<circ> snd) NUMANodeID d ids)"

definition Cores :: "CPUDetails \<Rightarrow> CPUSet" where
  "Cores d = set (map (\<lambda>(cpu, info). CoreID info) d)"

definition CoresInNUMANodes :: "CPUDetails \<Rightarrow> int list \<Rightarrow> CPUSet" where
  "CoresInNUMANodes d ids = set (select (CoreID \<circ> snd) NUMANodeID d ids)"

definition CoresInSockets :: "CPUDetails \<Rightarrow> int list \<Rightarrow> CPUSet" where
  "CoresInSockets d ids = set (select (CoreID \<circ> snd) SocketID d ids)"

definition CPUs :: "CPUDetails \<Rightarrow> CPUSet" where
  "CPUs d = set (map (\<lambda>(cpuID, info). cpuID) d)"

definition CPUsInNUMANodes :: "CPUDetails \<Rightarrow> int list \<Rightarrow> CPUSet" where
  "CPUsInNUMANodes d ids = set (select fst NUMANodeID d ids)"

definition CPUsInCores :: "CPUDetails \<Rightarrow> int list \<Rightarrow> CPUSet" where
  "CPUsInCores d ids = set (select fst CoreID d ids)"

section \<open>Core numbering\<close>

definition getUniqueCoreID :: "int list \<Rightarrow> topology_error + int" where
  "getUniqueCoreID threads =
     (case threads of
        [] \<Rightarrow> Inl NoCPUsProvided
      | t0 # rest \<Rightarrow>
          if int (length threads) \<noteq> Size (set threads) then Inl CPUsNotUnique
          else Inr (foldl (\<lambda>m thread. if thread < m then thread else m) t0 rest))"

section \<open>Alignment\<close>

record Alignment =
  UncoreCache :: bool

record Allocation =
  AllocCPUs :: CPUSet
  Aligned :: Alignment

definition EmptyAllocation :: Allocation where
  "EmptyAllocation = \<lparr>AllocCPUs = {}, Aligned = \<lparr>UncoreCache = True\<rparr>\<rparr>"

fun same_uncore :: "CPUTopology \<Rightarrow> CPUInfo \<Rightarrow> int list \<Rightarrow> bool" where
  "same_uncore t reference [] = True"
| "same_uncore t reference (cpu # cpus) =
     (case map_of (Details t) cpu of
        None \<Rightarrow> False
      | Some info \<Rightarrow>
          if UncoreCacheID info \<noteq> UncoreCacheID reference then False
          else same_uncore t reference cpus)"

definition isAlignedAtUncoreCache :: "CPUTopology \<Rightarrow> int list \<Rightarrow> bool" where
  "isAlignedAtUncoreCache t cpuList =
     (if length cpuList \<le> 1 then True
      else case map_of (Details t) (hd cpuList) of
             None \<Rightarrow> False
           | Some reference \<Rightarrow> same_uncore t reference (tl cpuList))"

definition CheckAlignment :: "CPUTopology \<Rightarrow> CPUSet \<Rightarrow> Alignment" where
  "CheckAlignment t cpus = \<lparr>UncoreCache = isAlignedAtUncoreCache t (List cpus)\<rparr>"

section \<open>The meaning of the queries\<close>

lemma set_select: "set (select val key d ids) = {val (cpu, info) |cpu info. (cpu, info) \<in> set d \<and> key info \<in> set ids}"
  by (auto simp: select_def)

lemma CPUs_eq [set_queries]: "CPUs d = {cpu. \<exists>info. (cpu, info) \<in> set d}"
  by (force simp: CPUs_def)

lemma Sockets_eq [set_queries]: "Sockets d = {SocketID info |cpu info. (cpu, info) \<in> set d}"
  by (force simp: Sockets_def)

lemma NUMANodes_eq [set_queries]: "NUMANodes d = {NUMANodeID info |cpu info. (cpu, info) \<in> set d}"
  by (force simp: NUMANodes_def)

lemma Cores_eq [set_queries]: "Cores d = {CoreID info |cpu info. (cpu, info) \<in> set d}"
  by (force simp: Cores_def)

lemma UncoreCaches_eq [set_queries]: "UncoreCaches d = {UncoreCacheID info |cpu info. (cpu, info) \<in> set d}"
  by (force simp: UncoreCaches_def)

lemma CPUsInSockets_eq [set_queries]:
  "CPUsInSockets d ids = {cpu. \<exists>info. (cpu, info) \<in> set d \<and> SocketID info \<in> set ids}"
  by (auto simp: CPUsInSockets_def set_select)

lemma CPUsInNUMANodes_eq [set_queries]:
  "CPUsInNUMANodes d ids = {cpu. \<exists>info. (cpu, info) \<in> set d \<and> NUMANodeID info \<in> set ids}"
  by (auto simp: CPUsInNUMANodes_def set_select)

lemma CPUsInCores_eq [set_queries]:
  "CPUsInCores d ids = {cpu. \<exists>info. (cpu, info) \<in> set d \<and> CoreID info \<in> set ids}"
  by (auto simp: CPUsInCores_def set_select)

lemma CPUsInUncoreCaches_eq [set_queries]:
  "CPUsInUncoreCaches d ids = {cpu. \<exists>info. (cpu, info) \<in> set d \<and> UncoreCacheID info \<in> set ids}"
  by (auto simp: CPUsInUncoreCaches_def set_select)

lemma UncoreInNUMANodes_eq [set_queries]:
  "UncoreInNUMANodes d ids = {UncoreCacheID info |cpu info. (cpu, info) \<in> set d \<and> NUMANodeID info \<in> set ids}"
  by (auto simp: UncoreInNUMANodes_def set_select)

lemma coresInUncoreCache_eq [set_queries]:
  "coresInUncoreCache d ids = {CoreID info |cpu info. (cpu, info) \<in> set d \<and> UncoreCacheID info \<in> set ids}"
  by (auto simp: coresInUncoreCache_def set_select)

lemma NUMANodesInSockets_eq [set_queries]:
  "NUMANodesInSockets d ids = {NUMANodeID info |cpu info. (cpu, info) \<in> set d \<and> SocketID info \<in> set ids}"
  by (auto simp: NUMANodesInSockets_def set_select)

lemma SocketsInNUMANodes_eq [set_queries]:
  "SocketsInNUMANodes d ids = {SocketID info |cpu info. (cpu, info) \<in> set d \<and> NUMANodeID info \<in> set ids}"
  by (auto simp: SocketsInNUMANodes_def set_select)

lemma CoresInNUMANodes_eq [set_queries]:
  "CoresInNUMANodes d ids = {CoreID info |cpu info. (cpu, info) \<in> set d \<and> NUMANodeID info \<in> set ids}"
  by (auto simp: CoresInNUMANodes_def set_select)

lemma CoresInSockets_eq [set_queries]:
  "CoresInSockets d ids = {CoreID info |cpu info. (cpu, info) \<in> set d \<and> SocketID info \<in> set ids}"
  by (auto simp: CoresInSockets_def set_select)

lemma set_KeepOnly [simp]: "set (KeepOnly d cpus) = {(cpu, info). (cpu, info) \<in> set d \<and> cpu \<in> cpus}"
  by (auto simp: KeepOnly_def)

lemma KeepOnly_ok [simp]: "go_map_ok d \<Longrightarrow> go_map_ok (KeepOnly d cpus)"
  by (induction d) (auto simp: go_map_ok_def KeepOnly_def)

lemma KeepOnly_KeepOnly [simp]: "KeepOnly (KeepOnly d a) b = KeepOnly d (a \<inter> b)"
  by (auto simp: KeepOnly_def intro: filter_cong)

lemma KeepOnly_cong: "(\<And>c. c \<in> CPUs d \<Longrightarrow> c \<in> a \<longleftrightarrow> c \<in> b) \<Longrightarrow> KeepOnly d a = KeepOnly d b"
  by (auto simp: KeepOnly_def CPUs_eq intro!: filter_cong)

lemma CPUs_KeepOnly [simp]: "CPUs (KeepOnly d a) = CPUs d \<inter> a"
  by (auto simp: CPUs_eq)

lemma finite_queries [simp]:
  "finite (CPUs d)" "finite (Sockets d)" "finite (NUMANodes d)" "finite (Cores d)"
  "finite (UncoreCaches d)" "finite (CPUsInSockets d ids)" "finite (CPUsInNUMANodes d ids)"
  "finite (CPUsInCores d ids)" "finite (CPUsInUncoreCaches d ids)"
  "finite (UncoreInNUMANodes d ids)" "finite (coresInUncoreCache d ids)"
  "finite (NUMANodesInSockets d ids)" "finite (SocketsInNUMANodes d ids)"
  "finite (CoresInNUMANodes d ids)" "finite (CoresInSockets d ids)"
  by (simp_all add: CPUs_def Sockets_def NUMANodes_def Cores_def UncoreCaches_def CPUsInSockets_def
      CPUsInNUMANodes_def CPUsInCores_def CPUsInUncoreCaches_def UncoreInNUMANodes_def
      coresInUncoreCache_def NUMANodesInSockets_def SocketsInNUMANodes_def CoresInNUMANodes_def
      CoresInSockets_def)

lemma info_unique: "go_map_ok d \<Longrightarrow> (c, i) \<in> set d \<Longrightarrow> (c, j) \<in> set d \<Longrightarrow> i = j"
  unfolding go_map_ok_def by (metis eq_key_imp_eq_value)

end
