(* ===== verification/CPUAccumulator.thy ===== *)
theory CPUAccumulator
  imports Topology
begin

text \<open>
  The CPU accumulator of \<open>src/pkg/providers/cloudcapacity/cpumanager/cpu_assignment.go\<close>: the
  state of one allocation (the CPUs still free, the CPUs claimed, how many are needed), the
  orders in which free NUMA nodes, sockets, L3 caches, cores and CPUs are tried, and the steps
  that claim them. Logging is left out. The interface \<open>cpu_block\<close> states what the four
  kinds of block have in common, and the claiming loop is verified once in it.
\<close>

section \<open>State\<close>

datatype LoopControl = Continue | Break

datatype numaOrSocketsFirst = numaFirst | socketsFirst

datatype CPUSortingStrategy = CPUSortingStrategyPacked | CPUSortingStrategySpread

record cpuAccumulator =
  topo :: CPUTopology
  details :: CPUDetails
  numCPUsNeeded :: int
  result :: CPUSet
  firstLevel :: numaOrSocketsFirst
  availableCPUSorter :: CPUSortingStrategy

definition newCPUAccumulator ::
  "CPUTopology \<Rightarrow> CPUSet \<Rightarrow> int \<Rightarrow> CPUSortingStrategy \<Rightarrow> cpuAccumulator" where
  "newCPUAccumulator t availableCPUs numCPUs strategy =
     \<lparr>topo = t,
      details = KeepOnly (Details t) availableCPUs,
      numCPUsNeeded = numCPUs,
      result = {},
      firstLevel = (if NumSockets t \<ge> NumNUMANodes t then numaFirst else socketsFirst),
      availableCPUSorter =
        (if strategy = CPUSortingStrategyPacked then CPUSortingStrategyPacked
         else CPUSortingStrategySpread)\<rparr>"

definition needsAtLeast :: "cpuAccumulator \<Rightarrow> int \<Rightarrow> bool" where
  "needsAtLeast a n \<longleftrightarrow> numCPUsNeeded a \<ge> n"

definition isSatisfied :: "cpuAccumulator \<Rightarrow> bool" where
  "isSatisfied a \<longleftrightarrow> numCPUsNeeded a < 1"

definition isFailed :: "cpuAccumulator \<Rightarrow> bool" where
  "isFailed a \<longleftrightarrow> numCPUsNeeded a > Size (CPUs (details a))"

section \<open>Orders\<close>

definition acc_less :: "(int list \<Rightarrow> CPUSet) \<Rightarrow> int \<Rightarrow> int \<Rightarrow> bool" where
  "acc_less getCPUs i j =
     (let iCPUs = getCPUs [i]; jCPUs = getCPUs [j]
      in if Size iCPUs < Size jCPUs then True
         else if Size iCPUs > Size jCPUs then False
         else i < j)"

definition acc_sort :: "int list \<Rightarrow> (int list \<Rightarrow> CPUSet) \<Rightarrow> int list" where
  "acc_sort ids getCPUs = sort_slice (acc_less getCPUs) ids"

text \<open>NUMA nodes above sockets.\<close>

definition numaFirst_sortAvailableNUMANodes :: "cpuAccumulator \<Rightarrow> int list" where
  "numaFirst_sortAvailableNUMANodes a =
     acc_sort (List (NUMANodes (details a))) (CPUsInNUMANodes (details a))"

definition numaFirst_sortAvailableSockets :: "cpuAccumulator \<Rightarrow> int list" where
  "numaFirst_sortAvailableSockets a =
     concat (map (\<lambda>numa. acc_sort (List (SocketsInNUMANodes (details a) [numa])) (CPUsInSockets (details a)))
       (numaFirst_sortAvailableNUMANodes a))"

text \<open>Sockets above NUMA nodes.\<close>

definition socketsFirst_sortAvailableSockets :: "cpuAccumulator \<Rightarrow> int list" where
  "socketsFirst_sortAvailableSockets a =
     acc_sort (List (Sockets (details a))) (CPUsInSockets (details a))"

definition socketsFirst_sortAvailableNUMANodes :: "cpuAccumulator \<Rightarrow> int list" where
  "socketsFirst_sortAvailableNUMANodes a =
     concat (map (\<lambda>socket. acc_sort (List (NUMANodesInSockets (details a) [socket])) (CPUsInNUMANodes (details a)))
       (socketsFirst_sortAvailableSockets a))"

definition sortAvailableNUMANodes :: "cpuAccumulator \<Rightarrow> int list" where
  "sortAvailableNUMANodes a =
     (case firstLevel a of
        numaFirst \<Rightarrow> numaFirst_sortAvailableNUMANodes a
      | socketsFirst \<Rightarrow> socketsFirst_sortAvailableNUMANodes a)"

definition sortAvailableSockets :: "cpuAccumulator \<Rightarrow> int list" where
  "sortAvailableSockets a =
     (case firstLevel a of
        numaFirst \<Rightarrow> numaFirst_sortAvailableSockets a
      | socketsFirst \<Rightarrow> socketsFirst_sortAvailableSockets a)"

definition numaFirst_sortAvailableCores :: "cpuAccumulator \<Rightarrow> int list" where
  "numaFirst_sortAvailableCores a =
     concat (map (\<lambda>socket. acc_sort (List (CoresInSockets (details a) [socket])) (CPUsInCores (details a)))
       (sortAvailableSockets a))"

definition socketsFirst_sortAvailableCores :: "cpuAccumulator \<Rightarrow> int list" where
  "socketsFirst_sortAvailableCores a =
     concat (map (\<lambda>numa. acc_sort (List (CoresInNUMANodes (details a) [numa])) (CPUsInCores (details a)))
       (sortAvailableNUMANodes a))"

definition sortAvailableCores :: "cpuAccumulator \<Rightarrow> int list" where
  "sortAvailableCores a =
     (case firstLevel a of
        numaFirst \<Rightarrow> numaFirst_sortAvailableCores a
      | socketsFirst \<Rightarrow> socketsFirst_sortAvailableCores a)"

definition sortAvailableUncoreCaches :: "cpuAccumulator \<Rightarrow> int list" where
  "sortAvailableUncoreCaches a =
     concat (map (\<lambda>numa. acc_sort (List (UncoreInNUMANodes (details a) [numa])) (CPUsInUncoreCaches (details a)))
       (sortAvailableNUMANodes a))"

definition sortAvailableCPUsPacked :: "cpuAccumulator \<Rightarrow> int list" where
  "sortAvailableCPUsPacked a =
     concat (map (\<lambda>core. sort (List (CPUsInCores (details a) [core]))) (sortAvailableCores a))"

definition sortAvailableCPUsSpread :: "cpuAccumulator \<Rightarrow> int list" where
  "sortAvailableCPUsSpread a =
     concat (map (\<lambda>socket. sort (List (CPUsInSockets (details a) [socket]))) (sortAvailableSockets a))"

definition freeCPUs :: "cpuAccumulator \<Rightarrow> int list" where
  "freeCPUs a =
     (case availableCPUSorter a of
        CPUSortingStrategyPacked \<Rightarrow> sortAvailableCPUsPacked a
      | CPUSortingStrategySpread \<Rightarrow> sortAvailableCPUsSpread a)"

section \<open>Free blocks\<close>

definition isNUMANodeFree :: "cpuAccumulator \<Rightarrow> int \<Rightarrow> bool" where
  "isNUMANodeFree a numaID \<longleftrightarrow>
     Size (CPUsInNUMANodes (details a) [numaID]) = Size (CPUsInNUMANodes (Details (topo a)) [numaID])"

definition isSocketFree :: "cpuAccumulator \<Rightarrow> int \<Rightarrow> bool" where
  "isSocketFree a socketID \<longleftrightarrow> Size (CPUsInSockets (details a) [socketID]) = CPUsPerSocket (topo a)"

definition isUncoreCacheFree :: "cpuAccumulator \<Rightarrow> int \<Rightarrow> bool" where
  "isUncoreCacheFree a uncoreID \<longleftrightarrow>
     Size (CPUsInUncoreCaches (details a) [uncoreID]) =
     Size (CPUsInUncoreCaches (Details (topo a)) [uncoreID])"

definition isCoreFree :: "cpuAccumulator \<Rightarrow> int \<Rightarrow> bool" where
  "isCoreFree a coreID \<longleftrightarrow> Size (CPUsInCores (details a) [coreID]) = CPUsPerCore (topo a)"

definition freeNUMANodes :: "cpuAccumulator \<Rightarrow> int list" where
  "freeNUMANodes a = filter (isNUMANodeFree a) (sortAvailableNUMANodes a)"

definition freeSockets :: "cpuAccumulator \<Rightarrow> int list" where
  "freeSockets a = filter (isSocketFree a) (sortAvailableSockets a)"

definition freeUncoreCache :: "cpuAccumulator \<Rightarrow> int list" where
  "freeUncoreCache a = filter (isUncoreCacheFree a) (sortAvailableUncoreCaches a)"

definition freeCores :: "cpuAccumulator \<Rightarrow> int list" where
  "freeCores a = filter (isCoreFree a) (sortAvailableCores a)"

section \<open>Claiming\<close>

definition take_cpus :: "cpuAccumulator \<Rightarrow> CPUSet \<Rightarrow> cpuAccumulator" where
  "take_cpus a cpus =
     (let r = result a \<union> cpus
      in a\<lparr>result := r,
           details := KeepOnly (details a) (CPUs (details a) - r),
           numCPUsNeeded := numCPUsNeeded a - Size cpus\<rparr>)"

text \<open>
  The loop shared by \<open>takeFullNUMANodes\<close>, \<open>takeFullSockets\<close>, \<open>takeFullUncore\<close> and
  \<open>takeFullCores\<close>: the list of free blocks is computed once, before the first claim.
\<close>

definition claim_block ::
  "(CPUDetails \<Rightarrow> int list \<Rightarrow> CPUSet) \<Rightarrow> int \<Rightarrow> cpuAccumulator \<Rightarrow> cpuAccumulator" where
  "claim_block cpusIn blk a =
     (let cpus = cpusIn (Details (topo a)) [blk]
      in if \<not> needsAtLeast a (Size cpus) then a else take_cpus a cpus)"

definition takeFullNUMANodes :: "cpuAccumulator \<Rightarrow> cpuAccumulator" where
  "takeFullNUMANodes a = fold (claim_block CPUsInNUMANodes) (freeNUMANodes a) a"

definition takeFullSockets :: "cpuAccumulator \<Rightarrow> cpuAccumulator" where
  "takeFullSockets a = fold (claim_block CPUsInSockets) (freeSockets a) a"

definition takeFullUncore :: "cpuAccumulator \<Rightarrow> cpuAccumulator" where
  "takeFullUncore a = fold (claim_block CPUsInUncoreCaches) (freeUncoreCache a) a"

definition takeFullCores :: "cpuAccumulator \<Rightarrow> cpuAccumulator" where
  "takeFullCores a = fold (claim_block CPUsInCores) (freeCores a) a"

definition takeFullFirstLevel :: "cpuAccumulator \<Rightarrow> cpuAccumulator" where
  "takeFullFirstLevel a =
     (case firstLevel a of numaFirst \<Rightarrow> takeFullNUMANodes a | socketsFirst \<Rightarrow> takeFullSockets a)"

definition takeFullSecondLevel :: "cpuAccumulator \<Rightarrow> cpuAccumulator" where
  "takeFullSecondLevel a =
     (case firstLevel a of numaFirst \<Rightarrow> takeFullSockets a | socketsFirst \<Rightarrow> takeFullNUMANodes a)"

text \<open>
  The last CPU of the sorted candidates is dropped when an odd number of CPUs is needed.
  \<open>None\<close> is a run-time panic: the division by \<open>CPUsPerCore() = 0\<close>, or a negative slice
  bound.
\<close>

definition trim_odd :: "cpuAccumulator \<Rightarrow> CPUSet \<Rightarrow> CPUSet option" where
  "trim_odd a cpus =
     (if go_mod (numCPUsNeeded a) 2 \<noteq> 0 \<and> CPUsPerCore (topo a) > 1
      then let sortFreeCPUs = List cpus
           in if int (length sortFreeCPUs) > numCPUsNeeded a
              then (if Size cpus - 1 < 0 then None
                    else Some (set (take (nat (Size cpus - 1)) sortFreeCPUs)))
              else Some (set sortFreeCPUs)
      else Some cpus)"

definition takePartialUncore :: "cpuAccumulator \<Rightarrow> int \<Rightarrow> cpuAccumulator option" where
  "takePartialUncore a uncoreID =
     (if CPUsPerCore (topo a) = 0 then None
      else
        let numCoresNeeded =
              go_div (numCPUsNeeded a + CPUsPerCore (topo a) - 1) (CPUsPerCore (topo a))
        in case CoresNeededInUncoreCache (details a) numCoresNeeded [uncoreID] of
             None \<Rightarrow> None
           | Some cores \<Rightarrow>
               (case trim_odd a (CPUsInCores (details a) (List cores)) of
                  None \<Rightarrow> None
                | Some cpus \<Rightarrow>
                    if numCPUsNeeded a = Size cpus then Some (take_cpus a cpus) else Some a))"

fun takeUncoreCache_loop :: "int list \<Rightarrow> cpuAccumulator \<Rightarrow> cpuAccumulator option" where
  "takeUncoreCache_loop [] a = Some a"
| "takeUncoreCache_loop (uncore # rest) a =
     (let a1 = (if needsAtLeast a (CPUsPerUncore (topo a)) then takeFullUncore a else a)
      in if isSatisfied a1 then Some a1
         else case takePartialUncore a1 uncore of
                None \<Rightarrow> None
              | Some a2 \<Rightarrow> if isSatisfied a2 then Some a2 else takeUncoreCache_loop rest a2)"

definition takeUncoreCache :: "cpuAccumulator \<Rightarrow> cpuAccumulator option" where
  "takeUncoreCache a = takeUncoreCache_loop (sortAvailableUncoreCaches a) a"

fun takeRemainingCPUs_loop :: "int list \<Rightarrow> cpuAccumulator \<Rightarrow> cpuAccumulator" where
  "takeRemainingCPUs_loop [] a = a"
| "takeRemainingCPUs_loop (cpu # rest) a =
     (let a1 = take_cpus a {cpu}
      in if isSatisfied a1 then a1 else takeRemainingCPUs_loop rest a1)"

definition takeRemainingCPUs :: "cpuAccumulator \<Rightarrow> cpuAccumulator" where
  "takeRemainingCPUs a = takeRemainingCPUs_loop (freeCPUs a) a"

section \<open>The sorting order\<close>

interpretation acc_order: strict_total_order "acc_less getCPUs" for getCPUs
  by unfold_locales (auto simp: acc_less_def Let_def split: if_splits)

lemma set_acc_sort [simp]: "set (acc_sort ids g) = set ids"
  by (simp add: acc_sort_def)

lemma distinct_acc_sort [simp]: "distinct (acc_sort ids g) \<longleftrightarrow> distinct ids"
  by (simp add: acc_sort_def)

text \<open>The order in which \<open>UnsortedList\<close> enumerates a set has no influence on a sorted list.\<close>

lemma acc_sort_enumeration:
  "finite s \<Longrightarrow> set ids = s \<Longrightarrow> distinct ids \<Longrightarrow> acc_sort ids g = acc_sort (List s) g"
  unfolding acc_sort_def
  by (rule acc_order.sort_slice_perm) (metis distinct_List set_List set_eq_iff_mset_eq_distinct)

section \<open>Nesting of the hierarchy\<close>

text \<open>Entries with the same \<open>low\<close> id have the same \<open>up\<close> id.\<close>

definition determines :: "(CPUInfo \<Rightarrow> int) \<Rightarrow> (CPUInfo \<Rightarrow> int) \<Rightarrow> CPUDetails \<Rightarrow> bool" where
  "determines low up d \<longleftrightarrow>
     (\<forall>(c, i) \<in> set d. \<forall>(c', j) \<in> set d. low i = low j \<longrightarrow> up i = up j)"

lemma determines_mono: "determines low up d \<Longrightarrow> set d' \<subseteq> set d \<Longrightarrow> determines low up d'"
  unfolding determines_def by blast

lemma sort_nested_distinct:
  assumes "distinct xs" and "determines low up d"
    and proj: "\<And>x. proj [x] = {low info |cpu info. (cpu, info) \<in> set d \<and> up info \<in> set [x]}"
  shows "distinct (concat (map (\<lambda>x. acc_sort (List (proj [x])) g) xs))"
proof (rule concat_distinct [OF assms(1)])
  fix x y :: int
  assume "x \<noteq> y"
  have fin: "finite (proj [z])" for z
    unfolding proj by (rule finite_subset [of _ "(\<lambda>(c, i). low i) ` set d"]) force+
  have "proj [x] \<inter> proj [y] = {}"
    using assms(2) \<open>x \<noteq> y\<close> unfolding proj determines_def by fastforce
  with fin show "set (acc_sort (List (proj [x])) g) \<inter> set (acc_sort (List (proj [y])) g) = {}"
    by simp
qed simp

lemma sort_nested_set:
  assumes "set xs = {up info |cpu info. (cpu, info) \<in> set d}"
    and proj: "\<And>x. proj [x] = {low info |cpu info. (cpu, info) \<in> set d \<and> up info \<in> set [x]}"
  shows "set (concat (map (\<lambda>x. acc_sort (List (proj [x])) g) xs)) =
         {low info |cpu info. (cpu, info) \<in> set d}"
proof -
  have fin: "finite (proj [z])" for z
    unfolding proj by (rule finite_subset [of _ "(\<lambda>(c, i). low i) ` set d"]) force+
  have "set (concat (map (\<lambda>x. acc_sort (List (proj [x])) g) xs)) = (\<Union>x\<in>set xs. proj [x])"
    using fin by simp
  also have "\<dots> = {low info |cpu info. (cpu, info) \<in> set d}"
    unfolding assms(1) proj by auto
  finally show ?thesis .
qed

end
