(* ===== verification/NUMAPacked.thy ===== *)
theory NUMAPacked
  imports CPUAccumulator
begin

text \<open>
  The packing allocator \<open>takeByTopologyNUMAPacked\<close> of
  \<open>src/pkg/providers/cloudcapacity/cpumanager/cpu_assignment.go\<close> and its correctness: on a
  regular topology it hands out exactly the requested number of available CPUs whenever there
  are enough of them, and fails otherwise.
\<close>

section \<open>The allocator\<close>

datatype cpu_error =
    NotEnoughCPUs int int
  | FailedToAllocateCPUs
  | AccountingNotEnough int
  | AccountingTooMany int
  | RuntimePanic

definition packed_cores :: "CPUSortingStrategy \<Rightarrow> cpuAccumulator \<Rightarrow> cpu_error + CPUSet" where
  "packed_cores strategy a =
     (let a1 = (if strategy \<noteq> CPUSortingStrategySpread then takeFullCores a else a)
      in if strategy \<noteq> CPUSortingStrategySpread \<and> isSatisfied a1 then Inr (result a1)
         else
           let a2 = takeRemainingCPUs a1
           in if isSatisfied a2 then Inr (result a2) else Inl FailedToAllocateCPUs)"

definition packed_uncore :: "CPUSortingStrategy \<Rightarrow> bool \<Rightarrow> cpuAccumulator \<Rightarrow> cpu_error + CPUSet" where
  "packed_uncore strategy preferAlignByUncoreCache a =
     (if preferAlignByUncoreCache
      then case takeUncoreCache a of
             None \<Rightarrow> Inl RuntimePanic
           | Some a1 \<Rightarrow> if isSatisfied a1 then Inr (result a1) else packed_cores strategy a1
      else packed_cores strategy a)"

definition takeByTopologyNUMAPacked ::
  "CPUTopology \<Rightarrow> CPUSet \<Rightarrow> int \<Rightarrow> CPUSortingStrategy \<Rightarrow> bool \<Rightarrow> cpu_error + CPUSet" where
  "takeByTopologyNUMAPacked t availableCPUs numCPUs strategy preferAlignByUncoreCache =
     (let acc = newCPUAccumulator t availableCPUs numCPUs strategy
      in if isSatisfied acc then Inr (result acc)
         else if isFailed acc then Inl (NotEnoughCPUs numCPUs (Size availableCPUs))
         else
           let a1 = takeFullFirstLevel acc
           in if isSatisfied a1 then Inr (result a1)
              else
                let a2 = takeFullSecondLevel a1
                in if isSatisfied a2 then Inr (result a2)
                   else packed_uncore strategy preferAlignByUncoreCache a2)"

section \<open>Regular topologies\<close>

text \<open>
  The code asks whether a socket or a core is free by comparing the number of its free CPUs with
  the average size of a socket or core, and walks the hierarchy from the coarser to the finer
  level. Both are right on a regular topology: sockets and cores of equal size, each level nested
  in the level above it.
\<close>

definition topology_ok :: "CPUTopology \<Rightarrow> bool" where
  "topology_ok t \<longleftrightarrow>
     go_map_ok (Details t) \<and>
     (\<forall>s \<in> Sockets (Details t). Size (CPUsInSockets (Details t) [s]) = CPUsPerSocket t) \<and>
     (\<forall>c \<in> Cores (Details t). Size (CPUsInCores (Details t) [c]) = CPUsPerCore t) \<and>
     (if NumSockets t \<ge> NumNUMANodes t
      then determines SocketID NUMANodeID (Details t) \<and> determines CoreID SocketID (Details t)
      else determines NUMANodeID SocketID (Details t) \<and> determines CoreID NUMANodeID (Details t)) \<and>
     determines UncoreCacheID NUMANodeID (Details t)"

section \<open>The accumulator invariant\<close>

text \<open>
  For an allocation of \<open>n\<close> CPUs out of \<open>avail\<close>: what is claimed is available, what is
  free is what is available and not claimed, and what is needed is what is missing.
\<close>

definition acc_frame :: "CPUTopology \<Rightarrow> CPUSet \<Rightarrow> int \<Rightarrow> cpuAccumulator \<Rightarrow> bool" where
  "acc_frame t avail n a \<longleftrightarrow>
     topo a = t \<and>
     firstLevel a = (if NumSockets t \<ge> NumNUMANodes t then numaFirst else socketsFirst) \<and>
     details a = KeepOnly (Details t) (avail - result a) \<and>
     result a \<subseteq> avail \<inter> CPUs (Details t) \<and>
     numCPUsNeeded a = n - Size (result a)"

definition acc_ok :: "CPUTopology \<Rightarrow> CPUSet \<Rightarrow> int \<Rightarrow> cpuAccumulator \<Rightarrow> bool" where
  "acc_ok t avail n a \<longleftrightarrow> acc_frame t avail n a \<and> 0 \<le> numCPUsNeeded a"

lemma acc_frameD:
  assumes "acc_frame t avail n a"
  shows "topo a = t" "details a = KeepOnly (Details t) (avail - result a)"
    "result a \<subseteq> avail \<inter> CPUs (Details t)" "finite (result a)"
    "CPUs (details a) = CPUs (Details t) \<inter> avail - result a"
    "numCPUsNeeded a = n - Size (result a)"
    "firstLevel a = (if NumSockets t \<ge> NumNUMANodes t then numaFirst else socketsFirst)"
    "set (details a) \<subseteq> set (Details t)"
  using assms by (auto simp: acc_frame_def intro: finite_subset [of _ "CPUs (Details t)"])

lemma acc_okD:
  assumes "acc_ok t avail n a"
  shows "topo a = t" "details a = KeepOnly (Details t) (avail - result a)"
    "result a \<subseteq> avail \<inter> CPUs (Details t)" "finite (result a)"
    "CPUs (details a) = CPUs (Details t) \<inter> avail - result a"
    "numCPUsNeeded a = n - Size (result a)" "0 \<le> numCPUsNeeded a"
    "firstLevel a = (if NumSockets t \<ge> NumNUMANodes t then numaFirst else socketsFirst)"
    "set (details a) \<subseteq> set (Details t)" "acc_frame t avail n a"
  using assms acc_frameD [of t avail n a] unfolding acc_ok_def by blast+

lemma acc_frame_new: "acc_frame t avail n (newCPUAccumulator t avail n strategy)"
  by (auto simp: acc_frame_def newCPUAccumulator_def)

lemma acc_ok_new: "0 \<le> n \<Longrightarrow> acc_ok t avail n (newCPUAccumulator t avail n strategy)"
  using acc_frame_new by (simp add: acc_ok_def newCPUAccumulator_def)

lemma take_cpus_fields [simp]:
  "topo (take_cpus a cpus) = topo a" "result (take_cpus a cpus) = result a \<union> cpus"
  "numCPUsNeeded (take_cpus a cpus) = numCPUsNeeded a - Size cpus"
  "firstLevel (take_cpus a cpus) = firstLevel a"
  by (simp_all add: take_cpus_def Let_def)

lemma acc_frame_take:
  assumes "acc_frame t avail n a" and "cpus \<subseteq> CPUs (details a)"
  shows "acc_frame t avail n (take_cpus a cpus)"
    and "CPUs (details (take_cpus a cpus)) = CPUs (details a) - cpus"
proof -
  note ok = acc_frameD [OF assms(1)]
  have fin: "finite cpus" using assms(2) by (rule finite_subset) simp
  have disj: "result a \<inter> cpus = {}" using assms(2) ok(5) by auto
  have det: "details (take_cpus a cpus) = KeepOnly (Details t) (avail - (result a \<union> cpus))"
    using ok by (auto simp: take_cpus_def Let_def intro: KeepOnly_cong)
  show "acc_frame t avail n (take_cpus a cpus)"
    using assms ok det fin disj
    by (auto simp: acc_frame_def Size_Un_disjoint)
  show "CPUs (details (take_cpus a cpus)) = CPUs (details a) - cpus"
    using det ok(5) by auto
qed

lemma acc_ok_take:
  assumes "acc_ok t avail n a" and "cpus \<subseteq> CPUs (details a)" and "Size cpus \<le> numCPUsNeeded a"
  shows "acc_ok t avail n (take_cpus a cpus)"
    and "CPUs (details (take_cpus a cpus)) = CPUs (details a) - cpus"
  using assms acc_frame_take [of t avail n a cpus] by (simp_all add: acc_ok_def)

section \<open>Blocks\<close>

text \<open>
  The interface of a kind of block: the CPUs of a list of blocks are those whose entry carries
  one of their ids. The claiming loop is correct for every kind of block.
\<close>

locale cpu_block =
  fixes cpusIn :: "CPUDetails \<Rightarrow> int list \<Rightarrow> CPUSet" and key :: "CPUInfo \<Rightarrow> int"
  assumes cpusIn_eq: "cpusIn d ids = {cpu. \<exists>info. (cpu, info) \<in> set d \<and> key info \<in> set ids}"
begin

lemma finite_cpusIn: "finite (cpusIn d ids)"
  unfolding cpusIn_eq by (rule finite_subset [of _ "fst ` set d"]) force+

lemma cpusIn_mono: "set d' \<subseteq> set d \<Longrightarrow> cpusIn d' ids \<subseteq> cpusIn d ids"
  unfolding cpusIn_eq by blast

lemma cpusIn_CPUs: "cpusIn d ids \<subseteq> CPUs d"
  unfolding cpusIn_eq CPUs_eq by blast

lemma cpusIn_disjoint: "go_map_ok d \<Longrightarrow> x \<noteq> y \<Longrightarrow> cpusIn d [x] \<inter> cpusIn d [y] = {}"
  unfolding cpusIn_eq by (auto dest: info_unique)

lemma block_free:
  assumes "set d' \<subseteq> set d" and "Size (cpusIn d' [x]) = Size (cpusIn d [x])"
  shows "cpusIn d [x] \<subseteq> CPUs d'"
  using Size_eq_subset [OF finite_cpusIn cpusIn_mono [OF assms(1)] assms(2)] cpusIn_CPUs
  by blast

lemma claim_loop:
  assumes "acc_ok t avail n a" and "go_map_ok (Details t)" and "distinct ids"
    and "\<And>x. x \<in> set ids \<Longrightarrow> cpusIn (Details t) [x] \<subseteq> CPUs (details a)"
  shows "acc_ok t avail n (fold (claim_block cpusIn) ids a)"
  using assms
proof (induction ids arbitrary: a)
  case Nil
  then show ?case by simp
next
  case (Cons x ids)
  let ?cpus = "cpusIn (Details t) [x]"
  have topo: "topo a = t" using Cons.prems(1) by (rule acc_okD)
  show ?case
  proof (cases "needsAtLeast a (Size ?cpus)")
    case False
    with Cons topo show ?thesis by (simp add: claim_block_def)
  next
    case True
    then have need: "Size ?cpus \<le> numCPUsNeeded a" by (simp add: needsAtLeast_def)
    have sub: "?cpus \<subseteq> CPUs (details a)" using Cons.prems(4) by simp
    note ok' = acc_ok_take [OF Cons.prems(1) sub need]
    have "cpusIn (Details t) [y] \<subseteq> CPUs (details (take_cpus a ?cpus))" if "y \<in> set ids" for y
      using that Cons.prems(3,4) cpusIn_disjoint [OF Cons.prems(2), of y x] ok'(2) by fastforce
    with Cons.IH [OF ok'(1) Cons.prems(2)] Cons.prems(3) True topo show ?thesis
      by (simp add: claim_block_def)
  qed
qed

end

interpretation numa_block: cpu_block CPUsInNUMANodes NUMANodeID
  by unfold_locales (rule CPUsInNUMANodes_eq)

interpretation socket_block: cpu_block CPUsInSockets SocketID
  by unfold_locales (rule CPUsInSockets_eq)

interpretation core_block: cpu_block CPUsInCores CoreID
  by unfold_locales (rule CPUsInCores_eq)

interpretation uncore_block: cpu_block CPUsInUncoreCaches UncoreCacheID
  by unfold_locales (rule CPUsInUncoreCaches_eq)

section \<open>The orders enumerate each block once\<close>

lemma topology_okD:
  assumes "topology_ok t"
  shows "go_map_ok (Details t)"
    "s \<in> Sockets (Details t) \<Longrightarrow> Size (CPUsInSockets (Details t) [s]) = CPUsPerSocket t"
    "c \<in> Cores (Details t) \<Longrightarrow> Size (CPUsInCores (Details t) [c]) = CPUsPerCore t"
    "NumSockets t \<ge> NumNUMANodes t \<Longrightarrow> determines SocketID NUMANodeID (Details t)"
    "NumSockets t \<ge> NumNUMANodes t \<Longrightarrow> determines CoreID SocketID (Details t)"
    "\<not> NumSockets t \<ge> NumNUMANodes t \<Longrightarrow> determines NUMANodeID SocketID (Details t)"
    "\<not> NumSockets t \<ge> NumNUMANodes t \<Longrightarrow> determines CoreID NUMANodeID (Details t)"
    "determines UncoreCacheID NUMANodeID (Details t)"
  using assms by (auto simp: topology_ok_def)

lemmas sort_defs = numaFirst_sortAvailableNUMANodes_def numaFirst_sortAvailableSockets_def
  socketsFirst_sortAvailableSockets_def socketsFirst_sortAvailableNUMANodes_def

lemma set_sortAvailable_unconditional:
  "set (sortAvailableNUMANodes a) = NUMANodes (details a)"
  "set (sortAvailableSockets a) = Sockets (details a)"
proof -
  have n: "set (numaFirst_sortAvailableNUMANodes a) = NUMANodes (details a)"
    and s: "set (socketsFirst_sortAvailableSockets a) = Sockets (details a)"
    by (simp_all add: sort_defs)
  show "set (sortAvailableNUMANodes a) = NUMANodes (details a)"
    using n sort_nested_set [of "socketsFirst_sortAvailableSockets a" SocketID "details a"
        "NUMANodesInSockets (details a)" NUMANodeID] s
    by (simp add: sortAvailableNUMANodes_def socketsFirst_sortAvailableNUMANodes_def
        set_queries split: numaOrSocketsFirst.split)
  show "set (sortAvailableSockets a) = Sockets (details a)"
    using s sort_nested_set [of "numaFirst_sortAvailableNUMANodes a" NUMANodeID "details a"
        "SocketsInNUMANodes (details a)" SocketID] n
    by (simp add: sortAvailableSockets_def numaFirst_sortAvailableSockets_def
        set_queries split: numaOrSocketsFirst.split)
qed


lemma set_sortAvailableCores: "set (sortAvailableCores a) = Cores (details a)"
  using sort_nested_set [of "sortAvailableSockets a" SocketID "details a"
      "CoresInSockets (details a)" CoreID]
    sort_nested_set [of "sortAvailableNUMANodes a" NUMANodeID "details a"
      "CoresInNUMANodes (details a)" CoreID]
  by (simp add: sortAvailableCores_def numaFirst_sortAvailableCores_def
      socketsFirst_sortAvailableCores_def set_sortAvailable_unconditional set_queries
      split: numaOrSocketsFirst.split)

lemma set_sortAvailableUncoreCaches: "set (sortAvailableUncoreCaches a) = UncoreCaches (details a)"
  using sort_nested_set [of "sortAvailableNUMANodes a" NUMANodeID "details a"
      "UncoreInNUMANodes (details a)" UncoreCacheID]
  by (simp add: sortAvailableUncoreCaches_def set_sortAvailable_unconditional set_queries)

lemma set_freeCPUs: "set (freeCPUs a) = CPUs (details a)"
proof -
  have "set (sortAvailableCPUsPacked a) = (\<Union>c \<in> Cores (details a). CPUsInCores (details a) [c])"
    by (simp add: sortAvailableCPUsPacked_def set_sortAvailableCores)
  also have "\<dots> = CPUs (details a)"
    unfolding set_queries by fastforce
  finally have packed: "set (sortAvailableCPUsPacked a) = CPUs (details a)" .
  have "set (sortAvailableCPUsSpread a) = (\<Union>s \<in> Sockets (details a). CPUsInSockets (details a) [s])"
    by (simp add: sortAvailableCPUsSpread_def set_sortAvailable_unconditional)
  also have "\<dots> = CPUs (details a)"
    unfolding set_queries by fastforce
  finally show ?thesis using packed
    by (simp add: freeCPUs_def split: CPUSortingStrategy.split)
qed

lemmas set_sorts = set_sortAvailable_unconditional set_sortAvailableCores
  set_sortAvailableUncoreCaches set_freeCPUs

lemmas nested_distinct =
  sort_nested_distinct [where proj = "NUMANodesInSockets d" and d = d for d, OF _ _ NUMANodesInSockets_eq]
  sort_nested_distinct [where proj = "SocketsInNUMANodes d" and d = d for d, OF _ _ SocketsInNUMANodes_eq]
  sort_nested_distinct [where proj = "CoresInSockets d" and d = d for d, OF _ _ CoresInSockets_eq]
  sort_nested_distinct [where proj = "CoresInNUMANodes d" and d = d for d, OF _ _ CoresInNUMANodes_eq]
  sort_nested_distinct [where proj = "UncoreInNUMANodes d" and d = d for d, OF _ _ UncoreInNUMANodes_eq]

lemma distinct_sorts:
  assumes top: "topology_ok t" and ok: "acc_ok t avail n a"
  shows "distinct (sortAvailableNUMANodes a)" "distinct (sortAvailableSockets a)"
    "distinct (sortAvailableCores a)" "distinct (sortAvailableUncoreCaches a)"
proof -
  note det = determines_mono [OF _ acc_okD(9) [OF ok]]
  note level = acc_okD(8) [OF ok]
  show numas: "distinct (sortAvailableNUMANodes a)"
    using level det [OF topology_okD(6) [OF top]]
    by (auto simp: sortAvailableNUMANodes_def sort_defs
        intro!: nested_distinct split: numaOrSocketsFirst.split)
  show sockets: "distinct (sortAvailableSockets a)"
    using level det [OF topology_okD(4) [OF top]]
    by (auto simp: sortAvailableSockets_def sort_defs
        intro!: nested_distinct split: numaOrSocketsFirst.split)
  show "distinct (sortAvailableCores a)"
    using level numas sockets det [OF topology_okD(5) [OF top]] det [OF topology_okD(7) [OF top]]
    by (auto simp: sortAvailableCores_def numaFirst_sortAvailableCores_def
        socketsFirst_sortAvailableCores_def
        intro!: nested_distinct split: numaOrSocketsFirst.split)
  show "distinct (sortAvailableUncoreCaches a)"
    using numas det [OF topology_okD(8) [OF top]]
    by (auto simp: sortAvailableUncoreCaches_def intro!: nested_distinct)
qed

lemma distinct_freeCPUs:
  assumes top: "topology_ok t" and ok: "acc_ok t avail n a"
  shows "distinct (freeCPUs a)"
proof -
  have map: "go_map_ok (details a)"
    using acc_okD(2) [OF ok] topology_okD(1) [OF top] by simp
  have "distinct (sortAvailableCPUsPacked a)"
    unfolding sortAvailableCPUsPacked_def
    using core_block.cpusIn_disjoint [OF map]
    by (intro concat_distinct distinct_sorts [OF top ok]) (simp_all add: distinct_sort)
  moreover have "distinct (sortAvailableCPUsSpread a)"
    unfolding sortAvailableCPUsSpread_def
    using socket_block.cpusIn_disjoint [OF map]
    by (intro concat_distinct distinct_sorts [OF top ok]) (simp_all add: distinct_sort)
  ultimately show ?thesis by (simp add: freeCPUs_def split: CPUSortingStrategy.split)
qed

section \<open>Every step keeps the invariant\<close>

lemma acc_ok_takeFullNUMANodes:
  assumes top: "topology_ok t" and ok: "acc_ok t avail n a"
  shows "acc_ok t avail n (takeFullNUMANodes a)"
  unfolding takeFullNUMANodes_def
proof (rule numa_block.claim_loop [OF ok topology_okD(1) [OF top]])
  show "distinct (freeNUMANodes a)"
    using distinct_sorts(1) [OF assms] by (simp add: freeNUMANodes_def)
  show "CPUsInNUMANodes (Details t) [x] \<subseteq> CPUs (details a)" if "x \<in> set (freeNUMANodes a)" for x
    using that acc_okD(1) [OF ok]
    by (intro numa_block.block_free [OF acc_okD(9) [OF ok]])
      (simp add: freeNUMANodes_def isNUMANodeFree_def)
qed

lemma acc_ok_takeFullUncore:
  assumes top: "topology_ok t" and ok: "acc_ok t avail n a"
  shows "acc_ok t avail n (takeFullUncore a)"
  unfolding takeFullUncore_def
proof (rule uncore_block.claim_loop [OF ok topology_okD(1) [OF top]])
  show "distinct (freeUncoreCache a)"
    using distinct_sorts(4) [OF assms] by (simp add: freeUncoreCache_def)
  show "CPUsInUncoreCaches (Details t) [x] \<subseteq> CPUs (details a)" if "x \<in> set (freeUncoreCache a)" for x
    using that acc_okD(1) [OF ok]
    by (intro uncore_block.block_free [OF acc_okD(9) [OF ok]])
      (simp add: freeUncoreCache_def isUncoreCacheFree_def)
qed

lemma acc_ok_takeFullSockets:
  assumes top: "topology_ok t" and ok: "acc_ok t avail n a"
  shows "acc_ok t avail n (takeFullSockets a)"
  unfolding takeFullSockets_def
proof (rule socket_block.claim_loop [OF ok topology_okD(1) [OF top]])
  show "distinct (freeSockets a)"
    using distinct_sorts(2) [OF assms] by (simp add: freeSockets_def)
  show "CPUsInSockets (Details t) [x] \<subseteq> CPUs (details a)" if "x \<in> set (freeSockets a)" for x
  proof (rule socket_block.block_free [OF acc_okD(9) [OF ok]])
    have "x \<in> Sockets (Details t)"
      using that acc_okD(9) [OF ok] by (auto simp: freeSockets_def set_sorts Sockets_eq)
    with that acc_okD(1) [OF ok] topology_okD(2) [OF top]
    show "Size (CPUsInSockets (details a) [x]) = Size (CPUsInSockets (Details t) [x])"
      by (simp add: freeSockets_def isSocketFree_def)
  qed
qed

lemma acc_ok_takeFullCores:
  assumes top: "topology_ok t" and ok: "acc_ok t avail n a"
  shows "acc_ok t avail n (takeFullCores a)"
  unfolding takeFullCores_def
proof (rule core_block.claim_loop [OF ok topology_okD(1) [OF top]])
  show "distinct (freeCores a)"
    using distinct_sorts(3) [OF assms] by (simp add: freeCores_def)
  show "CPUsInCores (Details t) [x] \<subseteq> CPUs (details a)" if "x \<in> set (freeCores a)" for x
  proof (rule core_block.block_free [OF acc_okD(9) [OF ok]])
    have "x \<in> Cores (Details t)"
      using that acc_okD(9) [OF ok] by (auto simp: freeCores_def set_sorts Cores_eq)
    with that acc_okD(1) [OF ok] topology_okD(3) [OF top]
    show "Size (CPUsInCores (details a) [x]) = Size (CPUsInCores (Details t) [x])"
      by (simp add: freeCores_def isCoreFree_def)
  qed
qed

lemma acc_ok_levels:
  assumes "topology_ok t" and "acc_ok t avail n a"
  shows "acc_ok t avail n (takeFullFirstLevel a)" "acc_ok t avail n (takeFullSecondLevel a)"
  using acc_ok_takeFullNUMANodes [OF assms] acc_ok_takeFullSockets [OF assms]
  by (simp_all add: takeFullFirstLevel_def takeFullSecondLevel_def split: numaOrSocketsFirst.split)

lemma CoresNeeded_Some: "0 \<le> k \<Longrightarrow> \<exists>cores. CoresNeededInUncoreCache d k ids = Some cores"
  by (simp add: CoresNeededInUncoreCache_def Let_def)

lemma trim_odd_Some:
  assumes "finite cpus" and "0 \<le> numCPUsNeeded a"
  shows "\<exists>cpus'. trim_odd a cpus = Some cpus' \<and> cpus' \<subseteq> cpus"
  using assms length_List [of cpus] set_take_subset [of _ "List cpus"]
  by (auto simp: trim_odd_def Let_def)

lemma acc_ok_takePartialUncore:
  assumes ok: "acc_ok t avail n a" and per: "0 < CPUsPerCore t" and need: "\<not> isSatisfied a"
  shows "\<exists>a'. takePartialUncore a u = Some a' \<and> acc_ok t avail n a'"
proof -
  have "0 \<le> go_div (numCPUsNeeded a + CPUsPerCore t - 1) (CPUsPerCore t)"
    using per need by (simp add: isSatisfied_def pos_imp_zdiv_nonneg_iff)
  then obtain cores where cores: "CoresNeededInUncoreCache (details a)
      (go_div (numCPUsNeeded a + CPUsPerCore t - 1) (CPUsPerCore t)) [u] = Some cores"
    using CoresNeeded_Some by blast
  obtain cpus where cpus: "trim_odd a (CPUsInCores (details a) (List cores)) = Some cpus"
    and sub: "cpus \<subseteq> CPUsInCores (details a) (List cores)"
    using trim_odd_Some acc_okD(7) [OF ok] finite_queries(8) by meson
  have "cpus \<subseteq> CPUs (details a)" using sub core_block.cpusIn_CPUs by blast
  then have "numCPUsNeeded a = Size cpus \<Longrightarrow> acc_ok t avail n (take_cpus a cpus)"
    by (intro acc_ok_take(1) [OF ok]) simp_all
  with ok per cores cpus show ?thesis
    by (auto simp: takePartialUncore_def Let_def acc_okD(1) [OF ok])
qed

lemma acc_ok_takeUncoreCache_loop:
  assumes top: "topology_ok t" and per: "0 < CPUsPerCore t"
  shows "acc_ok t avail n a \<Longrightarrow> \<exists>a'. takeUncoreCache_loop us a = Some a' \<and> acc_ok t avail n a'"
proof (induction us arbitrary: a)
  case Nil
  then show ?case by simp
next
  case (Cons u us)
  let ?a1 = "if needsAtLeast a (CPUsPerUncore (topo a)) then takeFullUncore a else a"
  have ok1: "acc_ok t avail n ?a1"
    using acc_ok_takeFullUncore [OF top] Cons.prems by simp
  show ?case
  proof (cases "isSatisfied ?a1")
    case True
    with ok1 show ?thesis by (auto simp: Let_def)
  next
    case False
    then obtain a2 where "takePartialUncore ?a1 u = Some a2" "acc_ok t avail n a2"
      using acc_ok_takePartialUncore [OF ok1 per] by blast
    with False Cons.IH show ?thesis by (auto simp: Let_def)
  qed
qed

lemma acc_ok_takeRemainingCPUs_loop:
  assumes "acc_ok t avail n a" and "distinct cpus" and "set cpus \<subseteq> CPUs (details a)"
    and "\<not> isSatisfied a" and "numCPUsNeeded a \<le> int (length cpus)"
  shows "acc_ok t avail n (takeRemainingCPUs_loop cpus a) \<and>
         isSatisfied (takeRemainingCPUs_loop cpus a)"
  using assms
proof (induction cpus arbitrary: a)
  case Nil
  then show ?case by (simp add: isSatisfied_def)
next
  case (Cons c cs)
  have need: "Size {c} \<le> numCPUsNeeded a" and sub: "{c} \<subseteq> CPUs (details a)"
    using Cons.prems by (auto simp: isSatisfied_def)
  note ok' = acc_ok_take [OF Cons.prems(1) sub need]
  show ?case
  proof (cases "isSatisfied (take_cpus a {c})")
    case True
    with ok'(1) show ?thesis by (simp add: Let_def)
  next
    case False
    have "set cs \<subseteq> CPUs (details (take_cpus a {c}))"
      using Cons.prems(2,3) ok'(2) by auto
    with Cons.IH [OF ok'(1)] False Cons.prems show ?thesis by (simp add: Let_def)
  qed
qed

lemma free_enough:
  assumes "acc_ok t avail n a" and "n \<le> Size (CPUs (Details t) \<inter> avail)"
  shows "numCPUsNeeded a \<le> Size (CPUs (details a))"
proof -
  note ok = acc_okD [OF assms(1)]
  have "Size (CPUs (details a)) = Size (CPUs (Details t) \<inter> avail) - Size (result a)"
    unfolding ok(5) using ok(3,4) by (intro Size_Diff_subset) auto
  with assms(2) ok(6) show ?thesis by simp
qed

lemma acc_ok_takeRemainingCPUs:
  assumes top: "topology_ok t" and ok: "acc_ok t avail n a"
    and "n \<le> Size (CPUs (Details t) \<inter> avail)" and "\<not> isSatisfied a"
  shows "acc_ok t avail n (takeRemainingCPUs a)" "isSatisfied (takeRemainingCPUs a)"
proof -
  have "int (length (freeCPUs a)) = Size (CPUs (details a))"
    using distinct_card [OF distinct_freeCPUs [OF top ok]] by (simp add: Size_def set_freeCPUs)
  with free_enough [OF ok assms(3)] assms(4)
    acc_ok_takeRemainingCPUs_loop [OF ok distinct_freeCPUs [OF top ok]]
  show "acc_ok t avail n (takeRemainingCPUs a)" "isSatisfied (takeRemainingCPUs a)"
    by (simp_all add: takeRemainingCPUs_def set_freeCPUs)
qed

section \<open>Correctness of the allocator\<close>

definition allocates :: "CPUTopology \<Rightarrow> CPUSet \<Rightarrow> int \<Rightarrow> cpu_error + CPUSet \<Rightarrow> bool" where
  "allocates t avail n r \<longleftrightarrow>
     (\<exists>s. r = Inr s \<and> s \<subseteq> avail \<inter> CPUs (Details t) \<and> Size s = n)"

lemma allocates_satisfied:
  "acc_ok t avail n a \<Longrightarrow> isSatisfied a \<Longrightarrow> allocates t avail n (Inr (result a))"
  using acc_okD(3,6,7) [of t avail n a] by (auto simp: allocates_def isSatisfied_def)

lemma packed_cores_allocates:
  assumes top: "topology_ok t" and ok: "acc_ok t avail n a"
    and enough: "n \<le> Size (CPUs (Details t) \<inter> avail)" and need: "\<not> isSatisfied a"
  shows "allocates t avail n (packed_cores strategy a)"
proof -
  let ?a1 = "if strategy \<noteq> CPUSortingStrategySpread then takeFullCores a else a"
  have ok1: "acc_ok t avail n ?a1" using acc_ok_takeFullCores [OF top ok] ok by simp
  show ?thesis
  proof (cases "isSatisfied ?a1")
    case True
    with need allocates_satisfied [OF ok1] show ?thesis
      by (auto simp: packed_cores_def Let_def split: if_splits)
  next
    case False
    note rem = acc_ok_takeRemainingCPUs [OF top ok1 enough False]
    from False rem allocates_satisfied [OF rem] show ?thesis
      by (auto simp: packed_cores_def Let_def split: if_splits)
  qed
qed

lemma packed_uncore_allocates:
  assumes top: "topology_ok t" and ok: "acc_ok t avail n a" and per: "0 < CPUsPerCore t"
    and enough: "n \<le> Size (CPUs (Details t) \<inter> avail)" and need: "\<not> isSatisfied a"
  shows "allocates t avail n (packed_uncore strategy align a)"
proof -
  obtain a1 where "takeUncoreCache a = Some a1" "acc_ok t avail n a1"
    using acc_ok_takeUncoreCache_loop [OF top per ok] unfolding takeUncoreCache_def by blast
  with packed_cores_allocates [OF top _ enough] ok need show ?thesis
    by (simp add: packed_uncore_def allocates_satisfied)
qed

lemma CPUsPerCore_pos:
  assumes top: "topology_ok t" and "CPUs (Details t) \<noteq> {}"
  shows "0 < CPUsPerCore t"
proof -
  obtain c i where ci: "(c, i) \<in> set (Details t)" using assms(2) by (auto simp: CPUs_eq)
  then have "CoreID i \<in> Cores (Details t)" by (auto simp: Cores_eq)
  then have "CPUsPerCore t = Size (CPUsInCores (Details t) [CoreID i])"
    using topology_okD(3) [OF top] by simp
  moreover have "c \<in> CPUsInCores (Details t) [CoreID i]" using ci by (auto simp: CPUsInCores_eq)
  ultimately show ?thesis by (auto simp: Size_def card_gt_0_iff)
qed

lemma packed_allocates:
  assumes top: "topology_ok t" and "0 \<le> n" and enough: "n \<le> Size (CPUs (Details t) \<inter> avail)"
  shows "allocates t avail n (takeByTopologyNUMAPacked t avail n strategy align)"
proof -
  let ?a = "newCPUAccumulator t avail n strategy"
  have ok: "acc_ok t avail n ?a" using \<open>0 \<le> n\<close> by (rule acc_ok_new)
  note ok1 = acc_ok_levels(1) [OF top ok]
  note ok2 = acc_ok_levels(2) [OF top ok1]
  have per: "0 < CPUsPerCore t" if "\<not> isSatisfied ?a"
  proof (rule CPUsPerCore_pos [OF top])
    show "CPUs (Details t) \<noteq> {}"
      using that enough by (auto simp: isSatisfied_def newCPUAccumulator_def)
  qed
  have "\<not> isFailed ?a"
    using free_enough [OF ok enough] by (simp add: isFailed_def)
  with allocates_satisfied ok ok1 ok2 per packed_uncore_allocates [OF top ok2 _ enough]
  show ?thesis by (auto simp: takeByTopologyNUMAPacked_def Let_def)
qed

section \<open>Properties of the packing allocator\<close>

text \<open>
  The example topology of the comment on \<open>CPUSortingStrategy\<close>: 2 sockets, each its own NUMA
  node, with 3 hyper-threaded cores.
\<close>

definition topoDualSocketHT :: CPUTopology where
  "topoDualSocketHT =
     \<lparr>NumCPUs = 12, NumCores = 6, NumUncoreCache = 2, NumSockets = 2, NumNUMANodes = 2,
      Details =
        map (\<lambda>cpu. (cpu, \<lparr>NUMANodeID = cpu mod 2, SocketID = cpu mod 2, CoreID = cpu mod 6,
                       UncoreCacheID = cpu mod 2\<rparr>))
          [0, 1, 2, 3, 4, 5, 6, 7, 8, 9, 10, 11]\<rparr>"

text \<open>
  C3. On a regular topology, a request for \<open>n\<close> CPUs that the available CPUs can satisfy is
  granted, with exactly \<open>n\<close> distinct CPUs, all of them available and part of the host: the
  allocator neither runs out, nor over-allocates, nor panics.
\<close>

theorem packed_exact:
  assumes "topology_ok t" and "0 \<le> n" and "n \<le> Size (CPUs (Details t) \<inter> avail)"
  shows "\<exists>s. takeByTopologyNUMAPacked t avail n strategy align = Inr s \<and>
             s \<subseteq> avail \<inter> CPUs (Details t) \<and> Size s = n"
  using packed_allocates [OF assms] by (simp add: allocates_def)

theorem packed_exact_witness:
  "\<exists>s. takeByTopologyNUMAPacked topoDualSocketHT {1, 2, 3, 5, 7, 8, 9, 11} 5
         CPUSortingStrategyPacked True = Inr s \<and>
       s \<subseteq> {1, 2, 3, 5, 7, 8, 9, 11} \<inter> CPUs (Details topoDualSocketHT) \<and> Size s = 5"
  by (rule packed_exact) code_simp+

text \<open>
  A request for more CPUs than are available is refused, with an error that carries the
  request and the number of available CPUs, on every topology.
\<close>

lemma packed_insufficient:
  assumes "1 \<le> n" and "Size (CPUs (Details t) \<inter> avail) < n"
  shows "takeByTopologyNUMAPacked t avail n strategy align = Inl (NotEnoughCPUs n (Size avail))"
  using assms
  by (simp add: takeByTopologyNUMAPacked_def Let_def isSatisfied_def isFailed_def newCPUAccumulator_def)

lemma claim_rest_idle:
  "numCPUsNeeded a = 0 \<Longrightarrow> (\<And>x. x \<in> set ids \<Longrightarrow> 0 < Size (cpusIn (Details (topo a)) [x])) \<Longrightarrow>
   fold (claim_block cpusIn) ids a = a"
proof (induction ids)
  case Nil
  then show ?case by simp
next
  case (Cons x ids)
  then have "0 < Size (cpusIn (Details (topo a)) [x])" by simp
  with Cons.prems(1) have "claim_block cpusIn x a = a"
    by (simp add: claim_block_def needsAtLeast_def Let_def)
  with Cons show ?case by simp
qed

text \<open>
  Where NUMA nodes are the coarsest level and all have the same size, a request for exactly
  that many CPUs is served by one whole NUMA node whenever one is entirely available.
\<close>

lemma packed_whole_numa:
  assumes numa_first: "NumNUMANodes t \<le> NumSockets t" and "1 \<le> n"
    and same: "\<forall>x \<in> NUMANodes (Details t). Size (CPUsInNUMANodes (Details t) [x]) = n"
    and free: "\<exists>x \<in> NUMANodes (Details t). CPUsInNUMANodes (Details t) [x] \<subseteq> avail"
  shows "\<exists>x \<in> NUMANodes (Details t).
           takeByTopologyNUMAPacked t avail n strategy align = Inr (CPUsInNUMANodes (Details t) [x])"
proof -
  let ?a = "newCPUAccumulator t avail n strategy"
  let ?C = "\<lambda>x. CPUsInNUMANodes (Details t) [x]"
  have ok: "acc_ok t avail n ?a" using \<open>1 \<le> n\<close> by (intro acc_ok_new) simp
  obtain x0 where x0: "x0 \<in> NUMANodes (Details t)" "?C x0 \<subseteq> avail" using free by blast
  have C0: "CPUsInNUMANodes (details ?a) [x0] = ?C x0"
    using x0(2) by (auto simp: newCPUAccumulator_def CPUsInNUMANodes_eq)
  then have "?C x0 \<subseteq> CPUs (details ?a)" using numa_block.cpusIn_CPUs by metis
  then have "n \<le> Size (CPUs (details ?a))"
    using Size_mono [OF finite_queries(1)] same x0(1) by metis
  then have run: "\<not> isFailed ?a" "\<not> isSatisfied ?a"
    using \<open>1 \<le> n\<close> by (simp_all add: isFailed_def isSatisfied_def newCPUAccumulator_def)
  have "?C x0 \<noteq> {}" using same x0(1) \<open>1 \<le> n\<close> by force
  then have "x0 \<in> NUMANodes (details ?a)"
    unfolding C0 [symmetric] by (auto simp: set_queries)
  then have "x0 \<in> set (freeNUMANodes ?a)"
    using C0 acc_okD(1) [OF ok] by (simp add: freeNUMANodes_def set_sorts isNUMANodeFree_def)
  then obtain x xs where xs: "freeNUMANodes ?a = x # xs" by (cases "freeNUMANodes ?a") auto
  have "set (freeNUMANodes ?a) \<subseteq> NUMANodes (Details t)"
    using acc_okD(9) [OF ok] by (auto simp: freeNUMANodes_def set_sorts NUMANodes_eq)
  with xs have mem: "x \<in> NUMANodes (Details t)" "set xs \<subseteq> NUMANodes (Details t)" by auto
  have "claim_block CPUsInNUMANodes x ?a = take_cpus ?a (?C x)"
    using same mem(1) by (simp add: claim_block_def needsAtLeast_def newCPUAccumulator_def)
  moreover have "fold (claim_block CPUsInNUMANodes) xs (take_cpus ?a (?C x)) = take_cpus ?a (?C x)"
    using same mem \<open>1 \<le> n\<close> by (intro claim_rest_idle) (auto simp: newCPUAccumulator_def)
  ultimately have "takeFullFirstLevel ?a = take_cpus ?a (?C x)"
    using numa_first acc_okD(8) [OF ok] by (simp add: takeFullFirstLevel_def takeFullNUMANodes_def xs)
  with run same mem(1) show ?thesis
    by (auto simp: takeByTopologyNUMAPacked_def Let_def isSatisfied_def newCPUAccumulator_def
        intro!: bexI [of _ x])
qed

text \<open>
  A host with one hyper-threaded core (CPUs 0 and 1) and two single-threaded cores: the average
  core has one CPU.
\<close>

definition topoHybrid :: CPUTopology where
  "topoHybrid =
     \<lparr>NumCPUs = 4, NumCores = 3, NumUncoreCache = 1, NumSockets = 1, NumNUMANodes = 1,
      Details =
        [(0, \<lparr>NUMANodeID = 0, SocketID = 0, CoreID = 0, UncoreCacheID = 0\<rparr>),
         (1, \<lparr>NUMANodeID = 0, SocketID = 0, CoreID = 0, UncoreCacheID = 0\<rparr>),
         (2, \<lparr>NUMANodeID = 0, SocketID = 0, CoreID = 2, UncoreCacheID = 0\<rparr>),
         (3, \<lparr>NUMANodeID = 0, SocketID = 0, CoreID = 3, UncoreCacheID = 0\<rparr>)]\<rparr>"

text \<open>
  Regularity is needed: on a host whose cores differ in size, \<open>isCoreFree\<close> takes a
  half-used core for a free one, and the allocator hands out a CPU that is not available.
\<close>

lemma packed_hybrid_unsafe:
  "takeByTopologyNUMAPacked topoHybrid {1, 2, 3} 2 CPUSortingStrategyPacked False = Inr {0, 1} \<and>
   0 \<notin> ({1, 2, 3} :: CPUSet)"
  by code_simp

end
