(* ===== verification/Resources.thy ===== *)
theory Resources
  imports Topology NUMAPacked
begin

text \<open>
  The resources of a virtual machine (\<open>src/pkg/proxmox/resources/types.go\<close>), the fields the two
  resource policies have in common, and the interface \<open>Policy\<close>
  (\<open>src/pkg/providers/cloudcapacity/cpumanager/policy.go\<close>) as the locale \<open>node_policy\<close>: the
  operations of a policy and the laws its clients rely on. An operation that fails returns before
  it changes the policy, so a failure carries an error and no state; a success carries the new
  policy and the request, which \<open>Allocate\<close> of the static policy fills in. The error
  \<open>NoReturn\<close> stands for a call that does not come back.
\<close>

section \<open>Requests\<close>

record NUMANodeState =
  ns_CPUs :: string
  ns_Memory :: uint64
  ns_Policy :: string

record VMResources =
  vm_ID :: int
  vm_CPUs :: int
  Affinity :: string
  Memory :: uint64
  DiskGBytes :: uint64
  StorageID :: string
  vm_CPUSet :: CPUSet
  vm_NUMANodes :: "(int, NUMANodeState) go_map"

datatype policy_error =
    NoTopology
  | TooManyReservedCPUs int int
  | TooMuchReservedMemory uint64 uint64
  | NotEnoughMemory uint64 uint64
  | NotEnoughFreeCPUs int int
  | NotEnoughNUMAMemory int
  | NUMAMemoryMismatch
  | CannotReleaseMemory uint64 uint64
  | CannotReleaseCPUs int int
  | NoCPUAssignment cpu_error
  | NoReturn

section \<open>The common fields of the policies\<close>

record policy_base =
  allCPUs :: CPUSet
  availableCPUs :: CPUSet
  usedCPUs :: CPUSet
  reservedCPUs :: CPUSet
  assignedCPUs :: int
  availableMemory :: uint64
  assignedMemory :: uint64

text \<open>
  The CPUs of the host that are not reserved are either available or used by a VM with an
  affinity; the memory of the VMs fits into the memory of the host, which is below \<open>2 ^ 63\<close>
  bytes.
\<close>

definition base_inv :: "'a policy_base_scheme \<Rightarrow> bool" where
  "base_inv p \<longleftrightarrow>
     finite (allCPUs p) \<and> finite (reservedCPUs p) \<and>
     availableCPUs p \<union> usedCPUs p = allCPUs p - reservedCPUs p \<and>
     availableCPUs p \<inter> usedCPUs p = {} \<and>
     0 \<le> assignedCPUs p \<and>
     assignedMemory p \<le> availableMemory p \<and> availableMemory p < 2 ^ 63"

text \<open>The requests of the provider: no negative CPU count, memory below \<open>2 ^ 63\<close> bytes, CPUs of the host.\<close>

definition base_request :: "'a policy_base_scheme \<Rightarrow> VMResources \<Rightarrow> bool" where
  "base_request p req \<longleftrightarrow> 0 \<le> vm_CPUs req \<and> Memory req < 2 ^ 63 \<and> vm_CPUSet req \<subseteq> allCPUs p"

lemma base_invD:
  assumes "base_inv p"
  shows "finite (allCPUs p)" "finite (reservedCPUs p)" "finite (availableCPUs p)" "finite (usedCPUs p)"
    "availableCPUs p \<union> usedCPUs p = allCPUs p - reservedCPUs p"
    "availableCPUs p \<inter> usedCPUs p = {}" "0 \<le> assignedCPUs p"
    "assignedMemory p \<le> availableMemory p" "availableMemory p < 2 ^ 63"
proof -
  show "finite (availableCPUs p)" "finite (usedCPUs p)"
    using assms unfolding base_inv_def by (metis finite_Diff finite_Un)+
qed (use assms in \<open>auto simp: base_inv_def\<close>)

text \<open>The number of free CPUs that both policies report is exact.\<close>

lemma free_CPUs_exact:
  assumes "base_inv p" and "reservedCPUs p \<subseteq> allCPUs p"
  shows "Size (allCPUs p) - Size (reservedCPUs p) - Size (usedCPUs p) = Size (availableCPUs p)"
proof -
  note inv = base_invD [OF assms(1)]
  have "Size (availableCPUs p) + Size (usedCPUs p) = Size (allCPUs p - reservedCPUs p)"
    using Size_Un_disjoint [of "availableCPUs p" "usedCPUs p"] inv by simp
  also have "\<dots> = Size (allCPUs p) - Size (reservedCPUs p)"
    using inv(1,2) assms(2) by (intro Size_Diff_subset)
  finally show ?thesis by simp
qed

section \<open>Adding and removing memory without wrap-around\<close>

lemma word_add_fits:
  fixes a b c :: uint64
  assumes "a \<le> c" "c < 2 ^ 63" "b < 2 ^ 63"
  shows "a + b \<le> c \<longleftrightarrow> unat a + unat b \<le> unat c" and "unat (a + b) = unat a + unat b"
proof -
  have c: "unat c < 2 ^ 63" and b: "unat b < 2 ^ 63" and a: "unat a \<le> unat c"
    using assms by (simp_all add: word_less_nat_alt word_le_nat_alt)
  then show sum: "unat (a + b) = unat a + unat b"
    by (simp add: unat_word_ariths)
  show "a + b \<le> c \<longleftrightarrow> unat a + unat b \<le> unat c"
    using sum by (simp add: word_le_nat_alt)
qed

lemma word_sub_nat: "b \<le> a \<Longrightarrow> unat (a - b) = unat a - unat b" for a b :: uint64
  by (simp add: unat_sub)

section \<open>The policy interface\<close>

type_synonym 'p policy_operation = "'p \<Rightarrow> VMResources \<Rightarrow> policy_error + 'p \<times> VMResources"

datatype policy_request = DoAllocate VMResources | DoAllocateOrUpdate VMResources | DoRelease VMResources

fun request_of :: "policy_request \<Rightarrow> VMResources" where
  "request_of (DoAllocate req) = req"
| "request_of (DoAllocateOrUpdate req) = req"
| "request_of (DoRelease req) = req"

text \<open>One call of an operation of a policy; a refused call leaves the policy as it is.\<close>

fun policy_call ::
  "'p policy_operation \<Rightarrow> 'p policy_operation \<Rightarrow> 'p policy_operation \<Rightarrow> 'p \<Rightarrow> policy_request \<Rightarrow> 'p" where
  "policy_call alloc upd rel p (DoAllocate req) =
     (case alloc p req of Inl e \<Rightarrow> p | Inr (p', req') \<Rightarrow> p')"
| "policy_call alloc upd rel p (DoAllocateOrUpdate req) =
     (case upd p req of Inl e \<Rightarrow> p | Inr (p', req') \<Rightarrow> p')"
| "policy_call alloc upd rel p (DoRelease req) =
     (case rel p req of Inl e \<Rightarrow> p | Inr (p', req') \<Rightarrow> p')"

locale node_policy =
  fixes inv :: "'p \<Rightarrow> bool"
    and admissible :: "'p \<Rightarrow> VMResources \<Rightarrow> bool"
    and base :: "'p \<Rightarrow> policy_base"
    and alloc upd rel :: "'p policy_operation"
  assumes inv_base: "inv p \<Longrightarrow> base_inv (base p)"
    and alloc_inv: "inv p \<Longrightarrow> admissible p req \<Longrightarrow> alloc p req = Inr (p', req') \<Longrightarrow> inv p'"
    and upd_inv: "inv p \<Longrightarrow> admissible p req \<Longrightarrow> upd p req = Inr (p', req') \<Longrightarrow> inv p'"
    and rel_inv: "inv p \<Longrightarrow> admissible p req \<Longrightarrow> rel p req = Inr (p', req') \<Longrightarrow> inv p'"
    and alloc_frame: "alloc p req = Inr (p', req') \<Longrightarrow> admissible p' = admissible p"
    and upd_frame: "upd p req = Inr (p', req') \<Longrightarrow> admissible p' = admissible p"
    and rel_frame: "rel p req = Inr (p', req') \<Longrightarrow> admissible p' = admissible p"
    and alloc_memory: "inv p \<Longrightarrow> admissible p req \<Longrightarrow> alloc p req = Inr (p', req') \<Longrightarrow>
          unat (assignedMemory (base p')) = unat (assignedMemory (base p)) + unat (Memory req)"
    and rel_memory: "inv p \<Longrightarrow> admissible p req \<Longrightarrow> rel p req = Inr (p', req') \<Longrightarrow>
          unat (assignedMemory (base p)) = unat (assignedMemory (base p')) + unat (Memory req)"
begin

lemma call_inv:
  "inv p \<Longrightarrow> admissible p (request_of r) \<Longrightarrow>
   inv (policy_call alloc upd rel p r) \<and> admissible (policy_call alloc upd rel p r) = admissible p"
proof (cases r)
  case (DoAllocate req)
  then show "inv p \<Longrightarrow> admissible p (request_of r) \<Longrightarrow> ?thesis"
    by (auto intro: alloc_inv dest: alloc_frame split: sum.split)
next
  case (DoAllocateOrUpdate req)
  then show "inv p \<Longrightarrow> admissible p (request_of r) \<Longrightarrow> ?thesis"
    by (auto intro: upd_inv dest: upd_frame split: sum.split)
next
  case (DoRelease req)
  then show "inv p \<Longrightarrow> admissible p (request_of r) \<Longrightarrow> ?thesis"
    by (auto intro: rel_inv dest: rel_frame split: sum.split)
qed

text \<open>Every sequence of calls, refused ones included, keeps the invariant.\<close>

lemma run_inv:
  "inv p \<Longrightarrow> (\<And>r. r \<in> set rs \<Longrightarrow> admissible p (request_of r)) \<Longrightarrow>
   inv (foldl (policy_call alloc upd rel) p rs)"
proof (induction rs arbitrary: p)
  case Nil
  then show ?case by simp
next
  case (Cons r rs)
  then have "inv (policy_call alloc upd rel p r)"
    and "admissible (policy_call alloc upd rel p r) = admissible p"
    using call_inv by auto
  with Cons show ?case by simp
qed

lemma run_memory_bounded:
  assumes "inv p" and "\<And>r. r \<in> set rs \<Longrightarrow> admissible p (request_of r)"
  shows "assignedMemory (base (foldl (policy_call alloc upd rel) p rs)) \<le>
         availableMemory (base (foldl (policy_call alloc upd rel) p rs))"
  using inv_base [OF run_inv [OF assms]] by (simp add: base_inv_def)

end

end
