(* ===== verification/SimplePolicy.thy ===== *)
theory SimplePolicy
  imports Resources
begin

text \<open>
  The simple policy (\<open>src/pkg/providers/cloudcapacity/cpumanager/policy_simple.go\<close>): VMs
  without an affinity are counted, VMs with an affinity take their CPUs out of the available
  ones, memory is summed up. The struct has exactly the common fields. The mutex serialises the
  operations, which are therefore atomic here.
\<close>

type_synonym simplePolicy = policy_base

section \<open>Operations\<close>

definition NewSimplePolicy :: "Topology option \<Rightarrow> int list \<Rightarrow> uint64 \<Rightarrow> policy_error + simplePolicy" where
  "NewSimplePolicy sysTopology reserved reservedMemory =
     (case sysTopology of
        None \<Rightarrow> Inl NoTopology
      | Some t \<Rightarrow>
          let reservedCPUSet = set reserved;
              total = TotalMemory (MemTopo t);
              all = CPUs (Details (CPUTopo t))
          in if NumCPUs (CPUTopo t) < Size reservedCPUSet
             then Inl (TooManyReservedCPUs (NumCPUs (CPUTopo t)) (Size reservedCPUSet))
             else if reservedMemory \<ge> total then Inl (TooMuchReservedMemory reservedMemory total)
             else Inr \<lparr>allCPUs = all, availableCPUs = all - reservedCPUSet, usedCPUs = {},
                       reservedCPUs = reservedCPUSet, assignedCPUs = 0,
                       availableMemory = total - reservedMemory, assignedMemory = 0\<rparr>)"

definition simple_AvailableCPUs :: "simplePolicy \<Rightarrow> int" where
  "simple_AvailableCPUs p =
     max 0 (Size (allCPUs p) - Size (reservedCPUs p) - Size (usedCPUs p) - assignedCPUs p)"

definition simple_AvailableMemory :: "simplePolicy \<Rightarrow> uint64" where
  "simple_AvailableMemory p =
     (if assignedMemory p \<ge> availableMemory p then 0 else availableMemory p - assignedMemory p)"

text \<open>The memory figure of the error messages.\<close>

definition reported_memory :: "'a policy_base_scheme \<Rightarrow> uint64" where
  "reported_memory p =
     (if assignedMemory p < availableMemory p then availableMemory p - assignedMemory p else 0)"

definition simple_Allocate :: "simplePolicy policy_operation" where
  "simple_Allocate p req =
     (if vm_CPUs req \<le> 0 \<and> Memory req = 0 then Inr (p, req)
      else if assignedMemory p + Memory req > availableMemory p
      then Inl (NotEnoughMemory (Memory req) (reported_memory p))
      else if assignedCPUs p + vm_CPUs req > Size (availableCPUs p)
      then Inl (NotEnoughFreeCPUs (vm_CPUs req) (Size (availableCPUs p) - assignedCPUs p))
      else Inr (p\<lparr>assignedCPUs := assignedCPUs p + vm_CPUs req,
                  assignedMemory := assignedMemory p + Memory req\<rparr>, req))"

text \<open>The CPU part that \<open>AllocateOrUpdate\<close> and \<open>Release\<close> of both policies share.\<close>

definition assign_cpus :: "'a policy_base_scheme \<Rightarrow> VMResources \<Rightarrow> policy_error + 'a policy_base_scheme" where
  "assign_cpus p req =
     (if \<not> IsEmpty (vm_CPUSet req)
      then if Size (vm_CPUSet req) > Size (allCPUs p)
           then Inl (NotEnoughFreeCPUs (Size (vm_CPUSet req)) (Size (allCPUs p)))
           else let pinned = vm_CPUSet req - reservedCPUs p
                in Inr (p\<lparr>usedCPUs := usedCPUs p \<union> pinned, availableCPUs := availableCPUs p - pinned\<rparr>)
      else if vm_CPUs req > 0
      then let available = Size (availableCPUs p) - assignedCPUs p
           in if vm_CPUs req > available then Inl (NotEnoughFreeCPUs (vm_CPUs req) available)
              else Inr (p\<lparr>assignedCPUs := assignedCPUs p + vm_CPUs req\<rparr>)
      else Inr p)"

definition free_cpus :: "'a policy_base_scheme \<Rightarrow> VMResources \<Rightarrow> policy_error + 'a policy_base_scheme" where
  "free_cpus p req =
     (if \<not> IsEmpty (vm_CPUSet req)
      then let freed = vm_CPUSet req - reservedCPUs p
           in Inr (p\<lparr>usedCPUs := usedCPUs p - freed, availableCPUs := availableCPUs p \<union> freed\<rparr>)
      else if vm_CPUs req > 0
      then if assignedCPUs p < vm_CPUs req then Inl (CannotReleaseCPUs (vm_CPUs req) (assignedCPUs p))
           else Inr (p\<lparr>assignedCPUs := assignedCPUs p - vm_CPUs req\<rparr>)
      else Inr p)"

definition simple_AllocateOrUpdate :: "simplePolicy policy_operation" where
  "simple_AllocateOrUpdate p req =
     (if vm_CPUs req \<le> 0 \<and> IsEmpty (vm_CPUSet req) \<and> Memory req = 0 then Inr (p, req)
      else if assignedMemory p + Memory req > availableMemory p
      then Inl (NotEnoughMemory (Memory req) (reported_memory p))
      else case assign_cpus p req of
             Inl e \<Rightarrow> Inl e
           | Inr p1 \<Rightarrow> Inr (p1\<lparr>assignedMemory := assignedMemory p1 + Memory req\<rparr>, req))"

definition simple_Release :: "simplePolicy policy_operation" where
  "simple_Release p req =
     (if vm_CPUs req = 0 \<and> IsEmpty (vm_CPUSet req) \<and> Memory req = 0 then Inr (p, req)
      else if assignedMemory p < Memory req
      then Inl (CannotReleaseMemory (Memory req) (assignedMemory p))
      else case free_cpus p req of
             Inl e \<Rightarrow> Inl e
           | Inr p1 \<Rightarrow> Inr (p1\<lparr>assignedMemory := assignedMemory p1 - Memory req\<rparr>, req))"

section \<open>The invariant\<close>

lemma assign_cpus_base:
  assumes "base_inv p" "base_request p req" "assign_cpus p req = Inr p1"
  shows "base_inv p1" "allCPUs p1 = allCPUs p" "reservedCPUs p1 = reservedCPUs p"
    "assignedMemory p1 = assignedMemory p" "availableMemory p1 = availableMemory p"
  using assms by (auto simp: assign_cpus_def base_inv_def base_request_def Let_def split: if_splits)

lemma free_cpus_base:
  assumes "base_inv p" "base_request p req" "free_cpus p req = Inr p1"
  shows "base_inv p1" "allCPUs p1 = allCPUs p" "reservedCPUs p1 = reservedCPUs p"
    "assignedMemory p1 = assignedMemory p" "availableMemory p1 = availableMemory p"
  using assms by (auto simp: free_cpus_def base_inv_def base_request_def Let_def split: if_splits)

lemma base_inv_memory:
  "base_inv p \<Longrightarrow> m \<le> availableMemory p \<Longrightarrow> base_inv (p\<lparr>assignedMemory := m\<rparr>)"
  by (simp add: base_inv_def)

lemma base_request_memory: "base_request (p\<lparr>assignedMemory := m\<rparr>) req = base_request p req"
  by (simp add: base_request_def)

lemma NewSimplePolicy_inv:
  assumes "NewSimplePolicy (Some t) reserved mem = Inr p" and "TotalMemory (MemTopo t) < 2 ^ 63"
  shows "base_inv p"
proof -
  let ?T = "TotalMemory (MemTopo t)"
  have "mem < ?T" and p: "p = \<lparr>allCPUs = CPUs (Details (CPUTopo t)),
      availableCPUs = CPUs (Details (CPUTopo t)) - set reserved, usedCPUs = {},
      reservedCPUs = set reserved, assignedCPUs = 0, availableMemory = ?T - mem, assignedMemory = 0\<rparr>"
    using assms(1) by (auto simp: NewSimplePolicy_def Let_def split: if_splits)
  then have "?T - mem \<le> ?T" by (simp add: word_sub_le)
  with assms(2) p show ?thesis by (auto simp: base_inv_def)
qed

lemma simple_Allocate_inv:
  assumes "base_inv p" "base_request p req" "simple_Allocate p req = Inr (p', req')"
  shows "base_inv p'"
  using assms by (auto simp: simple_Allocate_def base_inv_def base_request_def not_less split: if_splits)

lemma simple_AllocateOrUpdate_inv:
  assumes inv: "base_inv p" and req: "base_request p req"
    and upd: "simple_AllocateOrUpdate p req = Inr (p', req')"
  shows "base_inv p'"
proof (cases "assign_cpus p req")
  case (Inr p1)
  note base = assign_cpus_base [OF inv req Inr]
  from upd Inr base inv show ?thesis
    by (auto simp: simple_AllocateOrUpdate_def not_less intro!: base_inv_memory split: if_splits)
qed (use inv upd in \<open>auto simp: simple_AllocateOrUpdate_def split: if_splits\<close>)

lemma simple_Release_inv:
  assumes inv: "base_inv p" and req: "base_request p req"
    and rel: "simple_Release p req = Inr (p', req')"
  shows "base_inv p'"
proof (cases "free_cpus p req")
  case (Inr p1)
  note base = free_cpus_base [OF inv req Inr]
  have "Memory req \<le> assignedMemory p \<Longrightarrow> assignedMemory p - Memory req \<le> availableMemory p"
    using base_invD(8) [OF inv] by (metis order_trans word_sub_le)
  with rel Inr base inv show ?thesis
    by (auto simp: simple_Release_def not_less intro!: base_inv_memory split: if_splits)
qed (use inv rel in \<open>auto simp: simple_Release_def split: if_splits\<close>)

lemma assign_cpus_frame: "assign_cpus p req = Inr p1 \<Longrightarrow> allCPUs p1 = allCPUs p"
  by (auto simp: assign_cpus_def Let_def split: if_splits)

lemma free_cpus_frame: "free_cpus p req = Inr p1 \<Longrightarrow> allCPUs p1 = allCPUs p"
  by (auto simp: free_cpus_def Let_def split: if_splits)

lemma base_request_cong: "allCPUs p' = allCPUs p \<Longrightarrow> base_request p' = base_request p"
  by (simp add: base_request_def fun_eq_iff)

interpretation simple: node_policy base_inv base_request "\<lambda>p. p"
  simple_Allocate simple_AllocateOrUpdate simple_Release
proof
  fix p p' :: simplePolicy and req req' :: VMResources
  assume alloc: "simple_Allocate p req = Inr (p', req')"
  show "base_request p' = base_request p"
    using alloc by (intro base_request_cong) (auto simp: simple_Allocate_def split: if_splits)
  assume inv: "base_inv p" and req: "base_request p req"
  show "base_inv p'" using simple_Allocate_inv [OF inv req alloc] .
  have "unat (assignedMemory p + Memory req) = unat (assignedMemory p) + unat (Memory req)"
    using inv req by (intro word_add_fits(2)) (auto simp: base_inv_def base_request_def)
  with alloc show "unat (assignedMemory p') = unat (assignedMemory p) + unat (Memory req)"
    by (auto simp: simple_Allocate_def split: if_splits)
next
  fix p p' :: simplePolicy and req req' :: VMResources
  assume upd: "simple_AllocateOrUpdate p req = Inr (p', req')"
  show "base_request p' = base_request p"
    using upd by (intro base_request_cong)
      (auto simp: simple_AllocateOrUpdate_def split: if_splits sum.splits dest: assign_cpus_frame)
  assume "base_inv p" "base_request p req"
  then show "base_inv p'" using upd by (rule simple_AllocateOrUpdate_inv)
next
  fix p p' :: simplePolicy and req req' :: VMResources
  assume rel: "simple_Release p req = Inr (p', req')"
  show "base_request p' = base_request p"
    using rel by (intro base_request_cong)
      (auto simp: simple_Release_def split: if_splits sum.splits dest: free_cpus_frame)
  assume inv: "base_inv p" and req: "base_request p req"
  show "base_inv p'" using simple_Release_inv [OF inv req rel] .
  show "unat (assignedMemory p) = unat (assignedMemory p') + unat (Memory req)"
    using rel free_cpus_base(4) [OF inv req]
    by (auto simp: simple_Release_def not_less word_sub_nat word_le_nat_alt split: if_splits sum.splits)
qed

section \<open>Properties of the simple policy\<close>

text \<open>A host with 4 CPUs, the first of them reserved, and 8 GiB of memory, 1 GiB of it reserved.\<close>

definition example_host :: Topology where
  "example_host =
     \<lparr>CPUTopo = \<lparr>NumCPUs = 4, NumCores = 4, NumUncoreCache = 1, NumSockets = 1, NumNUMANodes = 1,
        Details = map (\<lambda>c. (c, \<lparr>NUMANodeID = 0, SocketID = 0, CoreID = c, UncoreCacheID = 0\<rparr>)) [0, 1, 2, 3]\<rparr>,
      MemTopo = \<lparr>TotalMemory = 8589934592, MemNUMANodes = [(0, 8589934592)]\<rparr>\<rparr>"

definition example_vm :: "int \<Rightarrow> CPUSet \<Rightarrow> uint64 \<Rightarrow> VMResources" where
  "example_vm n cpus mem =
     \<lparr>vm_ID = 100, vm_CPUs = n, Affinity = [], Memory = mem, DiskGBytes = 0, StorageID = [],
      vm_CPUSet = cpus, vm_NUMANodes = []\<rparr>"

definition example_simple :: simplePolicy where
  "example_simple = \<lparr>allCPUs = {0, 1, 2, 3}, availableCPUs = {1, 2, 3}, usedCPUs = {},
     reservedCPUs = {0}, assignedCPUs = 0, availableMemory = 7516192768, assignedMemory = 0\<rparr>"

lemma example_simple_new: "NewSimplePolicy (Some example_host) [0] 1073741824 = Inr example_simple"
  by (auto simp: NewSimplePolicy_def example_host_def example_simple_def CPUs_def Let_def Size_def)

text \<open>
  From a newly created simple policy, every sequence of allocations, updates and releases,
  refused ones included, keeps the books: the unreserved CPUs are split between available and
  pinned ones without overlap, and the memory of the VMs never exceeds the memory of the host.
\<close>

lemma simple_policy_invariant:
  assumes "NewSimplePolicy (Some t) reserved mem = Inr p" and "TotalMemory (MemTopo t) < 2 ^ 63"
    and "\<forall>r \<in> set rs. base_request p (request_of r)"
  shows "base_inv (foldl (policy_call simple_Allocate simple_AllocateOrUpdate simple_Release) p rs)"
  using assms NewSimplePolicy_inv [OF assms(1,2)] by (intro simple.run_inv) auto

lemma simple_available_iff:
  assumes inv: "base_inv p" and req: "base_request p req"
    and "reservedCPUs p \<subseteq> allCPUs p" and "1 \<le> vm_CPUs req"
  shows "(\<exists>p'. simple_Allocate p req = Inr (p', req)) \<longleftrightarrow>
         vm_CPUs req \<le> simple_AvailableCPUs p \<and> Memory req \<le> simple_AvailableMemory p"
proof -
  note mem = base_invD(8,9) [OF inv]
  have "Memory req < 2 ^ 63" using req by (simp add: base_request_def)
  note fits = word_add_fits(1) [OF mem this]
  have "Memory req \<le> simple_AvailableMemory p \<longleftrightarrow>
        unat (assignedMemory p) + unat (Memory req) \<le> unat (availableMemory p)"
    using mem(1) by (auto simp: simple_AvailableMemory_def word_le_nat_alt word_sub_nat unat_0_iff)
  with fits free_CPUs_exact [OF inv assms(3)] assms(4) show ?thesis
    by (auto simp: simple_Allocate_def simple_AvailableCPUs_def not_less)
qed

lemma simple_roundtrip:
  assumes inv: "base_inv p" and req: "base_request p req" and "vm_CPUSet req = {}"
    and alloc: "simple_Allocate p req = Inr (p', req')"
  shows "simple_Release p' req' = Inr (p, req')"
proof -
  have "unat (assignedMemory p + Memory req) = unat (assignedMemory p) + unat (Memory req)"
    using inv req by (intro word_add_fits(2)) (auto simp: base_inv_def base_request_def)
  then have "\<not> assignedMemory p + Memory req < Memory req" by (simp add: word_less_nat_alt)
  with assms base_invD(7) [OF inv] show ?thesis
    by (auto simp: simple_Allocate_def simple_Release_def free_cpus_def IsEmpty_def base_request_def
        split: if_splits)
qed

text \<open>
  Pinned CPUs are not counted per VM: when two VMs with overlapping affinities are known to
  the policy and one of them is released, the shared CPUs become available although the other VM
  is still pinned to them.
\<close>

lemma simple_Release_shared_cpu:
  assumes "finite (vm_CPUSet b)" and "c \<in> vm_CPUSet a" and "c \<in> vm_CPUSet b" and "c \<notin> reservedCPUs p"
    and "finite (vm_CPUSet a)"
    and upd: "simple_AllocateOrUpdate p a = Inr (p1, a')" "simple_AllocateOrUpdate p1 b = Inr (p2, b')"
    and rel: "simple_Release p2 a = Inr (p3, a'')"
  shows "c \<in> usedCPUs p2 \<and> c \<in> availableCPUs p3 \<and> c \<notin> usedCPUs p3"
proof -
  have ne: "\<not> IsEmpty (vm_CPUSet a)" "\<not> IsEmpty (vm_CPUSet b)"
    using assms by (auto simp: IsEmpty_iff)
  have r1: "reservedCPUs p1 = reservedCPUs p" "c \<in> usedCPUs p1"
    using upd(1) ne assms(2,4)
    by (auto simp: simple_AllocateOrUpdate_def assign_cpus_def Let_def split: if_splits)
  have r2: "reservedCPUs p2 = reservedCPUs p1" "usedCPUs p1 \<subseteq> usedCPUs p2"
    using upd(2) ne(2) by (auto simp: simple_AllocateOrUpdate_def assign_cpus_def Let_def split: if_splits)
  have "usedCPUs p3 = usedCPUs p2 - (vm_CPUSet a - reservedCPUs p2) \<and>
        availableCPUs p3 = availableCPUs p2 \<union> (vm_CPUSet a - reservedCPUs p2)"
    using rel ne(1) by (auto simp: simple_Release_def free_cpus_def Let_def split: if_splits)
  with r1 r2 assms(2,4) show ?thesis by auto
qed

end
