(* ===== verification/NUMADistributed.thy ===== *)
theory NUMADistributed
  imports NUMAPacked
begin

text \<open>
  The distributing allocator \<open>takeByTopologyNUMADistributed\<close> of
  \<open>src/pkg/providers/cloudcapacity/cpumanager/cpu_assignment.go\<close>.

  Two features of the code are modelled explicitly.

  \<^item> Slices share arrays. \<open>iterateCombinations\<close> builds each combination by appending to its
    prefix, in place whenever the prefix's array has room, and hands the slice to the callback,
    which keeps it; later appends then overwrite the kept slice. A kept combination is
    therefore a position, and \<open>slice_content\<close> reads it after the iteration.
  \<^item> The loops \<open>for remainder > 0\<close> need not end. They are partial functions, and the
    allocator returns \<open>None\<close> where the code does not return.

  The balance score is a standard deviation rounded to thousandths; it is computed in exact
  arithmetic, in thousandths, where the code computes with \<open>float64\<close>. \<open>None\<close> stands for
  \<open>math.MaxFloat64\<close>. No theorem depends on the value of the score.
\<close>

section \<open>The balance score\<close>

definition go_sum :: "int list \<Rightarrow> int" where
  "go_sum xs = foldl (+) 0 xs"

text \<open>The quotient rounded to the nearest integer, half away from zero.\<close>

definition round_quot :: "int \<Rightarrow> int \<Rightarrow> int" where
  "round_quot a b = (if 0 \<le> a then (2 * a + b) div (2 * b) else - ((- 2 * a + b) div (2 * b)))"

definition mean :: "int list \<Rightarrow> int" where
  "mean xs = round_quot (1000 * go_sum xs) (int (length xs))"

definition isqrt_step :: "int \<Rightarrow> int \<Rightarrow> int" where
  "isqrt_step n r = (if (r + 1) * (r + 1) \<le> n then r + 1 else r)"

function isqrt :: "int \<Rightarrow> int" where
  "isqrt n = (if n \<le> 0 then 0 else isqrt_step n (2 * isqrt (n div 4)))"
  by auto
termination by (relation "measure nat") auto

declare isqrt.simps [simp del]

text \<open>With \<open>q\<close> the square of the deviation in thousandths, its root is rounded to the nearest integer.\<close>

definition standardDeviation :: "int list \<Rightarrow> int" where
  "standardDeviation xs =
     (let m = mean xs;
          q = go_sum (map (\<lambda>x. (1000 * x - m) * (1000 * x - m)) xs)
      in (1 + isqrt (4 * q div int (length xs))) div 2)"

fun balance_less :: "int option \<Rightarrow> int option \<Rightarrow> bool" where
  "balance_less None b = False"
| "balance_less (Some a) None = True"
| "balance_less (Some a) (Some b) = (a < b)"

section \<open>Combinations\<close>

text \<open>The positions of the \<open>k\<close>-element combinations of a slice of length \<open>len\<close>, in the order of the helper.\<close>

fun combinations :: "nat \<Rightarrow> nat \<Rightarrow> nat \<Rightarrow> nat list list" where
  "combinations len 0 start = [[]]"
| "combinations len (Suc k) start =
     concat (map (\<lambda>i. map ((#) i) (combinations len k (Suc i))) [start..<len - k])"

text \<open>
  The callback runs on each combination until it breaks. The result also lists the combinations
  that were built.
\<close>

fun iterate :: "(nat list \<Rightarrow> 's \<Rightarrow> (LoopControl \<times> 's) option) \<Rightarrow> nat list list \<Rightarrow> 's \<Rightarrow> nat list list
                \<Rightarrow> ('s \<times> nat list list) option" where
  "iterate f [] s visited = Some (s, visited)"
| "iterate f (c # cs) s visited =
     (case f c s of
        None \<Rightarrow> None
      | Some (Break, s') \<Rightarrow> Some (s', visited @ [c])
      | Some (Continue, s') \<Rightarrow> iterate f cs s' (visited @ [c]))"

definition iterateCombinations ::
  "nat \<Rightarrow> nat \<Rightarrow> (nat list \<Rightarrow> 's \<Rightarrow> (LoopControl \<times> 's) option) \<Rightarrow> 's \<Rightarrow> ('s \<times> nat list list) option" where
  "iterateCombinations len k f s =
     (if k < 1 then Some (s, []) else iterate f (combinations len k 0) s [])"

text \<open>
  The capacity of a slice grown from nothing by single appends doubles when it is exhausted (up
  to 256 elements). \<open>array_owner\<close> is the length at which the array of a slice of the given
  length was allocated: combinations that agree up to there share the array.
\<close>

fun slice_cap :: "nat \<Rightarrow> nat" where
  "slice_cap 0 = 0"
| "slice_cap (Suc l) = (if Suc l \<le> slice_cap l then slice_cap l else max 1 (2 * slice_cap l))"

fun array_owner :: "nat \<Rightarrow> nat" where
  "array_owner 0 = 0"
| "array_owner (Suc l) = (if Suc l \<le> slice_cap l then array_owner l else Suc l)"

definition slice_content :: "nat list list \<Rightarrow> nat list \<Rightarrow> nat list" where
  "slice_content visited c =
     (let g = array_owner (length c) in last (filter (\<lambda>c'. take g c' = take g c) visited))"

section \<open>Distributing the remainder\<close>

fun drain_pass :: "int \<Rightarrow> int list \<Rightarrow> (int, int) go_map \<Rightarrow> int \<Rightarrow> (int, int) go_map \<times> int" where
  "drain_pass g [] m remainder = (m, remainder)"
| "drain_pass g (numa # rest) m remainder =
     (if remainder = 0 then (m, remainder)
      else if go_lookup 0 m numa < g then drain_pass g rest m remainder
      else drain_pass g rest (go_update m numa (go_lookup 0 m numa - g)) (remainder - g))"

partial_function (option) drain_loop ::
  "int \<Rightarrow> int list \<Rightarrow> (int, int) go_map \<Rightarrow> int \<Rightarrow> (int, int) go_map option" where
  "drain_loop g nodes m remainder =
     (if remainder > 0
      then drain_loop g nodes (fst (drain_pass g nodes m remainder)) (snd (drain_pass g nodes m remainder))
      else Some m)"

declare drain_loop.simps [code]

text \<open>The callback of the inner iteration: the score of giving the remainder to one subset.\<close>

definition try_subset ::
  "int \<Rightarrow> int list \<Rightarrow> (int, int) go_map \<Rightarrow> int \<Rightarrow> nat list \<Rightarrow> int option \<times> nat list option
   \<Rightarrow> (LoopControl \<times> (int option \<times> nat list option)) option" where
  "try_subset g remainderCombo avail remainder c best =
     (let nodes = map ((!) remainderCombo) c
      in if go_sum (map (go_lookup 0 avail) nodes) < remainder then Some (Continue, best)
         else case drain_loop g nodes avail remainder of
                None \<Rightarrow> None
              | Some avail' \<Rightarrow>
                  let balance = Some (standardDeviation (map snd avail'))
                  in Some (Continue, if balance_less balance (fst best) then (balance, Some c) else best))"

text \<open>The loop over the subset sizes, from the largest down to 1.\<close>

fun best_remainder ::
  "int \<Rightarrow> int list \<Rightarrow> (int, int) go_map \<Rightarrow> int \<Rightarrow> nat list \<Rightarrow> int option \<times> int list
   \<Rightarrow> (int option \<times> int list) option" where
  "best_remainder g remainderCombo avail remainder [] best = Some best"
| "best_remainder g remainderCombo avail remainder (k # ks) best =
     (case iterateCombinations (length remainderCombo) k
             (try_subset g remainderCombo avail remainder) (fst best, None) of
        None \<Rightarrow> None
      | Some ((balance, kept), visited) \<Rightarrow>
          best_remainder g remainderCombo avail remainder ks
            (case kept of
               None \<Rightarrow> best
             | Some c \<Rightarrow> (balance, map ((!) remainderCombo) (slice_content visited c))))"

section \<open>Choosing the NUMA nodes\<close>

record best_choice =
  bestBalance :: "int option"
  bestRemainder :: "int list"
  bestCombo :: "nat list option"

definition distribution_of :: "int \<Rightarrow> int \<Rightarrow> int \<Rightarrow> int" where
  "distribution_of numCPUs len g = go_div (go_div numCPUs len) g * g"

definition avail_after :: "CPUDetails \<Rightarrow> int list \<Rightarrow> int list \<Rightarrow> int \<Rightarrow> (int, int) go_map" where
  "avail_after d numas combo distribution =
     foldl (\<lambda>m numa. go_update m numa (go_lookup 0 m numa - distribution))
       (foldl (\<lambda>m numa. go_update m numa (Size (CPUsInNUMANodes d [numa]))) [] numas)
       combo"

text \<open>The callback of the outer iteration.\<close>

definition try_combo ::
  "cpuAccumulator \<Rightarrow> int list \<Rightarrow> int \<Rightarrow> int \<Rightarrow> nat list \<Rightarrow> best_choice \<Rightarrow> (LoopControl \<times> best_choice) option" where
  "try_combo acc numas numCPUs g c best =
     (let combo = map ((!) numas) c;
          d = details acc;
          numCPUGroups = go_sum (map (\<lambda>numa. go_div (Size (CPUsInNUMANodes d [numa])) g) combo);
          distribution = distribution_of numCPUs (int (length combo)) g
      in if bestBalance best = Some 0 then Some (Break, best)
         else if Size (CPUsInNUMANodes d combo) < numCPUs then Some (Continue, best)
         else if numCPUGroups * g < numCPUs then Some (Continue, best)
         else if \<exists>numa \<in> set combo. Size (CPUsInNUMANodes d [numa]) < distribution then Some (Continue, best)
         else
           let avail = avail_after d numas combo distribution;
               remainder = numCPUs - distribution * int (length combo);
               remainderCombo = filter (\<lambda>numa. go_lookup 0 avail numa \<ge> g) combo;
               start = (if remainder = 0 then (Some (standardDeviation (map snd avail)), []) else (None, []));
               ks = (if remainder > 0 then rev [1..<Suc (length remainderCombo)] else [])
           in case best_remainder g remainderCombo avail remainder ks start of
                None \<Rightarrow> None
              | Some (bestLocalBalance, bestLocalRemainder) \<Rightarrow>
                  Some (Continue,
                    if balance_less bestLocalBalance (bestBalance best)
                    then \<lparr>bestBalance = bestLocalBalance, bestRemainder = bestLocalRemainder,
                          bestCombo = Some c\<rparr>
                    else best))"

text \<open>The smallest and largest number of NUMA nodes to try; \<open>None\<close> is a division by zero.\<close>

definition rangeNUMANodesNeededToSatisfy :: "cpuAccumulator \<Rightarrow> int \<Rightarrow> (int \<times> int) option" where
  "rangeNUMANodesNeededToSatisfy a g =
     (let numNUMANodes = Size (NUMANodes (Details (topo a)));
          numNUMANodesAvailable = Size (NUMANodes (details a));
          numCPUs = Size (CPUs (Details (topo a)))
      in if g = 0 \<or> numNUMANodes = 0 then None
         else
           let numCPUGroups = go_div (numCPUs - 1) g + 1;
               numCPUGroupsPerNUMANode = go_div (numCPUGroups - 1) numNUMANodes + 1;
               numCPUGroupsNeeded = go_div (numCPUsNeeded a - 1) g + 1
           in if numCPUGroupsPerNUMANode = 0 then None
              else Some (go_div (numCPUGroupsNeeded - 1) numCPUGroupsPerNUMANode + 1,
                         min numCPUGroupsNeeded numNUMANodesAvailable))"

section \<open>Claiming the choice\<close>

text \<open>One claim from a NUMA node; an error of the packing allocator is dropped with its empty set.\<close>

definition take_packed :: "CPUSortingStrategy \<Rightarrow> int \<Rightarrow> int \<Rightarrow> cpuAccumulator \<Rightarrow> cpuAccumulator" where
  "take_packed strategy n numa acc =
     take_cpus acc
       (case takeByTopologyNUMAPacked (topo acc) (CPUsInNUMANodes (details acc) [numa]) n strategy False of
          Inl e \<Rightarrow> {}
        | Inr cpus \<Rightarrow> cpus)"

fun claim_pass :: "CPUSortingStrategy \<Rightarrow> int \<Rightarrow> int list \<Rightarrow> cpuAccumulator \<Rightarrow> int \<Rightarrow> cpuAccumulator \<times> int" where
  "claim_pass strategy g [] acc remainder = (acc, remainder)"
| "claim_pass strategy g (numa # rest) acc remainder =
     (if remainder = 0 then (acc, remainder)
      else if Size (CPUsInNUMANodes (details acc) [numa]) < g then claim_pass strategy g rest acc remainder
      else claim_pass strategy g rest (take_packed strategy g numa acc) (remainder - g))"

partial_function (option) claim_loop_remainder ::
  "CPUSortingStrategy \<Rightarrow> int \<Rightarrow> int list \<Rightarrow> cpuAccumulator \<Rightarrow> int \<Rightarrow> cpuAccumulator option" where
  "claim_loop_remainder strategy g nodes acc remainder =
     (if remainder > 0
      then claim_loop_remainder strategy g nodes
             (fst (claim_pass strategy g nodes acc remainder))
             (snd (claim_pass strategy g nodes acc remainder))
      else Some acc)"

declare claim_loop_remainder.simps [code]

definition claim_choice ::
  "CPUSortingStrategy \<Rightarrow> int \<Rightarrow> int \<Rightarrow> int list \<Rightarrow> int list \<Rightarrow> cpuAccumulator \<Rightarrow> (cpu_error + CPUSet) option" where
  "claim_choice strategy numCPUs g combo remainders acc =
     (let distribution = distribution_of numCPUs (int (length combo)) g;
          acc1 = fold (take_packed strategy distribution) combo acc;
          remainder = numCPUs - distribution * int (length combo)
      in case claim_loop_remainder strategy g remainders acc1 remainder of
           None \<Rightarrow> None
         | Some acc2 \<Rightarrow>
             if numCPUsNeeded acc2 > 0 then Some (Inl (AccountingNotEnough (numCPUsNeeded acc2)))
             else if numCPUsNeeded acc2 < 0 then Some (Inl (AccountingTooMany (numCPUsNeeded acc2)))
             else Some (Inr (result acc2)))"

section \<open>The allocator\<close>

text \<open>The loop over the number of NUMA nodes; the last equation is the fall-back to packing.\<close>

fun try_sizes ::
  "CPUTopology \<Rightarrow> CPUSet \<Rightarrow> int \<Rightarrow> int \<Rightarrow> CPUSortingStrategy \<Rightarrow> cpuAccumulator \<Rightarrow> int list \<Rightarrow> int list
   \<Rightarrow> (cpu_error + CPUSet) option" where
  "try_sizes t avail numCPUs g strategy acc numas (k # ks) =
     (case iterateCombinations (length numas) (nat k) (try_combo acc numas numCPUs g)
             \<lparr>bestBalance = None, bestRemainder = [], bestCombo = None\<rparr> of
        None \<Rightarrow> None
      | Some (best, visited) \<Rightarrow>
          (case bestCombo best of
             None \<Rightarrow> try_sizes t avail numCPUs g strategy acc numas ks
           | Some c \<Rightarrow>
               claim_choice strategy numCPUs g (map ((!) numas) (slice_content visited c))
                 (bestRemainder best) acc))"
| "try_sizes t avail numCPUs g strategy acc numas [] =
     Some (takeByTopologyNUMAPacked t avail numCPUs strategy False)"

definition takeByTopologyNUMADistributed ::
  "CPUTopology \<Rightarrow> CPUSet \<Rightarrow> int \<Rightarrow> int \<Rightarrow> CPUSortingStrategy \<Rightarrow> (cpu_error + CPUSet) option" where
  "takeByTopologyNUMADistributed t availableCPUs numCPUs g strategy =
     (if g = 0 then Some (Inl RuntimePanic)
      else if go_mod numCPUs g \<noteq> 0
      then Some (takeByTopologyNUMAPacked t availableCPUs numCPUs strategy False)
      else
        let acc = newCPUAccumulator t availableCPUs numCPUs strategy
        in if isSatisfied acc then Some (Inr (result acc))
           else if isFailed acc then Some (Inl (NotEnoughCPUs numCPUs (Size availableCPUs)))
           else case rangeNUMANodesNeededToSatisfy acc g of
                  None \<Rightarrow> Some (Inl RuntimePanic)
                | Some (minNUMAs, maxNUMAs) \<Rightarrow>
                    try_sizes t availableCPUs numCPUs g strategy acc
                      (sortAvailableNUMANodes acc) [minNUMAs..maxNUMAs])"

section \<open>The combinations\<close>

lemma increasing_room:
  assumes "sorted_wrt (<) c" and "set c \<subseteq> {Suc i..<len}" and "i < len"
  shows "i < len - length c"
proof -
  have "card (set c) \<le> len - Suc i" using card_mono [OF _ assms(2)] by simp
  moreover have "card (set c) = length c" using assms(1) by (simp add: distinct_card strict_sorted_iff)
  ultimately show ?thesis using assms(3) by linarith
qed

lemma combinations_mem:
  "c \<in> set (combinations len k start) \<longleftrightarrow>
   length c = k \<and> sorted_wrt (<) c \<and> set c \<subseteq> {start..<len}"
proof (induction len k start arbitrary: c rule: combinations.induct)
  case (1 len start)
  then show ?case by auto
next
  case (2 len k start)
  show ?case
  proof (cases c)
    case Nil
    then show ?thesis by auto
  next
    case (Cons i c')
    have "c \<in> set (combinations len (Suc k) start) \<longleftrightarrow>
          start \<le> i \<and> i < len - k \<and> c' \<in> set (combinations len k (Suc i))"
      using Cons by (auto simp: image_iff)
    also have "\<dots> \<longleftrightarrow> start \<le> i \<and> i < len - k \<and> length c' = k \<and> sorted_wrt (<) c' \<and>
                      set c' \<subseteq> {Suc i..<len}"
      using 2 [of i c'] by auto
    also have "\<dots> \<longleftrightarrow> length c = Suc k \<and> sorted_wrt (<) c \<and> set c \<subseteq> {start..<len}"
      using increasing_room [of c' i len] Cons by (auto simp: subset_iff Suc_le_eq)
    finally show ?thesis .
  qed
qed

lemma combinations_distinct: "distinct (combinations len k start)"
proof (induction len k start rule: combinations.induct)
  case (2 len k start)
  then show ?case by (auto simp: distinct_map intro!: concat_distinct)
qed simp

lemma iterate_continue:
  "(\<And>c s. f c s = Some (Continue, g c s)) \<Longrightarrow> iterate f cs s visited = Some (fold g cs s, visited @ cs)"
  by (induction cs arbitrary: s visited) simp_all

text \<open>
  A callback that never breaks is run by \<open>iterateCombinations\<close> on every \<open>k\<close>-element
  combination of the slice, on each exactly once.
\<close>

lemma iterateCombinations_complete:
  assumes "1 \<le> k" and "\<And>c s. f c s = Some (Continue, g c s)"
  shows "\<exists>cs. iterateCombinations len k f s = Some (fold g cs s, cs) \<and> distinct cs \<and>
           set cs = {c. length c = k \<and> sorted_wrt (<) c \<and> set c \<subseteq> {..<len}}"
  using assms iterate_continue [of f g "combinations len k 0" s "[]"]
  by (auto simp: iterateCombinations_def combinations_mem combinations_distinct atLeast0LessThan
      intro!: exI [of _ "combinations len k 0"])

text \<open>
  The slices handed to the callback share arrays. Of all the combinations of four out of
  five NUMA nodes, the first one, when it is kept as the best, reads \<open>[0, 1, 2, 4]\<close> once the
  iteration is over, although it was \<open>[0, 1, 2, 3]\<close> when it was scored.
\<close>

lemma kept_combination_overwritten:
  "iterateCombinations 5 4 (\<lambda>c s. Some (Continue, s)) () = Some ((), combinations 5 4 0) \<and>
   hd (combinations 5 4 0) = [0, 1, 2, 3] \<and>
   slice_content (combinations 5 4 0) [0, 1, 2, 3] = [0, 1, 2, 4]"
  by code_simp

section \<open>Claims stay within what is available\<close>

lemma packed_result:
  assumes "topology_ok t" and "0 \<le> n" and "takeByTopologyNUMAPacked t avail n strategy align = Inr s"
  shows "allocates t avail n (Inr s)"
proof (cases "n \<le> Size (CPUs (Details t) \<inter> avail)")
  case True
  with packed_allocates [OF assms(1,2) True, of strategy align] assms(3)
  show ?thesis by simp
next
  case False
  with assms(3) have False
    using \<open>0 \<le> n\<close> Size_nonneg [of "CPUs (Details t) \<inter> avail"]
    by (simp add: takeByTopologyNUMAPacked_def Let_def isSatisfied_def isFailed_def newCPUAccumulator_def)
  then show ?thesis ..
qed

lemma acc_frame_take_packed:
  assumes "topology_ok t" and "0 \<le> m" and "acc_frame t avail n a"
  shows "acc_frame t avail n (take_packed strategy m numa a)"
proof -
  note topo = acc_frameD(1) [OF assms(3)]
  show ?thesis
  proof (cases "takeByTopologyNUMAPacked t (CPUsInNUMANodes (details a) [numa]) m strategy False")
    case (Inl e)
    with acc_frame_take(1) [OF assms(3), of "{}"] topo show ?thesis
      by (simp add: take_packed_def)
  next
    case (Inr s)
    then have "s \<subseteq> CPUs (details a)"
      using packed_result [OF assms(1,2) Inr] numa_block.cpusIn_CPUs
      by (fastforce simp: allocates_def)
    with Inr acc_frame_take(1) [OF assms(3)] topo show ?thesis
      by (simp add: take_packed_def)
  qed
qed

lemma acc_frame_fold_take_packed:
  "topology_ok t \<Longrightarrow> 0 \<le> m \<Longrightarrow> acc_frame t avail n a \<Longrightarrow>
   acc_frame t avail n (fold (take_packed strategy m) combo a)"
  by (induction combo arbitrary: a) (simp_all add: acc_frame_take_packed)

lemma acc_frame_claim_pass:
  "topology_ok t \<Longrightarrow> 0 \<le> g \<Longrightarrow> acc_frame t avail n a \<Longrightarrow>
   acc_frame t avail n (fst (claim_pass strategy g nodes a r))"
  by (induction strategy g nodes a r rule: claim_pass.induct) (simp_all add: acc_frame_take_packed)

lemma acc_frame_claim_loop:
  assumes "topology_ok t"
  shows "claim_loop_remainder strategy g nodes a r = Some a' \<Longrightarrow>
         0 \<le> g \<longrightarrow> acc_frame t avail n a \<longrightarrow> acc_frame t avail n a'"
proof (rule claim_loop_remainder.raw_induct
    [where P = "\<lambda>strategy g nodes a r a'. 0 \<le> g \<longrightarrow> acc_frame t avail n a \<longrightarrow> acc_frame t avail n a'"])
qed (use acc_frame_claim_pass [OF assms] in \<open>auto split: if_splits\<close>)

lemma claim_choice_result:
  assumes "topology_ok t" and "0 \<le> n" and "0 \<le> g" and "acc_frame t avail n a"
    and res: "claim_choice strategy n g combo remainders a = Some (Inr s)"
  shows "allocates t avail n (Inr s)"
proof -
  let ?d = "distribution_of n (int (length combo)) g"
  have "0 \<le> ?d"
    using assms(2,3) by (simp add: distribution_of_def pos_imp_zdiv_nonneg_iff div_int_pos_iff)
  then have frame: "acc_frame t avail n (fold (take_packed strategy ?d) combo a)"
    using assms by (intro acc_frame_fold_take_packed)
  from res obtain a' where
    loop: "claim_loop_remainder strategy g remainders (fold (take_packed strategy ?d) combo a)
             (n - ?d * int (length combo)) = Some a'"
    and "numCPUsNeeded a' = 0" "s = result a'"
    by (auto simp: claim_choice_def Let_def split: option.splits if_splits)
  moreover have "acc_frame t avail n a'"
    using acc_frame_claim_loop [OF assms(1) loop] assms(3) frame by blast
  ultimately show ?thesis using acc_frameD(3,6) [of t avail n a'] by (simp add: allocates_def)
qed

lemma try_sizes_result:
  assumes "topology_ok t" and "0 \<le> n" and "0 \<le> g" and "acc_frame t avail n a"
    and "try_sizes t avail n g strategy a numas ks = Some (Inr s)"
  shows "allocates t avail n (Inr s)"
  using assms(5)
proof (induction ks)
  case Nil
  with packed_result [OF assms(1,2)] show ?case by simp
next
  case (Cons k ks)
  with claim_choice_result [OF assms(1-4)] show ?case
    by (auto split: option.splits)
qed

text \<open>
  C35. Whatever the distributing allocator returns is right: on a regular topology and for a
  positive group size, a granted request has exactly the requested number of distinct CPUs, all
  of them available and part of the host, whichever combination of NUMA nodes was chosen. The
  accounting errors are thus never hidden by a wrong result.
\<close>

theorem distributed_safe:
  assumes "topology_ok t" and "0 \<le> n" and "1 \<le> g"
    and "takeByTopologyNUMADistributed t avail n g strategy = Some (Inr s)"
  shows "s \<subseteq> avail \<inter> CPUs (Details t) \<and> Size s = n"
proof -
  let ?a = "newCPUAccumulator t avail n strategy"
  note frame = acc_frame_new [of t avail n strategy]
  consider (group) "go_mod n g \<noteq> 0" | (satisfied) "go_mod n g = 0" "isSatisfied ?a"
    | (search) "go_mod n g = 0" "\<not> isSatisfied ?a" by blast
  then have "allocates t avail n (Inr s)"
  proof cases
    case group
    with assms(3,4) packed_result [OF assms(1,2)] show ?thesis
      by (simp add: takeByTopologyNUMADistributed_def)
  next
    case satisfied
    with assms(2-4) show ?thesis
      by (auto simp: takeByTopologyNUMADistributed_def isSatisfied_def newCPUAccumulator_def allocates_def)
  next
    case search
    with assms(3,4) obtain numas ks where "try_sizes t avail n g strategy ?a numas ks = Some (Inr s)"
      unfolding takeByTopologyNUMADistributed_def Let_def
      by (simp split: if_splits option.splits prod.splits)
    moreover have "0 \<le> g" using assms(3) by simp
    ultimately show ?thesis using try_sizes_result [OF assms(1,2) _ frame] by blast
  qed
  then show ?thesis by (simp add: allocates_def)
qed


theorem distributed_safe_witness:
  "{0, 2, 3, 6, 8, 9} \<subseteq> {0, 1, 2, 3, 6, 8, 9} \<inter> CPUs (Details topoDualSocketHT) \<and>
   Size {0, 2, 3, 6, 8, 9} = 6"
  by (rule distributed_safe [where g = 2 and strategy = CPUSortingStrategyPacked]) code_simp+

section \<open>Termination of the distribution of the remainder\<close>

text \<open>The number of groups of \<open>g\<close> CPUs that the NUMA nodes of a set can still give.\<close>

definition groups_left :: "int \<Rightarrow> int set \<Rightarrow> (int, int) go_map \<Rightarrow> int" where
  "groups_left g S m = (\<Sum>x \<in> S. go_lookup 0 m x div g)"

lemma groups_left_update:
  assumes "finite S" and "numa \<in> S" and "0 < g"
  shows "groups_left g S (go_update m numa (go_lookup 0 m numa - g)) = groups_left g S m - 1"
proof -
  have "(go_lookup 0 m numa - g) div g = go_lookup 0 m numa div g - 1"
    using \<open>0 < g\<close> div_add_self2 [of g "go_lookup 0 m numa - g"] by simp
  with assms show ?thesis
    by (simp add: groups_left_def go_lookup_update sum.remove [of S numa])
qed

text \<open>What a pass keeps: the groups left less the groups still to be given.\<close>

definition drain_ok :: "int \<Rightarrow> int set \<Rightarrow> int \<Rightarrow> (int, int) go_map \<Rightarrow> int \<Rightarrow> bool" where
  "drain_ok g S slack m r \<longleftrightarrow>
     0 \<le> r \<and> g dvd r \<and> (\<forall>x \<in> S. 0 \<le> go_lookup 0 m x) \<and> g * groups_left g S m - r = slack"

lemma drain_ok_step:
  assumes "0 < g" and "finite S" and "numa \<in> S" and "drain_ok g S slack m r"
    and "r \<noteq> 0" and "\<not> go_lookup 0 m numa < g"
  shows "drain_ok g S slack (go_update m numa (go_lookup 0 m numa - g)) (r - g)"
proof -
  have "g \<le> r" using assms by (auto simp: drain_ok_def intro: zdvd_imp_le)
  with assms groups_left_update [OF assms(2,3,1)] show ?thesis
    by (simp add: drain_ok_def go_lookup_update right_diff_distrib)
qed

lemma drain_ok_pass:
  assumes "0 < g" and "finite S"
  shows "set nodes \<subseteq> S \<Longrightarrow> drain_ok g S slack m r \<Longrightarrow>
         drain_ok g S slack (fst (drain_pass g nodes m r)) (snd (drain_pass g nodes m r))"
proof (induction nodes arbitrary: m r)
  case (Cons numa rest)
  with drain_ok_step [OF assms] show ?case by auto
qed simp

lemma drain_pass_le: "0 < g \<Longrightarrow> snd (drain_pass g nodes m r) \<le> r"
proof (induction nodes arbitrary: m r)
  case (Cons numa rest)
  from Cons.IH [of m r] Cons.IH [of "go_update m numa (go_lookup 0 m numa - g)" "r - g"] Cons.prems
  show ?case by auto
qed simp

lemma drain_pass_progress:
  assumes "0 < g"
  shows "r \<noteq> 0 \<Longrightarrow> x \<in> set nodes \<Longrightarrow> g \<le> go_lookup 0 m x \<Longrightarrow> snd (drain_pass g nodes m r) < r"
proof (induction nodes arbitrary: m r)
  case (Cons numa rest)
  from drain_pass_le [OF assms, of rest "go_update m numa (go_lookup 0 m numa - g)" "r - g"] Cons assms
  show ?case by auto
qed simp

lemma groups_left_pos:
  assumes "0 < g" and "0 < groups_left g S m" and "\<forall>x \<in> S. 0 \<le> go_lookup 0 m x"
  obtains x where "x \<in> S" and "g \<le> go_lookup 0 m x"
proof -
  have "\<exists>x \<in> S. g \<le> go_lookup 0 m x"
  proof (rule ccontr)
    assume "\<not> ?thesis"
    with assms(3) have "groups_left g S m = 0"
      unfolding groups_left_def by (intro sum.neutral) (auto simp: div_pos_pos_trivial)
    with assms(2) show False by simp
  qed
  with that show thesis by blast
qed

lemma drain_loop_returns:
  assumes "0 < g" and "0 \<le> slack"
  shows "drain_ok g (set nodes) slack m r \<Longrightarrow> \<exists>m'. drain_loop g nodes m r = Some m'"
proof (induction "nat r" arbitrary: m r rule: less_induct)
  case less
  show ?case
  proof (cases "r > 0")
    case False
    then show ?thesis by (subst drain_loop.simps) simp
  next
    case True
    let ?p = "drain_pass g nodes m r"
    have "0 < g * groups_left g (set nodes) m" using True less.prems assms(2) by (simp add: drain_ok_def)
    then have "0 < groups_left g (set nodes) m" using assms(1) by (simp add: zero_less_mult_iff)
    then obtain x where "x \<in> set nodes" "g \<le> go_lookup 0 m x"
      using groups_left_pos [OF assms(1)] less.prems unfolding drain_ok_def by blast
    then have "snd ?p < r" using drain_pass_progress [OF assms(1)] True by simp
    with True less.hyps [of "snd ?p" "fst ?p"] drain_ok_pass [OF assms(1) _ _ less.prems]
    show ?thesis by (subst drain_loop.simps) simp
  qed
qed

lemma groups_left_nonneg: "0 < g \<Longrightarrow> \<forall>x \<in> S. 0 \<le> go_lookup 0 m x \<Longrightarrow> 0 \<le> groups_left g S m"
  unfolding groups_left_def by (intro sum_nonneg) (simp add: pos_imp_zdiv_nonneg_iff)

lemma drain_loop_slack:
  "drain_loop g nodes m r = Some m' \<Longrightarrow>
   0 < g \<longrightarrow> (\<forall>slack. drain_ok g (set nodes) slack m r \<longrightarrow> 0 \<le> slack)"
proof (rule drain_loop.raw_induct
    [where P = "\<lambda>g nodes m r m'. 0 < g \<longrightarrow> (\<forall>slack. drain_ok g (set nodes) slack m r \<longrightarrow> 0 \<le> slack)"],
    goal_cases)
  case (1 loop g nodes m r m')
  show ?case
  proof (intro impI allI)
    fix slack
    assume "0 < g" and ok: "drain_ok g (set nodes) slack m r"
    show "0 \<le> slack"
    proof (cases "r > 0")
      case True
      with 1 \<open>0 < g\<close> drain_ok_pass [OF \<open>0 < g\<close> _ _ ok] show ?thesis by (auto split: if_splits)
    next
      case False
      with ok groups_left_nonneg [OF \<open>0 < g\<close>, of "set nodes" m] \<open>0 < g\<close> show ?thesis
        by (auto simp: drain_ok_def)
    qed
  qed
qed

text \<open>
  The loop that gives the remainder to a subset of NUMA nodes ends exactly when the groups
  that fit into the nodes one by one are enough for the remainder.
\<close>

lemma drain_loop_returns_iff:
  assumes "0 < g" and "0 \<le> r" and "g dvd r" and "\<forall>x \<in> set nodes. 0 \<le> go_lookup 0 m x"
  shows "(\<exists>m'. drain_loop g nodes m r = Some m') \<longleftrightarrow> r \<le> g * groups_left g (set nodes) m"
proof -
  have "drain_ok g (set nodes) (g * groups_left g (set nodes) m - r) m r"
    using assms by (simp add: drain_ok_def)
  with drain_loop_returns [OF assms(1)] drain_loop_slack [of g nodes m r] assms(1) show ?thesis
    by (metis diff_ge_0_iff_ge)
qed

text \<open>
  A host with four NUMA nodes (and sockets) of 4 hyper-threaded cores. The siblings are \<open>c\<close> and
  \<open>c + 16\<close>; node \<open>i\<close> has the CPUs \<open>4 * i\<close> to \<open>4 * i + 3\<close> and their siblings.
\<close>

definition topoFourNUMA :: CPUTopology where
  "topoFourNUMA =
     \<lparr>NumCPUs = 32, NumCores = 16, NumUncoreCache = 4, NumSockets = 4, NumNUMANodes = 4,
      Details =
        map (\<lambda>cpu. (cpu, \<lparr>NUMANodeID = cpu mod 16 div 4, SocketID = cpu mod 16 div 4,
                       CoreID = cpu mod 16, UncoreCacheID = cpu mod 16 div 4\<rparr>)) [0..31]\<rparr>"

definition availFourNUMA :: CPUSet where
  "availFourNUMA = {0, 1, 2, 3, 16, 4, 5, 6, 7, 20, 8, 9, 10, 11, 12, 13, 14, 15}"

abbreviation accFourNUMA :: cpuAccumulator where
  "accFourNUMA \<equiv> newCPUAccumulator topoFourNUMA availFourNUMA 14 CPUSortingStrategyPacked"

abbreviation bestFourNUMA :: best_choice where
  "bestFourNUMA \<equiv> \<lparr>bestBalance = None, bestRemainder = [], bestCombo = None\<rparr>"

abbreviation leftFourNUMA :: "(int, int) go_map" where
  "leftFourNUMA \<equiv> [(2, 2), (3, 2), (0, 3), (1, 3)]"

lemma hang_drain: "drain_loop 2 [0, 1] leftFourNUMA 6 = None"
proof -
  have "drain_ok 2 (set [0, 1]) (- 2) leftFourNUMA 6"
    by (simp add: drain_ok_def groups_left_def go_lookup_def)
  with drain_loop_slack [of 2 "[0, 1]" leftFourNUMA 6] show ?thesis
    by (cases "drain_loop 2 [0, 1] leftFourNUMA 6") force+
qed

lemma hang_pairs:
  "iterateCombinations 4 2 (try_subset 2 [2, 3, 0, 1] leftFourNUMA 6) (b, None) = None"
  by (simp add: iterateCombinations_def numeral_eq_Suc upt_rec try_subset_def Let_def hang_drain
      go_sum_def go_lookup_def)

lemma hang_remainder: "best_remainder 2 [2, 3, 0, 1] leftFourNUMA 6 [4, 3, 2, 1] (None, []) = None"
proof -
  have four: "iterateCombinations 4 4 (try_subset 2 [2, 3, 0, 1] leftFourNUMA 6) (None, None) =
      Some ((Some 1225, Some [0, 1, 2, 3]), [[0, 1, 2, 3]])"
    by code_simp
  have three: "iterateCombinations 4 3 (try_subset 2 [2, 3, 0, 1] leftFourNUMA 6) (Some 1225, None) =
      Some ((Some 707, Some [0, 2, 3]), combinations 4 3 0)"
    by code_simp
  have "length [2, 3, 0, 1 :: int] = 4" by simp
  with four three hang_pairs show ?thesis by (simp del: list.size)
qed

lemma hang_combo: "try_combo accFourNUMA [2, 3, 0, 1] 14 2 [0, 1, 2, 3] bestFourNUMA = None"
proof -
  have "Size (CPUsInNUMANodes (details accFourNUMA) [2, 3, 0, 1]) = 18 \<and>
        avail_after (details accFourNUMA) [2, 3, 0, 1] [2, 3, 0, 1] 2 = leftFourNUMA \<and>
        map (\<lambda>numa. Size (CPUsInNUMANodes (details accFourNUMA) [numa])) [2, 3, 0, 1] = [4, 4, 5, 5]"
    by code_simp
  with hang_remainder show ?thesis
    by (simp add: try_combo_def Let_def distribution_of_def go_sum_def go_lookup_def numeral_eq_Suc upt_rec)
qed

text \<open>
  C37. The test before that loop compares the sum of the free CPUs with the remainder, not the
  groups that fit. With 5, 5, 4 and 4 free CPUs on the four NUMA nodes, a request for 14 CPUs in
  groups of 2 does not return, although the topology is regular and 18 CPUs are free.
\<close>

theorem distributed_hangs:
  "topology_ok topoFourNUMA \<and> Size (CPUs (Details topoFourNUMA) \<inter> availFourNUMA) = 18 \<and>
   takeByTopologyNUMADistributed topoFourNUMA availFourNUMA 14 2 CPUSortingStrategyPacked = None"
proof -
  have ok: "topology_ok topoFourNUMA" "Size (CPUs (Details topoFourNUMA) \<inter> availFourNUMA) = 18"
    by code_simp+
  have start: "sortAvailableNUMANodes accFourNUMA = [2, 3, 0, 1] \<and>
        rangeNUMANodesNeededToSatisfy accFourNUMA 2 = Some (2, 4) \<and>
        \<not> isSatisfied accFourNUMA \<and> \<not> isFailed accFourNUMA"
    by code_simp
  have two_three: "iterateCombinations 4 2 (try_combo accFourNUMA [2, 3, 0, 1] 14 2) bestFourNUMA =
          Some (bestFourNUMA, combinations 4 2 0) \<and>
        iterateCombinations 4 3 (try_combo accFourNUMA [2, 3, 0, 1] 14 2) bestFourNUMA =
          Some (bestFourNUMA, combinations 4 3 0)"
    by code_simp
  have "iterateCombinations 4 4 (try_combo accFourNUMA [2, 3, 0, 1] 14 2) bestFourNUMA = None"
    using hang_combo by (simp add: iterateCombinations_def numeral_eq_Suc upt_rec)
  moreover have "length [2, 3, 0, 1 :: int] = 4" by simp
  ultimately show ?thesis using ok start two_three
    by (simp add: takeByTopologyNUMADistributed_def Let_def upto_rec1 del: list.size)
qed

end
