(* ===== verification/StaticPolicy.thy ===== *)
theory StaticPolicy
  imports SimplePolicy NUMADistributed
begin

text \<open>
  The static policy (\<open>src/pkg/providers/cloudcapacity/cpumanager/policy_static.go\<close>): a VM gets
  CPUs of its own, chosen by the topology, on NUMA nodes that have its memory, and the request
  comes back with the CPUs and with the NUMA layout of the guest. The fields common to both
  policies extend \<open>policy_base\<close>; the CPU parts of \<open>AllocateOrUpdate\<close> and
  \<open>Release\<close> are those of the simple policy. The mutex serialises the operations.
\<close>

section \<open>State\<close>

record StaticPolicyOptions =
  FullPhysicalCPUsOnly :: bool
  DistributeCPUsAcrossNUMA :: bool
  DistributeCPUsAcrossCores :: bool
  PreferAlignByUncoreCacheOption :: bool

record staticPolicy = policy_base +
  cpuTopology :: CPUTopology
  cpuGroupSize :: int
  memTopology :: MemTopology
  numaNodes :: "(int, uint64) go_map"
  options :: StaticPolicyOptions

definition static_options :: StaticPolicyOptions where
  "static_options =
     \<lparr>FullPhysicalCPUsOnly = False, DistributeCPUsAcrossNUMA = False,
      DistributeCPUsAcrossCores = False, PreferAlignByUncoreCacheOption = True\<rparr>"

definition NewStaticPolicy :: "Topology option \<Rightarrow> int list \<Rightarrow> uint64 \<Rightarrow> policy_error + staticPolicy" where
  "NewStaticPolicy sysTopology reserved reservedMemory =
     (case sysTopology of
        None \<Rightarrow> Inl NoTopology
      | Some t \<Rightarrow>
          let reservedCPUSet = set reserved;
              total = TotalMemory (MemTopo t);
              all = CPUs (Details (CPUTopo t))
          in if NumCPUs (CPUTopo t) < Size reservedCPUSet
             then Inl (TooManyReservedCPUs (NumCPUs (CPUTopo t)) (Size reservedCPUSet))
             else if reservedMemory \<ge> total then Inl (TooMuchReservedMemory reservedMemory total)
             else Inr \<lparr>allCPUs = all, availableCPUs = all - reservedCPUSet, usedCPUs = {},
                       reservedCPUs = reservedCPUSet, assignedCPUs = 0,
                       availableMemory = total - reservedMemory, assignedMemory = 0,
                       cpuTopology = CPUTopo t, cpuGroupSize = CPUsPerCore (CPUTopo t),
                       memTopology = MemTopo t, numaNodes = MemNUMANodes (MemTopo t),
                       options = static_options\<rparr>)"

definition static_AvailableCPUs :: "staticPolicy \<Rightarrow> int" where
  "static_AvailableCPUs p =
     max 0 (Size (allCPUs p) - Size (reservedCPUs p) - Size (usedCPUs p) - assignedCPUs p)"

definition static_AvailableMemory :: "staticPolicy \<Rightarrow> uint64" where
  "static_AvailableMemory p =
     (if assignedMemory p \<ge> availableMemory p then 0 else availableMemory p - assignedMemory p)"

section \<open>Allocation\<close>

text \<open>\<open>None\<close> is a call that does not return.\<close>

definition static_takeByTopology :: "staticPolicy \<Rightarrow> CPUSet \<Rightarrow> int \<Rightarrow> (cpu_error + CPUSet) option" where
  "static_takeByTopology p avail numCPUs =
     (let strategy = (if DistributeCPUsAcrossCores (options p) then CPUSortingStrategySpread
                      else CPUSortingStrategyPacked)
      in if DistributeCPUsAcrossNUMA (options p)
         then takeByTopologyNUMADistributed (cpuTopology p) avail numCPUs
                (if FullPhysicalCPUsOnly (options p) then cpuGroupSize p else 1) strategy
         else Some (takeByTopologyNUMAPacked (cpuTopology p) avail numCPUs strategy
                (PreferAlignByUncoreCacheOption (options p))))"

definition node_bytes :: "NUMANodeState \<Rightarrow> uint64" where
  "node_bytes node = ns_Memory node * 1024 * 1024"

text \<open>The first NUMA node of the request, if any, that lacks the memory the request wants from it.\<close>

definition numa_short :: "staticPolicy \<Rightarrow> VMResources \<Rightarrow> (int \<times> NUMANodeState) option" where
  "numa_short p req = find (\<lambda>(i, node). go_lookup 0 (numaNodes p) i < node_bytes node) (vm_NUMANodes req)"

text \<open>The CPUs of the NUMA nodes that are named by the request, or else have memory for all of it.\<close>

definition numa_candidates :: "staticPolicy \<Rightarrow> VMResources \<Rightarrow> CPUSet" where
  "numa_candidates p req =
     (if vm_NUMANodes req \<noteq> []
      then \<Union> (set (map (\<lambda>(i, node). CPUsInNUMANodes (Details (cpuTopology p)) [i]) (vm_NUMANodes req)))
      else \<Union> (set (map (\<lambda>(i, mem). CPUsInNUMANodes (Details (cpuTopology p)) [i])
                    (filter (\<lambda>(i, mem). Memory req \<le> mem) (numaNodes p)))))"

text \<open>The NUMA layout of the guest: consecutive ranges of its CPUs, one for each NUMA node in use.\<close>

fun guest_layout :: "CPUDetails \<Rightarrow> CPUSet \<Rightarrow> uint64 \<Rightarrow> int list \<Rightarrow> int \<Rightarrow> (int, NUMANodeState) go_map" where
  "guest_layout d cpus mem [] inx = []"
| "guest_layout d cpus mem (i # is) inx =
     (let numaCPUs = cpus \<inter> CPUsInNUMANodes d [i]
      in if Size numaCPUs > 0
         then (i, \<lparr>ns_CPUs = show_int inx @ ''-'' @ show_int (inx + Size numaCPUs - 1),
                   ns_Memory = mem div 1024 div 1024, ns_Policy = ''bind''\<rparr>)
              # guest_layout d cpus mem is (inx + Size numaCPUs)
         else guest_layout d cpus mem is inx)"

definition maps_Copy :: "('k, 'v) go_map \<Rightarrow> ('k, 'v) go_map \<Rightarrow> ('k, 'v) go_map" where
  "maps_Copy dst src = foldl (\<lambda>m (k, v). go_update m k v) dst src"

definition charge_nodes :: "(int, NUMANodeState) go_map \<Rightarrow> (int, uint64) go_map \<Rightarrow> (int, uint64) go_map" where
  "charge_nodes nodes m =
     foldl (\<lambda>m (i, node). go_update m i (go_lookup 0 m i - node_bytes node)) m nodes"

definition refund_nodes :: "(int, NUMANodeState) go_map \<Rightarrow> (int, uint64) go_map \<Rightarrow> (int, uint64) go_map" where
  "refund_nodes nodes m =
     foldl (\<lambda>m (i, node). if map_of m i = None then m
                          else go_update m i (go_lookup 0 m i + node_bytes node)) m nodes"

text \<open>The second half of \<open>Allocate\<close>: the CPUs are booked and the request is filled in.\<close>

definition static_book :: "staticPolicy \<Rightarrow> VMResources \<Rightarrow> CPUSet \<Rightarrow> staticPolicy \<times> VMResources" where
  "static_book p req cpus =
     (let d = Details (cpuTopology p);
          layout = guest_layout d cpus (Memory req) (List (NUMANodes d)) 0;
          req' = req\<lparr>vm_CPUSet := cpus, vm_NUMANodes := maps_Copy (vm_NUMANodes req) layout\<rparr>
      in (p\<lparr>usedCPUs := usedCPUs p \<union> cpus, availableCPUs := availableCPUs p - cpus,
            numaNodes := charge_nodes (vm_NUMANodes req') (numaNodes p),
            assignedMemory := assignedMemory p + Memory req\<rparr>, req'))"

definition static_Allocate :: "staticPolicy policy_operation" where
  "static_Allocate p req =
     (if vm_CPUs req \<le> 0 \<and> Memory req = 0 then Inr (p, req)
      else if assignedMemory p + Memory req > availableMemory p
      then Inl (NotEnoughMemory (Memory req) (availableMemory p - assignedMemory p))
      else if assignedCPUs p + vm_CPUs req > Size (availableCPUs p)
      then Inl (NotEnoughFreeCPUs (vm_CPUs req) (Size (availableCPUs p) - assignedCPUs p))
      else case numa_short p req of
             Some (i, node) \<Rightarrow> Inl (NotEnoughNUMAMemory i)
           | None \<Rightarrow>
               (case static_takeByTopology p (availableCPUs p \<inter> numa_candidates p req) (vm_CPUs req) of
                  None \<Rightarrow> Inl NoReturn
                | Some (Inl e) \<Rightarrow> Inl (NoCPUAssignment e)
                | Some (Inr cpus) \<Rightarrow> Inr (static_book p req cpus)))"

section \<open>Update and release\<close>

definition static_AllocateOrUpdate :: "staticPolicy policy_operation" where
  "static_AllocateOrUpdate p req =
     (if vm_CPUs req \<le> 0 \<and> IsEmpty (vm_CPUSet req) \<and> Memory req = 0 then Inr (p, req)
      else if assignedMemory p + Memory req > availableMemory p
      then Inl (NotEnoughMemory (Memory req) (availableMemory p - assignedMemory p))
      else case numa_short p req of
             Some (i, node) \<Rightarrow> Inl (NotEnoughNUMAMemory i)
           | None \<Rightarrow>
               let totalMem = foldl (\<lambda>sum (i, node). sum + node_bytes node) 0 (vm_NUMANodes req)
               in if totalMem > 0 \<and> totalMem \<noteq> Memory req then Inl NUMAMemoryMismatch
                  else (case assign_cpus p req of
                         Inl e \<Rightarrow> Inl e
                       | Inr p1 \<Rightarrow>
                           Inr (p1\<lparr>numaNodes := charge_nodes (vm_NUMANodes req) (numaNodes p1),
                                   assignedMemory := assignedMemory p1 + Memory req\<rparr>, req)))"

definition static_Release :: "staticPolicy policy_operation" where
  "static_Release p req =
     (if vm_CPUs req = 0 \<and> IsEmpty (vm_CPUSet req) \<and> Memory req = 0 then Inr (p, req)
      else if assignedMemory p < Memory req
      then Inl (CannotReleaseMemory (Memory req) (assignedMemory p))
      else case free_cpus p req of
             Inl e \<Rightarrow> Inl e
           | Inr p1 \<Rightarrow>
               Inr (p1\<lparr>numaNodes := refund_nodes (vm_NUMANodes req) (numaNodes p1),
                       assignedMemory := assignedMemory p1 - Memory req\<rparr>, req))"

section \<open>The invariant\<close>

definition static_inv :: "staticPolicy \<Rightarrow> bool" where
  "static_inv p \<longleftrightarrow>
     base_inv p \<and> topology_ok (cpuTopology p) \<and> allCPUs p = CPUs (Details (cpuTopology p)) \<and>
     options p = static_options"

lemma static_invD:
  assumes "static_inv p"
  shows "base_inv p" "topology_ok (cpuTopology p)" "allCPUs p = CPUs (Details (cpuTopology p))"
    "options p = static_options"
  using assms by (auto simp: static_inv_def)

lemma NewStaticPolicy_inv:
  assumes "NewStaticPolicy (Some t) reserved mem = Inr p"
    and "TotalMemory (MemTopo t) < 2 ^ 63" and "topology_ok (CPUTopo t)"
  shows "static_inv p"
proof -
  let ?T = "TotalMemory (MemTopo t)"
  have "mem < ?T" and p: "p = \<lparr>allCPUs = CPUs (Details (CPUTopo t)),
      availableCPUs = CPUs (Details (CPUTopo t)) - set reserved, usedCPUs = {},
      reservedCPUs = set reserved, assignedCPUs = 0, availableMemory = ?T - mem, assignedMemory = 0,
      cpuTopology = CPUTopo t, cpuGroupSize = CPUsPerCore (CPUTopo t), memTopology = MemTopo t,
      numaNodes = MemNUMANodes (MemTopo t), options = static_options\<rparr>"
    using assms(1) by (auto simp: NewStaticPolicy_def Let_def split: if_splits)
  then have "?T - mem \<le> ?T" by (simp add: word_sub_le)
  with assms(2,3) p show ?thesis by (auto simp: static_inv_def base_inv_def)
qed

lemma static_take_result:
  assumes "static_inv p" and "0 \<le> n" and "static_takeByTopology p avail n = Some (Inr s)"
  shows "s \<subseteq> avail" "Size s = n"
  using packed_result [OF static_invD(2) [OF assms(1)] assms(2), of avail CPUSortingStrategyPacked True s]
    assms(3) static_invD(4) [OF assms(1)]
  by (auto simp: static_takeByTopology_def static_options_def Let_def allocates_def)

text \<open>A granted allocation is either empty or books CPUs that were available.\<close>

lemma static_Allocate_granted:
  assumes "static_inv p" and "0 \<le> vm_CPUs req" and "static_Allocate p req = Inr (p', req')"
  obtains (idle) "vm_CPUs req = 0" "Memory req = 0" "p' = p" "req' = req"
  | (booked) cpus where "cpus \<subseteq> availableCPUs p \<inter> numa_candidates p req" "Size cpus = vm_CPUs req"
      "(p', req') = static_book p req cpus" "assignedMemory p + Memory req \<le> availableMemory p"
      "numa_short p req = None" "\<not> (vm_CPUs req = 0 \<and> Memory req = 0)"
proof (cases "vm_CPUs req \<le> 0 \<and> Memory req = 0")
  case True
  with assms(2,3) show thesis by (intro idle) (auto simp: static_Allocate_def)
next
  case False
  with assms(3) obtain cpus where
    "static_takeByTopology p (availableCPUs p \<inter> numa_candidates p req) (vm_CPUs req) = Some (Inr cpus)"
    "(p', req') = static_book p req cpus" "numa_short p req = None"
    "assignedMemory p + Memory req \<le> availableMemory p"
    by (auto simp: static_Allocate_def not_less split: if_splits option.splits sum.splits)
  with False static_take_result [OF assms(1,2)] show thesis by (intro booked [of cpus]) auto
qed

lemma static_book_simps:
  assumes "(p', req') = static_book p req cpus"
  shows "usedCPUs p' = usedCPUs p \<union> cpus" "availableCPUs p' = availableCPUs p - cpus"
    "assignedMemory p' = assignedMemory p + Memory req" "availableMemory p' = availableMemory p"
    "allCPUs p' = allCPUs p" "reservedCPUs p' = reservedCPUs p" "assignedCPUs p' = assignedCPUs p"
    "cpuTopology p' = cpuTopology p" "options p' = options p" "vm_CPUSet req' = cpus"
    "Memory req' = Memory req" "vm_CPUs req' = vm_CPUs req"
    "numaNodes p' = charge_nodes (vm_NUMANodes req') (numaNodes p)"
  using assms by (simp_all add: static_book_def Let_def)

lemma static_Allocate_inv:
  assumes "static_inv p" and "base_request p req" and "static_Allocate p req = Inr (p', req')"
  shows "static_inv p'"
proof -
  have "0 \<le> vm_CPUs req" using assms(2) by (simp add: base_request_def)
  from assms(1) this assms(3) show ?thesis
  proof (cases rule: static_Allocate_granted)
    case (booked cpus)
    from assms(1) booked(1,4) static_book_simps [OF booked(3)] show ?thesis
      by (auto simp: static_inv_def base_inv_def)
  qed (use assms in simp)
qed

lemma assign_cpus_static:
  fixes p p1 :: staticPolicy
  assumes "assign_cpus p req = Inr p1"
  shows "cpuTopology p1 = cpuTopology p" "options p1 = options p" "numaNodes p1 = numaNodes p"
  using assms by (auto simp: assign_cpus_def Let_def split: if_splits)

lemma free_cpus_static:
  fixes p p1 :: staticPolicy
  assumes "free_cpus p req = Inr p1"
  shows "cpuTopology p1 = cpuTopology p" "options p1 = options p" "numaNodes p1 = numaNodes p"
  using assms by (auto simp: free_cpus_def Let_def split: if_splits)

lemma static_inv_memory:
  "static_inv p \<Longrightarrow> m \<le> availableMemory p \<Longrightarrow> static_inv (p\<lparr>numaNodes := x, assignedMemory := m\<rparr>)"
  by (simp add: static_inv_def base_inv_def)

lemma static_AllocateOrUpdate_inv:
  assumes inv: "static_inv p" and req: "base_request p req"
    and upd: "static_AllocateOrUpdate p req = Inr (p', req')"
  shows "static_inv p'"
proof (cases "assign_cpus p req")
  case (Inr p1)
  note base = assign_cpus_base [OF static_invD(1) [OF inv] req Inr]
  have inv1: "static_inv p1"
    using inv base assign_cpus_static [OF Inr] by (simp add: static_inv_def)
  from upd Inr consider "p' = p"
    | "assignedMemory p + Memory req \<le> availableMemory p"
      "p' = p1\<lparr>numaNodes := charge_nodes (vm_NUMANodes req) (numaNodes p1),
               assignedMemory := assignedMemory p1 + Memory req\<rparr>"
    by (auto simp: static_AllocateOrUpdate_def not_less Let_def split: if_splits option.splits)
  then show ?thesis using inv base static_inv_memory [OF inv1] by cases auto
qed (use inv upd in \<open>auto simp: static_AllocateOrUpdate_def Let_def split: if_splits option.splits\<close>)

lemma static_Release_inv:
  assumes inv: "static_inv p" and req: "base_request p req"
    and rel: "static_Release p req = Inr (p', req')"
  shows "static_inv p'"
proof (cases "free_cpus p req")
  case (Inr p1)
  note base = free_cpus_base [OF static_invD(1) [OF inv] req Inr]
  have inv1: "static_inv p1"
    using inv base free_cpus_static [OF Inr] by (simp add: static_inv_def)
  have "Memory req \<le> assignedMemory p \<Longrightarrow> assignedMemory p - Memory req \<le> availableMemory p"
    using base_invD(8) [OF static_invD(1) [OF inv]] by (metis order_trans word_sub_le)
  with rel Inr base inv static_inv_memory [OF inv1] show ?thesis
    by (auto simp: static_Release_def not_less split: if_splits)
qed (use inv rel in \<open>auto simp: static_Release_def split: if_splits\<close>)

lemma base_inv_truncate [simp]: "base_inv (policy_base.truncate p) = base_inv p"
  by (simp add: base_inv_def policy_base.truncate_def)

lemma static_memory_sum:
  assumes "static_inv p" and "base_request p req"
  shows "unat (assignedMemory p + Memory req) = unat (assignedMemory p) + unat (Memory req)"
  using assms by (intro word_add_fits(2)) (auto simp: static_inv_def base_inv_def base_request_def)

interpretation static: node_policy static_inv base_request policy_base.truncate
  static_Allocate static_AllocateOrUpdate static_Release
proof
  fix p :: staticPolicy
  show "static_inv p \<Longrightarrow> base_inv (policy_base.truncate p)" by (simp add: static_inv_def)
next
  fix p p' :: staticPolicy and req req' :: VMResources
  assume alloc: "static_Allocate p req = Inr (p', req')"
  show "base_request p' = base_request p"
    using alloc by (intro base_request_cong)
      (auto simp: static_Allocate_def static_book_def Let_def split: if_splits option.splits sum.splits)
  assume inv: "static_inv p" and req: "base_request p req"
  show "static_inv p'" using static_Allocate_inv [OF inv req alloc] .
  have "0 \<le> vm_CPUs req" using req by (simp add: base_request_def)
  from inv this alloc static_memory_sum [OF inv req] static_book_simps(3) [of p' req' p req]
  show "unat (assignedMemory (policy_base.truncate p')) =
        unat (assignedMemory (policy_base.truncate p)) + unat (Memory req)"
    by (cases rule: static_Allocate_granted) (auto simp: policy_base.truncate_def)
next
  fix p p' :: staticPolicy and req req' :: VMResources
  assume upd: "static_AllocateOrUpdate p req = Inr (p', req')"
  show "base_request p' = base_request p"
    using upd by (intro base_request_cong)
      (auto simp: static_AllocateOrUpdate_def Let_def split: if_splits sum.splits option.splits
        dest: assign_cpus_frame)
  assume "static_inv p" "base_request p req"
  then show "static_inv p'" using upd by (rule static_AllocateOrUpdate_inv)
next
  fix p p' :: staticPolicy and req req' :: VMResources
  assume rel: "static_Release p req = Inr (p', req')"
  show "base_request p' = base_request p"
    using rel by (intro base_request_cong)
      (auto simp: static_Release_def split: if_splits sum.splits dest: free_cpus_frame)
  assume inv: "static_inv p" and req: "base_request p req"
  show "static_inv p'" using static_Release_inv [OF inv req rel] .
  show "unat (assignedMemory (policy_base.truncate p)) =
        unat (assignedMemory (policy_base.truncate p')) + unat (Memory req)"
    using rel free_cpus_base(4) [OF static_invD(1) [OF inv] req]
    by (auto simp: static_Release_def policy_base.truncate_def not_less word_sub_nat word_le_nat_alt
        split: if_splits sum.splits)
qed

section \<open>The books of the NUMA nodes\<close>

lemma charge_nodes_lookup:
  "distinct (map fst ns) \<Longrightarrow>
   map_of (charge_nodes ns m) i =
     (case map_of ns i of None \<Rightarrow> map_of m i | Some nd \<Rightarrow> Some (go_lookup 0 m i - node_bytes nd))"
proof (induction ns arbitrary: m)
  case (Cons a ns)
  obtain j nd where a: "a = (j, nd)" by (cases a)
  have "map_of ns j = None" using Cons.prems a by (simp add: map_of_eq_None_iff)
  with Cons a show ?case
    by (auto simp: charge_nodes_def go_lookup_update split: option.split)
qed (simp add: charge_nodes_def)

lemma charge_nodes_keys:
  "fst ` set ns \<subseteq> fst ` set m \<Longrightarrow> map fst (charge_nodes ns m) = map fst m"
proof (induction ns arbitrary: m)
  case (Cons a ns)
  then show ?case
    by (cases a) (auto simp: charge_nodes_def map_fst_go_update keys_go_update insert_absorb)
qed (simp add: charge_nodes_def)

lemma refund_nodes_lookup:
  "distinct (map fst ns) \<Longrightarrow>
   map_of (refund_nodes ns m) i =
     (case map_of ns i of None \<Rightarrow> map_of m i | Some nd \<Rightarrow> map_option (\<lambda>v. v + node_bytes nd) (map_of m i))"
proof (induction ns arbitrary: m)
  case (Cons a ns)
  obtain j nd where a: "a = (j, nd)" by (cases a)
  have "map_of ns j = None" using Cons.prems a by (simp add: map_of_eq_None_iff)
  with Cons a show ?case
    by (auto simp: refund_nodes_def go_lookup_def split: option.split)
qed (simp add: refund_nodes_def)

lemma refund_nodes_keys: "map fst (refund_nodes ns m) = map fst m"
proof (induction ns arbitrary: m)
  case (Cons a ns)
  obtain j nd where a: "a = (j, nd)" by (cases a)
  show ?case
  proof (cases "map_of m j")
    case (Some v)
    then have "j \<in> fst ` set m" by (force dest: map_of_SomeD)
    with Cons a Some show ?thesis by (simp add: refund_nodes_def map_fst_go_update)
  qed (use Cons a in \<open>simp add: refund_nodes_def\<close>)
qed (simp add: refund_nodes_def)

lemma refund_charge:
  assumes "go_map_ok m" and "distinct (map fst ns)" and "fst ` set ns \<subseteq> fst ` set m"
  shows "refund_nodes ns (charge_nodes ns m) = m"
proof (rule go_map_eqI)
  show "map fst (refund_nodes ns (charge_nodes ns m)) = map fst m"
    by (simp add: refund_nodes_keys charge_nodes_keys [OF assms(3)])
  then show "go_map_ok (refund_nodes ns (charge_nodes ns m))" using assms(1) by (simp add: go_map_ok_def)
  show "map_of (refund_nodes ns (charge_nodes ns m)) = map_of m"
  proof
    fix i
    have "map_of ns i \<noteq> None \<Longrightarrow> map_of m i \<noteq> None"
      using assms(3) by (auto simp: map_of_eq_None_iff)
    with assms(2) show "map_of (refund_nodes ns (charge_nodes ns m)) i = map_of m i"
      by (cases "map_of ns i"; cases "map_of m i")
        (simp_all add: refund_nodes_lookup charge_nodes_lookup go_lookup_def)
  qed
qed

section \<open>The guest layout\<close>

lemma guest_layout_keys: "set (map fst (guest_layout d cpus mem is inx)) \<subseteq> set is"
  by (induction "is" arbitrary: inx) (auto simp: Let_def)

lemma guest_layout_distinct: "distinct is \<Longrightarrow> distinct (map fst (guest_layout d cpus mem is inx))"
proof (induction "is" arbitrary: inx)
  case (Cons i "is")
  with guest_layout_keys [of d cpus mem "is"] show ?case by (auto simp: Let_def)
qed simp

lemma maps_Copy_append:
  "distinct (map fst (dst @ src)) \<Longrightarrow> maps_Copy dst src = dst @ src"
  unfolding maps_Copy_def by (rule go_update_all)

text \<open>Consecutive ranges from \<open>first\<close> up to, but not including, \<open>stop\<close>, printed as Proxmox expects.\<close>

fun ranges_ok :: "int \<Rightarrow> NUMANodeState list \<Rightarrow> int list \<Rightarrow> int \<Rightarrow> bool" where
  "ranges_ok first [] [] stop \<longleftrightarrow> first = stop"
| "ranges_ok first (n # ns) (len # lens) stop \<longleftrightarrow>
     1 \<le> len \<and> ns_CPUs n = show_int first @ ''-'' @ show_int (first + len - 1) \<and>
     ranges_ok (first + len) ns lens stop"
| "ranges_ok first ns lens stop \<longleftrightarrow> False"

lemma guest_layout_ranges:
  "ranges_ok inx (map snd (guest_layout d cpus mem is inx))
     (map (\<lambda>(i, node). Size (cpus \<inter> CPUsInNUMANodes d [i])) (guest_layout d cpus mem is inx))
     (inx + sum_list (map (\<lambda>i. Size (cpus \<inter> CPUsInNUMANodes d [i])) is))"
proof (induction "is" arbitrary: inx)
  case (Cons i "is")
  have "\<not> 0 < Size (cpus \<inter> CPUsInNUMANodes d [i]) \<Longrightarrow> Size (cpus \<inter> CPUsInNUMANodes d [i]) = 0"
    using Size_nonneg [of "cpus \<inter> CPUsInNUMANodes d [i]"] by linarith
  with Cons [of inx] Cons [of "inx + Size (cpus \<inter> CPUsInNUMANodes d [i])"] show ?case
    by (auto simp: Let_def add.assoc)
qed simp

lemma numa_sizes_sum:
  assumes "go_map_ok d" and "cpus \<subseteq> CPUs d"
  shows "sum_list (map (\<lambda>i. Size (cpus \<inter> CPUsInNUMANodes d [i])) (List (NUMANodes d))) = Size cpus"
proof -
  have fin: "finite cpus" using assms(2) by (rule finite_subset) simp
  have "sum_list (map (\<lambda>i. Size (cpus \<inter> CPUsInNUMANodes d [i])) (List (NUMANodes d))) =
        (\<Sum>i \<in> NUMANodes d. Size (cpus \<inter> CPUsInNUMANodes d [i]))"
    by (simp add: sum_list_distinct_conv_sum_set)
  also have "\<dots> = int (card (\<Union>i \<in> NUMANodes d. cpus \<inter> CPUsInNUMANodes d [i]))"
    unfolding Size_def using fin numa_block.cpusIn_disjoint [OF assms(1)]
    by (subst card_UN_disjoint) auto
  also have "(\<Union>i \<in> NUMANodes d. cpus \<inter> CPUsInNUMANodes d [i]) = cpus"
    using assms(2) by (fastforce simp: set_queries)
  finally show ?thesis by (simp add: Size_def)
qed

section \<open>Properties of the static policy\<close>

text \<open>A host with two NUMA nodes of 6 CPUs and 4 GiB each; nothing is reserved.\<close>

definition example_numa_host :: Topology where
  "example_numa_host =
     \<lparr>CPUTopo = topoDualSocketHT,
      MemTopo = \<lparr>TotalMemory = 8589934592, MemNUMANodes = [(0, 4294967296), (1, 4294967296)]\<rparr>\<rparr>"

definition example_static :: staticPolicy where
  "example_static =
     \<lparr>allCPUs = {0, 1, 2, 3, 4, 5, 6, 7, 8, 9, 10, 11},
      availableCPUs = {0, 1, 2, 3, 4, 5, 6, 7, 8, 9, 10, 11}, usedCPUs = {}, reservedCPUs = {},
      assignedCPUs = 0, availableMemory = 8589934592, assignedMemory = 0,
      cpuTopology = topoDualSocketHT, cpuGroupSize = 2,
      memTopology = \<lparr>TotalMemory = 8589934592, MemNUMANodes = [(0, 4294967296), (1, 4294967296)]\<rparr>,
      numaNodes = [(0, 4294967296), (1, 4294967296)], options = static_options\<rparr>"

lemma example_static_new: "NewStaticPolicy (Some example_numa_host) [] 0 = Inr example_static"
proof -
  have "CPUs (Details topoDualSocketHT) = {0, 1, 2, 3, 4, 5, 6, 7, 8, 9, 10, 11}"
    "CPUsPerCore topoDualSocketHT = 2" "NumCPUs topoDualSocketHT = 12"
    by code_simp+
  then show ?thesis
    by (simp add: NewStaticPolicy_def example_numa_host_def example_static_def Let_def)
qed

text \<open>
  From a newly created static policy on a regular topology, every sequence of allocations,
  updates and releases, refused ones included, keeps the books: no CPU is both available and in
  use, none is lost, and the memory of the VMs never exceeds the memory of the host.
\<close>

lemma static_policy_invariant:
  assumes "NewStaticPolicy (Some t) reserved mem = Inr p"
    and "TotalMemory (MemTopo t) < 2 ^ 63" and "topology_ok (CPUTopo t)"
    and "\<forall>r \<in> set rs. base_request p (request_of r)"
  shows "base_inv (foldl (policy_call static_Allocate static_AllocateOrUpdate static_Release) p rs)"
  using assms(4) NewStaticPolicy_inv [OF assms(1-3)] static.run_inv [of p rs] static_invD(1) by blast

lemma topoDualSocketHT_ok: "topology_ok topoDualSocketHT"
  by code_simp

text \<open>
  C4. A VM admitted by the static policy has its CPUs for itself: exactly as many as it asked
  for, all of them available before and used afterwards, none used by another VM or reserved, and
  each on a NUMA node that had memory for the whole VM. The topology of the host is regular, and the
  request names no NUMA nodes itself, as those of \<open>instanceCreate\<close> do not.
\<close>

theorem static_Allocate_exclusive:
  assumes inv: "static_inv p" and req: "base_request p req" and "1 \<le> vm_CPUs req"
    and "vm_NUMANodes req = []" and "go_map_ok (numaNodes p)"
    and alloc: "static_Allocate p req = Inr (p', req')"
  shows "Size (vm_CPUSet req') = vm_CPUs req \<and> vm_CPUSet req' \<subseteq> availableCPUs p \<and>
         vm_CPUSet req' \<inter> (usedCPUs p \<union> reservedCPUs p) = {} \<and>
         vm_CPUSet req' \<subseteq> usedCPUs p' \<and> vm_CPUSet req' \<inter> availableCPUs p' = {} \<and>
         (\<forall>c \<in> vm_CPUSet req'. \<exists>i. c \<in> CPUsInNUMANodes (Details (cpuTopology p)) [i] \<and>
            Memory req \<le> go_lookup 0 (numaNodes p) i)"
proof -
  have "0 \<le> vm_CPUs req" using assms(3) by simp
  from inv this alloc show ?thesis
  proof (cases rule: static_Allocate_granted)
    case (booked cpus)
    have "\<exists>i. c \<in> CPUsInNUMANodes (Details (cpuTopology p)) [i] \<and> Memory req \<le> go_lookup 0 (numaNodes p) i"
      if "c \<in> cpus" for c
    proof -
      have "c \<in> numa_candidates p req" using that booked(1) by blast
      then obtain i mem where "(i, mem) \<in> set (numaNodes p)" "Memory req \<le> mem"
        "c \<in> CPUsInNUMANodes (Details (cpuTopology p)) [i]"
        using assms(4) by (auto simp: numa_candidates_def)
      with assms(5) show ?thesis
        by (auto simp: go_lookup_def go_map_ok_def intro!: exI [of _ i])
    qed
    with booked base_invD(5,6) [OF static_invD(1) [OF inv]] static_book_simps [OF booked(3)]
    show ?thesis by auto
  qed (use assms(3) in simp)
qed

lemma example_static_inv: "static_inv example_static"
  by (rule NewStaticPolicy_inv [OF example_static_new])
    (simp_all add: example_numa_host_def topoDualSocketHT_ok)

lemma example_static_grant:
  "\<not> isl (static_Allocate example_static (example_vm 4 {} 1073741824))"
  by code_simp

theorem static_Allocate_exclusive_witness:
  "\<exists>p' req'. static_Allocate example_static (example_vm 4 {} 1073741824) = Inr (p', req') \<and>
     Size (vm_CPUSet req') = vm_CPUs (example_vm 4 {} 1073741824)"
proof -
  obtain p' req' where alloc:
    "static_Allocate example_static (example_vm 4 {} 1073741824) = Inr (p', req')"
    using example_static_grant by (metis isl_def obj_sumE surj_pair)
  then have "Size (vm_CPUSet req') = vm_CPUs (example_vm 4 {} 1073741824)"
    using static_Allocate_exclusive [OF example_static_inv _ _ _ _ alloc]
    by (simp add: example_vm_def base_request_def example_static_def go_map_ok_def)
  with alloc show ?thesis by blast
qed

text \<open>
  C18. What the static policy reports, together with the CPUs of the NUMA nodes that have memory
  for the whole VM, decides an allocation: it is granted if and only if the CPUs and the memory
  are within the reported figures and enough of those CPUs are available.
\<close>

theorem static_Allocate_iff_available:
  assumes inv: "static_inv p" and req: "base_request p req" and "1 \<le> vm_CPUs req"
    and "reservedCPUs p \<subseteq> allCPUs p" and "vm_NUMANodes req = []"
  shows "(\<exists>p' req'. static_Allocate p req = Inr (p', req')) \<longleftrightarrow>
         vm_CPUs req \<le> static_AvailableCPUs p \<and> Memory req \<le> static_AvailableMemory p \<and>
         vm_CPUs req \<le> Size (availableCPUs p \<inter> numa_candidates p req)"
proof -
  note mem = base_invD(8,9) [OF static_invD(1) [OF inv]]
  have "Memory req < 2 ^ 63" using req by (simp add: base_request_def)
  note fits = word_add_fits(1) [OF mem this]
  have memory: "Memory req \<le> static_AvailableMemory p \<longleftrightarrow> assignedMemory p + Memory req \<le> availableMemory p"
    using mem(1) unfolding fits
    by (auto simp: static_AvailableMemory_def word_le_nat_alt word_sub_nat unat_0_iff)
  have cpus: "vm_CPUs req \<le> static_AvailableCPUs p \<longleftrightarrow>
              assignedCPUs p + vm_CPUs req \<le> Size (availableCPUs p)"
    using free_CPUs_exact [OF static_invD(1) [OF inv] assms(4)] assms(3)
    by (auto simp: static_AvailableCPUs_def)
  let ?A = "availableCPUs p \<inter> numa_candidates p req"
  have short: "numa_short p req = None" using assms(5) by (simp add: numa_short_def)
  have "?A \<subseteq> CPUs (Details (cpuTopology p))"
    using static_invD(1,3) [OF inv] by (auto simp: base_inv_def)
  then have cap: "CPUs (Details (cpuTopology p)) \<inter> ?A = ?A" by blast
  have "(\<exists>s. static_takeByTopology p ?A (vm_CPUs req) = Some (Inr s)) \<longleftrightarrow> vm_CPUs req \<le> Size ?A"
  proof
    assume "vm_CPUs req \<le> Size ?A"
    with packed_allocates [OF static_invD(2) [OF inv], of "vm_CPUs req" ?A CPUSortingStrategyPacked True] cap
      assms(3) static_invD(4) [OF inv]
    show "\<exists>s. static_takeByTopology p ?A (vm_CPUs req) = Some (Inr s)"
      by (auto simp: static_takeByTopology_def static_options_def allocates_def)
  next
    assume "\<exists>s. static_takeByTopology p ?A (vm_CPUs req) = Some (Inr s)"
    then obtain s where "static_takeByTopology p ?A (vm_CPUs req) = Some (Inr s)" ..
    note s = static_take_result [OF inv _ this]
    have "finite ?A" using base_invD(3) [OF static_invD(1) [OF inv]] by simp
    with s assms(3) show "vm_CPUs req \<le> Size ?A" using Size_mono [of ?A s] by auto
  qed
  with memory cpus short assms(3) show ?thesis
    by (auto simp: static_Allocate_def not_less split: option.splits sum.splits)
qed

theorem static_Allocate_iff_available_witness:
  "(\<exists>p' req'. static_Allocate example_static (example_vm 12 {} 1073741824) = Inr (p', req')) \<longleftrightarrow>
   vm_CPUs (example_vm 12 {} 1073741824) \<le> static_AvailableCPUs example_static \<and>
   Memory (example_vm 12 {} 1073741824) \<le> static_AvailableMemory example_static \<and>
   vm_CPUs (example_vm 12 {} 1073741824) \<le>
     Size (availableCPUs example_static \<inter> numa_candidates example_static (example_vm 12 {} 1073741824))"
  by (rule static_Allocate_iff_available [OF example_static_inv])
    (auto simp: example_static_def example_vm_def base_request_def)

lemma static_roundtrip:
  assumes inv: "static_inv p" and req: "base_request p req" and "vm_CPUSet req = {}"
    and "vm_NUMANodes req = []" and books: "go_map_ok (numaNodes p)"
    and nodes: "NUMANodes (Details (cpuTopology p)) \<subseteq> fst ` set (numaNodes p)"
    and alloc: "static_Allocate p req = Inr (p', req')"
  shows "static_Release p' req' = Inr (p, req')"
proof -
  have "0 \<le> vm_CPUs req" using req by (simp add: base_request_def)
  from inv this alloc show ?thesis
  proof (cases rule: static_Allocate_granted)
    case idle
    with assms(3) show ?thesis by (simp add: static_Release_def IsEmpty_def)
  next
    case (booked cpus)
    note book = static_book_simps [OF booked(3)]
    let ?d = "Details (cpuTopology p)"
    let ?layout = "guest_layout ?d cpus (Memory req) (List (NUMANodes ?d)) 0"
    have layout: "vm_NUMANodes req' = ?layout"
      using booked(3) assms(4) guest_layout_distinct [of "List (NUMANodes ?d)" ?d cpus "Memory req" 0]
      by (simp add: static_book_def Let_def maps_Copy_append)
    have "fst ` set ?layout \<subseteq> fst ` set (numaNodes p)"
      using guest_layout_keys [of ?d cpus "Memory req" "List (NUMANodes ?d)" 0] nodes by auto
    then have refund: "refund_nodes (vm_NUMANodes req') (charge_nodes (vm_NUMANodes req') (numaNodes p)) = numaNodes p"
      unfolding layout by (intro refund_charge [OF books] guest_layout_distinct) simp_all
    have mem: "\<not> assignedMemory p + Memory req < Memory req"
      using static_memory_sum [OF inv req] by (simp add: word_less_nat_alt)
    have fin: "finite cpus" using booked(1) base_invD(3) [OF static_invD(1) [OF inv]]
      by (meson finite_subset le_infE)
    have free: "cpus - reservedCPUs p = cpus" "usedCPUs p \<union> cpus - cpus = usedCPUs p"
      "availableCPUs p - cpus \<union> cpus = availableCPUs p"
      using booked(1) base_invD(5,6) [OF static_invD(1) [OF inv]] by auto
    have "p' = p\<lparr>usedCPUs := usedCPUs p \<union> cpus, availableCPUs := availableCPUs p - cpus,
                 numaNodes := charge_nodes (vm_NUMANodes req') (numaNodes p),
                 assignedMemory := assignedMemory p + Memory req\<rparr>"
      using booked(3) by (simp add: static_book_def Let_def)
    with booked(2,6) book mem free refund fin show ?thesis
      by (auto simp: static_Release_def free_cpus_def IsEmpty_iff)
  qed
qed

text \<open>
  C19. The NUMA layout written into an admitted request covers the CPUs of the guest: its ranges
  are consecutive, start at 0, end at the last CPU, and each is as long as the number of host
  CPUs the VM got on that NUMA node.
\<close>

theorem static_guest_layout:
  assumes inv: "static_inv p" and "1 \<le> vm_CPUs req" and "vm_NUMANodes req = []"
    and alloc: "static_Allocate p req = Inr (p', req')"
  shows "ranges_ok 0 (map snd (vm_NUMANodes req'))
           (map (\<lambda>(i, node). Size (vm_CPUSet req' \<inter> CPUsInNUMANodes (Details (cpuTopology p)) [i]))
              (vm_NUMANodes req'))
           (vm_CPUs req)"
proof -
  have "0 \<le> vm_CPUs req" using assms(2) by simp
  from inv this alloc show ?thesis
  proof (cases rule: static_Allocate_granted)
    case (booked cpus)
    let ?d = "Details (cpuTopology p)"
    let ?layout = "guest_layout ?d cpus (Memory req) (List (NUMANodes ?d)) 0"
    have layout: "vm_NUMANodes req' = ?layout"
      using booked(3) assms(3) guest_layout_distinct [of "List (NUMANodes ?d)" ?d cpus "Memory req" 0]
      by (simp add: static_book_def Let_def maps_Copy_append)
    have "cpus \<subseteq> CPUs ?d"
      using booked(1) base_invD(5) [OF static_invD(1) [OF inv]] static_invD(3) [OF inv] by blast
    then have "sum_list (map (\<lambda>i. Size (cpus \<inter> CPUsInNUMANodes ?d [i])) (List (NUMANodes ?d))) = vm_CPUs req"
      using numa_sizes_sum [OF topology_okD(1) [OF static_invD(2) [OF inv]]] booked(2) by simp
    with guest_layout_ranges [of 0 ?d cpus "Memory req" "List (NUMANodes ?d)"] layout
      static_book_simps(10) [OF booked(3)]
    show ?thesis by simp
  qed (use assms(2) in simp)
qed

theorem static_guest_layout_witness:
  "\<exists>p' req'. static_Allocate example_static (example_vm 4 {} 1073741824) = Inr (p', req') \<and>
     ranges_ok 0 (map snd (vm_NUMANodes req'))
       (map (\<lambda>(i, node). Size (vm_CPUSet req' \<inter> CPUsInNUMANodes (Details (cpuTopology example_static)) [i]))
          (vm_NUMANodes req'))
       (vm_CPUs (example_vm 4 {} 1073741824))"
proof -
  obtain p' req' where alloc:
    "static_Allocate example_static (example_vm 4 {} 1073741824) = Inr (p', req')"
    using example_static_grant by (metis isl_def obj_sumE surj_pair)
  moreover note static_guest_layout [OF example_static_inv _ _ alloc]
  ultimately show ?thesis by (simp add: example_vm_def)
qed

text \<open>
  The layout gives every NUMA node the memory of the whole VM. A VM of 8 CPUs and 1 GiB that
  spans two NUMA nodes is booked with 1 GiB on each of them, and the request it comes back with is
  one that \<open>AllocateOrUpdate\<close> refuses, even on the empty host.
\<close>

lemma static_spanning_vm_memory:
  "case static_Allocate example_static (example_vm 8 {} 1073741824) of
     Inl e \<Rightarrow> False
   | Inr (p', req') \<Rightarrow>
       numaNodes p' = [(0, 3221225472), (1, 3221225472)] \<and> assignedMemory p' = 1073741824 \<and>
       static_AllocateOrUpdate example_static req' = Inl NUMAMemoryMismatch"
  by code_simp

text \<open>
  When the request names a NUMA node, \<open>Allocate\<close> tests the memory the request wants from
  that node but books the memory of the whole VM there: with 5 GiB on a node of 4 GiB the free
  memory of the node wraps around to almost \<open>2 ^ 64\<close> bytes.
\<close>

lemma static_named_node_wraps:
  "case static_Allocate example_static
          ((example_vm 2 {} 5368709120)\<lparr>vm_NUMANodes := [(0, \<lparr>ns_CPUs = [], ns_Memory = 0, ns_Policy = []\<rparr>)]\<rparr>) of
     Inl e \<Rightarrow> False
   | Inr (p', req') \<Rightarrow> go_lookup 0 (numaNodes p') 0 = - 1073741824"
  by code_simp

end
