(* ===== verification/GoStrings.thy ===== *)
theory GoStrings
  imports Prelude
begin

text \<open>
  The functions of the Go packages \<open>strings\<close> and \<open>strconv\<close> that the sources use, on strings
  as lists of characters, with the facts the components need: splitting undoes joining, and
  \<open>Atoi\<close> reads back what \<open>%d\<close> prints.
\<close>

section \<open>Package strings\<close>

definition HasPrefix :: "string \<Rightarrow> string \<Rightarrow> bool" where
  "HasPrefix s p \<longleftrightarrow> take (length p) s = p"

fun Contains :: "string \<Rightarrow> string \<Rightarrow> bool" where
  "Contains [] p \<longleftrightarrow> p = []"
| "Contains (c # s) p \<longleftrightarrow> HasPrefix (c # s) p \<or> Contains s p"

text \<open>\<open>strings.Split\<close> with a separator of one character.\<close>

fun Split :: "string \<Rightarrow> char \<Rightarrow> string list" where
  "Split [] sep = [[]]"
| "Split (c # s) sep =
     (if c = sep then [] # Split s sep
      else (case Split s sep of [] \<Rightarrow> [[c]] | w # ws \<Rightarrow> (c # w) # ws))"

fun Join :: "string list \<Rightarrow> string \<Rightarrow> string" where
  "Join [] sep = []"
| "Join [w] sep = w"
| "Join (w # v # ws) sep = w @ sep @ Join (v # ws) sep"

lemma HasPrefix_append [simp]: "HasPrefix (p @ s) p"
  by (simp add: HasPrefix_def)

lemma Split_not_empty [simp]: "Split s sep \<noteq> []"
  by (cases s) (auto split: list.split)

lemma Split_word: "sep \<notin> set w \<Longrightarrow> Split w sep = [w]"
  by (induction w) auto

lemma Split_append: "sep \<notin> set w \<Longrightarrow> Split (w @ sep # s) sep = w # Split s sep"
  by (induction w) auto

lemma Split_Join:
  "ws \<noteq> [] \<Longrightarrow> (\<And>w. w \<in> set ws \<Longrightarrow> sep \<notin> set w) \<Longrightarrow> Split (Join ws [sep]) sep = ws"
proof (induction ws "[sep]" rule: Join.induct)
  case (2 w)
  then show ?case by (simp add: Split_word)
next
  case (3 w v ws)
  then show ?case by (simp add: Split_append)
qed simp

lemma Split_words: "w \<in> set (Split s sep) \<Longrightarrow> sep \<notin> set w"
proof (induction s arbitrary: w)
  case (Cons c s)
  then show ?case by (cases "Split s sep") (auto split: if_splits)
qed simp

lemma Join_Split: "Join (Split s sep) [sep] = s"
proof (induction s)
  case (Cons c s)
  then show ?case
    by (cases "Split s sep"; cases "tl (Split s sep)") auto
qed simp

section \<open>Package strconv\<close>

definition digit_value :: "char \<Rightarrow> int option" where
  "digit_value c = (let v = int (of_char c) - 48 in if 0 \<le> v \<and> v \<le> 9 then Some v else None)"

fun read_digits :: "string \<Rightarrow> int \<Rightarrow> int option" where
  "read_digits [] acc = Some acc"
| "read_digits (c # s) acc =
     (case digit_value c of None \<Rightarrow> None | Some v \<Rightarrow> read_digits s (10 * acc + v))"

text \<open>An optional sign, at least one digit, and a value within the range of a 64-bit integer.\<close>

definition Atoi :: "string \<Rightarrow> int option" where
  "Atoi s =
     (let (neg, ds) = (case s of [] \<Rightarrow> (False, [])
                       | c # r \<Rightarrow> if c = CHR ''-'' then (True, r)
                                 else if c = CHR ''+'' then (False, r) else (False, s))
      in if ds = [] then None
         else case read_digits ds 0 of
                None \<Rightarrow> None
              | Some n \<Rightarrow>
                  let v = (if neg then - n else n)
                  in if - (2 ^ 63) \<le> v \<and> v < 2 ^ 63 then Some v else None)"

text \<open>
  The number \<open>Atoi\<close> returns beside an error, for callers that drop the error: the nearest 64-bit integer
  when the value is out of range, and 0 when the text is no number.
\<close>

definition Atoi_value :: "string \<Rightarrow> int" where
  "Atoi_value s =
     (case Atoi s of
        Some v \<Rightarrow> v
      | None \<Rightarrow>
          if s = [] then 0
          else if hd s = CHR ''-'' \<and> tl s \<noteq> [] \<and> read_digits (tl s) 0 \<noteq> None then - (2 ^ 63)
          else if hd s = CHR ''+'' \<and> tl s \<noteq> [] \<and> read_digits (tl s) 0 \<noteq> None \<or> read_digits s 0 \<noteq> None then 2 ^ 63 - 1
          else 0)"

lemma read_digits_append:
  "read_digits (s @ t) acc = (case read_digits s acc of None \<Rightarrow> None | Some n \<Rightarrow> read_digits t n)"
  by (induction s arbitrary: acc) (auto split: option.split)

lemma digit_value_digit_char [simp]: "d < 10 \<Longrightarrow> digit_value (digit_char d) = Some (int d)"
  by (simp add: digit_value_def digit_char_def)

lemma read_show_nat: "read_digits (show_nat n) 0 = Some (int n)"
proof (induction n rule: show_nat.induct)
  case (1 n)
  show ?case
  proof (cases "n < 10")
    case True
    then show ?thesis by (subst show_nat.simps) simp
  next
    case False
    have "10 * int (n div 10) + int (n mod 10) = int n" by presburger
    with False 1 show ?thesis
      by (subst show_nat.simps) (simp add: read_digits_append)
  qed
qed

lemma digit_char_plain: "d < 10 \<Longrightarrow> digit_char d \<noteq> CHR ''-'' \<and> digit_char d \<noteq> CHR ''+'' \<and>
   digit_char d \<noteq> CHR ''/'' \<and> digit_char d \<noteq> CHR '',''"
  by (rule ccontr) (auto simp: digit_char_def dest!: arg_cong [where f = "of_char :: char \<Rightarrow> nat"])

lemma digit_char_letters: "d < 10 \<Longrightarrow> digit_char d \<noteq> CHR ''V'' \<and> digit_char d \<noteq> CHR ''G''"
  by (rule ccontr) (auto simp: digit_char_def dest!: arg_cong [where f = "of_char :: char \<Rightarrow> nat"])

lemma show_nat_chars: "c \<in> set (show_nat n) \<Longrightarrow> \<exists>d < 10. c = digit_char d"
proof (induction n rule: show_nat.induct)
  case (1 n)
  show ?case
  proof (cases "n < 10")
    case True
    with 1 show ?thesis by (subst (asm) (2) show_nat.simps) auto
  next
    case False
    with 1 have "c \<in> set (show_nat (n div 10)) \<or> c = digit_char (n mod 10)"
      by (subst (asm) (2) show_nat.simps) auto
    with 1 False show ?thesis by (auto intro: exI [of _ "n mod 10"])
  qed
qed

lemma show_nat_not_empty [simp]: "show_nat n \<noteq> []"
  by (subst show_nat.simps) simp

lemma show_nat_plain:
  "CHR ''-'' \<notin> set (show_nat n)" "CHR ''/'' \<notin> set (show_nat n)" "CHR '','' \<notin> set (show_nat n)"
  "CHR ''+'' \<notin> set (show_nat n)"
  using show_nat_chars [of _ n] digit_char_plain by metis+

lemma show_nat_letters: "CHR ''V'' \<notin> set (show_nat n)" "CHR ''G'' \<notin> set (show_nat n)"
  using show_nat_chars [of _ n] digit_char_letters by metis+

lemma show_int_plain: "CHR ''/'' \<notin> set (show_int i)" "CHR '','' \<notin> set (show_int i)"
  by (simp_all add: show_int_def show_nat_plain)

lemma show_int_not_empty [simp]: "show_int i \<noteq> []"
  by (simp add: show_int_def)

lemma show_nat_inj: "show_nat a = show_nat b \<Longrightarrow> a = b"
  using read_show_nat by (metis of_nat_eq_iff option.inject)

lemma show_int_inj: "show_int i = show_int j \<Longrightarrow> i = j"
  using show_nat_plain(1) by (auto simp: show_int_def dest: show_nat_inj split: if_splits)
    (metis list.set_intros(1))+

text \<open>A separator that occurs in neither prefix splits a string in one way.\<close>

lemma separated_eq:
  "c \<notin> set xs \<Longrightarrow> c \<notin> set ys \<Longrightarrow> xs @ c # us = ys @ c # vs \<Longrightarrow> xs = ys \<and> us = vs"
proof (induction xs arbitrary: ys)
  case Nil
  then show ?case by (cases ys) auto
next
  case (Cons x xs)
  then show ?case by (cases ys) auto
qed

lemma Atoi_show_int: "- (2 ^ 63) \<le> i \<Longrightarrow> i < 2 ^ 63 \<Longrightarrow> Atoi (show_int i) = Some i"
proof -
  assume range: "- (2 ^ 63) \<le> i" "i < 2 ^ 63"
  obtain c r where s: "show_nat (nat i) = c # r" by (cases "show_nat (nat i)") auto
  have "c \<noteq> CHR ''-''" "c \<noteq> CHR ''+''"
    using show_nat_plain(1,4) [of "nat i"] s by auto
  with s range read_show_nat [of "nat i"] read_show_nat [of "nat (- i)"] show ?thesis
    by (auto simp: Atoi_def show_int_def Let_def)
qed

end
