(* ===== verification/Discovery.thy ===== *)
theory Discovery
  imports NUMAPacked GoStrings
begin

text \<open>
  How the topology of a host is found: the settings predicted from the CPU model
  (\<open>src/pkg/utils/nodesettings/cpu.go\<close>), the settings themselves
  (\<open>src/pkg/providers/cloudcapacity/resourcemanager/settings\<close>), and the topology built from
  them or from a cAdvisor report
  (\<open>src/pkg/providers/cloudcapacity/cpumanager/topology/discovery.go\<close>).

  The text form of a CPU set is read and written by \<open>k8s.io/utils/cpuset\<close>; its \<open>Parse\<close> and
  \<open>String\<close> are the arguments \<open>parse\<close> and \<open>render\<close> of the definitions, and
  \<open>cpuset_laws\<close> is what the theorems assume of them.
\<close>

section \<open>Settings\<close>

record NUMAInfo =
  ni_CPUs :: string
  MemSize :: uint64

record NodeSettings =
  NumCoresSetting :: int
  NumSocketsSetting :: int
  NumThreads :: int
  NumUncoreCaches :: int
  NUMANodesSetting :: "(int, NUMAInfo) go_map"
  ReservedCPUs :: "int list"
  ReservedMemory :: uint64

text \<open>What the code reads of a \<open>proxmox.Node\<close>.\<close>

record proxmox_Node =
  node_CPUs :: int
  node_Cores :: int
  node_Sockets :: int
  node_Model :: string
  node_Memory :: uint64

datatype discovery_error =
    IncompleteCPUInfo
  | NUMACPUsParse int
  | NilNode
  | NoNodeSettings
  | IncompleteSettings
  | NoNumberOfCPUs
  | BadCore topology_error

type_synonym NodeSettingsConfig = "(string, (string, NodeSettings) go_map) go_map"

text \<open>
  \<open>LoadNodeSettingsFromFile\<close> after the file has been read and decoded: the entry of the zone,
  or else of \<open>*\<close>, in the region.
\<close>

definition settings_of_zone :: "NodeSettingsConfig \<Rightarrow> string \<Rightarrow> string \<Rightarrow> NodeSettings option" where
  "settings_of_zone config region zone =
     (case map_of config region of
        None \<Rightarrow> None
      | Some c \<Rightarrow>
          (case map_of c zone of Some params \<Rightarrow> Some params | None \<Rightarrow> map_of c ''*''))"

section \<open>Settings predicted from the CPU model\<close>

text \<open>The text of the CPUs of one NUMA node: a block of cores and, with threads, their siblings.\<close>

definition numa_cpu_list :: "int \<Rightarrow> int \<Rightarrow> int \<Rightarrow> int \<Rightarrow> string" where
  "numa_cpu_list cores threads nps i =
     (let cpuPerNuma = go_div cores nps;
          startCPU = i * cpuPerNuma;
          endCPU = startCPU + cpuPerNuma;
          threadStartCPU = startCPU + cores;
          threadEndCPU = threadStartCPU + cpuPerNuma
      in Join ([show_int startCPU @ ''-'' @ show_int (endCPU - 1)] @
               (if threads > 1 then [show_int threadStartCPU @ ''-'' @ show_int (threadEndCPU - 1)] else []))
           '','')"

fun fill_numa ::
  "(string \<Rightarrow> CPUSet option) \<Rightarrow> (CPUSet \<Rightarrow> string) \<Rightarrow> proxmox_Node \<Rightarrow> int \<Rightarrow> int \<Rightarrow> int list
   \<Rightarrow> (int, NUMAInfo) go_map \<Rightarrow> discovery_error + (int, NUMAInfo) go_map" where
  "fill_numa parse render n threads nps [] m = Inr m"
| "fill_numa parse render n threads nps (i # is) m =
     (case parse (numa_cpu_list (node_Cores n) threads nps i) of
        None \<Rightarrow> Inl (NUMACPUsParse i)
      | Some cpus \<Rightarrow>
          fill_numa parse render n threads nps is
            (go_update m i \<lparr>ni_CPUs = render cpus, MemSize = node_Memory n div word_of_int nps\<rparr>))"

text \<open>The shape the three models have in common: sockets, threads, and blocks of cores as NUMA nodes.\<close>

definition node_settings ::
  "(string \<Rightarrow> CPUSet option) \<Rightarrow> (CPUSet \<Rightarrow> string) \<Rightarrow> proxmox_Node \<Rightarrow> int \<Rightarrow> int
   \<Rightarrow> discovery_error + NodeSettings option" where
  "node_settings parse render n uncore nps =
     (let threads = go_div (node_CPUs n) (node_Cores n)
      in case fill_numa parse render n threads nps [0..nps - 1] [] of
           Inl e \<Rightarrow> Inl e
         | Inr numas \<Rightarrow>
             Inr (Some \<lparr>NumCoresSetting = node_Cores n, NumSocketsSetting = node_Sockets n,
                        NumThreads = threads, NumUncoreCaches = uncore, NUMANodesSetting = numas,
                        ReservedCPUs = [], ReservedMemory = 0\<rparr>))"

definition is_space :: "char \<Rightarrow> bool" where
  "is_space c \<longleftrightarrow> c \<in> {CHR '' '', CHR 0x09, CHR 0x0A, CHR 0x0C, CHR 0x0D}"

definition is_digit :: "char \<Rightarrow> bool" where
  "is_digit c \<longleftrightarrow> digit_value c \<noteq> None"

definition is_word :: "char \<Rightarrow> bool" where
  "is_word c \<longleftrightarrow>
     is_digit c \<or> c = CHR ''_'' \<or>
     (let v = (of_char c :: nat) in (65 \<le> v \<and> v \<le> 90) \<or> (97 \<le> v \<and> v \<le> 122))"

text \<open>
  The expression \<open>AMD EPYC\s? (\d)(\d)(\d)(\d)(\w*)\s+\<close>: \<open>epyc_model\<close> matches from the blank
  on, \<open>epyc_here\<close> at a position, preferring the optional white space, and \<open>epyc_match\<close> at the
  leftmost position. The result is the second and the fourth digit.
\<close>

fun epyc_model :: "string \<Rightarrow> (char \<times> char) option" where
  "epyc_model (b # d1 # d2 # d3 # d4 # rest) =
     (if b = CHR '' '' \<and> is_digit d1 \<and> is_digit d2 \<and> is_digit d3 \<and> is_digit d4 \<and>
         (case dropWhile is_word rest of [] \<Rightarrow> False | c # r \<Rightarrow> is_space c)
      then Some (d2, d4) else None)"
| "epyc_model s = None"

definition epyc_here :: "string \<Rightarrow> (char \<times> char) option" where
  "epyc_here s =
     (if HasPrefix s ''AMD EPYC''
      then let r = drop 8 s
           in case (case r of c # r' \<Rightarrow> if is_space c then epyc_model r' else None | [] \<Rightarrow> None) of
                Some m \<Rightarrow> Some m
              | None \<Rightarrow> epyc_model r
      else None)"

fun epyc_match :: "string \<Rightarrow> (char \<times> char) option" where
  "epyc_match [] = epyc_here []"
| "epyc_match (c # s) = (case epyc_here (c # s) of Some m \<Rightarrow> Some m | None \<Rightarrow> epyc_match s)"

definition coresPerCCX :: "char \<Rightarrow> int" where
  "coresPerCCX d =
     (if d = CHR ''2'' then 4 else if d = CHR ''3'' then 4 else if d = CHR ''4'' then 6
      else if d = CHR ''5'' \<or> d = CHR ''6'' then 8 else if d = CHR ''7'' \<or> d = CHR ''8'' then 8 else 0)"

definition nodesPerSocket :: "char \<Rightarrow> int" where
  "nodesPerSocket d = (if d \<in> {CHR ''1'', CHR ''2'', CHR ''4'', CHR ''5''} then 4 else 1)"

definition nodeSettingsAMDEPYC ::
  "(string \<Rightarrow> CPUSet option) \<Rightarrow> (CPUSet \<Rightarrow> string) \<Rightarrow> proxmox_Node \<Rightarrow> discovery_error + NodeSettings option" where
  "nodeSettingsAMDEPYC parse render n =
     (case epyc_match (node_Model n) of
        None \<Rightarrow> Inr None
      | Some (m2, m4) \<Rightarrow>
          let ccx = coresPerCCX m2;
              uncore = (if ccx > 0 then go_div (go_div (node_Cores n) (node_Sockets n)) ccx else 0)
          in node_settings parse render n uncore (node_Sockets n * nodesPerSocket m4))"

definition nodeSettingsAMD ::
  "(string \<Rightarrow> CPUSet option) \<Rightarrow> (CPUSet \<Rightarrow> string) \<Rightarrow> proxmox_Node \<Rightarrow> discovery_error + NodeSettings option" where
  "nodeSettingsAMD parse render n = node_settings parse render n 0 (node_Sockets n)"

definition nodeSettingsIntel ::
  "(string \<Rightarrow> CPUSet option) \<Rightarrow> (CPUSet \<Rightarrow> string) \<Rightarrow> proxmox_Node \<Rightarrow> discovery_error + NodeSettings option" where
  "nodeSettingsIntel parse render n = node_settings parse render n (node_Sockets n) (node_Sockets n)"

definition GetNodeSettingByNode ::
  "(string \<Rightarrow> CPUSet option) \<Rightarrow> (CPUSet \<Rightarrow> string) \<Rightarrow> proxmox_Node option \<Rightarrow> discovery_error + NodeSettings option" where
  "GetNodeSettingByNode parse render node =
     (case node of
        None \<Rightarrow> Inr None
      | Some n \<Rightarrow>
          if node_CPUs n = 0 \<or> node_Cores n = 0 \<or> node_Sockets n = 0 \<or> node_Model n = []
          then Inl IncompleteCPUInfo
          else if Contains (node_Model n) ''AMD EPYC'' then nodeSettingsAMDEPYC parse render n
          else if Contains (node_Model n) ''AMD'' then nodeSettingsAMD parse render n
          else if Contains (node_Model n) ''Intel'' then nodeSettingsIntel parse render n
          else Inr None)"

section \<open>The topology of the settings\<close>

fun parse_numa ::
  "(string \<Rightarrow> CPUSet option) \<Rightarrow> (int, NUMAInfo) go_map \<Rightarrow> discovery_error + (int, CPUSet) go_map" where
  "parse_numa parse [] = Inr []"
| "parse_numa parse ((i, numa) # rest) =
     (case parse (ni_CPUs numa) of
        None \<Rightarrow> Inl (NUMACPUsParse i)
      | Some cpus \<Rightarrow>
          (case parse_numa parse rest of Inl e \<Rightarrow> Inl e | Inr m \<Rightarrow> Inr ((i, cpus) # m)))"

definition cpu_info :: "int \<Rightarrow> int \<Rightarrow> int \<Rightarrow> int \<Rightarrow> int \<Rightarrow> CPUInfo" where
  "cpu_info nCores nSockets coresPerCache i cpu =
     (let coresPerSocket = max 1 (go_div nCores nSockets);
          coreID = (if cpu \<ge> nCores then cpu - nCores else cpu)
      in \<lparr>NUMANodeID = i, SocketID = go_mod (go_div cpu coresPerSocket) nSockets,
          CoreID = coreID, UncoreCacheID = go_div coreID coresPerCache\<rparr>)"

definition DiscoverFromSettings ::
  "(string \<Rightarrow> CPUSet option) \<Rightarrow> NodeSettings option \<Rightarrow> discovery_error + Topology" where
  "DiscoverFromSettings parse settings =
     (case settings of
        None \<Rightarrow> Inl IncompleteSettings
      | Some st \<Rightarrow>
          if NUMANodesSetting st = [] then Inl IncompleteSettings
          else
            (case parse_numa parse (NUMANodesSetting st) of
              Inl e \<Rightarrow> Inl e
            | Inr parsedCPUs \<Rightarrow>
                let nSockets = max 1 (NumSocketsSetting st);
                    nCache = max 1 (NumUncoreCaches st);
                    nThreads = max 1 (NumThreads st);
                    nCPUs = sum_list (map (\<lambda>(i, cpus). Size cpus) parsedCPUs);
                    nCores = sum_list (map (\<lambda>(i, cpus). go_div (Size cpus) nThreads) parsedCPUs);
                    memTotal = sum_list (map (\<lambda>(i, numa). MemSize numa) (NUMANodesSetting st));
                    memNUMA = map (\<lambda>(i, numa). (i, MemSize numa)) (NUMANodesSetting st);
                    coresPerCache = max 1 (go_div nCores nCache);
                    cpuDetails = foldl (\<lambda>d (i, cpus).
                        foldl (\<lambda>d cpu. go_update d cpu (cpu_info nCores nSockets coresPerCache i cpu)) d (List cpus))
                      [] parsedCPUs
                in Inr \<lparr>CPUTopo = \<lparr>NumCPUs = nCPUs, NumCores = nCores,
                                  NumUncoreCache = Size (UncoreCaches cpuDetails),
                                  NumSockets = nSockets, NumNUMANodes = Size (NUMANodes cpuDetails),
                                  Details = cpuDetails\<rparr>,
                        MemTopo = \<lparr>TotalMemory = memTotal, MemNUMANodes = memNUMA\<rparr>\<rparr>))"

definition Discover ::
  "(string \<Rightarrow> CPUSet option) \<Rightarrow> (CPUSet \<Rightarrow> string) \<Rightarrow> proxmox_Node option \<Rightarrow> discovery_error + Topology" where
  "Discover parse render node =
     (case node of
        None \<Rightarrow> Inl NilNode
      | Some n \<Rightarrow>
          if node_CPUs n = 0 \<or> node_Cores n = 0 \<or> node_Sockets n = 0 then Inl IncompleteCPUInfo
          else (case GetNodeSettingByNode parse render (Some n) of
                 Inl e \<Rightarrow> Inl e
               | Inr None \<Rightarrow> Inl NoNodeSettings
               | Inr (Some st) \<Rightarrow>
                   (case DiscoverFromSettings parse (Some st) of
                      Inl e \<Rightarrow> Inl e
                    | Inr t \<Rightarrow>
                        if MemNUMANodes (MemTopo t) = [] \<or> TotalMemory (MemTopo t) = 0
                        then Inr (t\<lparr>MemTopo := \<lparr>TotalMemory = node_Memory n, MemNUMANodes = [(0, node_Memory n)]\<rparr>\<rparr>)
                        else Inr t)))"

section \<open>The topology of a cAdvisor report\<close>

record cadvisor_Core =
  core_SocketID :: int
  core_Threads :: "int list"
  core_UncoreCaches :: "int list"

record cadvisor_Node =
  cn_Id :: int
  cn_Memory :: uint64
  cn_Cores :: "cadvisor_Core list"

record cadvisor_MachineInfo =
  mi_NumCores :: int
  mi_NumSockets :: int
  mi_MemoryCapacity :: uint64
  mi_Topology :: "cadvisor_Node list"

definition getUncoreCacheID :: "cadvisor_Core \<Rightarrow> int" where
  "getUncoreCacheID core =
     (case core_UncoreCaches core of [] \<Rightarrow> core_SocketID core | cache # rest \<Rightarrow> cache)"

fun cadvisor_cores :: "int \<Rightarrow> cadvisor_Core list \<Rightarrow> CPUDetails \<Rightarrow> discovery_error + CPUDetails" where
  "cadvisor_cores node [] d = Inr d"
| "cadvisor_cores node (core # cores) d =
     (case getUniqueCoreID (core_Threads core) of
        Inl e \<Rightarrow> Inl (BadCore e)
      | Inr coreID \<Rightarrow>
          cadvisor_cores node cores
            (foldl (\<lambda>d cpu. go_update d cpu
                 \<lparr>NUMANodeID = node, SocketID = core_SocketID core, CoreID = coreID,
                  UncoreCacheID = getUncoreCacheID core\<rparr>) d (core_Threads core)))"

fun cadvisor_nodes :: "cadvisor_Node list \<Rightarrow> CPUDetails \<Rightarrow> discovery_error + CPUDetails" where
  "cadvisor_nodes [] d = Inr d"
| "cadvisor_nodes (node # nodes) d =
     (case cadvisor_cores (cn_Id node) (cn_Cores node) d of
        Inl e \<Rightarrow> Inl e
      | Inr d' \<Rightarrow> cadvisor_nodes nodes d')"

definition DiscoverCadvisor :: "cadvisor_MachineInfo option \<Rightarrow> discovery_error + Topology option" where
  "DiscoverCadvisor machineInfo =
     (case machineInfo of
        None \<Rightarrow> Inr None
      | Some mi \<Rightarrow>
          if mi_NumCores mi = 0 then Inl NoNumberOfCPUs
          else (case cadvisor_nodes (mi_Topology mi) [] of
                 Inl e \<Rightarrow> Inl e
               | Inr cpuDetails \<Rightarrow>
                   Inr (Some
                     \<lparr>CPUTopo = \<lparr>NumCPUs = mi_NumCores mi,
                                NumCores = sum_list (map (\<lambda>node. int (length (cn_Cores node))) (mi_Topology mi)),
                                NumUncoreCache = Size (UncoreCaches cpuDetails),
                                NumSockets = mi_NumSockets mi, NumNUMANodes = Size (NUMANodes cpuDetails),
                                Details = cpuDetails\<rparr>,
                      MemTopo = \<lparr>TotalMemory = mi_MemoryCapacity mi,
                                MemNUMANodes = foldl (\<lambda>m node. go_update m (cn_Id node) (cn_Memory node)) []
                                                 (mi_Topology mi)\<rparr>\<rparr>)))"

section \<open>Hosts made of equal blocks\<close>

text \<open>
  \<open>S\<close> sockets of \<open>k\<close> NUMA nodes of \<open>c\<close> cores, \<open>q\<close> cores for each L3 cache, and CPUs
  numbered first by core and then, for the second thread, by core again.
\<close>

definition block_info :: "int \<Rightarrow> int \<Rightarrow> int \<Rightarrow> int \<Rightarrow> int \<Rightarrow> CPUInfo" where
  "block_info S k c q cpu =
     (let core = cpu mod (S * k * c)
      in \<lparr>NUMANodeID = core div c, SocketID = core div (k * c), CoreID = core, UncoreCacheID = core div q\<rparr>)"

lemma mod_second: "C \<le> x \<Longrightarrow> x < 2 * C \<Longrightarrow> x mod C = x - C" for C x :: int
  by (subst mod_pos_pos_trivial [of "x - C" C, symmetric]) (simp_all add: mod_diff_right_eq [symmetric])

lemma Size_mod_preimage:
  assumes "B \<subseteq> {0..<C}" and "t = 1 \<or> t = 2"
  shows "Size {x. 0 \<le> x \<and> x < t * C \<and> x mod C \<in> B} = t * Size B"
  using assms(2)
proof
  assume "t = 1"
  then have "{x. 0 \<le> x \<and> x < t * C \<and> x mod C \<in> B} = B"
    using assms(1) by (auto simp: mod_pos_pos_trivial)
  with \<open>t = 1\<close> show ?thesis by simp
next
  assume t: "t = 2"
  have "{x. 0 \<le> x \<and> x < t * C \<and> x mod C \<in> B} = B \<union> (\<lambda>b. b + C) ` B"
  proof (rule set_eqI)
    fix x
    have shift: "x \<in> (\<lambda>b. b + C) ` B \<longleftrightarrow> x - C \<in> B" by force
    consider "x < 0" | "0 \<le> x" "x < C" | "C \<le> x" "x < 2 * C" | "2 * C \<le> x" "0 \<le> x" by linarith
    then show "x \<in> {x. 0 \<le> x \<and> x < t * C \<and> x mod C \<in> B} \<longleftrightarrow> x \<in> B \<union> (\<lambda>b. b + C) ` B"
      unfolding Un_iff shift using assms(1) t mod_second [of C x] by cases (auto simp: mod_pos_pos_trivial)
  qed
  moreover have "finite B" "B \<inter> (\<lambda>b. b + C) ` B = {}"
    using finite_subset [OF assms(1)] by (auto dest!: subsetD [OF assms(1)])
  ultimately show ?thesis
    using t by (simp add: Size_Un_disjoint) (simp add: Size_def card_image inj_on_def)
qed

lemma div_block:
  fixes a s :: int
  assumes "0 < a"
  shows "{x. x div a = s} = {s * a..<(s + 1) * a}"
proof (rule set_eqI)
  fix x
  have "x div a = s \<longleftrightarrow> s * a \<le> x \<and> x < (s + 1) * a"
  proof
    assume "x div a = s"
    with div_mult_mod_eq [of x a] pos_mod_bound [OF assms, of x] pos_mod_sign [OF assms, of x]
    show "s * a \<le> x \<and> x < (s + 1) * a" by (simp add: distrib_right)
  next
    assume "s * a \<le> x \<and> x < (s + 1) * a"
    then show "x div a = s"
      by (intro int_div_pos_eq [of _ _ _ "x - s * a"]) (simp_all add: algebra_simps)
  qed
  then show "x \<in> {x. x div a = s} \<longleftrightarrow> x \<in> {s * a..<(s + 1) * a}" by simp
qed

lemma div_in_blocks:
  fixes a y N :: int
  assumes "0 < a" and "0 \<le> y" and "y < N * a"
  shows "0 \<le> y div a" "y div a < N"
proof -
  show "0 \<le> y div a" using assms by (simp add: pos_imp_zdiv_nonneg_iff)
  have "y div a * a \<le> y" using div_block [OF assms(1), of "y div a"] by auto
  then have "y div a * a < N * a" using assms(3) by (rule le_less_trans)
  then show "y div a < N" by (rule mult_right_less_imp_less) (use assms(1) in simp)
qed

lemma block_of_index:
  assumes b: "0 < (b :: int)" and s: "0 \<le> s" "s < S"
  shows "{y. 0 \<le> y \<and> y < S * b \<and> y div b = s} = {s * b..<(s + 1) * b}"
proof -
  have "0 \<le> s * b" "(s + 1) * b \<le> S * b" using assms by (simp_all add: mult_right_mono)
  then have sub: "{s * b..<(s + 1) * b} \<subseteq> {0..<S * b}" unfolding atLeastLessThan_subset_iff by simp
  have "{y. 0 \<le> y \<and> y < S * b \<and> y div b = s} = {0..<S * b} \<inter> {y. y div b = s}" by auto
  with sub show ?thesis unfolding div_block [OF b] by blast
qed

text \<open>Such a topology is regular.\<close>

lemma block_topology_ok:
  assumes pos: "0 < S" "0 < k" "0 < c" "0 < q" and "q dvd c" and t: "t = 1 \<or> t = 2"
    and map: "go_map_ok (Details T)"
    and det: "set (Details T) = (\<lambda>cpu. (cpu, block_info S k c q cpu)) ` {0..<t * (S * k * c)}"
    and num: "NumCPUs T = t * (S * k * c)" "NumCores T = S * k * c" "NumSockets T = S"
      "NumNUMANodes T = S * k"
  shows "topology_ok T"
proof -
  let ?C = "S * k * c"
  have C: "0 < ?C" "0 < k * c" using pos by simp_all
  have mem: "(x, info) \<in> set (Details T) \<longleftrightarrow> 0 \<le> x \<and> x < t * ?C \<and> info = block_info S k c q x" for x info
    by (auto simp: det)
  have cpus: "CPUsInSockets (Details T) [s] = {x. 0 \<le> x \<and> x < t * ?C \<and> x mod ?C \<in> {y. 0 \<le> y \<and> y < ?C \<and> y div (k * c) = s}}"
    "CPUsInCores (Details T) [r] = {x. 0 \<le> x \<and> x < t * ?C \<and> x mod ?C \<in> {r} \<inter> {0..<?C}}" for s r
    using C(1) by (auto simp: CPUsInSockets_eq CPUsInCores_eq mem block_info_def Let_def)
  have "Size (CPUsInSockets (Details T) [s]) = CPUsPerSocket T" if "s \<in> Sockets (Details T)" for s
  proof -
    from that obtain y where y: "s = y div (k * c)" "0 \<le> y" "y < S * (k * c)"
      using C(1) pos_mod_bound [OF C(1)] by (force simp: Sockets_eq det block_info_def Let_def mult.assoc)
    have s: "0 \<le> s" "s < S" unfolding y(1) using div_in_blocks [OF C(2) y(2,3)] .
    have "{y. 0 \<le> y \<and> y < ?C \<and> y div (k * c) = s} = {s * (k * c)..<(s + 1) * (k * c)}"
      using block_of_index [OF C(2) s] by (simp add: mult.assoc)
    moreover have "Size {s * (k * c)..<(s + 1) * (k * c)} = k * c"
      using C(2) by (simp add: Size_def distrib_right)
    moreover have "{y. 0 \<le> y \<and> y < ?C \<and> y div (k * c) = s} \<subseteq> {0..<?C}" by auto
    ultimately have "Size (CPUsInSockets (Details T) [s]) = t * (k * c)"
      unfolding cpus using Size_mod_preimage [OF _ t] by metis
    also have "\<dots> = CPUsPerSocket T"
      using pos t num by (auto simp: CPUsPerSocket_def)
    finally show ?thesis .
  qed
  moreover have "Size (CPUsInCores (Details T) [r]) = CPUsPerCore T" if "r \<in> Cores (Details T)" for r
  proof -
    have "r \<in> {0..<?C}" using that C(1) by (auto simp: Cores_eq det block_info_def Let_def)
    then have "{r} \<inter> {0..<?C} = {r}" "{r} \<inter> {0..<?C} \<subseteq> {0..<?C}" by auto
    then have "Size (CPUsInCores (Details T) [r]) = t"
      unfolding cpus using Size_mod_preimage [OF _ t, of "{r} \<inter> {0..<?C}"] by simp
    also have "\<dots> = CPUsPerCore T" using C t num by (auto simp: CPUsPerCore_def)
    finally show ?thesis .
  qed
  moreover have "determines CoreID SocketID (Details T)" "determines CoreID NUMANodeID (Details T)"
    by (auto simp: determines_def det block_info_def Let_def)
  moreover have "determines NUMANodeID SocketID (Details T)"
    using pos by (auto simp: determines_def det block_info_def Let_def zdiv_zmult2_eq mult.commute [of k c])
  moreover have "determines SocketID NUMANodeID (Details T)" if "S \<ge> S * k"
  proof -
    have "k = 1" using that pos by (simp add: mult_le_cancel_left1)
    then show ?thesis by (auto simp: determines_def det block_info_def Let_def)
  qed
  moreover have "determines UncoreCacheID NUMANodeID (Details T)"
  proof -
    obtain m where "c = q * m" using \<open>q dvd c\<close> by blast
    with pos show ?thesis by (auto simp: determines_def det block_info_def Let_def zdiv_zmult2_eq zero_less_mult_iff)
  qed
  ultimately show ?thesis using map num by (simp add: topology_ok_def)
qed

section \<open>Predicted settings describe such hosts\<close>

text \<open>
  What is assumed of \<open>cpuset.Parse\<close> and \<open>String\<close>: a printed set is read back, and ranges in
  the Linux list format denote what they say.
\<close>

definition cpuset_laws :: "(string \<Rightarrow> CPUSet option) \<Rightarrow> (CPUSet \<Rightarrow> string) \<Rightarrow> bool" where
  "cpuset_laws parse render \<longleftrightarrow>
     (\<forall>s. finite s \<longrightarrow> (\<forall>x \<in> s. 0 \<le> x) \<longrightarrow> parse (render s) = Some s) \<and>
     (\<forall>a b. 0 \<le> a \<longrightarrow> a \<le> b \<longrightarrow> parse (show_int a @ ''-'' @ show_int b) = Some {a..b}) \<and>
     (\<forall>a b a' b'. 0 \<le> a \<longrightarrow> a \<le> b \<longrightarrow> 0 \<le> a' \<longrightarrow> a' \<le> b' \<longrightarrow>
        parse ((show_int a @ ''-'' @ show_int b) @ '','' @ show_int a' @ ''-'' @ show_int b') =
        Some ({a..b} \<union> {a'..b'}))"

definition block_cpus :: "int \<Rightarrow> int \<Rightarrow> int \<Rightarrow> int \<Rightarrow> CPUSet" where
  "block_cpus t C c i =
     {i * c..i * c + c - 1} \<union> (if t > 1 then {i * c + C..i * c + C + c - 1} else {})"

lemma parse_numa_cpu_list:
  assumes "cpuset_laws parse render" and "0 < c" and "0 < N" and "0 \<le> i"
  shows "parse (numa_cpu_list (N * c) t N i) = Some (block_cpus t (N * c) c i)"
proof -
  have div: "go_div (N * c) N = c" using assms by simp
  have "0 \<le> i * c" "0 \<le> N * c" using assms by simp_all
  then show ?thesis
    using assms(1,2) unfolding cpuset_laws_def
    by (simp add: numa_cpu_list_def block_cpus_def Let_def div)
qed

lemma fill_numa_blocks:
  assumes "cpuset_laws parse render" and "0 < c" and "0 < N" and "node_Cores n = N * c"
  shows "distinct (map fst m @ is) \<Longrightarrow> (\<And>i. i \<in> set is \<Longrightarrow> 0 \<le> i) \<Longrightarrow>
         fill_numa parse render n t N is m =
           Inr (m @ map (\<lambda>i. (i, \<lparr>ni_CPUs = render (block_cpus t (N * c) c i),
                                 MemSize = node_Memory n div word_of_int N\<rparr>)) is)"
proof (induction "is" arbitrary: m)
  case (Cons i "is")
  then have "i \<notin> fst ` set m" by auto
  with Cons parse_numa_cpu_list [OF assms(1-3), of i t] show ?case
    by (simp add: assms(4) go_update_fresh)
qed simp

lemma block_cpus_nonneg:
  assumes "0 < c" and "0 \<le> i" and "0 \<le> C" and "x \<in> block_cpus t C c i"
  shows "0 \<le> x"
proof -
  have "0 \<le> i * c" using assms by simp
  with assms(3,4) show ?thesis unfolding block_cpus_def by (auto split: if_splits)
qed

lemma finite_block_cpus [simp]: "finite (block_cpus t C c i)"
  by (simp add: block_cpus_def)

lemma parse_numa_blocks:
  assumes "cpuset_laws parse render" and "0 < c" and "0 \<le> C"
  shows "(\<And>i. i \<in> set is \<Longrightarrow> 0 \<le> i) \<Longrightarrow>
         parse_numa parse (map (\<lambda>i. (i, \<lparr>ni_CPUs = render (block_cpus t C c i), MemSize = mem\<rparr>)) is) =
           Inr (map (\<lambda>i. (i, block_cpus t C c i)) is)"
proof (induction "is")
  case (Cons i "is")
  have "parse (render (block_cpus t C c i)) = Some (block_cpus t C c i)"
    using assms(1) block_cpus_nonneg [OF assms(2) _ assms(3)] Cons.prems finite_block_cpus
    unfolding cpuset_laws_def by (metis list.set_intros(1))
  with Cons show ?case by simp
qed simp

lemma mem_block_cpus:
  assumes "0 < c" and t: "t = 1 \<or> t = 2" and "0 \<le> i" and "i < N"
  shows "x \<in> block_cpus t (N * c) c i \<longleftrightarrow> 0 \<le> x \<and> x < t * (N * c) \<and> x mod (N * c) div c = i"
proof -
  let ?C = "N * c"
  have block: "y div c = i \<longleftrightarrow> i * c \<le> y \<and> y \<le> i * c + c - 1" for y
    using div_block [OF assms(1), of i] by (auto simp: set_eq_iff distrib_right)
  have room: "0 \<le> i * c" "i * c + c \<le> ?C"
    using assms mult_right_mono [of "i + 1" N c] by (simp_all add: distrib_right)
  have C: "0 < ?C" using room assms(1) by simp
  consider "x < 0" | (first) "0 \<le> x" "x < ?C" | (second) "?C \<le> x" "x < 2 * ?C" | "2 * ?C \<le> x" by linarith
  then show ?thesis
  proof cases
    case first
    then have "x mod ?C = x" by (rule mod_pos_pos_trivial)
    with first t C room show ?thesis unfolding block_cpus_def by (auto simp: block)
  next
    case second
    with mod_second [of ?C x] t C room show ?thesis unfolding block_cpus_def by (auto simp: block)
  qed (use t C room in \<open>auto simp: block_cpus_def\<close>)
qed

lemma Size_block_cpus:
  assumes "0 < c" and t: "t = 1 \<or> t = 2" and "0 \<le> i" and "i < N"
  shows "Size (block_cpus t (N * c) c i) = t * c"
proof -
  have "i * c + c \<le> N * c"
    using assms mult_right_mono [of "i + 1" N c] by (simp add: distrib_right)
  moreover have "0 \<le> i * c" using assms by simp
  ultimately have "{i * c..i * c + c - 1} \<inter> {i * c + N * c..i * c + N * c + c - 1} = {}" by auto
  moreover have "Size {i * c..i * c + c - 1} = c" "Size {i * c + N * c..i * c + N * c + c - 1} = c"
    using assms(1) by (simp_all add: Size_def)
  ultimately show ?thesis using t by (auto simp: block_cpus_def Size_Un_disjoint)
qed

lemma nested_updates:
  "foldl (\<lambda>d (i, cpus). foldl (\<lambda>d cpu. go_update d cpu (f i cpu)) d (List cpus)) d (map (\<lambda>i. (i, B i)) is) =
   foldl (\<lambda>m (k, v). go_update m k v) d (concat (map (\<lambda>i. map (\<lambda>cpu. (cpu, f i cpu)) (List (B i))) is))"
proof (induction "is" arbitrary: d)
  case (Cons i "is")
  have "foldl (\<lambda>d cpu. go_update d cpu (f i cpu)) d xs =
        foldl (\<lambda>m (k, v). go_update m k v) d (map (\<lambda>cpu. (cpu, f i cpu)) xs)" for xs
    by (induction xs arbitrary: d) simp_all
  with Cons show ?case by simp
qed simp

lemma div_mod_swap: "0 < b \<Longrightarrow> 0 < S \<Longrightarrow> x mod (b * S) div b = x div b mod S" for b S x :: int
  by (simp add: zmod_zmult2_eq)

lemma block_cpu_info:
  assumes "0 < S" and "0 < k" and "0 < c" and "0 < q" and "t = 1 \<or> t = 2"
    and "0 \<le> x" and "x < t * (S * k * c)"
  shows "cpu_info (S * k * c) S q (x mod (S * k * c) div c) x = block_info S k c q x"
proof -
  let ?C = "S * k * c"
  have C: "0 < ?C" "0 < k * c" using assms(1-3) by simp_all
  have per: "max 1 (go_div ?C S) = k * c" using assms(1) C by (simp add: mult.assoc)
  have socket: "go_mod (go_div x (k * c)) S = x mod ?C div (k * c)"
    using div_mod_swap [OF C(2) assms(1), of x] assms(1,6) C(2)
    by (simp add: pos_imp_zdiv_nonneg_iff mult_ac)
  have core: "(if x \<ge> ?C then x - ?C else x) = x mod ?C"
    using assms(5-7) mod_second [of ?C x] by (auto simp: mod_pos_pos_trivial)
  have cache: "go_div (x mod ?C) q = x mod ?C div q" using C(1) assms(4) by simp
  show ?thesis
    unfolding cpu_info_def block_info_def Let_def per socket core cache ..
qed

lemma sum_list_constant:
  "(\<And>x. x \<in> set xs \<Longrightarrow> f x = v) \<Longrightarrow> sum_list (map f xs) = int (length xs) * (v :: int)"
  by (induction xs) (simp_all add: distrib_right)

lemma block_sums:
  assumes "0 < c" and t: "t = 1 \<or> t = 2" and "0 < N"
  shows "sum_list (map (\<lambda>(i, cpus). Size cpus) (map (\<lambda>i. (i, block_cpus t (N * c) c i)) [0..N - 1])) = t * (N * c)"
    and "sum_list (map (\<lambda>(i, cpus). go_div (Size cpus) (max 1 t))
           (map (\<lambda>i. (i, block_cpus t (N * c) c i)) [0..N - 1])) = N * c"
proof -
  let ?B = "block_cpus t (N * c) c"
  have size: "Size (?B i) = t * c" if "i \<in> set [0..N - 1]" for i
    using that Size_block_cpus [OF assms(1) t, of i N] by simp
  then have "sum_list (map (\<lambda>i. Size (?B i)) [0..N - 1]) = int (length [0..N - 1]) * (t * c)"
    by (rule sum_list_constant)
  then show "sum_list (map (\<lambda>(i, cpus). Size cpus) (map (\<lambda>i. (i, ?B i)) [0..N - 1])) = t * (N * c)"
    using assms(3) by (simp add: comp_def)
  have "go_div (Size (?B i)) (max 1 t) = c" if "i \<in> set [0..N - 1]" for i
    unfolding size [OF that] using t assms(1) by auto
  then have "sum_list (map (\<lambda>i. go_div (Size (?B i)) (max 1 t)) [0..N - 1]) = int (length [0..N - 1]) * c"
    by (rule sum_list_constant)
  then show "sum_list (map (\<lambda>(i, cpus). go_div (Size cpus) (max 1 t)) (map (\<lambda>i. (i, ?B i)) [0..N - 1])) = N * c"
    using assms(3) by (simp add: comp_def)
qed

definition block_pairs :: "int \<Rightarrow> int \<Rightarrow> int \<Rightarrow> int \<Rightarrow> int \<Rightarrow> CPUDetails" where
  "block_pairs S k c t q =
     concat (map (\<lambda>i. map (\<lambda>cpu. (cpu, cpu_info (S * k * c) S q i cpu)) (List (block_cpus t (S * k * c) c i)))
       [0..S * k - 1])"

lemma block_pairs:
  assumes pos: "0 < S" "0 < k" "0 < c" "0 < q" and t: "t = 1 \<or> t = 2"
  shows "distinct (map fst (block_pairs S k c t q))"
    and "(x, y) \<in> set (block_pairs S k c t q) \<longleftrightarrow>
         0 \<le> x \<and> x < t * (S * k * c) \<and> y = block_info S k c q x"
    and "NUMANodes (block_pairs S k c t q) = {0..<S * k}"
proof -
  let ?C = "S * k * c" and ?N = "S * k" and ?B = "block_cpus t (S * k * c) c"
  have C: "0 < ?C" using pos by simp
  have mem: "x \<in> ?B i \<longleftrightarrow> 0 \<le> x \<and> x < t * ?C \<and> x mod ?C div c = i" if "i \<in> set [0..?N - 1]" for x i
    using that mem_block_cpus [OF pos(3) t, of i ?N x] by simp
  have keys: "map fst (block_pairs S k c t q) = concat (map (\<lambda>i. List (?B i)) [0..?N - 1])"
    by (simp add: block_pairs_def map_concat comp_def)
  show "distinct (map fst (block_pairs S k c t q))"
    unfolding keys using mem by (intro concat_distinct) auto
  have index: "x mod ?C div c \<in> set [0..?N - 1]" for x
    using div_in_blocks [OF pos(3), of "x mod ?C" ?N] pos_mod_bound [OF C] pos_mod_sign [OF C] by simp
  have entry: "(x, y) \<in> set (block_pairs S k c t q) \<longleftrightarrow>
      0 \<le> x \<and> x < t * ?C \<and> y = block_info S k c q x" for x y
  proof -
    have "(x, y) \<in> set (block_pairs S k c t q) \<longleftrightarrow>
          (\<exists>i \<in> set [0..?N - 1]. x \<in> ?B i \<and> y = cpu_info ?C S q i x)"
      unfolding block_pairs_def by auto
    also have "\<dots> \<longleftrightarrow> 0 \<le> x \<and> x < t * ?C \<and> y = block_info S k c q x"
      using mem index [of x] block_cpu_info [OF pos t, of x] by auto
    finally show ?thesis .
  qed
  then show "(x, y) \<in> set (block_pairs S k c t q) \<longleftrightarrow>
      0 \<le> x \<and> x < t * ?C \<and> y = block_info S k c q x" .
  have "i \<in> NUMANodes (block_pairs S k c t q) \<longleftrightarrow> i \<in> {0..<?N}" for i
  proof -
    have "i \<in> NUMANodes (block_pairs S k c t q) \<longleftrightarrow> (\<exists>x. 0 \<le> x \<and> x < t * ?C \<and> i = x mod ?C div c)"
      unfolding NUMANodes_eq entry by (auto simp: block_info_def Let_def)
    also have "\<dots> \<longleftrightarrow> i \<in> set [0..?N - 1] \<and> ?B i \<noteq> {}" using mem [of i] index by auto
    also have "\<dots> \<longleftrightarrow> i \<in> {0..<?N}"
      using Size_block_cpus [OF pos(3) t, of i ?N] t pos(3) by fastforce
    finally show ?thesis .
  qed
  then show "NUMANodes (block_pairs S k c t q) = {0..<?N}" by blast
qed

text \<open>The settings predicted for a host of equal blocks lead to its topology.\<close>

lemma predicted_topology:
  fixes S k c t uncore :: int
  defines "C \<equiv> S * k * c" and "q \<equiv> max 1 (S * k * c div max 1 uncore)"
  assumes laws: "cpuset_laws parse render" and pos: "0 < S" "0 < k" "0 < c" and t: "t = 1 \<or> t = 2"
    and "q dvd c"
    and node: "node_Sockets n = S" "node_Cores n = C" "go_div (node_CPUs n) C = t"
  shows "\<exists>st T. node_settings parse render n uncore (S * k) = Inr (Some st) \<and>
           DiscoverFromSettings parse (Some st) = Inr T \<and> topology_ok (CPUTopo T) \<and>
           NumCPUs (CPUTopo T) = t * C \<and>
           set (Details (CPUTopo T)) = (\<lambda>cpu. (cpu, block_info S k c q cpu)) ` {0..<t * C} \<and>
           ReservedCPUs st = [] \<and>
           TotalMemory (MemTopo T) = of_int (S * k) * (node_Memory n div of_int (S * k))"
proof -
  let ?N = "S * k" and ?B = "block_cpus t (S * k * c) c" and ?pairs = "block_pairs S k c t q"
  have N: "0 < ?N" and C: "0 < C" and q: "0 < q" using pos by (simp_all add: C_def q_def)
  let ?numas = "map (\<lambda>i. (i, \<lparr>ni_CPUs = render (?B i), MemSize = node_Memory n div word_of_int ?N\<rparr>)) [0..?N - 1]"
  let ?st = "\<lparr>NumCoresSetting = C, NumSocketsSetting = S, NumThreads = t, NumUncoreCaches = uncore,
    NUMANodesSetting = ?numas, ReservedCPUs = [], ReservedMemory = 0\<rparr>"
  let ?T = "\<lparr>CPUTopo = \<lparr>NumCPUs = t * C, NumCores = C, NumUncoreCache = Size (UncoreCaches ?pairs),
      NumSockets = S, NumNUMANodes = Size (NUMANodes ?pairs), Details = ?pairs\<rparr>,
    MemTopo = \<lparr>TotalMemory = sum_list (map (\<lambda>(i, numa). MemSize numa) ?numas),
               MemNUMANodes = map (\<lambda>(i, numa). (i, MemSize numa)) ?numas\<rparr>\<rparr>"
  note pairs = block_pairs [OF pos q t]
  have threads: "go_div (node_CPUs n) (node_Cores n) = t" using node by simp
  have st: "node_settings parse render n uncore ?N = Inr (Some ?st)"
    using fill_numa_blocks [OF laws pos(3) N, of n "[]" "[0..?N - 1]" t] node
    unfolding node_settings_def threads Let_def by (simp add: C_def)
  have parsed: "parse_numa parse ?numas = Inr (map (\<lambda>i. (i, ?B i)) [0..?N - 1])"
    using parse_numa_blocks [OF laws pos(3), of "S * k * c" "[0..?N - 1]"] C by (simp add: C_def)
  have cache: "max 1 (go_div C (max 1 uncore)) = q" using C by (simp add: q_def C_def)
  have details: "foldl (\<lambda>d (i, cpus). foldl (\<lambda>d cpu. go_update d cpu (cpu_info C S q i cpu)) d (List cpus))
      [] (map (\<lambda>i. (i, ?B i)) [0..?N - 1]) = ?pairs" and ok: "go_map_ok ?pairs"
    using pairs(1) unfolding nested_updates C_def block_pairs_def
    by (simp_all add: go_update_all go_map_ok_def)
  have set: "set ?pairs = (\<lambda>cpu. (cpu, block_info S k c q cpu)) ` {0..<t * C}"
    using pairs(2) unfolding C_def by fastforce
  have "topology_ok (CPUTopo ?T)"
    using ok set pairs(3) N by (intro block_topology_ok [OF pos q \<open>q dvd c\<close> t]) (simp_all add: C_def Size_def)
  moreover have "DiscoverFromSettings parse (Some ?st) = Inr ?T"
    using N pos(1) parsed block_sums [OF pos(3) t N] details cache
    by (simp add: DiscoverFromSettings_def Let_def C_def)
  moreover have "sum_list (map (\<lambda>(i, numa). MemSize numa) ?numas) = of_int ?N * (node_Memory n div of_int ?N)"
    using N by (simp add: comp_def sum_list_triv)
  ultimately show ?thesis using st set by (intro exI [of _ ?st] exI [of _ ?T]) simp
qed

lemma DiscoverFromSettings_reserved:
  "DiscoverFromSettings parse (Some (st\<lparr>ReservedMemory := m\<rparr>)) = DiscoverFromSettings parse (Some st)"
  by (cases "parse_numa parse (NUMANodesSetting st)") (simp_all add: DiscoverFromSettings_def)

section \<open>Properties of discovery\<close>

text \<open>One implementation of the text form, for the witnesses.\<close>

definition example_part :: "string \<Rightarrow> CPUSet option" where
  "example_part part =
     (case Split part (CHR ''-'') of
        [a] \<Rightarrow> map_option (\<lambda>x. {x}) (read_digits a 0)
      | [a, b] \<Rightarrow>
          (case (read_digits a 0, read_digits b 0) of (Some x, Some y) \<Rightarrow> Some {x..y} | _ \<Rightarrow> None)
      | _ \<Rightarrow> None)"

fun example_parts :: "string list \<Rightarrow> CPUSet option" where
  "example_parts [] = Some {}"
| "example_parts (w # ws) =
     (case (example_part w, example_parts ws) of (Some s, Some u) \<Rightarrow> Some (s \<union> u) | _ \<Rightarrow> None)"

definition example_parse :: "string \<Rightarrow> CPUSet option" where
  "example_parse s = (if s = [] then Some {} else example_parts (Split s (CHR '','')))"

definition example_render :: "CPUSet \<Rightarrow> string" where
  "example_render s = Join (map show_int (List s)) '',''"

lemma example_part_range:
  "0 \<le> a \<Longrightarrow> 0 \<le> b \<Longrightarrow> example_part (show_int a @ ''-'' @ show_int b) = Some {a..b}"
  by (simp add: example_part_def show_int_def Split_append Split_word show_nat_plain read_show_nat)

lemma example_part_single: "0 \<le> a \<Longrightarrow> example_part (show_int a) = Some {a}"
  by (simp add: example_part_def show_int_def Split_word show_nat_plain read_show_nat)

lemma example_parts_render: "(\<And>x. x \<in> set xs \<Longrightarrow> 0 \<le> x) \<Longrightarrow> example_parts (map show_int xs) = Some (set xs)"
  by (induction xs) (simp_all add: example_part_single)

lemma example_codec: "cpuset_laws example_parse example_render"
proof -
  have comma: "CHR '','' \<notin> set (show_int a @ ''-'' @ show_int b)" for a b
    by (simp add: show_int_plain)
  have "example_parse (example_render s) = Some s" if "finite s" "\<forall>x \<in> s. 0 \<le> x" for s
  proof (cases "List s = []")
    case True
    with that(1) have "s = {}" by (metis empty_set set_List)
    then show ?thesis by (simp add: example_parse_def example_render_def List_def)
  next
    case False
    then have "example_render s \<noteq> []"
      unfolding example_render_def by (cases "map show_int (List s)" rule: remdups_adj.cases) auto
    moreover have "Split (example_render s) (CHR '','') = map show_int (List s)"
      unfolding example_render_def using False by (intro Split_Join) (auto simp: show_int_plain)
    ultimately show ?thesis
      using that example_parts_render [of "List s"] by (simp add: example_parse_def)
  qed
  moreover have "example_parse (show_int a @ ''-'' @ show_int b) = Some {a..b}" if "0 \<le> a" "a \<le> b" for a b
    using that example_part_range [of a b] Split_word [OF comma] by (simp add: example_parse_def)
  moreover have "example_parse ((show_int a @ ''-'' @ show_int b) @ '','' @ show_int a' @ ''-'' @ show_int b') =
      Some ({a..b} \<union> {a'..b'})" if "0 \<le> a" "a \<le> b" "0 \<le> a'" "a' \<le> b'" for a b a' b'
    using that example_part_range [of a b] example_part_range [of a' b']
      Split_append [OF comma, of a b] Split_word [OF comma, of a' b'] by (simp add: example_parse_def)
  ultimately show ?thesis by (simp add: cpuset_laws_def)
qed

lemma HasPrefix_shorter:
  assumes "HasPrefix s (p @ r)"
  shows "HasPrefix s p"
proof -
  have "s = (p @ r) @ drop (length (p @ r)) s"
    using assms unfolding HasPrefix_def by (metis append_take_drop_id)
  then show ?thesis by (metis HasPrefix_append append.assoc)
qed

lemma Contains_shorter: "Contains s (p @ r) \<Longrightarrow> Contains s p"
  by (induction s) (auto dest: HasPrefix_shorter)

lemma epyc_match_Contains: "epyc_match s = Some m \<Longrightarrow> Contains s ''AMD EPYC''"
proof (induction s)
  case (Cons c s)
  then show ?case by (auto simp: epyc_here_def split: option.splits if_splits)
qed (simp add: epyc_here_def HasPrefix_def)

definition intel_host :: "proxmox_Node \<Rightarrow> bool" where
  "intel_host n \<longleftrightarrow>
     Contains (node_Model n) ''Intel'' \<and> \<not> Contains (node_Model n) ''AMD'' \<and>
     1 \<le> node_Sockets n \<and> node_Sockets n dvd node_Cores n \<and> 1 \<le> node_Cores n \<and>
     node_Cores n \<le> node_CPUs n \<and> node_CPUs n < 3 * node_Cores n"

text \<open>The CPUs the code predicts: the threads of a core are counted by a division.\<close>

definition predicted_CPUs :: "proxmox_Node \<Rightarrow> int" where
  "predicted_CPUs n = node_CPUs n div node_Cores n * node_Cores n"

lemma predicted_CPUs_even:
  assumes "0 < node_Cores n" and "node_Cores n dvd node_CPUs n"
  shows "predicted_CPUs n = node_CPUs n"
  using assms by (simp add: predicted_CPUs_def)

lemma intel_topology:
  assumes "cpuset_laws parse render" and "intel_host n"
  shows "\<exists>st T. GetNodeSettingByNode parse render (Some n) = Inr (Some st) \<and>
           DiscoverFromSettings parse (Some st) = Inr T \<and> topology_ok (CPUTopo T) \<and>
           CPUs (Details (CPUTopo T)) = {0..<predicted_CPUs n} \<and> NumCPUs (CPUTopo T) = predicted_CPUs n \<and>
           ReservedCPUs st = [] \<and>
           TotalMemory (MemTopo T) = of_int (node_Sockets n) * (node_Memory n div of_int (node_Sockets n))"
proof -
  let ?S = "node_Sockets n"
  have S: "1 \<le> ?S" and cores: "1 \<le> node_Cores n" "?S dvd node_Cores n"
    and cpus: "node_Cores n \<le> node_CPUs n" "node_CPUs n < 3 * node_Cores n"
    and model: "Contains (node_Model n) ''Intel''" "\<not> Contains (node_Model n) ''AMD''"
    using assms(2) by (simp_all add: intel_host_def)
  obtain c where c: "node_Cores n = ?S * c" using cores(2) by blast
  have "0 < ?S * c" using c cores(1) by linarith
  then have "0 < c" using S zero_less_mult_pos by fastforce
  define t where "t = node_CPUs n div node_Cores n"
  have "1 \<le> t" using cpus(1) cores(1) by (simp add: t_def int_one_le_iff_zero_less pos_imp_zdiv_pos_iff)
  moreover have "t < 3"
  proof (rule ccontr)
    assume "\<not> ?thesis"
    then have "3 * node_Cores n \<le> t * node_Cores n" using cores(1) by simp
    also have "\<dots> \<le> node_CPUs n"
      unfolding t_def using cores(1) by (metis div_mult_mod_eq le_add_same_cancel1 pos_mod_sign zero_less_one order_less_le_trans)
    finally show False using cpus(2) by simp
  qed
  ultimately have t: "t = 1 \<or> t = 2" "predicted_CPUs n = t * (?S * 1 * c)" "go_div (node_CPUs n) (?S * 1 * c) = t"
    using cpus(1) cores(1) by (auto simp: t_def c predicted_CPUs_def)
  have q: "max 1 (?S * 1 * c div max 1 ?S) = c" using S \<open>0 < c\<close> by simp
  have "\<not> Contains (node_Model n) ''AMD EPYC''"
    using model(2) Contains_shorter [of "node_Model n" "''AMD''" "'' EPYC''"] by auto
  then have settings: "GetNodeSettingByNode parse render (Some n) = node_settings parse render n ?S (?S * 1)"
    using model S cores(1) cpus by (auto simp: GetNodeSettingByNode_def nodeSettingsIntel_def)
  obtain st T where T: "node_settings parse render n ?S (?S * 1) = Inr (Some st)"
    "DiscoverFromSettings parse (Some st) = Inr T" "topology_ok (CPUTopo T)"
    "NumCPUs (CPUTopo T) = t * (?S * 1 * c)"
    "set (Details (CPUTopo T)) = (\<lambda>cpu. (cpu, block_info ?S 1 c c cpu)) ` {0..<t * (?S * 1 * c)}"
    "ReservedCPUs st = []" "TotalMemory (MemTopo T) = of_int (?S * 1) * (node_Memory n div of_int (?S * 1))"
    using predicted_topology [OF assms(1), of ?S 1 c t ?S n] S \<open>0 < c\<close> t c unfolding q by auto
  have "CPUs (Details (CPUTopo T)) = {0..<predicted_CPUs n}"
    unfolding CPUs_eq T(5) t(2) by auto
  with settings T t(2) show ?thesis by (intro exI [of _ st] exI [of _ T]) simp
qed

text \<open>
  For an Intel host whose cores divide evenly among its sockets, with fewer than three threads per
  core, the predicted topology has the predicted CPUs of the host and is regular, so that the
  allocator's guarantees apply to it.
\<close>

lemma discover_intel_regular:
  assumes "cpuset_laws parse render" and "intel_host n"
  shows "\<exists>st T. GetNodeSettingByNode parse render (Some n) = Inr (Some st) \<and>
           DiscoverFromSettings parse (Some st) = Inr T \<and> topology_ok (CPUTopo T) \<and>
           CPUs (Details (CPUTopo T)) = {0..<predicted_CPUs n} \<and> NumCPUs (CPUTopo T) = predicted_CPUs n"
  using intel_topology [OF assms] by blast

definition example_intel :: proxmox_Node where
  "example_intel =
     \<lparr>node_CPUs = 16, node_Cores = 8, node_Sockets = 2, node_Model = ''16 x Intel Xeon E5-2620 v4 (2 Sockets)'',
      node_Memory = 68719476736\<rparr>"

text \<open>
  For an AMD EPYC host with \<open>k\<close> NUMA nodes per socket, whose cores divide into L3 caches of
  the size known for the model, the predicted topology has the CPUs of the host and is regular
  where each assumed cache fits into a NUMA node. The assumed cache has the known size times the
  number of sockets, because the caches of one socket are counted for the whole host.
\<close>

lemma discover_epyc_caches:
  assumes "cpuset_laws parse render"
    and model: "epyc_match (node_Model n) = Some (m2, m4)" and ccx: "1 \<le> coresPerCCX m2"
    and "1 \<le> node_Sockets n" and "1 \<le> c" and "1 \<le> u"
    and cores: "node_Cores n = node_Sockets n * nodesPerSocket m4 * c"
    and caches: "nodesPerSocket m4 * c = coresPerCCX m2 * u"
    and fit: "node_Sockets n * coresPerCCX m2 dvd c"
    and "node_CPUs n = node_Cores n \<or> node_CPUs n = 2 * node_Cores n"
  shows "\<exists>st T. GetNodeSettingByNode parse render (Some n) = Inr (Some st) \<and>
           DiscoverFromSettings parse (Some st) = Inr T \<and> topology_ok (CPUTopo T) \<and>
           CPUs (Details (CPUTopo T)) = {0..<node_CPUs n} \<and>
           (\<forall>(cpu, info) \<in> set (Details (CPUTopo T)).
              UncoreCacheID info = cpu mod node_Cores n div (node_Sockets n * coresPerCCX m2))"
proof -
  let ?S = "node_Sockets n" and ?k = "nodesPerSocket m4" and ?ccx = "coresPerCCX m2"
  have k: "0 < ?k" by (simp add: nodesPerSocket_def)
  have pos: "0 < ?S" "0 < c" "0 < u" "0 < ?ccx" using assms by simp_all
  have cores': "node_Cores n = ?S * ?ccx * u" using cores caches by (simp add: mult.assoc)
  have "0 < node_Cores n" using cores' pos by simp
  define t where "t = (if node_CPUs n = node_Cores n then 1 else 2 :: int)"
  have t: "t = 1 \<or> t = 2" "node_CPUs n = t * (?S * ?k * c)" "go_div (node_CPUs n) (?S * ?k * c) = t"
    using assms(10) cores pos k by (auto simp: t_def)
  have "go_div (go_div (node_Cores n) ?S) ?ccx = u"
    using pos unfolding cores' by (simp add: mult.assoc)
  then have settings: "GetNodeSettingByNode parse render (Some n) = node_settings parse render n u (?S * ?k)"
    using model epyc_match_Contains [OF model] pos \<open>0 < node_Cores n\<close> assms(10)
    by (auto simp: GetNodeSettingByNode_def nodeSettingsAMDEPYC_def)
  have q: "max 1 (?S * ?k * c div max 1 u) = ?S * ?ccx"
  proof -
    have eq: "?S * ?k * c = ?S * ?ccx * u" by (rule trans [OF cores [symmetric] cores'])
    have "1 \<le> ?S * ?ccx" using pos by (simp add: int_one_le_iff_zero_less)
    with pos show ?thesis unfolding eq by simp
  qed
  show ?thesis
    unfolding settings
    using predicted_topology [OF assms(1) pos(1) k pos(2) t(1), of u n] q fit cores t(2,3)
    by (fastforce simp: CPUs_eq block_info_def Let_def)
qed

definition example_epyc :: proxmox_Node where
  "example_epyc =
     \<lparr>node_CPUs = 128, node_Cores = 64, node_Sockets = 1,
      node_Model = ''128 x AMD EPYC 9554 64-Core Processor (1 Socket)'', node_Memory = 274877906944\<rparr>"

end
