(* ===== verification/VMConfig.thy ===== *)
theory VMConfig
  imports Resources GoStrings
begin

text \<open>
  Reading the resources of a VM out of its Proxmox configuration and writing them back
  (\<open>src/pkg/proxmox/resources/vm/resources.go\<close>, \<open>src/pkg/proxmox/resources/lxc/resources.go\<close>).

  The text of a CPU set (\<open>parse\<close>, \<open>render\<close>: \<open>k8s.io/utils/cpuset\<close>) and of a NUMA line of the
  configuration (\<open>unmarshal\<close>, \<open>marshal\<close>: \<open>goproxmox.VMNUMA\<close>) are arguments of the
  definitions. \<open>MergeNumas\<close> collects the NUMA lines of the configuration in a map; the map is a
  field here.
\<close>

record VMNUMA =
  vn_Memory :: "int option"
  CPUIDs :: "string list"
  HostNodeNames :: "string list"
  vn_Policy :: string

record VirtualMachineConfig =
  cfg_Affinity :: string
  cfg_Numa :: int
  cfg_MergedNumas :: "(string, string) go_map"

record VirtualMachine =
  px_VMID :: int
  px_CPUs :: int
  px_MaxMem :: uint64
  px_Config :: "VirtualMachineConfig option"

datatype vmconfig_error =
    NilVM
  | AffinityParse
  | NUMAParse string
  | NUMACPUIDsParse string
  | HostNodesParse string
  | NoHostNodes string
  | UnevenCPUs int int
  | OldCPUsParse int
  | NoCPUsAssigned int
  | NodeCPUsParse int
  | NUMAMarshal int

section \<open>Reading\<close>

text \<open>A NUMA node that is not in the map yet reads as the zero value.\<close>

definition zero_node :: NUMANodeState where
  "zero_node = \<lparr>ns_CPUs = [], ns_Memory = 0, ns_Policy = []\<rparr>"

text \<open>The loop over the host nodes of one NUMA line: each gets an equal share of its CPUs and memory.\<close>

fun read_host_nodes ::
  "(string \<Rightarrow> CPUSet option) \<Rightarrow> (CPUSet \<Rightarrow> string) \<Rightarrow> string \<Rightarrow> uint64 \<Rightarrow> int list \<Rightarrow> nat \<Rightarrow> nat \<Rightarrow> int list
   \<Rightarrow> (int, NUMANodeState) go_map \<Rightarrow> vmconfig_error + (int, NUMANodeState) go_map" where
  "read_host_nodes parse render policy share cpuList nodeCpus i [] m = Inr m"
| "read_host_nodes parse render policy share cpuList nodeCpus i (nodeID # rest) m =
     (let old = go_lookup zero_node m nodeID
      in case parse (ns_CPUs old) of
           None \<Rightarrow> Inl (OldCPUsParse nodeID)
         | Some oldCPUs \<Rightarrow>
             read_host_nodes parse render policy share cpuList nodeCpus (Suc i) rest
               (go_update m nodeID
                  \<lparr>ns_CPUs = render (oldCPUs \<union> set (take nodeCpus (drop (i * nodeCpus) cpuList))),
                   ns_Memory = ns_Memory old + share, ns_Policy = policy\<rparr>))"

definition read_numa_line ::
  "(string \<Rightarrow> CPUSet option) \<Rightarrow> (CPUSet \<Rightarrow> string) \<Rightarrow> (string \<Rightarrow> VMNUMA option) \<Rightarrow> string
   \<Rightarrow> (int, NUMANodeState) go_map \<Rightarrow> vmconfig_error + (int, NUMANodeState) go_map" where
  "read_numa_line parse render unmarshal numa m =
     (case unmarshal numa of
        None \<Rightarrow> Inl (NUMAParse numa)
      | Some n \<Rightarrow>
          (case vn_Memory n of
             None \<Rightarrow> Inr m
           | Some memory \<Rightarrow>
               if memory > 0 \<and> CPUIDs n \<noteq> [] \<and> HostNodeNames n \<noteq> []
               then (case parse (Join (CPUIDs n) '','') of
                       None \<Rightarrow> Inl (NUMACPUIDsParse numa)
                     | Some cpus \<Rightarrow>
                         (case parse (Join (HostNodeNames n) '','') of
                            None \<Rightarrow> Inl (HostNodesParse numa)
                          | Some hostNuma \<Rightarrow>
                              let numHostNodes = Size hostNuma
                              in if numHostNodes = 0 then Inl (NoHostNodes numa)
                                 else if numHostNodes > 1 \<and> go_mod (int (length (List cpus))) numHostNodes \<noteq> 0
                                 then Inl (UnevenCPUs (int (length (List cpus))) numHostNodes)
                                 else read_host_nodes parse render (vn_Policy n)
                                        (word_of_int memory div word_of_int numHostNodes) (List cpus)
                                        (nat (go_div (Size cpus) numHostNodes)) 0 (List hostNuma) m))
               else Inr m))"

fun read_numa_lines ::
  "(string \<Rightarrow> CPUSet option) \<Rightarrow> (CPUSet \<Rightarrow> string) \<Rightarrow> (string \<Rightarrow> VMNUMA option) \<Rightarrow> (string, string) go_map
   \<Rightarrow> (int, NUMANodeState) go_map \<Rightarrow> vmconfig_error + (int, NUMANodeState) go_map" where
  "read_numa_lines parse render unmarshal [] m = Inr m"
| "read_numa_lines parse render unmarshal ((name, numa) # rest) m =
     (case read_numa_line parse render unmarshal numa m of
        Inl e \<Rightarrow> Inl e
      | Inr m' \<Rightarrow> read_numa_lines parse render unmarshal rest m')"

definition GetResourceFromVM ::
  "(string \<Rightarrow> CPUSet option) \<Rightarrow> (CPUSet \<Rightarrow> string) \<Rightarrow> (string \<Rightarrow> VMNUMA option) \<Rightarrow> VirtualMachine option
   \<Rightarrow> vmconfig_error + VMResources" where
  "GetResourceFromVM parse render unmarshal machine =
     (case machine of
        None \<Rightarrow> Inl NilVM
      | Some vm \<Rightarrow>
          let opt = \<lparr>vm_ID = px_VMID vm, vm_CPUs = px_CPUs vm, Affinity = [], Memory = px_MaxMem vm,
                     DiskGBytes = 0, StorageID = [], vm_CPUSet = {}, vm_NUMANodes = []\<rparr>
          in (case px_Config vm of
                None \<Rightarrow> Inr opt
              | Some cfg \<Rightarrow>
                  (case (if cfg_Affinity cfg = [] then Some {} else parse (cfg_Affinity cfg)) of
                     None \<Rightarrow> Inl AffinityParse
                   | Some cpus \<Rightarrow>
                       let opt1 = opt\<lparr>Affinity := cfg_Affinity cfg, vm_CPUSet := cpus\<rparr>
                       in if cfg_Numa cfg = 1
                          then (case read_numa_lines parse render unmarshal (cfg_MergedNumas cfg) [] of
                                  Inl e \<Rightarrow> Inl e
                                | Inr numas \<Rightarrow> Inr (opt1\<lparr>vm_NUMANodes := numas\<rparr>))
                          else Inr opt1)))"

text \<open>A container has no affinity and no NUMA lines.\<close>

record Container =
  ct_VMID :: int
  ct_CPUs :: int
  ct_MaxMem :: uint64

definition GetResourceFromContainer :: "Container option \<Rightarrow> vmconfig_error + VMResources" where
  "GetResourceFromContainer container =
     (case container of
        None \<Rightarrow> Inl NilVM
      | Some ct \<Rightarrow>
          Inr \<lparr>vm_ID = ct_VMID ct, vm_CPUs = ct_CPUs ct, Affinity = [], Memory = ct_MaxMem ct,
               DiskGBytes = 0, StorageID = [], vm_CPUSet = {}, vm_NUMANodes = []\<rparr>)"

section \<open>Writing\<close>

datatype option_value = IntValue int | MemValue uint64 | TextValue string

text \<open>The loop over the sorted NUMA nodes; \<open>i\<close> numbers the lines, \<open>cpuIdx\<close> the CPUs of the guest.\<close>

fun write_numa_nodes ::
  "(string \<Rightarrow> CPUSet option) \<Rightarrow> (VMNUMA \<Rightarrow> string option) \<Rightarrow> (int, NUMANodeState) go_map \<Rightarrow> int list \<Rightarrow> int \<Rightarrow> int
   \<Rightarrow> (string, option_value) go_map \<Rightarrow> vmconfig_error + (string, option_value) go_map" where
  "write_numa_nodes parse marshal nodes [] i cpuIdx opts = Inr opts"
| "write_numa_nodes parse marshal nodes (k # ks) i cpuIdx opts =
     (let node = go_lookup zero_node nodes k
      in if ns_CPUs node = [] then Inl (NoCPUsAssigned k)
         else case parse (ns_CPUs node) of
                None \<Rightarrow> Inl (NodeCPUsParse k)
              | Some cpus \<Rightarrow>
                  (case marshal \<lparr>vn_Memory = Some (sint (ns_Memory node)),
                                 CPUIDs = [show_int cpuIdx @ ''-'' @ show_int (cpuIdx + Size cpus - 1)],
                                 HostNodeNames = [show_int k], vn_Policy = ns_Policy node\<rparr> of
                     None \<Rightarrow> Inl (NUMAMarshal i)
                   | Some line \<Rightarrow>
                       write_numa_nodes parse marshal nodes ks (i + 1) (cpuIdx + Size cpus)
                         (go_update opts (''numa'' @ show_int i) (TextValue line))))"

definition GenerateVMOptionsFromResources ::
  "(string \<Rightarrow> CPUSet option) \<Rightarrow> (CPUSet \<Rightarrow> string) \<Rightarrow> (VMNUMA \<Rightarrow> string option) \<Rightarrow> VMResources option
   \<Rightarrow> vmconfig_error + (string, option_value) go_map" where
  "GenerateVMOptionsFromResources parse render marshal resources =
     (case resources of
        None \<Rightarrow> Inl NilVM
      | Some res \<Rightarrow>
          let opts = [(''cores'', IntValue (vm_CPUs res)), (''memory'', MemValue (Memory res div 1024 div 1024))];
              opts1 = (if IsEmpty (vm_CPUSet res) then opts
                       else go_update opts ''affinity'' (TextValue (render (vm_CPUSet res))))
          in if vm_NUMANodes res = [] then Inr opts1
             else write_numa_nodes parse marshal (vm_NUMANodes res)
                    (sort (map fst (vm_NUMANodes res))) 0 0 (go_update opts1 ''numa'' (IntValue 1)))"

section \<open>Memory of the NUMA nodes\<close>

definition numa_total :: "(int, NUMANodeState) go_map \<Rightarrow> uint64" where
  "numa_total m = sum_list (map (\<lambda>(i, node). ns_Memory node) m)"

lemma numa_total_update:
  "go_map_ok m \<Longrightarrow>
   numa_total (go_update m k node) = numa_total m - ns_Memory (go_lookup zero_node m k) + ns_Memory node"
proof (induction m k node rule: go_update.induct)
  case (2 k' v' m k v)
  then show ?case by (auto simp: numa_total_def go_lookup_def go_map_ok_def)
qed (simp add: numa_total_def go_lookup_def zero_node_def)

lemma read_host_nodes_total:
  "read_host_nodes parse render policy share cpuList nodeCpus i nodes m = Inr m' \<Longrightarrow> go_map_ok m \<Longrightarrow>
   go_map_ok m' \<and> numa_total m' = numa_total m + of_nat (length nodes) * share"
proof (induction nodes arbitrary: i m)
  case (Cons nodeID rest)
  let ?old = "go_lookup zero_node m nodeID"
  obtain oldCPUs where "parse (ns_CPUs ?old) = Some oldCPUs"
    using Cons.prems(1) by (cases "parse (ns_CPUs ?old)") (simp_all add: Let_def)
  with Cons.prems(1) have
    step: "read_host_nodes parse render policy share cpuList nodeCpus (Suc i) rest
      (go_update m nodeID \<lparr>ns_CPUs = render (oldCPUs \<union> set (take nodeCpus (drop (i * nodeCpus) cpuList))),
         ns_Memory = ns_Memory ?old + share, ns_Policy = policy\<rparr>) = Inr m'"
    (is "read_host_nodes _ _ _ _ _ _ _ _ ?m1 = _")
    by (simp add: Let_def)
  have "a - b + (b + c) = a + c" for a b c :: uint64 by simp
  then have "numa_total ?m1 = numa_total m + share"
    unfolding numa_total_update [OF Cons.prems(2)] by simp
  moreover have "go_map_ok m' \<and> numa_total m' = numa_total ?m1 + of_nat (length rest) * share"
    using Cons.prems(2) by (intro Cons.IH [OF step]) simp
  ultimately show ?case by (simp add: distrib_right)
qed simp

text \<open>
  Reading a NUMA line adds, to the memory booked on the NUMA nodes, its memory rounded down
  to a multiple of the number of its host nodes; nothing is added where the line is skipped.
\<close>

lemma read_numa_line_total:
  assumes "read_numa_line parse render unmarshal numa m = Inr m'" and "go_map_ok m"
    and "unmarshal numa = Some n" and "vn_Memory n = Some memory" and "memory > 0"
    and "CPUIDs n \<noteq> []" and "HostNodeNames n \<noteq> []"
    and "parse (Join (HostNodeNames n) '','') = Some hosts" and "finite hosts"
  shows "numa_total m' = numa_total m + of_int (Size hosts) * (word_of_int memory div word_of_int (Size hosts))"
proof -
  let ?share = "word_of_int memory div word_of_int (Size hosts) :: uint64"
  obtain cpus where cpus: "parse (Join (CPUIDs n) '','') = Some cpus"
    using assms(1,3-7) by (cases "parse (Join (CPUIDs n) '','')") (simp_all add: read_numa_line_def)
  have "read_host_nodes parse render (vn_Policy n) ?share (List cpus)
      (nat (go_div (Size cpus) (Size hosts))) 0 (List hosts) m = Inr m'"
    using assms(1) unfolding read_numa_line_def
    by (simp add: assms(3-8) cpus Let_def split: if_splits)
  from read_host_nodes_total [OF this assms(2)]
  have "numa_total m' = numa_total m + of_int (int (length (List hosts))) * ?share" by simp
  then show ?thesis unfolding length_List [OF assms(9)] .
qed

text \<open>A NUMA line with 1025 MiB for four CPUs on two host nodes: 1024 MiB are booked.\<close>

definition example_cpuset :: "string \<Rightarrow> CPUSet option" where
  "example_cpuset s =
     (if s = ''0-1'' then Some {0, 1} else if s = ''0-3'' then Some {0, 1, 2, 3}
      else if s = [] then Some {} else None)"

definition example_line :: VMNUMA where
  "example_line = \<lparr>vn_Memory = Some 1025, CPUIDs = [''0-3''], HostNodeNames = [''0-1''], vn_Policy = ''bind''\<rparr>"

end
