(* ===== verification/ResourceManager.thy ===== *)
theory ResourceManager
  imports Complex_Main StaticPolicy Discovery VMConfig
begin

text \<open>
  The resource manager of a host
  (\<open>src/pkg/providers/cloudcapacity/resourcemanager/resourcemanager.go\<close>): it finds the settings
  of the host, builds the topology and the policy, and forwards valid requests to the policy.

  The interface value \<open>Policy\<close> is the datatype \<open>nodePolicy\<close>. Everything outside the repository
  that the code calls is a field of a record of functions: \<open>cluster_api\<close> for the Proxmox
  client, \<open>environment\<close> for the options, the settings file and the text formats. A request is
  a pointer, and \<open>None\<close> is nil.
\<close>

section \<open>What the code calls\<close>

record ClusterResource =
  cr_Node :: string
  cr_VMID :: int
  cr_Name :: string
  cr_Status :: string
  cr_Tags :: string
  cr_CPU :: rat
  cr_Storage :: string
  cr_Shared :: int
  cr_PluginType :: string
  cr_Content :: string

record NodeNetwork =
  net_Iface :: string
  net_Active :: int
  net_MTU :: string
  net_CIDR :: string
  net_CIDR6 :: string
  net_Gateway :: string
  net_Gateway6 :: string

datatype api_error = VirtualMachineNotFound | ApiFailure

record cluster_api =
  api_Node :: "string \<Rightarrow> proxmox_Node option"
  api_GetVMByFilter :: "(ClusterResource \<Rightarrow> bool) \<Rightarrow> api_error + ClusterResource"
  api_GetVMsByFilter :: "(ClusterResource \<Rightarrow> bool) \<Rightarrow> api_error + ClusterResource list"
  api_GetVMConfig :: "int \<Rightarrow> VirtualMachine option"
  api_GetNodeListByFilter :: "(ClusterResource \<Rightarrow> bool) \<Rightarrow> ClusterResource list option"
  api_GetClusterStoragesByFilter :: "(ClusterResource \<Rightarrow> bool) \<Rightarrow> ClusterResource list option"
  api_Networks :: "string \<Rightarrow> NodeNetwork list option"

record Options =
  NodeSettingFilePath :: string
  NodePolicy :: string

record environment =
  env_options :: "Options option"
  env_settings_file :: "string \<Rightarrow> NodeSettingsConfig option"
  env_parse :: "string \<Rightarrow> CPUSet option"
  env_render :: "CPUSet \<Rightarrow> string"
  env_unmarshal :: "string \<Rightarrow> VMNUMA option"

datatype manager_error =
    MissingOptions
  | NodeNotFound
  | NodeSettingsError discovery_error
  | VMLookupFailed
  | VMConfigFailed
  | VMResourcesError vmconfig_error
  | AffinityPartParse string
  | NUMANodeCPUsParse int
  | CPUIndexOutOfRange int int int
  | SettingsFileFailed
  | TopologyError discovery_error
  | NewPolicyError policy_error
  | InvalidRequest
  | PolicyError policy_error

section \<open>Settings of the host\<close>

fun affinity_cpus :: "(string \<Rightarrow> CPUSet option) \<Rightarrow> string list \<Rightarrow> manager_error + int list" where
  "affinity_cpus parse [] = Inr []"
| "affinity_cpus parse (part # parts) =
     (case parse part of
        None \<Rightarrow> Inl (AffinityPartParse part)
      | Some cpus \<Rightarrow>
          (case affinity_cpus parse parts of Inl e \<Rightarrow> Inl e | Inr rest \<Rightarrow> Inr (List cpus @ rest)))"

text \<open>The host CPUs that the guest CPUs of a NUMA node are pinned to.\<close>

fun pinned_cpus :: "int \<Rightarrow> int list \<Rightarrow> int list \<Rightarrow> manager_error + CPUSet" where
  "pinned_cpus nodeID cpuList [] = Inr {}"
| "pinned_cpus nodeID cpuList (c # cs) =
     (if c \<ge> int (length cpuList) then Inl (CPUIndexOutOfRange nodeID c (int (length cpuList)))
      else case pinned_cpus nodeID cpuList cs of
             Inl e \<Rightarrow> Inl e
           | Inr cpus \<Rightarrow> Inr (insert (cpuList ! nat c) cpus))"

fun override_numa ::
  "(string \<Rightarrow> CPUSet option) \<Rightarrow> (CPUSet \<Rightarrow> string) \<Rightarrow> int list \<Rightarrow> (int, NUMANodeState) go_map
   \<Rightarrow> (int, NUMAInfo) go_map \<Rightarrow> manager_error + (int, NUMAInfo) go_map" where
  "override_numa parse render cpuList [] m = Inr m"
| "override_numa parse render cpuList ((nodeID, node) # rest) m =
     (case parse (ns_CPUs node) of
        None \<Rightarrow> Inl (NUMANodeCPUsParse nodeID)
      | Some numaCPUs \<Rightarrow>
          (case pinned_cpus nodeID cpuList (List numaCPUs) of
             Inl e \<Rightarrow> Inl e
           | Inr cpus \<Rightarrow>
               override_numa parse render cpuList rest
                 (go_update m nodeID \<lparr>ni_CPUs = render cpus, MemSize = ns_Memory node * 1024 * 1024\<rparr>)))"

definition nodeSettingsFromVM :: "environment \<Rightarrow> VirtualMachine \<Rightarrow> NodeSettings \<Rightarrow> manager_error + NodeSettings" where
  "nodeSettingsFromVM env vm st =
     (case GetResourceFromVM (env_parse env) (env_render env) (env_unmarshal env) (Some vm) of
        Inl e \<Rightarrow> Inl (VMResourcesError e)
      | Inr opt \<Rightarrow>
          (case affinity_cpus (env_parse env) (Split (Affinity opt) (CHR '','')) of
             Inl e \<Rightarrow> Inl e
           | Inr cpuList \<Rightarrow>
               (case override_numa (env_parse env) (env_render env) cpuList (vm_NUMANodes opt) (NUMANodesSetting st) of
                  Inl e \<Rightarrow> Inl e
                | Inr numas \<Rightarrow>
                    Inr (st\<lparr>NUMANodesSetting :=
                      (if numas = [] \<and> \<not> IsEmpty (vm_CPUSet opt)
                       then [(0, \<lparr>ni_CPUs = env_render env (vm_CPUSet opt), MemSize = Memory opt\<rparr>)]
                       else numas)\<rparr>))))"

definition default_settings :: NodeSettings where
  "default_settings =
     \<lparr>NumCoresSetting = 0, NumSocketsSetting = 0, NumThreads = 0, NumUncoreCaches = 0,
      NUMANodesSetting = [], ReservedCPUs = [], ReservedMemory = 1073741824\<rparr>"

definition is_capacity_vm :: "string \<Rightarrow> ClusterResource \<Rightarrow> bool" where
  "is_capacity_vm zone v \<longleftrightarrow>
     cr_Node v = zone \<and> cr_Name v = ''node-capacity'' \<and> ''karpenter'' \<in> set (Split (cr_Tags v) (CHR '';''))"

definition nodeSettingsFromCluster :: "environment \<Rightarrow> cluster_api \<Rightarrow> string \<Rightarrow> manager_error + NodeSettings" where
  "nodeSettingsFromCluster env cl zone =
     (case api_Node cl zone of
        None \<Rightarrow> Inl NodeNotFound
      | Some n \<Rightarrow>
          (case GetNodeSettingByNode (env_parse env) (env_render env) (Some n) of
             Inl e \<Rightarrow> Inl (NodeSettingsError e)
           | Inr predicted \<Rightarrow>
               let st = (case predicted of
                           None \<Rightarrow> default_settings
                         | Some st \<Rightarrow> st\<lparr>ReservedMemory := 1073741824\<rparr>)
               in (case api_GetVMByFilter cl (is_capacity_vm zone) of
                     Inl VirtualMachineNotFound \<Rightarrow> Inr st
                   | Inl ApiFailure \<Rightarrow> Inl VMLookupFailed
                   | Inr vmr \<Rightarrow>
                       (case api_GetVMConfig cl (cr_VMID vmr) of
                          None \<Rightarrow> Inl VMConfigFailed
                        | Some vm \<Rightarrow> nodeSettingsFromVM env vm st))))"

text \<open>The settings of the file override what is set in them.\<close>

definition override_settings :: "NodeSettings \<Rightarrow> NodeSettings \<Rightarrow> NodeSettings" where
  "override_settings st setting =
     st\<lparr>NumSocketsSetting := (if NumSocketsSetting setting \<noteq> 0 then NumSocketsSetting setting else NumSocketsSetting st),
        NumThreads := (if NumThreads setting \<noteq> 0 then NumThreads setting else NumThreads st),
        NumUncoreCaches := (if NumUncoreCaches setting \<noteq> 0 then NumUncoreCaches setting else NumUncoreCaches st),
        ReservedCPUs := (if ReservedCPUs setting \<noteq> [] then ReservedCPUs setting else ReservedCPUs st),
        ReservedMemory := (if ReservedMemory setting \<noteq> 0 then ReservedMemory setting else ReservedMemory st),
        NUMANodesSetting := (if NUMANodesSetting setting \<noteq> [] then NUMANodesSetting setting else NUMANodesSetting st)\<rparr>"

definition LoadNodeSettingsFromFile ::
  "environment \<Rightarrow> string \<Rightarrow> string \<Rightarrow> string \<Rightarrow> manager_error + NodeSettings option" where
  "LoadNodeSettingsFromFile env name region zone =
     (if name = [] then Inr None
      else case env_settings_file env name of
             None \<Rightarrow> Inl SettingsFileFailed
           | Some config \<Rightarrow> Inr (settings_of_zone config region zone))"

section \<open>The manager\<close>

datatype nodePolicy = SimpleNode simplePolicy | StaticNode staticPolicy

record resourceManager =
  rm_zone :: string
  rm_nodeSettings :: NodeSettings
  rm_nodePolicy :: nodePolicy

definition new_policy :: "string \<Rightarrow> Topology \<Rightarrow> NodeSettings \<Rightarrow> policy_error + nodePolicy" where
  "new_policy name t st =
     (if name = ''static''
      then (case NewStaticPolicy (Some t) (ReservedCPUs st) (ReservedMemory st) of
              Inl e \<Rightarrow> Inl e | Inr p \<Rightarrow> Inr (StaticNode p))
      else (case NewSimplePolicy (Some t) (ReservedCPUs st) (ReservedMemory st) of
              Inl e \<Rightarrow> Inl e | Inr p \<Rightarrow> Inr (SimpleNode p)))"

definition NewResourceManager ::
  "environment \<Rightarrow> cluster_api \<Rightarrow> string \<Rightarrow> string \<Rightarrow> manager_error + resourceManager" where
  "NewResourceManager env cl region zone =
     (case env_options env of
        None \<Rightarrow> Inl MissingOptions
      | Some opts \<Rightarrow>
          (case nodeSettingsFromCluster env cl zone of
             Inl e \<Rightarrow> Inl e
           | Inr st0 \<Rightarrow>
               (case LoadNodeSettingsFromFile env (NodeSettingFilePath opts) region zone of
                  Inl e \<Rightarrow> Inl e
                | Inr setting \<Rightarrow>
                    let st = (case setting of None \<Rightarrow> st0 | Some s \<Rightarrow> override_settings st0 s)
                    in (case DiscoverFromSettings (env_parse env) (Some st) of
                          Inl e \<Rightarrow> Inl (TopologyError e)
                        | Inr t \<Rightarrow>
                            (case new_policy (NodePolicy opts) t st of
                               Inl e \<Rightarrow> Inl (NewPolicyError e)
                             | Inr p \<Rightarrow> Inr \<lparr>rm_zone = zone, rm_nodeSettings = st, rm_nodePolicy = p\<rparr>)))))"

text \<open>Dispatch over the policies.\<close>

definition lift_policy :: "('p \<Rightarrow> nodePolicy) \<Rightarrow> policy_error + 'p \<times> VMResources \<Rightarrow> policy_error + nodePolicy \<times> VMResources" where
  "lift_policy wrap r = (case r of Inl e \<Rightarrow> Inl e | Inr (p, req) \<Rightarrow> Inr (wrap p, req))"

fun policy_Allocate :: "nodePolicy policy_operation" where
  "policy_Allocate (SimpleNode p) req = lift_policy SimpleNode (simple_Allocate p req)"
| "policy_Allocate (StaticNode p) req = lift_policy StaticNode (static_Allocate p req)"

fun policy_AllocateOrUpdate :: "nodePolicy policy_operation" where
  "policy_AllocateOrUpdate (SimpleNode p) req = lift_policy SimpleNode (simple_AllocateOrUpdate p req)"
| "policy_AllocateOrUpdate (StaticNode p) req = lift_policy StaticNode (static_AllocateOrUpdate p req)"

fun policy_Release :: "nodePolicy policy_operation" where
  "policy_Release (SimpleNode p) req = lift_policy SimpleNode (simple_Release p req)"
| "policy_Release (StaticNode p) req = lift_policy StaticNode (static_Release p req)"

definition rm_forward ::
  "resourceManager \<Rightarrow> policy_error + nodePolicy \<times> VMResources \<Rightarrow> manager_error + resourceManager \<times> VMResources option" where
  "rm_forward r outcome =
     (case outcome of
        Inl e \<Rightarrow> Inl (PolicyError e)
      | Inr (p, req) \<Rightarrow> Inr (r\<lparr>rm_nodePolicy := p\<rparr>, Some req))"

definition rm_Allocate :: "resourceManager \<Rightarrow> VMResources option \<Rightarrow> manager_error + resourceManager \<times> VMResources option" where
  "rm_Allocate r request =
     (case request of
        None \<Rightarrow> Inl InvalidRequest
      | Some op \<Rightarrow>
          if vm_CPUs op \<le> 0 \<or> Memory op = 0 then Inl InvalidRequest
          else rm_forward r (policy_Allocate (rm_nodePolicy r) op))"

definition rm_AllocateOrUpdate :: "resourceManager \<Rightarrow> VMResources option \<Rightarrow> manager_error + resourceManager \<times> VMResources option" where
  "rm_AllocateOrUpdate r request =
     (case request of
        None \<Rightarrow> Inl InvalidRequest
      | Some op \<Rightarrow>
          if vm_CPUs op \<le> 0 \<or> Memory op = 0 \<or> vm_ID op = 0 then Inl InvalidRequest
          else rm_forward r (policy_AllocateOrUpdate (rm_nodePolicy r) op))"

definition rm_Release :: "resourceManager \<Rightarrow> VMResources option \<Rightarrow> manager_error + resourceManager \<times> VMResources option" where
  "rm_Release r request =
     (case request of
        None \<Rightarrow> Inr (r, None)
      | Some op \<Rightarrow>
          if vm_CPUs op \<le> 0 \<or> Memory op = 0 \<or> vm_ID op = 0 then Inr (r, Some op)
          else rm_forward r (policy_Release (rm_nodePolicy r) op))"

definition rm_AvailableCPUs :: "resourceManager \<Rightarrow> int" where
  "rm_AvailableCPUs r =
     (case rm_nodePolicy r of SimpleNode p \<Rightarrow> simple_AvailableCPUs p | StaticNode p \<Rightarrow> static_AvailableCPUs p)"

definition rm_AvailableMemory :: "resourceManager \<Rightarrow> uint64" where
  "rm_AvailableMemory r =
     (case rm_nodePolicy r of SimpleNode p \<Rightarrow> simple_AvailableMemory p | StaticNode p \<Rightarrow> static_AvailableMemory p)"

section \<open>The policies behind one interface\<close>

fun node_inv :: "nodePolicy \<Rightarrow> bool" where
  "node_inv (SimpleNode p) = base_inv p"
| "node_inv (StaticNode p) = static_inv p"

fun node_admissible :: "nodePolicy \<Rightarrow> VMResources \<Rightarrow> bool" where
  "node_admissible (SimpleNode p) = base_request p"
| "node_admissible (StaticNode p) = base_request p"

fun node_base :: "nodePolicy \<Rightarrow> policy_base" where
  "node_base (SimpleNode p) = p"
| "node_base (StaticNode p) = policy_base.truncate p"

lemma lift_policy_Inr:
  "lift_policy wrap r = Inr (p', req') \<longleftrightarrow> (\<exists>q. r = Inr (q, req') \<and> p' = wrap q)"
  by (auto simp: lift_policy_def split: sum.split)

interpretation node: node_policy node_inv node_admissible node_base
  policy_Allocate policy_AllocateOrUpdate policy_Release
proof
  fix p :: nodePolicy
  show "node_inv p \<Longrightarrow> base_inv (node_base p)" by (cases p) (auto simp: static_inv_def)
next
  fix p p' :: nodePolicy and req req' :: VMResources
  assume alloc: "policy_Allocate p req = Inr (p', req')"
  show "node_admissible p' = node_admissible p"
    using alloc by (cases p) (auto simp: lift_policy_Inr dest: simple.alloc_frame static.alloc_frame)
  assume "node_inv p" "node_admissible p req"
  with alloc show "node_inv p'"
    by (cases p) (auto simp: lift_policy_Inr intro: simple.alloc_inv static.alloc_inv)
  from \<open>node_inv p\<close> \<open>node_admissible p req\<close> alloc
  show "unat (assignedMemory (node_base p')) = unat (assignedMemory (node_base p)) + unat (Memory req)"
    by (cases p) (auto simp: lift_policy_Inr intro: simple.alloc_memory static.alloc_memory)
next
  fix p p' :: nodePolicy and req req' :: VMResources
  assume upd: "policy_AllocateOrUpdate p req = Inr (p', req')"
  show "node_admissible p' = node_admissible p"
    using upd by (cases p) (auto simp: lift_policy_Inr dest: simple.upd_frame static.upd_frame)
  assume "node_inv p" "node_admissible p req"
  with upd show "node_inv p'"
    by (cases p) (auto simp: lift_policy_Inr intro: simple.upd_inv static.upd_inv)
next
  fix p p' :: nodePolicy and req req' :: VMResources
  assume rel: "policy_Release p req = Inr (p', req')"
  show "node_admissible p' = node_admissible p"
    using rel by (cases p) (auto simp: lift_policy_Inr dest: simple.rel_frame static.rel_frame)
  assume "node_inv p" "node_admissible p req"
  with rel show "node_inv p'"
    by (cases p) (auto simp: lift_policy_Inr intro: simple.rel_inv static.rel_inv)
  from \<open>node_inv p\<close> \<open>node_admissible p req\<close> rel
  show "unat (assignedMemory (node_base p)) = unat (assignedMemory (node_base p')) + unat (Memory req)"
    by (cases p) (auto simp: lift_policy_Inr intro: simple.rel_memory static.rel_memory)
qed

lemma new_policy_inv:
  assumes "new_policy name t st = Inr p" and "TotalMemory (MemTopo t) < 2 ^ 63" and "topology_ok (CPUTopo t)"
  shows "node_inv p"
  using assms NewSimplePolicy_inv [OF _ assms(2)] NewStaticPolicy_inv [OF _ assms(2,3)]
  by (auto simp: new_policy_def split: if_splits sum.splits)

lemma NewResourceManager_policy:
  assumes "NewResourceManager env cl region zone = Inr r"
  obtains opts t where "env_options env = Some opts"
    "DiscoverFromSettings (env_parse env) (Some (rm_nodeSettings r)) = Inr t"
    "new_policy (NodePolicy opts) t (rm_nodeSettings r) = Inr (rm_nodePolicy r)"
  using assms by (auto simp: NewResourceManager_def Let_def split: option.splits sum.splits)

section \<open>Properties of the resource manager\<close>

text \<open>One call of the manager; a refused call leaves it as it is.\<close>

fun rm_call :: "resourceManager \<Rightarrow> policy_request \<Rightarrow> resourceManager" where
  "rm_call r (DoAllocate req) = (case rm_Allocate r (Some req) of Inl e \<Rightarrow> r | Inr (r', req') \<Rightarrow> r')"
| "rm_call r (DoAllocateOrUpdate req) =
     (case rm_AllocateOrUpdate r (Some req) of Inl e \<Rightarrow> r | Inr (r', req') \<Rightarrow> r')"
| "rm_call r (DoRelease req) = (case rm_Release r (Some req) of Inl e \<Rightarrow> r | Inr (r', req') \<Rightarrow> r')"

lemma rm_call_policy:
  "rm_nodePolicy (rm_call r q) =
     policy_call policy_Allocate policy_AllocateOrUpdate policy_Release (rm_nodePolicy r) q \<or>
   rm_call r q = r"
  by (cases q) (auto simp: rm_Allocate_def rm_AllocateOrUpdate_def rm_Release_def rm_forward_def split: sum.split)

lemma rm_run_inv:
  "node_inv (rm_nodePolicy r) \<Longrightarrow> (\<And>q. q \<in> set qs \<Longrightarrow> node_admissible (rm_nodePolicy r) (request_of q)) \<Longrightarrow>
   node_inv (rm_nodePolicy (foldl rm_call r qs))"
proof (induction qs arbitrary: r)
  case (Cons q qs)
  have "node_inv (rm_nodePolicy (rm_call r q)) \<and>
        node_admissible (rm_nodePolicy (rm_call r q)) = node_admissible (rm_nodePolicy r)"
    using rm_call_policy [of r q] node.call_inv [of "rm_nodePolicy r" q] Cons.prems by auto
  with Cons show ?case by simp
qed simp

lemma word_div_mult_le: "k * (m div k) \<le> m" for k m :: uint64
proof -
  have "unat (k * (m div k)) \<le> unat k * unat (m div k)"
    unfolding unat_word_ariths(2) by (rule mod_less_eq_dividend)
  also have "\<dots> \<le> unat m"
    unfolding unat_div_distrib by (metis div_mult_mod_eq le_add1 mult.commute)
  finally show ?thesis by (simp add: word_le_nat_alt)
qed

lemma intel_manager:
  assumes laws: "cpuset_laws (env_parse env) (env_render env)" and host: "intel_host n"
    and opts: "env_options env = Some opts" "NodeSettingFilePath opts = []"
    and api: "api_Node cl zone = Some n" "api_GetVMByFilter cl (is_capacity_vm zone) = Inl VirtualMachineNotFound"
    and mem: "mem = of_int (node_Sockets n) * (node_Memory n div of_int (node_Sockets n))"
      "1073741824 < mem" "node_Memory n < 2 ^ 63"
  shows "\<exists>r T. NewResourceManager env cl region zone = Inr r \<and>
           DiscoverFromSettings (env_parse env) (Some (rm_nodeSettings r)) = Inr T \<and>
           TotalMemory (MemTopo T) < 2 ^ 63 \<and> topology_ok (CPUTopo T) \<and> node_inv (rm_nodePolicy r) \<and>
           rm_AvailableCPUs r = predicted_CPUs n \<and> rm_AvailableMemory r = mem - 1073741824"
proof -
  obtain st T where st: "GetNodeSettingByNode (env_parse env) (env_render env) (Some n) = Inr (Some st)"
    and T: "DiscoverFromSettings (env_parse env) (Some st) = Inr T" "topology_ok (CPUTopo T)"
      "CPUs (Details (CPUTopo T)) = {0..<predicted_CPUs n}" "NumCPUs (CPUTopo T) = predicted_CPUs n"
      "ReservedCPUs st = []" "TotalMemory (MemTopo T) = mem"
    using intel_topology [OF laws host] mem(1) by auto
  let ?st = "st\<lparr>ReservedMemory := 1073741824\<rparr>"
  have "0 \<le> node_CPUs n" "0 \<le> node_Cores n" using host by (simp_all add: intel_host_def)
  then have cpus: "0 \<le> predicted_CPUs n" "Size {0..<predicted_CPUs n} = predicted_CPUs n"
    by (simp_all add: predicted_CPUs_def Size_def pos_imp_zdiv_nonneg_iff div_int_pos_iff)
  have "mem < 2 ^ 63" unfolding mem(1) using word_div_mult_le mem(3) by (rule le_less_trans)
  have pos: "\<not> mem - 1073741824 \<le> 0" using mem(2) by auto
  obtain p where p: "new_policy (NodePolicy opts) T ?st = Inr p"
    using T mem(2) cpus
    by (cases "NodePolicy opts = ''static''")
      (simp_all add: new_policy_def NewStaticPolicy_def NewSimplePolicy_def Let_def not_le)
  let ?r = "\<lparr>rm_zone = zone, rm_nodeSettings = ?st, rm_nodePolicy = p\<rparr>"
  have "nodeSettingsFromCluster env cl zone = Inr ?st"
    using st api by (simp add: nodeSettingsFromCluster_def)
  with T(1) opts p have "NewResourceManager env cl region zone = Inr ?r"
    by (simp add: NewResourceManager_def LoadNodeSettingsFromFile_def DiscoverFromSettings_reserved)
  moreover have "node_inv (rm_nodePolicy ?r)"
    using new_policy_inv [OF p _ T(2)] T(6) \<open>mem < 2 ^ 63\<close> by simp
  moreover have "rm_AvailableCPUs ?r = predicted_CPUs n \<and> rm_AvailableMemory ?r = mem - 1073741824"
    using p T cpus mem(2) pos
    by (auto simp: new_policy_def NewStaticPolicy_def NewSimplePolicy_def Let_def rm_AvailableCPUs_def
        rm_AvailableMemory_def simple_AvailableCPUs_def static_AvailableCPUs_def
        simple_AvailableMemory_def static_AvailableMemory_def split: if_splits)
  moreover have "DiscoverFromSettings (env_parse env) (Some (rm_nodeSettings ?r)) = Inr T"
    using T(1) by (simp add: DiscoverFromSettings_reserved)
  ultimately show ?thesis using T(2,6) \<open>mem < 2 ^ 63\<close> by blast
qed

text \<open>An unconfigured cluster of one Intel host, and the static policy.\<close>

definition example_options :: Options where
  "example_options = \<lparr>NodeSettingFilePath = [], NodePolicy = ''static''\<rparr>"

definition example_env :: environment where
  "example_env =
     \<lparr>env_options = Some example_options,
      env_settings_file = (\<lambda>name. None), env_parse = example_parse, env_render = example_render,
      env_unmarshal = (\<lambda>s. None)\<rparr>"

definition example_cluster :: cluster_api where
  "example_cluster =
     \<lparr>api_Node = (\<lambda>zone. Some example_intel), api_GetVMByFilter = (\<lambda>f. Inl VirtualMachineNotFound),
      api_GetVMsByFilter = (\<lambda>f. Inr []), api_GetVMConfig = (\<lambda>id. None),
      api_GetNodeListByFilter = (\<lambda>f. Some []), api_GetClusterStoragesByFilter = (\<lambda>f. Some []),
      api_Networks = (\<lambda>node. Some [])\<rparr>"

lemma example_intel_host: "intel_host example_intel"
  unfolding intel_host_def by code_simp

lemma example_memory:
  "68719476736 = of_int (node_Sockets example_intel) * (node_Memory example_intel div of_int (node_Sockets example_intel))"
  by (simp add: example_intel_def)

lemma example_manager:
  "\<exists>r T. NewResourceManager example_env example_cluster region zone = Inr r \<and>
     DiscoverFromSettings (env_parse example_env) (Some (rm_nodeSettings r)) = Inr T \<and>
     TotalMemory (MemTopo T) < 2 ^ 63 \<and> topology_ok (CPUTopo T) \<and> node_inv (rm_nodePolicy r) \<and>
     rm_AvailableCPUs r = node_CPUs example_intel \<and> rm_AvailableMemory r = 68719476736 - 1073741824"
proof -
  have "predicted_CPUs example_intel = node_CPUs example_intel" by (rule predicted_CPUs_even) (simp_all add: example_intel_def)
  from this [symmetric] show ?thesis
    by (simp only:)
      (rule intel_manager [OF _ example_intel_host _ _ _ _ example_memory, where opts = example_options],
        simp_all add: example_env_def example_options_def example_cluster_def example_codec example_intel_def)
qed

text \<open>
  A resource manager, whichever policy it was configured with, keeps the books of its host
  through every sequence of calls, invalid and refused ones included: CPUs are neither lost nor
  given out twice, and the memory of the VMs stays within the memory of the host.
\<close>

lemma manager_invariant:
  assumes "NewResourceManager env cl region zone = Inr r"
    and "DiscoverFromSettings (env_parse env) (Some (rm_nodeSettings r)) = Inr t"
    and "TotalMemory (MemTopo t) < 2 ^ 63" and "topology_ok (CPUTopo t)"
    and "\<forall>q \<in> set qs. node_admissible (rm_nodePolicy r) (request_of q)"
  shows "base_inv (node_base (rm_nodePolicy (foldl rm_call r qs)))"
proof -
  obtain opts t' where "env_options env = Some opts" "DiscoverFromSettings (env_parse env) (Some (rm_nodeSettings r)) = Inr t'"
    "new_policy (NodePolicy opts) t' (rm_nodeSettings r) = Inr (rm_nodePolicy r)"
    by (rule NewResourceManager_policy [OF assms(1)])
  then have "new_policy (NodePolicy opts) t (rm_nodeSettings r) = Inr (rm_nodePolicy r)"
    using assms(2) by simp
  then have "node_inv (rm_nodePolicy r)" by (rule new_policy_inv [OF _ assms(3,4)])
  with assms(5) show ?thesis by (intro node.inv_base rm_run_inv) auto
qed

text \<open>
  C17. On an Intel host that nobody has configured otherwise, whose sockets have equally many cores and
  whose cores have fewer than three threads on average, the resource manager is created, for either policy,
  and starts with books in order. It reports the whole number of threads per core times the number
  of cores: all CPUs where every core has as many threads, but on a hybrid host (24 CPUs on 16 cores) only
  as many CPUs as there are cores. It reports all memory of the NUMA nodes, whose share is rounded
  down to bytes, except the reserved gigabyte.
\<close>

theorem manager_intel_host:
  assumes laws: "cpuset_laws (env_parse env) (env_render env)" and host: "intel_host n"
    and opts: "env_options env = Some opts" "NodeSettingFilePath opts = []"
    and api: "api_Node cl zone = Some n" "api_GetVMByFilter cl (is_capacity_vm zone) = Inl VirtualMachineNotFound"
    and mem: "mem = of_int (node_Sockets n) * (node_Memory n div of_int (node_Sockets n))"
      "1073741824 < mem" "node_Memory n < 2 ^ 63"
  shows "\<exists>r. NewResourceManager env cl region zone = Inr r \<and> node_inv (rm_nodePolicy r) \<and>
           rm_AvailableCPUs r = node_CPUs n div node_Cores n * node_Cores n \<and>
           (node_Cores n dvd node_CPUs n \<longrightarrow> rm_AvailableCPUs r = node_CPUs n) \<and>
           rm_AvailableMemory r = mem - 1073741824"
  using intel_manager [OF assms, of region] by (auto simp: predicted_CPUs_def)

text \<open>A host of eight cores with two threads and eight with one, and a host with two threads on every core.\<close>

definition example_hybrid :: proxmox_Node where
  "example_hybrid =
     \<lparr>node_CPUs = 24, node_Cores = 16, node_Sockets = 1, node_Model = ''13th Gen Intel(R) Core(TM) i7-13700K'', node_Memory = 68719476736\<rparr>"

theorem manager_intel_host_witness:
  "(\<exists>r. NewResourceManager example_env example_cluster ''region-1'' ''node-1'' = Inr r \<and>
     node_inv (rm_nodePolicy r) \<and> rm_AvailableCPUs r = 16 \<and> rm_AvailableMemory r = 68719476736 - 1073741824) \<and>
   (\<exists>r. NewResourceManager example_env (example_cluster\<lparr>api_Node := \<lambda>zone. Some example_hybrid\<rparr>) ''region-1'' ''node-1'' = Inr r \<and>
     node_inv (rm_nodePolicy r) \<and> rm_AvailableCPUs r = 16 \<and> rm_AvailableMemory r = 68719476736 - 1073741824)"
proof
  have "\<exists>r. NewResourceManager example_env example_cluster ''region-1'' ''node-1'' = Inr r \<and> node_inv (rm_nodePolicy r) \<and>
      rm_AvailableCPUs r = node_CPUs example_intel div node_Cores example_intel * node_Cores example_intel \<and>
      (node_Cores example_intel dvd node_CPUs example_intel \<longrightarrow> rm_AvailableCPUs r = node_CPUs example_intel) \<and>
      rm_AvailableMemory r = 68719476736 - 1073741824"
    by (rule manager_intel_host [OF _ example_intel_host _ _ _ _ example_memory, where opts = example_options])
      (simp_all add: example_env_def example_options_def example_cluster_def example_intel_def example_codec)
  then show "\<exists>r. NewResourceManager example_env example_cluster ''region-1'' ''node-1'' = Inr r \<and>
     node_inv (rm_nodePolicy r) \<and> rm_AvailableCPUs r = 16 \<and> rm_AvailableMemory r = 68719476736 - 1073741824"
    by (simp add: example_intel_def)
  have "intel_host example_hybrid" unfolding intel_host_def by code_simp
  then have "\<exists>r. NewResourceManager example_env (example_cluster\<lparr>api_Node := \<lambda>zone. Some example_hybrid\<rparr>) ''region-1'' ''node-1'' = Inr r \<and>
      node_inv (rm_nodePolicy r) \<and> rm_AvailableCPUs r = node_CPUs example_hybrid div node_Cores example_hybrid * node_Cores example_hybrid \<and>
      (node_Cores example_hybrid dvd node_CPUs example_hybrid \<longrightarrow> rm_AvailableCPUs r = node_CPUs example_hybrid) \<and>
      rm_AvailableMemory r = 68719476736 - 1073741824"
    by (intro manager_intel_host [where opts = example_options and n = example_hybrid])
      (simp_all add: example_env_def example_options_def example_cluster_def example_hybrid_def example_codec)
  then show "\<exists>r. NewResourceManager example_env (example_cluster\<lparr>api_Node := \<lambda>zone. Some example_hybrid\<rparr>) ''region-1'' ''node-1'' = Inr r \<and>
     node_inv (rm_nodePolicy r) \<and> rm_AvailableCPUs r = 16 \<and> rm_AvailableMemory r = 68719476736 - 1073741824"
    by (simp add: example_hybrid_def)
qed

end
