(* ===== verification/CloudCapacity.thy ===== *)
theory CloudCapacity
  imports ResourceManager
begin

text \<open>
  The capacity provider (\<open>src/pkg/providers/cloudcapacity/cloudcapacity.go\<close>, \<open>types.go\<close>,
  \<open>utils.go\<close>): the resource managers of all hosts under the key \<open>region/zone\<close>, the zones of
  each region, the storages and the network interfaces. The Proxmox pool is a record of the two
  functions the code calls. The locks serialise the operations, which are therefore atomic; the
  argument \<open>id\<close> of the two capacity operations is not used by the code and left out.

  A Kubernetes quantity is an exact number (\<^typ>\<open>rat\<close>); a load is the exact fraction where the
  API has a \<open>float64\<close>.
\<close>

section \<open>State\<close>

record NodeCapacityInfo =
  nc_Name :: string
  nc_Region :: string
  CPULoad :: int
  nc_ResourceManager :: "resourceManager option"

record NodeStorageCapacityInfo =
  sc_Name :: string
  sc_Region :: string
  Shared :: bool
  sc_Type :: string
  Capabilities :: "string list"
  sc_Zones :: "string list"

record NetworkIfaceInfo =
  Address4 :: string
  Address6 :: string
  Gateway4 :: string
  Gateway6 :: string
  MTU :: "32 word"

record NodeNetworkIfaceInfo =
  nn_Name :: string
  nn_Region :: string
  Ifaces :: "(string, NetworkIfaceInfo) go_map"

record cloudProvider =
  zoneList :: "(string, string list) go_map"
  capacityInfo :: "(string, NodeCapacityInfo) go_map"
  storageInfo :: "(string, NodeStorageCapacityInfo) go_map"
  networkInfo :: "(string, NodeNetworkIfaceInfo) go_map"

record proxmoxPool =
  pool_GetRegions :: "string list"
  pool_GetProxmoxCluster :: "string \<Rightarrow> cluster_api option"

record ResourceList =
  req_Cpu :: rat
  req_Memory :: rat

datatype capacity_error =
    NilRequest
  | NoResourceManager string string
  | ZoneError string string manager_error
  | CannotListVMs
  | CannotGetVMConfig int
  | CannotGetVMResources vmconfig_error
  | CannotCreateManager manager_error
  | CannotGetNetworks
  | BadMTU

definition zone_key :: "string \<Rightarrow> string \<Rightarrow> string" where
  "zone_key region zone = region @ ''/'' @ zone"

definition NewCapacityProvider :: cloudProvider where
  "NewCapacityProvider = \<lparr>zoneList = [], capacityInfo = [], storageInfo = [], networkInfo = []\<rparr>"

section \<open>Capacity of a zone\<close>

definition in_zone ::
  "(resourceManager \<Rightarrow> VMResources option \<Rightarrow> manager_error + resourceManager \<times> VMResources option)
   \<Rightarrow> cloudProvider \<Rightarrow> string \<Rightarrow> string \<Rightarrow> VMResources option
   \<Rightarrow> capacity_error + cloudProvider \<times> VMResources option" where
  "in_zone rm_op p region zone op =
     (if op = None then Inl NilRequest
      else case map_of (capacityInfo p) (zone_key region zone) of
             None \<Rightarrow> Inl (NoResourceManager region zone)
           | Some info \<Rightarrow>
               (case nc_ResourceManager info of
                  None \<Rightarrow> Inl (NoResourceManager region zone)
                | Some r \<Rightarrow>
                    (case rm_op r op of
                       Inl e \<Rightarrow> Inl (ZoneError region zone e)
                     | Inr (r', op') \<Rightarrow>
                         Inr (p\<lparr>capacityInfo := go_update (capacityInfo p) (zone_key region zone)
                                  (info\<lparr>nc_ResourceManager := Some r'\<rparr>)\<rparr>, op'))))"

definition AllocateCapacityInZone ::
  "cloudProvider \<Rightarrow> string \<Rightarrow> string \<Rightarrow> VMResources option \<Rightarrow> capacity_error + cloudProvider \<times> VMResources option" where
  "AllocateCapacityInZone = in_zone rm_Allocate"

definition ReleaseCapacityInZone ::
  "cloudProvider \<Rightarrow> string \<Rightarrow> string \<Rightarrow> VMResources option \<Rightarrow> capacity_error + cloudProvider \<times> VMResources option" where
  "ReleaseCapacityInZone = in_zone rm_Release"

section \<open>Synchronisation with the cluster\<close>

definition percent :: "rat \<Rightarrow> int" where
  "percent x = (if 0 \<le> x then \<lfloor>x * 100\<rfloor> else \<lceil>x * 100\<rceil>)"

text \<open>The loop over the running VMs of a host; a VM the policy refuses is logged and skipped.\<close>

fun count_vms :: "environment \<Rightarrow> cluster_api \<Rightarrow> ClusterResource list \<Rightarrow> resourceManager \<Rightarrow> capacity_error + resourceManager" where
  "count_vms env cl [] r = Inr r"
| "count_vms env cl (vmr # vms) r =
     (case api_GetVMConfig cl (cr_VMID vmr) of
        None \<Rightarrow> Inl (CannotGetVMConfig (cr_VMID vmr))
      | Some vm \<Rightarrow>
          (case GetResourceFromVM (env_parse env) (env_render env) (env_unmarshal env) (Some vm) of
             Inl e \<Rightarrow> Inl (CannotGetVMResources e)
           | Inr opt \<Rightarrow>
               (case rm_AllocateOrUpdate r (Some opt) of
                  Inl e \<Rightarrow> count_vms env cl vms r
                | Inr (r', opt') \<Rightarrow> count_vms env cl vms r')))"

definition updateNodeCapacity ::
  "environment \<Rightarrow> cluster_api \<Rightarrow> string \<Rightarrow> resourceManager \<Rightarrow> capacity_error + resourceManager" where
  "updateNodeCapacity env cl name r =
     (case api_GetVMsByFilter cl (\<lambda>vm. cr_Node vm = name \<and> cr_Status vm = ''running'') of
        Inl VirtualMachineNotFound \<Rightarrow> Inr r
      | Inl ApiFailure \<Rightarrow> Inl CannotListVMs
      | Inr vms \<Rightarrow> count_vms env cl vms r)"

definition getNodeCapacity ::
  "environment \<Rightarrow> cluster_api \<Rightarrow> string \<Rightarrow> ClusterResource \<Rightarrow> capacity_error + NodeCapacityInfo" where
  "getNodeCapacity env cl region item =
     (case NewResourceManager env cl region (cr_Node item) of
        Inl e \<Rightarrow> Inl (CannotCreateManager e)
      | Inr r \<Rightarrow>
          (case updateNodeCapacity env cl (cr_Node item) r of
             Inl e \<Rightarrow> Inl e
           | Inr r' \<Rightarrow>
               Inr \<lparr>nc_Name = cr_Node item, nc_Region = region, CPULoad = percent (cr_CPU item),
                    nc_ResourceManager = Some r'\<rparr>))"

fun node_ifaces ::
  "NodeNetwork list \<Rightarrow> (string, NetworkIfaceInfo) go_map \<Rightarrow> capacity_error + (string, NetworkIfaceInfo) go_map" where
  "node_ifaces [] m = Inr m"
| "node_ifaces (net # nets) m =
     (if net_Active net = 0 then node_ifaces nets m
      else case (if net_MTU net = [] then Some 1500 else Atoi (net_MTU net)) of
             None \<Rightarrow> Inl BadMTU
           | Some mtu \<Rightarrow>
               node_ifaces nets
                 (go_update m (net_Iface net)
                    \<lparr>Address4 = net_CIDR net, Address6 = net_CIDR6 net, Gateway4 = net_Gateway net,
                     Gateway6 = net_Gateway6 net, MTU = word_of_int mtu\<rparr>))"

definition getNodeNetwork :: "cluster_api \<Rightarrow> string \<Rightarrow> ClusterResource \<Rightarrow> capacity_error + NodeNetworkIfaceInfo" where
  "getNodeNetwork cl region item =
     (case api_Networks cl (cr_Node item) of
        None \<Rightarrow> Inl CannotGetNetworks
      | Some networks \<Rightarrow>
          (case node_ifaces networks [] of
             Inl e \<Rightarrow> Inl e
           | Inr ifaces \<Rightarrow> Inr \<lparr>nn_Name = cr_Node item, nn_Region = region, Ifaces = ifaces\<rparr>))"

text \<open>A host whose capacity cannot be found stays in the list of zones, without capacity or network.\<close>

fun sync_nodes ::
  "environment \<Rightarrow> cluster_api \<Rightarrow> string \<Rightarrow> ClusterResource list
   \<Rightarrow> (string, NodeCapacityInfo) go_map \<times> (string, NodeNetworkIfaceInfo) go_map
   \<Rightarrow> (string, NodeCapacityInfo) go_map \<times> (string, NodeNetworkIfaceInfo) go_map" where
  "sync_nodes env cl region [] maps = maps"
| "sync_nodes env cl region (item # items) (caps, nets) =
     (let key = zone_key region (cr_Node item)
      in case getNodeCapacity env cl region item of
           Inl e \<Rightarrow> sync_nodes env cl region items (caps, nets)
         | Inr info \<Rightarrow>
             sync_nodes env cl region items
               (go_update caps key info,
                (case getNodeNetwork cl region item of
                   Inl e \<Rightarrow> nets
                 | Inr ifaces \<Rightarrow> if Ifaces ifaces = [] then nets else go_update nets key ifaces)))"

definition is_online :: "ClusterResource \<Rightarrow> bool" where
  "is_online n \<longleftrightarrow> cr_Status n = ''online''"

fun sync_regions ::
  "environment \<Rightarrow> proxmoxPool \<Rightarrow> string list
   \<Rightarrow> (string, NodeCapacityInfo) go_map \<times> (string, NodeNetworkIfaceInfo) go_map \<times> (string, string list) go_map
   \<Rightarrow> (string, NodeCapacityInfo) go_map \<times> (string, NodeNetworkIfaceInfo) go_map \<times> (string, string list) go_map" where
  "sync_regions env pool [] maps = maps"
| "sync_regions env pool (region # regions) (caps, nets, zones) =
     (case pool_GetProxmoxCluster pool region of
        None \<Rightarrow> sync_regions env pool regions (caps, nets, zones)
      | Some cl \<Rightarrow>
          (case api_GetNodeListByFilter cl is_online of
             None \<Rightarrow> sync_regions env pool regions (caps, nets, zones)
           | Some ns \<Rightarrow>
               let (caps', nets') = sync_nodes env cl region ns (caps, nets)
               in sync_regions env pool regions (caps', nets', go_update zones region (map cr_Node ns))))"

definition SyncNodeCapacity :: "environment \<Rightarrow> proxmoxPool \<Rightarrow> cloudProvider \<Rightarrow> cloudProvider" where
  "SyncNodeCapacity env pool p =
     (let (caps, nets, zones) = sync_regions env pool (pool_GetRegions pool) ([], [], [])
      in p\<lparr>capacityInfo := caps, networkInfo := nets, zoneList := zones\<rparr>)"

definition update_loads ::
  "string \<Rightarrow> ClusterResource list \<Rightarrow> (string, NodeCapacityInfo) go_map \<Rightarrow> (string, NodeCapacityInfo) go_map" where
  "update_loads region ns caps =
     foldl (\<lambda>caps item.
         case map_of caps (zone_key region (cr_Node item)) of
           None \<Rightarrow> caps
         | Some info \<Rightarrow>
             go_update caps (zone_key region (cr_Node item)) (info\<lparr>CPULoad := percent (cr_CPU item)\<rparr>)) caps ns"

definition UpdateNodeLoad :: "proxmoxPool \<Rightarrow> cloudProvider \<Rightarrow> cloudProvider" where
  "UpdateNodeLoad pool p =
     p\<lparr>capacityInfo := foldl (\<lambda>caps (region, zones).
         case pool_GetProxmoxCluster pool region of
           None \<Rightarrow> caps
         | Some cl \<Rightarrow>
             (case api_GetNodeListByFilter cl is_online of
                None \<Rightarrow> caps
              | Some ns \<Rightarrow> update_loads region ns caps)) (capacityInfo p) (zoneList p)\<rparr>"

section \<open>Storages\<close>

definition is_usable_storage :: "ClusterResource \<Rightarrow> bool" where
  "is_usable_storage r \<longleftrightarrow>
     cr_Status r = ''available'' \<and>
     list_ex (\<lambda>c. c = ''images'' \<or> c = ''iso'' \<or> c = ''import'') (Split (cr_Content r) (CHR '',''))"

definition storage_entry :: "string \<Rightarrow> ClusterResource \<Rightarrow> NodeStorageCapacityInfo" where
  "storage_entry region item =
     \<lparr>sc_Name = cr_Storage item, sc_Region = region, Shared = (cr_Shared item = 1),
      sc_Type = cr_PluginType item, Capabilities = Split (cr_Content item) (CHR '',''),
      sc_Zones = [cr_Node item]\<rparr>"

text \<open>The names of the storages in the order of their first appearance.\<close>

definition storage_names :: "ClusterResource list \<Rightarrow> string list" where
  "storage_names items =
     foldl (\<lambda>names item. if cr_Storage item \<in> set names then names else names @ [cr_Storage item]) [] items"

text \<open>\<open>slices.Compact\<close> drops an element that equals its predecessor.\<close>

definition slices_Compact :: "string list \<Rightarrow> string list" where
  "slices_Compact = remdups_adj"

definition merge_storage ::
  "string \<Rightarrow> (string, NodeStorageCapacityInfo) go_map \<Rightarrow> string \<Rightarrow> (string, NodeStorageCapacityInfo) go_map" where
  "merge_storage region caps storage =
     (let entries = filter (\<lambda>(key, info). sc_Name info = storage \<and> sc_Region info = region) caps;
          zones = concat (map (\<lambda>(key, info). sc_Zones info) entries)
      in foldl (\<lambda>caps (key, info).
             go_update caps (zone_key region storage) (info\<lparr>sc_Zones := slices_Compact zones\<rparr>)) caps entries)"

definition sync_storages ::
  "string \<Rightarrow> ClusterResource list \<Rightarrow> (string, NodeStorageCapacityInfo) go_map
   \<Rightarrow> (string, NodeStorageCapacityInfo) go_map" where
  "sync_storages region items caps =
     foldl (merge_storage region)
       (foldl (\<lambda>caps item. go_update caps (zone_key (zone_key region (cr_Storage item)) (cr_Node item))
                            (storage_entry region item)) caps items)
       (storage_names items)"

definition SyncNodeStorageCapacity :: "proxmoxPool \<Rightarrow> cloudProvider \<Rightarrow> cloudProvider" where
  "SyncNodeStorageCapacity pool p =
     p\<lparr>storageInfo := foldl (\<lambda>caps region.
         case pool_GetProxmoxCluster pool region of
           None \<Rightarrow> caps
         | Some cl \<Rightarrow>
             (case api_GetClusterStoragesByFilter cl is_usable_storage of
                None \<Rightarrow> caps
              | Some items \<Rightarrow> sync_storages region items caps)) [] (pool_GetRegions pool)\<rparr>"

text \<open>With filters, the entry is returned when one of them accepts it.\<close>

definition GetStorage ::
  "cloudProvider \<Rightarrow> string \<Rightarrow> string \<Rightarrow> (NodeStorageCapacityInfo \<Rightarrow> bool) list \<Rightarrow> NodeStorageCapacityInfo option" where
  "GetStorage p region storage filters =
     (case map_of (storageInfo p) (zone_key region storage) of
        None \<Rightarrow> None
      | Some info \<Rightarrow> if filters = [] \<or> list_ex (\<lambda>f. f info) filters then Some info else None)"

definition GetNetwork ::
  "cloudProvider \<Rightarrow> string \<Rightarrow> string \<Rightarrow> (NodeNetworkIfaceInfo \<Rightarrow> bool) list \<Rightarrow> NodeNetworkIfaceInfo option" where
  "GetNetwork p region node filters =
     (case map_of (networkInfo p) (zone_key region node) of
        None \<Rightarrow> None
      | Some info \<Rightarrow> if filters = [] \<or> list_ex (\<lambda>f. f info) filters then Some info else None)"

section \<open>Queries\<close>

definition Regions :: "cloudProvider \<Rightarrow> string list" where
  "Regions p = map fst (zoneList p)"

definition Zones :: "cloudProvider \<Rightarrow> string \<Rightarrow> string list" where
  "Zones p region = go_lookup [] (zoneList p) region"

definition fits :: "resourceManager \<Rightarrow> ResourceList \<Rightarrow> bool" where
  "fits r req \<longleftrightarrow> of_int (rm_AvailableCPUs r) \<ge> req_Cpu req \<and> of_nat (unat (rm_AvailableMemory r)) \<ge> req_Memory req"

definition GetAvailableZonesInRegion :: "cloudProvider \<Rightarrow> string \<Rightarrow> ResourceList \<Rightarrow> string list" where
  "GetAvailableZonesInRegion p region req =
     map (\<lambda>(key, info). nc_Name info)
       (filter (\<lambda>(key, info). nc_Region info = region \<and>
           (case nc_ResourceManager info of None \<Rightarrow> False | Some r \<Rightarrow> fits r req)) (capacityInfo p))"

definition FitInZone :: "cloudProvider \<Rightarrow> string \<Rightarrow> string \<Rightarrow> ResourceList \<Rightarrow> bool" where
  "FitInZone p region zone req =
     (case map_of (capacityInfo p) (zone_key region zone) of
        None \<Rightarrow> False
      | Some info \<Rightarrow> (case nc_ResourceManager info of None \<Rightarrow> False | Some r \<Rightarrow> fits r req))"

definition zone_load :: "cloudProvider \<Rightarrow> string \<Rightarrow> string \<Rightarrow> int" where
  "zone_load p region zone =
     (case map_of (capacityInfo p) (zone_key region zone) of None \<Rightarrow> 0 | Some info \<Rightarrow> CPULoad info)"

definition SortZonesByCPULoad :: "cloudProvider \<Rightarrow> string \<Rightarrow> string list \<Rightarrow> string list" where
  "SortZonesByCPULoad p region zones =
     (if length zones \<le> 1 then zones
      else sort_slice (\<lambda>a b. zone_load p region a < zone_load p region b)
             (filter (\<lambda>zone. zone \<in> set (Zones p region)) zones))"

section \<open>The books of the provider\<close>

text \<open>
  Every entry is stored under the key of its host, and the manager of every host keeps its books.
  Names of Proxmox hosts are DNS labels: they contain no slash, so the key determines the host.
\<close>

definition entry_ok :: "string \<times> NodeCapacityInfo \<Rightarrow> bool" where
  "entry_ok e \<longleftrightarrow>
     fst e = zone_key (nc_Region (snd e)) (nc_Name (snd e)) \<and> CHR ''/'' \<notin> set (nc_Name (snd e)) \<and>
     (case nc_ResourceManager (snd e) of None \<Rightarrow> False | Some r \<Rightarrow> node_inv (rm_nodePolicy r))"

definition provider_inv :: "cloudProvider \<Rightarrow> bool" where
  "provider_inv p \<longleftrightarrow> go_map_ok (capacityInfo p) \<and> list_all entry_ok (capacityInfo p)"

text \<open>What the cluster must supply for this: regular topologies, and VMs pinned to CPUs of their host.\<close>

definition cluster_ok :: "environment \<Rightarrow> proxmoxPool \<Rightarrow> bool" where
  "cluster_ok env pool \<longleftrightarrow>
     (\<forall>region cl. pool_GetProxmoxCluster pool region = Some cl \<longrightarrow>
        (\<forall>ns. api_GetNodeListByFilter cl is_online = Some ns \<longrightarrow>
          (\<forall>item \<in> set ns. CHR ''/'' \<notin> set (cr_Node item))) \<and>
        (\<forall>zone r. NewResourceManager env cl region zone = Inr r \<longrightarrow>
          (\<forall>t. DiscoverFromSettings (env_parse env) (Some (rm_nodeSettings r)) = Inr t \<longrightarrow>
             TotalMemory (MemTopo t) < 2 ^ 63 \<and> topology_ok (CPUTopo t)) \<and>
          (\<forall>vms vmr vm opt.
             api_GetVMsByFilter cl (\<lambda>vm. cr_Node vm = zone \<and> cr_Status vm = ''running'') = Inr vms \<longrightarrow>
             vmr \<in> set vms \<longrightarrow> api_GetVMConfig cl (cr_VMID vmr) = Some vm \<longrightarrow>
             GetResourceFromVM (env_parse env) (env_render env) (env_unmarshal env) (Some vm) = Inr opt \<longrightarrow>
             node_admissible (rm_nodePolicy r) opt)))"

text \<open>A request the policy of the host is made for: CPUs of that host, memory below \<open>2 ^ 63\<close> bytes.\<close>

definition host_request :: "cloudProvider \<Rightarrow> string \<Rightarrow> string \<Rightarrow> VMResources \<Rightarrow> bool" where
  "host_request p region zone op \<longleftrightarrow>
     (\<forall>info r. map_of (capacityInfo p) (zone_key region zone) = Some info \<longrightarrow> nc_ResourceManager info = Some r \<longrightarrow>
        node_admissible (rm_nodePolicy r) op)"

text \<open>
  One operation on the provider. The cluster may be a different one at every synchronisation; an
  operation that is refused changes nothing.
\<close>

inductive provider_step :: "cloudProvider \<Rightarrow> cloudProvider \<Rightarrow> bool" where
  allocate: "AllocateCapacityInZone p region zone (Some op) = Inr (p', op') \<Longrightarrow>
    host_request p region zone op \<Longrightarrow> provider_step p p'"
| release: "ReleaseCapacityInZone p region zone (Some op) = Inr (p', op') \<Longrightarrow>
    host_request p region zone op \<Longrightarrow> provider_step p p'"
| load: "provider_step p (UpdateNodeLoad pool p)"
| storage: "provider_step p (SyncNodeStorageCapacity pool p)"
| sync: "cluster_ok env pool \<Longrightarrow> provider_step p (SyncNodeCapacity env pool p)"

inductive_cases provider_stepE: "provider_step p p'"

lemma zone_key_inj:
  assumes "zone_key r z = zone_key r' z'" and "CHR ''/'' \<notin> set z" and "CHR ''/'' \<notin> set z'"
  shows "r = r' \<and> z = z'"
proof -
  have tail: "takeWhile (\<lambda>c. c \<noteq> CHR ''/'') (rev (zone_key a b)) = rev b" if "CHR ''/'' \<notin> set b" for a b
    using takeWhile_append2 [of "rev b" "\<lambda>c. c \<noteq> CHR ''/''" "CHR ''/'' # rev a"] that
    by (auto simp: zone_key_def)
  have "rev z = rev z'" using tail [OF assms(2)] tail [OF assms(3)] assms(1) by metis
  then show ?thesis using assms(1) by (simp add: zone_key_def)
qed

lemma provider_inv_entry:
  assumes "provider_inv p" and "map_of (capacityInfo p) key = Some info"
  shows "entry_ok (key, info)"
  using assms by (auto simp: provider_inv_def list_all_iff dest: map_of_SomeD)

lemma list_all_go_update:
  "list_all P m \<Longrightarrow> P (k, v) \<Longrightarrow> list_all P (go_update m k v)"
  by (induction m k v rule: go_update.induct) auto

lemma provider_inv_update:
  "provider_inv p \<Longrightarrow> entry_ok (k, info) \<Longrightarrow> provider_inv (p\<lparr>capacityInfo := go_update (capacityInfo p) k info\<rparr>)"
  by (simp add: provider_inv_def list_all_go_update)

lemma rm_forward_Inr:
  "rm_forward r out = Inr (r', op') \<longleftrightarrow> (\<exists>q req. out = Inr (q, req) \<and> r' = r\<lparr>rm_nodePolicy := q\<rparr> \<and> op' = Some req)"
  by (auto simp: rm_forward_def split: sum.splits)

lemma rm_Allocate_granted:
  assumes "rm_Allocate r (Some op) = Inr (r', op')"
  obtains q req where "policy_Allocate (rm_nodePolicy r) op = Inr (q, req)" "r' = r\<lparr>rm_nodePolicy := q\<rparr>"
    "op' = Some req" "0 < vm_CPUs op" "Memory op \<noteq> 0"
  using assms by (auto simp: rm_Allocate_def rm_forward_Inr split: if_splits)

lemma rm_inv:
  assumes inv: "node_inv (rm_nodePolicy r)" and adm: "node_admissible (rm_nodePolicy r) op"
  shows "rm_Allocate r (Some op) = Inr (r', op') \<Longrightarrow>
      node_inv (rm_nodePolicy r') \<and> node_admissible (rm_nodePolicy r') = node_admissible (rm_nodePolicy r)"
    and "rm_AllocateOrUpdate r (Some op) = Inr (r', op') \<Longrightarrow>
      node_inv (rm_nodePolicy r') \<and> node_admissible (rm_nodePolicy r') = node_admissible (rm_nodePolicy r)"
    and "rm_Release r (Some op) = Inr (r', op') \<Longrightarrow>
      node_inv (rm_nodePolicy r') \<and> node_admissible (rm_nodePolicy r') = node_admissible (rm_nodePolicy r)"
proof -
  note step = node.call_inv [OF inv, of "DoAllocate op"] node.call_inv [OF inv, of "DoAllocateOrUpdate op"]
    node.call_inv [OF inv, of "DoRelease op"]
  show "rm_Allocate r (Some op) = Inr (r', op') \<Longrightarrow> node_inv (rm_nodePolicy r') \<and> node_admissible (rm_nodePolicy r') = node_admissible (rm_nodePolicy r)"
    using step(1) adm by (auto simp: rm_Allocate_def rm_forward_Inr split: if_splits)
  show "rm_AllocateOrUpdate r (Some op) = Inr (r', op') \<Longrightarrow> node_inv (rm_nodePolicy r') \<and> node_admissible (rm_nodePolicy r') = node_admissible (rm_nodePolicy r)"
    using step(2) adm by (auto simp: rm_AllocateOrUpdate_def rm_forward_Inr split: if_splits)
  show "rm_Release r (Some op) = Inr (r', op') \<Longrightarrow> node_inv (rm_nodePolicy r') \<and> node_admissible (rm_nodePolicy r') = node_admissible (rm_nodePolicy r)"
    using step(3) adm inv by (auto simp: rm_Release_def rm_forward_Inr split: if_splits)
qed

lemma in_zone_Inr:
  assumes "in_zone f p region zone (Some op) = Inr (p', op')"
  obtains info r r' where "map_of (capacityInfo p) (zone_key region zone) = Some info"
    "nc_ResourceManager info = Some r" "f r (Some op) = Inr (r', op')"
    "p' = p\<lparr>capacityInfo := go_update (capacityInfo p) (zone_key region zone) (info\<lparr>nc_ResourceManager := Some r'\<rparr>)\<rparr>"
  using assms by (auto simp: in_zone_def split: option.splits sum.splits)

lemma in_zone_inv:
  assumes inv: "provider_inv p" and run: "in_zone f p region zone (Some op) = Inr (p', op')"
    and keep: "\<And>r r'. node_inv (rm_nodePolicy r) \<Longrightarrow> node_admissible (rm_nodePolicy r) op \<Longrightarrow>
       f r (Some op) = Inr (r', op') \<Longrightarrow> node_inv (rm_nodePolicy r')"
    and op: "host_request p region zone op"
  shows "provider_inv p'"
proof -
  obtain info r r' where z: "map_of (capacityInfo p) (zone_key region zone) = Some info"
    "nc_ResourceManager info = Some r" "f r (Some op) = Inr (r', op')"
    "p' = p\<lparr>capacityInfo := go_update (capacityInfo p) (zone_key region zone) (info\<lparr>nc_ResourceManager := Some r'\<rparr>)\<rparr>"
    using run by (rule in_zone_Inr)
  note entry = provider_inv_entry [OF inv z(1)]
  have "node_inv (rm_nodePolicy r')"
    using entry z op by (intro keep [OF _ _ z(3)]) (auto simp: entry_ok_def host_request_def)
  then show ?thesis
    unfolding z(4) using entry by (intro provider_inv_update [OF inv]) (simp add: entry_ok_def)
qed

lemma UpdateNodeLoad_inv:
  assumes "provider_inv p"
  shows "provider_inv (UpdateNodeLoad pool p)"
proof -
  let ?ok = "\<lambda>caps. go_map_ok caps \<and> list_all entry_ok caps"
  have one: "?ok (update_loads region ns caps)" if "?ok caps" for region ns caps
    using that unfolding update_loads_def
  proof (induction ns arbitrary: caps)
    case (Cons item ns)
    show ?case
    proof (cases "map_of caps (zone_key region (cr_Node item))")
      case None
      with Cons show ?thesis by simp
    next
      case (Some info)
      then have "entry_ok (zone_key region (cr_Node item), info)"
        using Cons.prems by (auto simp: list_all_iff dest: map_of_SomeD)
      then have "entry_ok (zone_key region (cr_Node item), info\<lparr>CPULoad := percent (cr_CPU item)\<rparr>)"
        by (simp add: entry_ok_def)
      then have "?ok (go_update caps (zone_key region (cr_Node item)) (info\<lparr>CPULoad := percent (cr_CPU item)\<rparr>))"
        using Cons.prems by (simp add: list_all_go_update)
      from Cons.IH [OF this] show ?thesis by (simp add: Some)
    qed
  qed simp
  have "?ok (foldl (\<lambda>caps (region, zones).
         case pool_GetProxmoxCluster pool region of
           None \<Rightarrow> caps
         | Some cl \<Rightarrow>
             (case api_GetNodeListByFilter cl is_online of
                None \<Rightarrow> caps
              | Some ns \<Rightarrow> update_loads region ns caps)) caps zs)" if "?ok caps" for caps zs
    using that
  proof (induction zs arbitrary: caps)
    case (Cons z zs)
    show ?case
      using Cons.IH Cons.prems one
      by (cases z; cases "pool_GetProxmoxCluster pool (fst z)";
          cases "api_GetNodeListByFilter (the (pool_GetProxmoxCluster pool (fst z))) is_online") simp_all
  qed simp
  with assms show ?thesis by (simp add: provider_inv_def UpdateNodeLoad_def)
qed

lemma count_vms_inv:
  assumes "count_vms env cl vms r = Inr r'" and "node_inv (rm_nodePolicy r)"
    and "\<And>vmr vm opt. vmr \<in> set vms \<Longrightarrow> api_GetVMConfig cl (cr_VMID vmr) = Some vm \<Longrightarrow>
      GetResourceFromVM (env_parse env) (env_render env) (env_unmarshal env) (Some vm) = Inr opt \<Longrightarrow>
      node_admissible (rm_nodePolicy r) opt"
  shows "node_inv (rm_nodePolicy r')"
  using assms
proof (induction vms arbitrary: r)
  case (Cons vmr vms)
  obtain vm opt where vm: "api_GetVMConfig cl (cr_VMID vmr) = Some vm"
    "GetResourceFromVM (env_parse env) (env_render env) (env_unmarshal env) (Some vm) = Inr opt"
    using Cons.prems(1) by (auto split: option.splits sum.splits)
  then have adm: "node_admissible (rm_nodePolicy r) opt" by (intro Cons.prems(3)) auto
  show ?case
  proof (cases "rm_AllocateOrUpdate r (Some opt)")
    case (Inl e)
    show ?thesis
      by (rule Cons.IH [of r]) (use Cons.prems vm Inl in \<open>auto intro: Cons.prems(3)\<close>)
  next
    case (Inr a)
    obtain r1 opt' where a: "a = (r1, opt')" by (cases a)
    note keep = rm_inv(2) [OF Cons.prems(2) adm Inr [unfolded a]]
    show ?thesis
      by (rule Cons.IH [of r1]) (use Cons.prems vm Inr a keep in \<open>auto intro: Cons.prems(3)\<close>)
  qed
qed simp

lemma getNodeCapacity_ok:
  assumes ok: "cluster_ok env pool" and cl: "pool_GetProxmoxCluster pool region = Some cl"
    and item: "CHR ''/'' \<notin> set (cr_Node item)" and info: "getNodeCapacity env cl region item = Inr info"
  shows "entry_ok (zone_key region (cr_Node item), info)"
proof -
  let ?running = "\<lambda>vm. cr_Node vm = cr_Node item \<and> cr_Status vm = ''running''"
  obtain r r' where r: "NewResourceManager env cl region (cr_Node item) = Inr r"
    "updateNodeCapacity env cl (cr_Node item) r = Inr r'"
    "info = \<lparr>nc_Name = cr_Node item, nc_Region = region, CPULoad = percent (cr_CPU item), nc_ResourceManager = Some r'\<rparr>"
    using info by (auto simp: getNodeCapacity_def split: sum.splits)
  have host: "(\<forall>t. DiscoverFromSettings (env_parse env) (Some (rm_nodeSettings r)) = Inr t \<longrightarrow>
             TotalMemory (MemTopo t) < 2 ^ 63 \<and> topology_ok (CPUTopo t)) \<and>
          (\<forall>vms vmr vm opt. api_GetVMsByFilter cl ?running = Inr vms \<longrightarrow>
             vmr \<in> set vms \<longrightarrow> api_GetVMConfig cl (cr_VMID vmr) = Some vm \<longrightarrow>
             GetResourceFromVM (env_parse env) (env_render env) (env_unmarshal env) (Some vm) = Inr opt \<longrightarrow>
             node_admissible (rm_nodePolicy r) opt)"
    using ok cl r(1) unfolding cluster_ok_def by blast
  obtain opts t where "env_options env = Some opts"
    and t: "DiscoverFromSettings (env_parse env) (Some (rm_nodeSettings r)) = Inr t"
    "new_policy (NodePolicy opts) t (rm_nodeSettings r) = Inr (rm_nodePolicy r)"
    by (rule NewResourceManager_policy [OF r(1)])
  have start: "node_inv (rm_nodePolicy r)" using host t(1) by (intro new_policy_inv [OF t(2)]) auto
  have "node_inv (rm_nodePolicy r')"
  proof (cases "api_GetVMsByFilter cl ?running")
    case (Inl e)
    with r(2) start show ?thesis by (cases e) (auto simp: updateNodeCapacity_def)
  next
    case (Inr vms)
    with r(2) have "count_vms env cl vms r = Inr r'" by (simp add: updateNodeCapacity_def)
    from this start show ?thesis
      by (rule count_vms_inv) (rule host [THEN conjunct2, rule_format, OF Inr])
  qed
  with item r(3) show ?thesis by (simp add: entry_ok_def)
qed

lemma sync_nodes_ok:
  assumes "cluster_ok env pool" and "pool_GetProxmoxCluster pool region = Some cl"
    and "\<forall>item \<in> set ns. CHR ''/'' \<notin> set (cr_Node item)" and "go_map_ok caps" and "list_all entry_ok caps"
  shows "go_map_ok (fst (sync_nodes env cl region ns (caps, nets))) \<and>
         list_all entry_ok (fst (sync_nodes env cl region ns (caps, nets)))"
  using assms(3-5)
proof (induction ns arbitrary: caps nets)
  case (Cons item ns)
  show ?case
  proof (cases "getNodeCapacity env cl region item")
    case (Inl e)
    with Cons show ?thesis by (simp add: Let_def)
  next
    case (Inr info)
    have "entry_ok (zone_key region (cr_Node item), info)"
      by (rule getNodeCapacity_ok [OF assms(1,2) _ Inr]) (use Cons.prems in simp)
    then have "list_all entry_ok (go_update caps (zone_key region (cr_Node item)) info)"
      using Cons.prems(3) by (rule list_all_go_update [rotated])
    with Cons Inr show ?thesis by (simp add: Let_def)
  qed
qed simp

lemma sync_regions_ok:
  assumes "cluster_ok env pool" and "go_map_ok caps" and "list_all entry_ok caps"
  shows "go_map_ok (fst (sync_regions env pool regions (caps, nets, zones))) \<and>
         list_all entry_ok (fst (sync_regions env pool regions (caps, nets, zones)))"
  using assms(2,3)
proof (induction regions arbitrary: caps nets zones)
  case (Cons region regions)
  show ?case
  proof (cases "pool_GetProxmoxCluster pool region")
    case None
    with Cons show ?thesis by simp
  next
    case (Some cl)
    show ?thesis
    proof (cases "api_GetNodeListByFilter cl is_online")
      case None
      with Some Cons show ?thesis by simp
    next
      case (Some ns)
      obtain caps' nets' where sync: "sync_nodes env cl region ns (caps, nets) = (caps', nets')" by fastforce
      have "\<forall>item \<in> set ns. CHR ''/'' \<notin> set (cr_Node item)"
        using assms(1) \<open>pool_GetProxmoxCluster pool region = Some cl\<close> Some unfolding cluster_ok_def by blast
      then have "go_map_ok caps' \<and> list_all entry_ok caps'"
        using sync_nodes_ok [OF assms(1) \<open>pool_GetProxmoxCluster pool region = Some cl\<close> _ Cons.prems, of ns nets] sync
        by simp
      with Cons.IH [of caps'] show ?thesis
        using Some \<open>pool_GetProxmoxCluster pool region = Some cl\<close> sync by simp
    qed
  qed
qed simp

lemma SyncNodeCapacity_inv:
  assumes "cluster_ok env pool"
  shows "provider_inv (SyncNodeCapacity env pool p)"
proof -
  obtain caps nets zones where "sync_regions env pool (pool_GetRegions pool) ([], [], []) = (caps, nets, zones)"
    using prod_cases3 by blast
  with sync_regions_ok [OF assms, of "[]" "pool_GetRegions pool" "[]" "[]"] show ?thesis
    by (simp add: SyncNodeCapacity_def provider_inv_def go_map_ok_def)
qed

lemma provider_step_inv: "provider_step p p' \<Longrightarrow> provider_inv p \<Longrightarrow> provider_inv p'"
proof (induction rule: provider_step.induct)
  case (allocate p region zone op p' op')
  show ?case
    by (rule in_zone_inv [OF allocate(3) allocate(1) [unfolded AllocateCapacityInZone_def] _ allocate(2)])
      (rule rm_inv(1) [THEN conjunct1])
next
  case (release p region zone op p' op')
  show ?case
    by (rule in_zone_inv [OF release(3) release(1) [unfolded ReleaseCapacityInZone_def] _ release(2)])
      (rule rm_inv(3) [THEN conjunct1])
next
  case (load p pool)
  then show ?case by (rule UpdateNodeLoad_inv)
next
  case (storage p pool)
  then show ?case by (simp add: provider_inv_def SyncNodeStorageCapacity_def)
next
  case (sync env pool p)
  then show ?case by (intro SyncNodeCapacity_inv)
qed

section \<open>Properties of the provider\<close>

text \<open>One region with one Intel host and no running VM.\<close>

definition example_item :: ClusterResource where
  "example_item = \<lparr>cr_Node = ''node-1'', cr_VMID = 0, cr_Name = [], cr_Status = ''online'', cr_Tags = [],
     cr_CPU = 1 / 4, cr_Storage = [], cr_Shared = 0, cr_PluginType = [], cr_Content = []\<rparr>"

definition example_region :: cluster_api where
  "example_region = example_cluster\<lparr>api_GetNodeListByFilter := (\<lambda>f. Some (filter f [example_item]))\<rparr>"

definition example_pool :: proxmoxPool where
  "example_pool =
     \<lparr>pool_GetRegions = [''region-1''],
      pool_GetProxmoxCluster = (\<lambda>region. if region = ''region-1'' then Some example_region else None)\<rparr>"

definition example_provider :: cloudProvider where
  "example_provider = SyncNodeCapacity example_env example_pool NewCapacityProvider"

lemma example_item:
  "cr_Node example_item = ''node-1''" "cr_CPU example_item = 1 / 4" "is_online example_item"
  by (simp_all add: example_item_def is_online_def)

lemma example_region:
  "api_GetVMsByFilter example_region g = Inr []"
  "api_GetNodeListByFilter example_region is_online = Some [example_item]"
  "NewResourceManager env example_region region zone = NewResourceManager env example_cluster region zone"
proof -
  show "api_GetVMsByFilter example_region g = Inr []" by (simp add: example_region_def example_cluster_def)
  show "api_GetNodeListByFilter example_region is_online = Some [example_item]"
    by (simp add: example_region_def example_item)
  have "api_Node example_region = api_Node example_cluster"
    "api_GetVMByFilter example_region = api_GetVMByFilter example_cluster"
    "api_GetVMConfig example_region = api_GetVMConfig example_cluster"
    by (simp_all add: example_region_def)
  then show "NewResourceManager env example_region region zone = NewResourceManager env example_cluster region zone"
    unfolding NewResourceManager_def nodeSettingsFromCluster_def by (simp only:)
qed

lemma example_region_ok:
  assumes "\<And>region cl. pool_GetProxmoxCluster pool region = Some cl \<Longrightarrow> cl = example_region"
  shows "cluster_ok example_env pool"
proof -
  have host: "TotalMemory (MemTopo t) < 2 ^ 63 \<and> topology_ok (CPUTopo t)"
    if "NewResourceManager example_env example_cluster region zone = Inr r"
      "DiscoverFromSettings (env_parse example_env) (Some (rm_nodeSettings r)) = Inr t" for region zone r t
    using example_manager [of region zone] that by auto
  show ?thesis
    unfolding cluster_ok_def
    by (auto simp: example_region example_item dest!: assms dest: host host [simplified])
qed

lemma example_cluster_ok: "cluster_ok example_env example_pool"
  by (rule example_region_ok) (simp add: example_pool_def split: if_splits)

lemma example_provider_zone:
  obtains r info where "capacityInfo example_provider = [(''region-1/node-1'', info)]"
    "nc_ResourceManager info = Some r" "nc_Region info = ''region-1''" "nc_Name info = ''node-1''"
    "node_inv (rm_nodePolicy r)" "rm_AvailableCPUs r = node_CPUs example_intel"
    "rm_AvailableMemory r = 67645734912" "zoneList example_provider = [(''region-1'', [''node-1''])]"
    "NewResourceManager example_env example_cluster ''region-1'' ''node-1'' = Inr r"
proof -
  obtain r where r: "NewResourceManager example_env example_cluster ''region-1'' ''node-1'' = Inr r"
    "node_inv (rm_nodePolicy r)" "rm_AvailableCPUs r = node_CPUs example_intel"
    "rm_AvailableMemory r = 68719476736 - 1073741824"
    using example_manager [of "''region-1''" "''node-1''"] by blast
  let ?info = "\<lparr>nc_Name = ''node-1'', nc_Region = ''region-1'', CPULoad = percent (1 / 4), nc_ResourceManager = Some r\<rparr>"
  have cap: "getNodeCapacity example_env example_region ''region-1'' example_item = Inr ?info"
    unfolding getNodeCapacity_def example_item example_region(3) r(1) updateNodeCapacity_def
    by (simp add: example_region(1))
  have "capacityInfo example_provider = [(''region-1/node-1'', ?info)]
      \<and> zoneList example_provider = [(''region-1'', [''node-1''])]"
    by (simp add: example_provider_def SyncNodeCapacity_def example_pool_def example_region(2) cap example_item
        zone_key_def Let_def)
  then show ?thesis using r by (intro that [of ?info r]) simp_all
qed

text \<open>
  C1. Whatever the provider goes through (synchronisations with clusters of regular hosts,
  allocations, releases, refused ones included), the books of every host it knows are in order:
  the CPUs of the host are split into free, pinned and reserved ones, and the memory of the VMs
  stays within the memory of the host.
\<close>

theorem provider_books:
  assumes "provider_step\<^sup>*\<^sup>* NewCapacityProvider p"
    and "map_of (capacityInfo p) (zone_key region zone) = Some info"
  shows "\<exists>r. nc_ResourceManager info = Some r \<and> base_inv (node_base (rm_nodePolicy r))"
proof -
  have "provider_inv p"
    using assms(1)
    by (induction rule: rtranclp_induct)
      (auto simp: provider_inv_def NewCapacityProvider_def go_map_ok_def dest: provider_step_inv)
  from provider_inv_entry [OF this assms(2)] show ?thesis
    by (auto simp: entry_ok_def intro: node.inv_base split: option.splits)
qed

theorem provider_books_witness:
  "\<exists>info. map_of (capacityInfo example_provider) (zone_key ''region-1'' ''node-1'') = Some info \<and>
     (\<exists>r. nc_ResourceManager info = Some r \<and> base_inv (node_base (rm_nodePolicy r)))"
proof -
  obtain info r where "capacityInfo example_provider = [(''region-1/node-1'', info)]"
    by (rule example_provider_zone)
  then have info: "map_of (capacityInfo example_provider) (zone_key ''region-1'' ''node-1'') = Some info"
    by (simp add: zone_key_def)
  have "provider_step NewCapacityProvider example_provider"
    unfolding example_provider_def by (rule provider_step.sync [OF example_cluster_ok])
  then show ?thesis using provider_books [OF r_into_rtranclp info] info by blast
qed

end
