(* ===== verification/CapacityZones.thy ===== *)
theory CapacityZones
  imports CloudCapacity
begin

text \<open>
  What the callers of the capacity provider rely on: an allocation that is released leaves no
  trace, a zone that is reported to fit can be allocated in, and the two queries for zones with
  room agree. The functions are those of \<open>CloudCapacity\<close>.
\<close>

section \<open>Allocation and release in a zone\<close>

text \<open>The static policy accounts memory for every NUMA node its topology names.\<close>

fun node_books :: "nodePolicy \<Rightarrow> bool" where
  "node_books (SimpleNode p) = True"
| "node_books (StaticNode p) =
     (go_map_ok (numaNodes p) \<and> NUMANodes (Details (cpuTopology p)) \<subseteq> fst ` set (numaNodes p))"

text \<open>A request as \<open>instanceCreate\<close> makes it: with an id, without pinned CPUs or NUMA nodes.\<close>

definition plain_request :: "VMResources \<Rightarrow> bool" where
  "plain_request op \<longleftrightarrow> vm_ID op \<noteq> 0 \<and> vm_CPUSet op = {} \<and> vm_NUMANodes op = []"

lemma static_Allocate_request:
  assumes "static_Allocate p req = Inr (p', req')"
  shows "vm_ID req' = vm_ID req \<and> vm_CPUs req' = vm_CPUs req \<and> Memory req' = Memory req"
  using assms by (auto simp: static_Allocate_def static_book_def Let_def split: if_splits option.splits sum.splits)

lemma simple_Allocate_request:
  assumes "simple_Allocate p req = Inr (p', req')"
  shows "req' = req"
  using assms by (auto simp: simple_Allocate_def split: if_splits)

lemma policy_roundtrip:
  assumes inv: "node_inv p" and adm: "node_admissible p op" and plain: "plain_request op" and books: "node_books p"
    and alloc: "policy_Allocate p op = Inr (q, op')"
  shows "policy_Release q op' = Inr (p, op') \<and> vm_ID op' = vm_ID op \<and> vm_CPUs op' = vm_CPUs op \<and> Memory op' = Memory op"
proof (cases p)
  case (SimpleNode s)
  then obtain s' where s': "simple_Allocate s op = Inr (s', op')" "q = SimpleNode s'"
    using alloc by (auto simp: lift_policy_Inr)
  have "simple_Release s' op' = Inr (s, op')"
    using inv adm plain SimpleNode by (intro simple_roundtrip [OF _ _ _ s'(1)]) (auto simp: plain_request_def)
  with s' SimpleNode simple_Allocate_request [OF s'(1)] show ?thesis by (simp add: lift_policy_def)
next
  case (StaticNode s)
  then obtain s' where s': "static_Allocate s op = Inr (s', op')" "q = StaticNode s'"
    using alloc by (auto simp: lift_policy_Inr)
  have "static_Release s' op' = Inr (s, op')"
    using inv adm plain books StaticNode
    by (intro static_roundtrip [OF _ _ _ _ _ _ s'(1)]) (auto simp: plain_request_def)
  with s' StaticNode static_Allocate_request [OF s'(1)] show ?thesis by (simp add: lift_policy_def)
qed

lemma zone_roundtrip:
  assumes inv: "provider_inv p" and req: "host_request p region zone op" and plain: "plain_request op"
    and books: "\<And>info r. map_of (capacityInfo p) (zone_key region zone) = Some info \<Longrightarrow>
      nc_ResourceManager info = Some r \<Longrightarrow> node_books (rm_nodePolicy r)"
    and alloc: "AllocateCapacityInZone p region zone (Some op) = Inr (p', op')"
  shows "ReleaseCapacityInZone p' region zone op' = Inr (p, op') \<and>
         (\<forall>key. key \<noteq> zone_key region zone \<longrightarrow> map_of (capacityInfo p') key = map_of (capacityInfo p) key)"
proof -
  obtain info r r' where z: "map_of (capacityInfo p) (zone_key region zone) = Some info"
    "nc_ResourceManager info = Some r" "rm_Allocate r (Some op) = Inr (r', op')"
    "p' = p\<lparr>capacityInfo := go_update (capacityInfo p) (zone_key region zone) (info\<lparr>nc_ResourceManager := Some r'\<rparr>)\<rparr>"
    using alloc unfolding AllocateCapacityInZone_def by (rule in_zone_Inr)
  obtain q op1 where q: "policy_Allocate (rm_nodePolicy r) op = Inr (q, op1)" "r' = r\<lparr>rm_nodePolicy := q\<rparr>"
    "op' = Some op1" "0 < vm_CPUs op" "Memory op \<noteq> 0"
    using z(3) by (rule rm_Allocate_granted)
  have "node_inv (rm_nodePolicy r)" "node_admissible (rm_nodePolicy r) op"
    using provider_inv_entry [OF inv z(1)] req z(1,2) by (auto simp: entry_ok_def host_request_def)
  note undo = policy_roundtrip [OF this plain books [OF z(1,2)] q(1)]
  have "rm_Release r' op' = Inr (r, op')"
    using undo q plain by (simp add: rm_Release_def rm_forward_def plain_request_def)
  with z q(3) show ?thesis
    by (simp add: ReleaseCapacityInZone_def in_zone_def go_update_same)
qed

text \<open>
  C7. An allocation for a new VM that is released again, with the request as the policy filled it
  in, leaves the provider exactly as it was; and while it lasts it touches no zone but its own.
\<close>

theorem capacity_allocate_release:
  assumes "provider_inv p" and "host_request p region zone op" and "plain_request op"
    and "\<And>info r. map_of (capacityInfo p) (zone_key region zone) = Some info \<Longrightarrow>
      nc_ResourceManager info = Some r \<Longrightarrow> node_books (rm_nodePolicy r)"
    and "AllocateCapacityInZone p region zone (Some op) = Inr (p', op')"
  shows "ReleaseCapacityInZone p' region zone op' = Inr (p, op') \<and>
         (\<forall>key. key \<noteq> zone_key region zone \<longrightarrow> map_of (capacityInfo p') key = map_of (capacityInfo p) key)"
  using assms by (rule zone_roundtrip)

text \<open>A provider with one host of 4 CPUs under the simple policy.\<close>

definition small_manager :: resourceManager where
  "small_manager = \<lparr>rm_zone = ''node-1'', rm_nodeSettings = default_settings, rm_nodePolicy = SimpleNode example_simple\<rparr>"

definition small_provider :: cloudProvider where
  "small_provider =
     \<lparr>zoneList = [(''r'', [''node-1''])],
      capacityInfo = [(''r/node-1'', \<lparr>nc_Name = ''node-1'', nc_Region = ''r'', CPULoad = 25,
        nc_ResourceManager = Some small_manager\<rparr>)],
      storageInfo = [], networkInfo = []\<rparr>"

lemma small_provider_inv: "provider_inv small_provider"
  by (simp add: provider_inv_def go_map_ok_def small_provider_def entry_ok_def small_manager_def zone_key_def
      base_inv_def example_simple_def)

lemma small_provider_request:
  "0 \<le> n \<Longrightarrow> mem < 2 ^ 63 \<Longrightarrow> host_request small_provider ''r'' ''node-1'' (example_vm n {} mem)"
  by (simp add: host_request_def small_provider_def zone_key_def small_manager_def base_request_def example_vm_def)

theorem capacity_allocate_release_witness:
  "\<exists>p' op'. AllocateCapacityInZone small_provider ''r'' ''node-1'' (Some (example_vm 2 {} 1073741824)) = Inr (p', op') \<and>
     ReleaseCapacityInZone p' ''r'' ''node-1'' op' = Inr (small_provider, op') \<and>
     (\<forall>key. key \<noteq> zone_key ''r'' ''node-1'' \<longrightarrow> map_of (capacityInfo p') key = map_of (capacityInfo small_provider) key)"
proof -
  obtain p' op' where
    alloc: "AllocateCapacityInZone small_provider ''r'' ''node-1'' (Some (example_vm 2 {} 1073741824)) = Inr (p', op')"
    by (simp add: AllocateCapacityInZone_def in_zone_def small_provider_def small_manager_def rm_Allocate_def
        rm_forward_def lift_policy_def simple_Allocate_def example_simple_def example_vm_def zone_key_def Size_def)
  have "ReleaseCapacityInZone p' ''r'' ''node-1'' op' = Inr (small_provider, op') \<and>
     (\<forall>key. key \<noteq> zone_key ''r'' ''node-1'' \<longrightarrow> map_of (capacityInfo p') key = map_of (capacityInfo small_provider) key)"
    by (rule capacity_allocate_release [OF small_provider_inv small_provider_request _ _ alloc])
      (auto simp: plain_request_def example_vm_def small_provider_def zone_key_def small_manager_def)
  with alloc show ?thesis by blast
qed

section \<open>Zones with room\<close>

lemma provider_entry_iff:
  assumes inv: "provider_inv p" and "CHR ''/'' \<notin> set zone"
  shows "map_of (capacityInfo p) (zone_key region zone) = Some info \<longleftrightarrow>
         (\<exists>key. (key, info) \<in> set (capacityInfo p) \<and> nc_Region info = region \<and> nc_Name info = zone)"
proof
  assume "map_of (capacityInfo p) (zone_key region zone) = Some info"
  moreover from provider_inv_entry [OF inv this] have "nc_Region info = region \<and> nc_Name info = zone"
    using assms(2) zone_key_inj [of region zone "nc_Region info" "nc_Name info"] by (auto simp: entry_ok_def)
  ultimately show "\<exists>key. (key, info) \<in> set (capacityInfo p) \<and> nc_Region info = region \<and> nc_Name info = zone"
    by (auto dest: map_of_SomeD)
next
  assume "\<exists>key. (key, info) \<in> set (capacityInfo p) \<and> nc_Region info = region \<and> nc_Name info = zone"
  then obtain key where key: "(key, info) \<in> set (capacityInfo p)" "nc_Region info = region" "nc_Name info = zone"
    by blast
  have "entry_ok (key, info)" using inv key(1) by (auto simp: provider_inv_def list_all_iff)
  then have "key = zone_key region zone" using key by (simp add: entry_ok_def)
  with inv key(1) show "map_of (capacityInfo p) (zone_key region zone) = Some info"
    by (simp add: provider_inv_def go_map_ok_def)
qed

text \<open>
  The two queries for room agree: \<open>GetAvailableZonesInRegion\<close> lists exactly the zones for
  which \<open>FitInZone\<close> answers yes.
\<close>

lemma available_zones_iff_fit:
  assumes "provider_inv p" and "CHR ''/'' \<notin> set zone"
  shows "zone \<in> set (GetAvailableZonesInRegion p region req) \<longleftrightarrow> FitInZone p region zone req"
proof -
  have "zone \<in> set (GetAvailableZonesInRegion p region req) \<longleftrightarrow>
        (\<exists>info. (\<exists>key. (key, info) \<in> set (capacityInfo p) \<and> nc_Region info = region \<and> nc_Name info = zone) \<and>
           (case nc_ResourceManager info of None \<Rightarrow> False | Some r \<Rightarrow> fits r req))"
    by (force simp: GetAvailableZonesInRegion_def)
  also have "\<dots> \<longleftrightarrow> FitInZone p region zone req"
    unfolding provider_entry_iff [OF assms, symmetric] by (auto simp: FitInZone_def split: option.split)
  finally show ?thesis .
qed

text \<open>The resource list of a VM, as the queries compare it.\<close>

definition resources_of :: "VMResources \<Rightarrow> ResourceList" where
  "resources_of op = \<lparr>req_Cpu = of_int (vm_CPUs op), req_Memory = of_nat (unat (Memory op))\<rparr>"

lemma fits_resources_of:
  "fits r (resources_of op) \<longleftrightarrow> vm_CPUs op \<le> rm_AvailableCPUs r \<and> Memory op \<le> rm_AvailableMemory r"
  by (simp add: fits_def resources_of_def word_le_nat_alt del: of_nat_unat)

text \<open>
  Under the simple policy the answer of \<open>FitInZone\<close> is the truth: a VM is allocated in the zone
  if and only if the zone was reported to fit it.
\<close>

lemma fit_iff_allocate:
  assumes entry: "map_of (capacityInfo p) (zone_key region zone) = Some info"
    "nc_ResourceManager info = Some r" "rm_nodePolicy r = SimpleNode s"
    and "provider_inv p" and "host_request p region zone op" and "reservedCPUs s \<subseteq> allCPUs s"
    and "1 \<le> vm_CPUs op" and "Memory op \<noteq> 0"
  shows "FitInZone p region zone (resources_of op) \<longleftrightarrow>
         (\<exists>p'. AllocateCapacityInZone p region zone (Some op) = Inr (p', Some op))"
proof -
  have "base_inv s" "base_request s op"
    using provider_inv_entry [OF assms(4) entry(1)] assms(5) entry by (auto simp: entry_ok_def host_request_def)
  note avail = simple_available_iff [OF this assms(6,7)]
  have "FitInZone p region zone (resources_of op) \<longleftrightarrow>
        vm_CPUs op \<le> simple_AvailableCPUs s \<and> Memory op \<le> simple_AvailableMemory s"
    using entry by (simp add: FitInZone_def fits_resources_of rm_AvailableCPUs_def rm_AvailableMemory_def)
  also have "\<dots> \<longleftrightarrow> (\<exists>s'. simple_Allocate s op = Inr (s', op))" using avail by simp
  also have "\<dots> \<longleftrightarrow> (\<exists>p'. AllocateCapacityInZone p region zone (Some op) = Inr (p', Some op))"
    using entry assms(7,8)
    by (auto simp: AllocateCapacityInZone_def in_zone_def rm_Allocate_def rm_forward_def lift_policy_def
        split: sum.splits)
  finally show ?thesis .
qed

lemma static_refuses_big_vm:
  assumes "static_inv p" and "\<forall>(i, mem) \<in> set (numaNodes p). mem < Memory op" and "vm_NUMANodes op = []"
    and "1 \<le> vm_CPUs op"
  shows "\<exists>e. static_Allocate p op = Inl e"
proof -
  have none: "numa_candidates p op = {}"
    using assms(2,3) by (auto simp: numa_candidates_def not_le)
  have "\<not> static_takeByTopology p {} (vm_CPUs op) = Some (Inr cpus)" for cpus
    using static_take_result [OF assms(1), of "vm_CPUs op" "{}" cpus] assms(4) by (auto simp: Size_def)
  with assms(4) none show ?thesis
    by (auto simp: static_Allocate_def split: option.split sum.split)
qed

text \<open>
  Under the static policy the answer can be wrong: a VM with more memory than any single NUMA
  node has left is refused, although \<open>FitInZone\<close>, which compares with the memory of the whole
  host, says that it fits.
\<close>

lemma static_fit_refused:
  assumes entry: "map_of (capacityInfo p) (zone_key region zone) = Some info"
    "nc_ResourceManager info = Some r" "rm_nodePolicy r = StaticNode s"
    and "provider_inv p" and "\<forall>(i, mem) \<in> set (numaNodes s). mem < Memory op" and "vm_NUMANodes op = []"
    and "1 \<le> vm_CPUs op" and "vm_CPUs op \<le> static_AvailableCPUs s" and "Memory op \<le> static_AvailableMemory s"
  shows "FitInZone p region zone (resources_of op) \<and>
         (\<exists>e. AllocateCapacityInZone p region zone (Some op) = Inl e)"
proof -
  have "static_inv s" using provider_inv_entry [OF assms(4) entry(1)] entry by (simp add: entry_ok_def)
  from static_refuses_big_vm [OF this assms(5-7)] obtain e where "static_Allocate s op = Inl e" ..
  then show ?thesis
    using entry assms(8,9)
    by (simp add: AllocateCapacityInZone_def in_zone_def rm_Allocate_def rm_forward_def lift_policy_def
        FitInZone_def fits_resources_of rm_AvailableCPUs_def rm_AvailableMemory_def)
qed

definition numa_manager :: resourceManager where
  "numa_manager = \<lparr>rm_zone = ''node-1'', rm_nodeSettings = default_settings, rm_nodePolicy = StaticNode example_static\<rparr>"

definition numa_provider :: cloudProvider where
  "numa_provider =
     \<lparr>zoneList = [(''r'', [''node-1''])],
      capacityInfo = [(''r/node-1'', \<lparr>nc_Name = ''node-1'', nc_Region = ''r'', CPULoad = 25,
        nc_ResourceManager = Some numa_manager\<rparr>)],
      storageInfo = [], networkInfo = []\<rparr>"

lemma numa_provider_inv: "provider_inv numa_provider"
  by (simp add: provider_inv_def go_map_ok_def numa_provider_def entry_ok_def numa_manager_def zone_key_def
      example_static_inv)

section \<open>Zones by load\<close>

interpretation load: strict_weak_order "\<lambda>a b. zone_load p region a < zone_load p region b"
  by unfold_locales auto

text \<open>
  \<open>SortZonesByCPULoad\<close> returns the given zones that exist in the region, each as often as it was
  given, in the order of their load: the zone to try first is one with the least load.
\<close>

lemma sort_zones_by_load:
  assumes "2 \<le> length zones"
  shows "mset (SortZonesByCPULoad p region zones) = filter_mset (\<lambda>z. z \<in> set (Zones p region)) (mset zones) \<and>
         sorted (map (zone_load p region) (SortZonesByCPULoad p region zones))"
proof -
  have "sorted_wrt (\<lambda>x y. zone_load p region x \<le> zone_load p region y) (sort_slice (\<lambda>a b. zone_load p region a < zone_load p region b) zs)" for zs
    using load.sort_slice_sorted [of p region zs] by (simp add: not_less)
  with assms show ?thesis by (simp add: SortZonesByCPULoad_def sorted_map)
qed

end
