(* ===== verification/InstanceTypes.thy ===== *)
theory InstanceTypes
  imports CapacityZones GoStrings
begin

text \<open>
  The instance types (\<open>src/pkg/providers/instancetype/{generate,instancetype}.go\<close>): the generated
  list, its overheads, and the offerings that follow the free capacity of the zones.

  A \<open>corev1.ResourceList\<close> is a map from resource names to exact numbers, a price an exact
  number where the code has a \<open>float64\<close>; memory sizes stay far below \<open>2 ^ 63\<close>. The requirements
  of \<open>sigs.k8s.io/karpenter/pkg/scheduling\<close> are a parameter: a type \<open>'r\<close> with a record of the
  functions the code calls.
\<close>

section \<open>Resource lists and requirements\<close>

type_synonym resource_list = "(string, rat) go_map"

definition ResourceCPU :: string where
  "ResourceCPU = ''cpu''"

definition ResourceMemory :: string where
  "ResourceMemory = ''memory''"

definition ResourcePods :: string where
  "ResourcePods = ''pods''"

definition ResourceEphemeralStorage :: string where
  "ResourceEphemeralStorage = ''ephemeral-storage''"

lemmas resource_names = ResourceCPU_def ResourceMemory_def ResourcePods_def ResourceEphemeralStorage_def

text \<open>\<open>Cpu()\<close>, \<open>Memory()\<close> and so on give zero for a missing entry; \<open>Value()\<close> rounds up.\<close>

definition quantity :: "resource_list \<Rightarrow> string \<Rightarrow> rat" where
  "quantity res name = go_lookup 0 res name"

definition as_request :: "resource_list \<Rightarrow> ResourceList" where
  "as_request res = \<lparr>req_Cpu = quantity res ResourceCPU, req_Memory = quantity res ResourceMemory\<rparr>"

datatype selector_op = OpIn | OpDoesNotExist

record 'r scheduling =
  sch_New :: "(string \<times> selector_op \<times> string list) list \<Rightarrow> 'r"
  sch_Values :: "'r \<Rightarrow> string \<Rightarrow> string list"
  sch_Any :: "'r \<Rightarrow> string \<Rightarrow> string"
  sch_Set :: "'r \<Rightarrow> string \<Rightarrow> string list \<Rightarrow> 'r"
  sch_Compatible :: "'r \<Rightarrow> 'r \<Rightarrow> bool"

definition LabelTopologyRegion :: string where
  "LabelTopologyRegion = ''topology.kubernetes.io/region''"

definition LabelTopologyZone :: string where
  "LabelTopologyZone = ''topology.kubernetes.io/zone''"

definition LabelInstanceTypeStable :: string where
  "LabelInstanceTypeStable = ''node.kubernetes.io/instance-type''"

definition LabelArchStable :: string where
  "LabelArchStable = ''kubernetes.io/arch''"

definition LabelOSStable :: string where
  "LabelOSStable = ''kubernetes.io/os''"

definition CapacityTypeLabelKey :: string where
  "CapacityTypeLabelKey = ''karpenter.sh/capacity-type''"

definition LabelInstanceFamily :: string where
  "LabelInstanceFamily = ''karpenter.proxmox.sinextra.dev/instance-family''"

definition LabelInstanceCPUType :: string where
  "LabelInstanceCPUType = ''karpenter.proxmox.sinextra.dev/instance-cpu-type''"

definition LabelInstanceImageID :: string where
  "LabelInstanceImageID = ''karpenter.proxmox.sinextra.dev/instance-image-id''"

record 'r Offering =
  of_Price :: rat
  of_Available :: bool
  of_Requirements :: 'r

record InstanceTypeOverhead =
  KubeReserved :: resource_list
  SystemReserved :: resource_list
  EvictionThreshold :: resource_list

record 'r InstanceTypeStatic =
  ts_Name :: string
  ts_Capacity :: resource_list
  ts_CapacityType :: string
  ts_Overhead :: "InstanceTypeOverhead option"
  ts_Offerings :: "'r Offering list"

section \<open>Generated types\<close>

record InstanceTypeOptions =
  opt_CPUs :: "int list"
  opt_MemFactors :: "int list"
  opt_Storage :: int
  opt_KubeletOverhead :: bool
  opt_SystemOverhead :: bool
  opt_EvictionThreshold :: bool

definition family :: "int \<Rightarrow> string" where
  "family memFactor =
     (if memFactor = 2 then ''c'' else if memFactor = 3 then ''t'' else if memFactor = 4 then ''s''
      else if memFactor = 8 then ''m'' else if memFactor = 16 then ''x'' else ''e'')"

definition makeGenericInstanceTypeName :: "int \<Rightarrow> int \<Rightarrow> string" where
  "makeGenericInstanceTypeName cpu memFactor =
     family memFactor @ ''1.'' @ show_int cpu @ ''VCPU-'' @ show_int (cpu * memFactor) @ ''GB''"

definition mebi :: "rat \<Rightarrow> rat" where
  "mebi n = n * 1024 * 1024"

definition systemReservedResources :: "resource_list \<Rightarrow> resource_list" where
  "systemReservedResources capacity = [(ResourceCPU, 10 / 1000), (ResourceMemory, mebi 64)]"

definition kubeReservedResources :: "resource_list \<Rightarrow> resource_list" where
  "kubeReservedResources capacity =
     (let cpu = \<lceil>quantity capacity ResourceCPU\<rceil>;
          mem = go_div (go_div \<lceil>quantity capacity ResourceMemory\<rceil> 1024) 1024
      in [(ResourceCPU, if cpu < 1 then 10 / 1000 else if cpu < 2 then 20 / 1000
             else if cpu < 4 then 50 / 1000 else 100 / 1000),
          (ResourceMemory, if mem < 1 then mebi 128 else if mem < 2 then mebi 192
             else if mem < 4 then mebi 256 else if mem < 8 then mebi 384 else mebi 384)])"

definition evictionThresholdResources :: "resource_list \<Rightarrow> resource_list" where
  "evictionThresholdResources capacity = [(ResourceMemory, mebi 100)]"

definition type_capacity :: "InstanceTypeOptions \<Rightarrow> int \<Rightarrow> int \<Rightarrow> resource_list" where
  "type_capacity opts cpu memFactor =
     (let mem = cpu * memFactor;
          pods = (if mem \<le> 1 then 32 else if mem \<le> 2 then 64 else 110);
          capacity = [(ResourceCPU, of_int cpu), (ResourceMemory, of_int (mem * 1024 * 1024 * 1024)), (ResourcePods, pods)]
      in if opt_Storage opts > 0
         then go_update capacity ResourceEphemeralStorage (of_int (opt_Storage opts) * 1024 * 1024 * 1024)
         else capacity)"

definition generate_type :: "InstanceTypeOptions \<Rightarrow> int \<Rightarrow> int \<Rightarrow> 'r InstanceTypeStatic" where
  "generate_type opts cpu memFactor =
     (let capacity = type_capacity opts cpu memFactor
      in \<lparr>ts_Name = makeGenericInstanceTypeName cpu memFactor,
          ts_Capacity = capacity,
          ts_CapacityType = ''on-demand'',
          ts_Overhead =
            (if opt_KubeletOverhead opts \<or> opt_SystemOverhead opts \<or> opt_EvictionThreshold opts
             then Some \<lparr>KubeReserved = (if opt_KubeletOverhead opts then kubeReservedResources capacity else []),
                    SystemReserved = (if opt_SystemOverhead opts then systemReservedResources capacity else []),
                    EvictionThreshold = (if opt_EvictionThreshold opts then evictionThresholdResources capacity else [])\<rparr>
             else None),
          ts_Offerings = []\<rparr>)"

definition Generate :: "InstanceTypeOptions \<Rightarrow> 'r InstanceTypeStatic list" where
  "Generate opts = concat (map (\<lambda>cpu. map (\<lambda>memFactor. generate_type opts cpu memFactor) (opt_MemFactors opts)) (opt_CPUs opts))"

definition default_options :: InstanceTypeOptions where
  "default_options = \<lparr>opt_CPUs = [1, 2, 4, 8, 16], opt_MemFactors = [2, 3, 4, 8], opt_Storage = 30,
     opt_KubeletOverhead = True, opt_SystemOverhead = True, opt_EvictionThreshold = True\<rparr>"

definition loadDefaultInstanceTypes :: "'r InstanceTypeStatic list" where
  "loadDefaultInstanceTypes =
     map (\<lambda>i. i\<lparr>ts_Overhead := Some (case ts_Overhead i of
            None \<Rightarrow> \<lparr>KubeReserved = [], SystemReserved = [], EvictionThreshold = []\<rparr> | Some ov \<Rightarrow> ov),
          ts_Offerings := []\<rparr>) (Generate default_options)"

section \<open>The provider\<close>

text \<open>The JSON file of instance types is a parameter, parsed or not.\<close>

definition loadInstanceTypesFromFile ::
  "(string \<Rightarrow> 'r InstanceTypeStatic list option) \<Rightarrow> string \<Rightarrow> 'r InstanceTypeStatic list option" where
  "loadInstanceTypesFromFile file name =
     map_option (map (\<lambda>i. if ts_CapacityType i = [] then i\<lparr>ts_CapacityType := ''on-demand''\<rparr> else i)) (file name)"

definition UpdateInstanceTypes ::
  "(string \<Rightarrow> 'r InstanceTypeStatic list option) \<Rightarrow> string \<Rightarrow> 'r InstanceTypeStatic list \<Rightarrow> 'r InstanceTypeStatic list option" where
  "UpdateInstanceTypes file name info =
     (if name = [] then Some info else loadInstanceTypesFromFile file name)"

definition priceFromResources :: "resource_list \<Rightarrow> rat" where
  "priceFromResources res =
     foldl (\<lambda>price (k, v). if k = ResourceCPU then price + 25 / 1000 * v
                          else if k = ResourceMemory then price + 1 / 1000 * v / 10 ^ 9 else price) 0 res"

definition make_offering :: "'r scheduling \<Rightarrow> cloudProvider \<Rightarrow> 'r InstanceTypeStatic \<Rightarrow> string \<Rightarrow> string \<Rightarrow> string \<Rightarrow> 'r Offering" where
  "make_offering sch cap opts region zone ct =
     \<lparr>of_Price = (let price = priceFromResources (ts_Capacity opts) in if ct = ''spot'' then price / 2 else price),
      of_Available = FitInZone cap region zone (as_request (ts_Capacity opts)),
      of_Requirements = sch_New sch
        [(LabelInstanceTypeStable, OpIn, [ts_Name opts]), (LabelTopologyRegion, OpIn, [region]),
         (LabelTopologyZone, OpIn, [zone]), (CapacityTypeLabelKey, OpIn, [ct]),
         (LabelInstanceFamily, OpIn, [hd (Split (ts_Name opts) CHR ''.'')])]\<rparr>"

definition createOfferings ::
  "'r scheduling \<Rightarrow> cloudProvider \<Rightarrow> 'r InstanceTypeStatic \<Rightarrow> string list \<Rightarrow> string \<Rightarrow> 'r InstanceTypeStatic" where
  "createOfferings sch cap opts regions capacityType =
     opts\<lparr>ts_Offerings := concat (map (\<lambda>region. concat (map (\<lambda>zone.
        map (make_offering sch cap opts region zone) (remdups [capacityType])) (Zones cap region))) regions)\<rparr>"

definition UpdateInstanceTypeOfferings ::
  "'r scheduling \<Rightarrow> cloudProvider \<Rightarrow> 'r InstanceTypeStatic list \<Rightarrow> 'r InstanceTypeStatic list" where
  "UpdateInstanceTypeOfferings sch cap info = map (\<lambda>i. createOfferings sch cap i (Regions cap) (ts_CapacityType i)) info"

text \<open>\<open>cloudprovider.InstanceType\<close>, as the provider fills it.\<close>

record 'r InstanceType =
  it_Name :: string
  it_Requirements :: 'r
  it_Offerings :: "'r Offering list"
  it_Capacity :: resource_list
  it_Overhead :: InstanceTypeOverhead

definition Available :: "'r Offering list \<Rightarrow> 'r Offering list" where
  "Available os = filter of_Available os"

definition Compatible :: "'r scheduling \<Rightarrow> 'r \<Rightarrow> 'r Offering list \<Rightarrow> 'r Offering list" where
  "Compatible sch reqs os = filter (\<lambda>x. sch_Compatible sch (of_Requirements x) reqs) os"

definition computeRequirements :: "'r scheduling \<Rightarrow> string \<Rightarrow> 'r Offering list \<Rightarrow> string list \<Rightarrow> 'r" where
  "computeRequirements sch name offerings regions = sch_New sch
     [(LabelInstanceTypeStable, OpIn, [name]), (LabelArchStable, OpIn, [''amd64'']), (LabelOSStable, OpIn, [''linux'']),
      (LabelTopologyRegion, OpIn, regions),
      (CapacityTypeLabelKey, OpIn, map (\<lambda>x. sch_Any sch (of_Requirements x) CapacityTypeLabelKey) (Available offerings)),
      (LabelInstanceFamily, OpIn, [hd (Split name CHR ''.'')]),
      (LabelInstanceCPUType, OpDoesNotExist, []), (LabelInstanceImageID, OpDoesNotExist, [])]"

definition list_type :: "'r scheduling \<Rightarrow> 'r InstanceTypeStatic \<Rightarrow> 'r InstanceType" where
  "list_type sch item =
     \<lparr>it_Name = ts_Name item, it_Requirements = sch_New sch [],
      it_Offerings = ts_Offerings item, it_Capacity = ts_Capacity item,
      it_Overhead = (case ts_Overhead item of
         None \<Rightarrow> \<lparr>KubeReserved = [], SystemReserved = [], EvictionThreshold = []\<rparr> | Some ov \<Rightarrow> ov)\<rparr>"

definition types_ListWithFilter ::
  "'r scheduling \<Rightarrow> cloudProvider \<Rightarrow> 'r InstanceTypeStatic list \<Rightarrow> ('r InstanceType \<Rightarrow> bool) \<Rightarrow> 'r InstanceType list" where
  "types_ListWithFilter sch cap info flt =
     map (\<lambda>it. it\<lparr>it_Requirements := computeRequirements sch (it_Name it) (it_Offerings it) (Regions cap)\<rparr>)
       (filter flt (map (list_type sch) info))"

definition types_List :: "'r scheduling \<Rightarrow> cloudProvider \<Rightarrow> 'r InstanceTypeStatic list \<Rightarrow> 'r InstanceType list" where
  "types_List sch cap info = types_ListWithFilter sch cap info (\<lambda>_. True)"

definition types_Get :: "'r scheduling \<Rightarrow> cloudProvider \<Rightarrow> 'r InstanceTypeStatic list \<Rightarrow> string \<Rightarrow> 'r InstanceType option" where
  "types_Get sch cap info name =
     (case types_ListWithFilter sch cap info (\<lambda>item. it_Name item = name) of [] \<Rightarrow> None | item # _ \<Rightarrow> Some item)"

section \<open>Names of the generated types\<close>

lemma show_int_no_V: "CHR ''V'' \<notin> set (show_int i)" "CHR ''G'' \<notin> set (show_int i)"
  using show_nat_letters by (auto simp: show_int_def)

lemma type_name_inj:
  assumes "makeGenericInstanceTypeName cpu f = makeGenericInstanceTypeName cpu' f'"
  shows "cpu = cpu' \<and> cpu * f = cpu' * f'"
proof -
  have len: "length (family f) = length (family f')" by (simp add: family_def)
  from assms have "show_int cpu @ CHR ''V'' # ''CPU-'' @ show_int (cpu * f) @ ''GB'' =
      show_int cpu' @ CHR ''V'' # ''CPU-'' @ show_int (cpu' * f') @ ''GB''"
    unfolding makeGenericInstanceTypeName_def append_eq_append_conv [OF disjI1 [OF len]] by simp
  from separated_eq [OF show_int_no_V(1) show_int_no_V(1) this]
  have "show_int cpu = show_int cpu'"
    "show_int (cpu * f) @ CHR ''G'' # ''B'' = show_int (cpu' * f') @ CHR ''G'' # ''B''" by simp_all
  with separated_eq [OF show_int_no_V(2) show_int_no_V(2) this(2)] show ?thesis
    by (auto dest: show_int_inj)
qed

lemma set_Generate:
  "item \<in> set (Generate opts) \<longleftrightarrow>
   (\<exists>cpu \<in> set (opt_CPUs opts). \<exists>f \<in> set (opt_MemFactors opts). item = generate_type opts cpu f)"
  by (auto simp: Generate_def)

lemma generate_type_name: "ts_Name (generate_type opts cpu f) = makeGenericInstanceTypeName cpu f"
  by (simp add: generate_type_def Let_def)

text \<open>
  The generated instance types have different names, so that \<open>Get\<close> finds every one of
  them by its name: for distinct, non-zero CPU counts and distinct memory factors, looking up the name
  made from a CPU count and a factor gives the type with that many CPUs and that many times as
  many gibibytes of memory.
\<close>

lemma instance_type_by_name:
  assumes "distinct (opt_CPUs opts)" and "distinct (opt_MemFactors opts)" and "0 \<notin> set (opt_CPUs opts)"
    and "cpu \<in> set (opt_CPUs opts)" and "f \<in> set (opt_MemFactors opts)"
  shows "distinct (map ts_Name (Generate opts :: 'r InstanceTypeStatic list)) \<and>
         (\<exists>it. types_Get sch cap (Generate opts :: 'r InstanceTypeStatic list) (makeGenericInstanceTypeName cpu f) = Some it \<and>
            quantity (it_Capacity it) ResourceCPU = of_int cpu \<and>
            quantity (it_Capacity it) ResourceMemory = of_int (cpu * f) * 2 ^ 30)"
proof
  have inj: "makeGenericInstanceTypeName c f = makeGenericInstanceTypeName c' f' \<longleftrightarrow> c = c' \<and> f = f'"
    if "c \<in> set (opt_CPUs opts)" for c c' f f'
    using that assms(3) by (auto dest: type_name_inj)
  have names: "map ts_Name (Generate opts :: 'r InstanceTypeStatic list) =
      concat (map (\<lambda>c. map (makeGenericInstanceTypeName c) (opt_MemFactors opts)) (opt_CPUs opts))"
    by (simp add: Generate_def map_concat comp_def generate_type_name)
  show "distinct (map ts_Name (Generate opts :: 'r InstanceTypeStatic list))"
    unfolding names using assms(1,2)
    by (intro concat_distinct) (auto simp: distinct_map inj_on_def inj)
  let ?P = "\<lambda>it :: 'r InstanceType. it_Name it = makeGenericInstanceTypeName cpu f"
  let ?xs = "filter ?P (map (list_type sch) (Generate opts :: 'r InstanceTypeStatic list))"
  have all: "it = list_type sch (generate_type opts cpu f)" if "it \<in> set ?xs" for it
  proof -
    from that obtain c g where c: "c \<in> set (opt_CPUs opts)" "it = list_type sch (generate_type opts c g)"
      "makeGenericInstanceTypeName c g = makeGenericInstanceTypeName cpu f"
      by (auto simp: set_Generate list_type_def generate_type_name)
    with inj [OF c(1)] show ?thesis by auto
  qed
  have "generate_type opts cpu f \<in> set (Generate opts :: 'r InstanceTypeStatic list)"
    using assms(4,5) unfolding set_Generate by blast
  then have "list_type sch (generate_type opts cpu f) \<in> set ?xs"
    by (auto simp: generate_type_name) (simp add: list_type_def generate_type_name)
  then obtain x xs where xs: "?xs = x # xs" by (cases ?xs) auto
  with all have "x = list_type sch (generate_type opts cpu f)" by auto
  with xs show "\<exists>it. types_Get sch cap (Generate opts) (makeGenericInstanceTypeName cpu f) = Some it \<and>
      quantity (it_Capacity it) ResourceCPU = of_int cpu \<and>
      quantity (it_Capacity it) ResourceMemory = of_int (cpu * f) * 2 ^ 30"
    by (simp add: types_Get_def types_ListWithFilter_def list_type_def generate_type_def type_capacity_def
        Let_def quantity_def go_lookup_def resource_names)
qed

definition plain_scheduling :: "(string \<times> selector_op \<times> string list) list scheduling" where
  "plain_scheduling =
     \<lparr>sch_New = (\<lambda>rs. rs),
      sch_Values = (\<lambda>rs k. case map_of rs k of Some (OpIn, vs) \<Rightarrow> vs | _ \<Rightarrow> []),
      sch_Any = (\<lambda>rs k. case map_of rs k of Some (OpIn, v # vs) \<Rightarrow> v | _ \<Rightarrow> []),
      sch_Set = (\<lambda>rs k vs. go_update rs k (OpIn, vs)),
      sch_Compatible = (\<lambda>rs want. list_all (\<lambda>(k, op, vs). case map_of rs k of
          Some (OpIn, us) \<Rightarrow> op = OpIn \<and> (\<exists>u \<in> set us. u \<in> set vs)
        | _ \<Rightarrow> True) want)\<rparr>"

section \<open>Reserved memory\<close>

text \<open>
  The memory reserved for the kubelet is meant to grow with the memory of the node, but the
  thresholds are compared with mebibytes: every generated type with a positive number of CPUs
  and a positive memory factor reserves the largest amount, 384 MiB, down to the smallest.
\<close>

lemma kube_reserved_memory_constant:
  assumes "opt_KubeletOverhead opts" and "0 < cpu" and "0 < f"
  shows "\<exists>ov. ts_Overhead (generate_type opts cpu f) = Some ov \<and>
     quantity (KubeReserved ov) ResourceMemory = 384 * 1024 * 1024"
proof -
  have "1 \<le> cpu * f" using assms(2,3) by (simp add: int_one_le_iff_zero_less)
  then have "go_div (go_div (cpu * f * 1024 * 1024 * 1024) 1024) 1024 = cpu * f * 1024" "8 \<le> cpu * f * 1024"
    by simp_all
  with assms show ?thesis
    by (simp add: generate_type_def type_capacity_def kubeReservedResources_def Let_def quantity_def go_lookup_def
        resource_names mebi_def ceiling_of_int flip: of_int_mult)
qed

end
