(* ===== verification/NodeClass.thy ===== *)
theory NodeClass
  imports InstanceTypes
begin

text \<open>
  The node class (\<open>src/pkg/apis/v1alpha1/nodeclass.go\<close>, \<open>nodeclass_status.go\<close>): its
  specification as far as the providers read it, and the zones and template ids selected for it.
  The selected zones are strings \<open>region/zone/template\<close>.
\<close>

record v1_KubeletConfiguration =
  v1_CPUManagerPolicy :: string
  v1_CPUCFSQuota :: "bool option"
  v1_CPUCFSQuotaPeriod :: "int option"
  v1_TopologyManagerPolicy :: string
  v1_TopologyManagerScope :: string
  v1_ImageGCHighThresholdPercent :: "int option"
  v1_ImageGCLowThresholdPercent :: "int option"
  v1_ShutdownGracePeriod :: "int option"
  v1_AllowedUnsafeSysctls :: "string list"
  v1_ClusterDNS :: "string list"
  v1_MaxPods :: "int option"
  v1_FailSwapOn :: "bool option"

record BlockDevice =
  bd_Size :: "rat option"
  bd_Storage :: string

record SecretReference =
  sr_Name :: string
  sr_Namespace :: string

record MetadataOptions =
  mo_Type :: string
  TemplatesRef :: "SecretReference option"
  ValuesRef :: "SecretReference option"

record SecurityGroup =
  sg_Interface :: string
  sg_Name :: string

text \<open>
  A condition of the status of an object. The condition sets of operatorpkg keep one condition per
  type; the conditions of an object are those its own code sets.
\<close>

datatype condition_status = ConditionTrue | ConditionFalse | ConditionUnknown

record condition =
  cond_Status :: condition_status
  cond_Reason :: string
  cond_Message :: string

type_synonym conditions = "(string, condition) go_map"

record InstanceTemplateClassReference =
  ref_Kind :: string
  ref_Name :: string

record ProxmoxNodeClass =
  class_Name :: string
  class_Annotations :: "(string, string) go_map"
  class_Region :: string
  PlacementStrategy :: "string option"
  InstanceTemplateRef :: "InstanceTemplateClassReference option"
  class_Kubelet :: "v1_KubeletConfiguration option"
  BootDevice :: BlockDevice
  class_Tags :: "string list"
  class_MetadataOptions :: MetadataOptions
  SecurityGroups :: "SecurityGroup list"
  class_ResourcePool :: string
  class_Conditions :: conditions
  class_Resources :: resource_list
  SelectedZones :: "string list"

text \<open>
  The hash of a class is that of its specification; tags, metadata options, security groups and
  pool are tagged as ignored. The in-place hash covers what can be changed on a running VM. The
  hash functions of hashstructure are parameters; both are called with slices as sets.
\<close>

record class_lib =
  hash_class_spec :: "ProxmoxNodeClass \<Rightarrow> string"
  hash_inplace_fields :: "SecurityGroup list \<times> string list \<times> string \<Rightarrow> string"

definition class_spec :: "ProxmoxNodeClass \<Rightarrow> ProxmoxNodeClass" where
  "class_spec cls = cls\<lparr>class_Name := [], class_Annotations := [], class_Tags := [],
     class_MetadataOptions := \<lparr>mo_Type = [], TemplatesRef = None, ValuesRef = None\<rparr>, SecurityGroups := [], class_ResourcePool := [],
     class_Conditions := [], class_Resources := [], SelectedZones := []\<rparr>"

definition class_Hash :: "class_lib \<Rightarrow> ProxmoxNodeClass \<Rightarrow> string" where
  "class_Hash lib cls = hash_class_spec lib (class_spec cls)"

definition class_InPlaceHash :: "class_lib \<Rightarrow> ProxmoxNodeClass \<Rightarrow> string" where
  "class_InPlaceHash lib cls = hash_inplace_fields lib (SecurityGroups cls, class_Tags cls, class_ResourcePool cls)"

definition ProxmoxNodeClassHashVersion :: string where
  "ProxmoxNodeClassHashVersion = ''v1''"

definition AnnotationProxmoxNodeClassHash :: string where
  "AnnotationProxmoxNodeClassHash = ''karpenter.proxmox.sinextra.dev/proxmoxnodeclass-hash''"

definition AnnotationProxmoxNodeClassHashVersion :: string where
  "AnnotationProxmoxNodeClassHashVersion = ''karpenter.proxmox.sinextra.dev/proxmoxnodeclass-hash-version''"

definition AnnotationProxmoxNodeInPlaceUpdateHash :: string where
  "AnnotationProxmoxNodeInPlaceUpdateHash = ''karpenter.proxmox.sinextra.dev/proxmoxnodeinplaceupdate-hash''"

definition AnnotationProxmoxNodeClassPool :: string where
  "AnnotationProxmoxNodeClassPool = ''karpenter.proxmox.sinextra.dev/proxmoxnodeclass-pool''"

lemmas annotation_keys = AnnotationProxmoxNodeClassHash_def AnnotationProxmoxNodeClassHashVersion_def
  AnnotationProxmoxNodeInPlaceUpdateHash_def AnnotationProxmoxNodeClassPool_def

text \<open>\<open>lo.Assign\<close>: the entries of the second map added to the first.\<close>

definition Assign :: "('k, 'v) go_map \<Rightarrow> ('k, 'v) go_map \<Rightarrow> ('k, 'v) go_map" where
  "Assign m new = foldl (\<lambda>m (k, v). go_update m k v) m new"

lemma Assign_simps [simp]:
  "Assign m [] = m"
  "Assign m ((k, v) # new) = Assign (go_update m k v) new"
  by (simp_all add: Assign_def)

text \<open>\<open>strings.SplitN\<close> with a separator of one character: at most \<open>n\<close> parts, the last one unsplit.\<close>

fun SplitN :: "string \<Rightarrow> char \<Rightarrow> nat \<Rightarrow> string list" where
  "SplitN s sep 0 = []"
| "SplitN s sep (Suc 0) = [s]"
| "SplitN s sep (Suc (Suc n)) =
     (if sep \<in> set s
      then takeWhile (\<lambda>c. c \<noteq> sep) s # SplitN (tl (dropWhile (\<lambda>c. c \<noteq> sep) s)) sep (Suc n)
      else [s])"

lemma SplitN_append: "sep \<notin> set w \<Longrightarrow> SplitN (w @ sep # s) sep (Suc (Suc n)) = w # SplitN s sep (Suc n)"
proof -
  assume w: "sep \<notin> set w"
  then have "takeWhile (\<lambda>c. c \<noteq> sep) (w @ sep # s) = w" "dropWhile (\<lambda>c. c \<noteq> sep) (w @ sep # s) = sep # s"
    by (subst takeWhile_append2 dropWhile_append2; auto)+
  then show ?thesis by simp
qed

definition GetZones :: "ProxmoxNodeClass \<Rightarrow> string \<Rightarrow> string list" where
  "GetZones cls region =
     List.map_filter (\<lambda>selected.
        if \<not> HasPrefix selected (region @ ''/'') then None
        else case SplitN selected (CHR ''/'') 3 of [_, zone, _] \<Rightarrow> Some zone | _ \<Rightarrow> None) (SelectedZones cls)"

text \<open>The error of \<open>Atoi\<close> is dropped.\<close>

definition GetTemplateIDs :: "ProxmoxNodeClass \<Rightarrow> string \<Rightarrow> uint64 list" where
  "GetTemplateIDs cls region =
     List.map_filter (\<lambda>selected.
        if \<not> HasPrefix selected (region @ ''/'') then None
        else case SplitN selected (CHR ''/'') 3 of
               [_, _, tid] \<Rightarrow> Some (word_of_int (Atoi_value tid))
             | _ \<Rightarrow> None) (SelectedZones cls)"

definition selected_zone :: "string \<Rightarrow> string \<Rightarrow> int \<Rightarrow> string" where
  "selected_zone region zone tid = region @ ''/'' @ zone @ ''/'' @ show_int tid"

lemma SplitN_selected_zone:
  assumes "CHR ''/'' \<notin> set region" and "CHR ''/'' \<notin> set zone"
  shows "SplitN (selected_zone region zone tid) (CHR ''/'') 3 = [region, zone, show_int tid]"
  using assms unfolding selected_zone_def numeral_3_eq_3 append.simps
  by (simp add: SplitN_append del: SplitN.simps(3))

end
