(* ===== verification/IPPool.thy ===== *)
theory IPPool
  imports Prelude
begin

text \<open>
  The address pool of a subnet (\<open>src/pkg/providers/nodeipam/ipam/ippool.go\<close>). An address is the
  number its 16-byte form spells, so an IPv4 address \<open>a.b.c.d\<close> is \<open>0xffff\<close> followed by its four
  bytes. The bitmap of allocated addresses, a \<open>big.Int\<close>, is the set of its one bits. Parsing CIDR
  text is a parameter, and so is \<open>Host\<close> of the package \<open>go-cidr\<close>. A negative bit index makes
  \<open>big.Int\<close> panic, which is an error value here.
\<close>

unbundle bit_operations_syntax

section \<open>Networks\<close>

type_synonym net_addr = nat

record IPNet =
  net_IP :: net_addr
  net_ones :: nat
  net_bits :: nat

definition is4 :: "net_addr \<Rightarrow> bool" where
  "is4 ip \<longleftrightarrow> ip div 2 ^ 32 = 65535"

text \<open>
  \<open>IPNet.Contains\<close> compares addresses of the same family under the mask; for a mapped IPv4 address
  in an IPv6 network it uses the last four bytes of the mask.
\<close>

definition host_bits :: "IPNet \<Rightarrow> nat" where
  "host_bits n =
     (if is4 (net_IP n) \<and> net_bits n = 128 then 32 - (net_ones n - 96) else net_bits n - net_ones n)"

definition net_Contains :: "IPNet \<Rightarrow> net_addr \<Rightarrow> bool" where
  "net_Contains n ip \<longleftrightarrow>
     is4 ip = is4 (net_IP n) \<and> ip div 2 ^ host_bits n = net_IP n div 2 ^ host_bits n"

text \<open>\<open>int\<close> has 64 bits: shifts drop what does not fit, and the difference wraps around.\<close>

definition int64 :: "int \<Rightarrow> int" where
  "int64 x = sint (word_of_int x :: 64 word)"

section \<open>The pool\<close>

record IPPool =
  pool_IPNet :: IPNet
  maxIPs :: int
  pool_bits :: "nat set"

datatype ippool_error =
    InvalidCIDR
  | OnlyIPv4AndIPv6
  | NotInCIDR net_addr
  | IndexOutOfRange net_addr
  | NegativeBitIndex int

type_synonym cidr_parser = "string \<Rightarrow> (net_addr \<times> IPNet) option"
type_synonym cidr_host = "IPNet \<Rightarrow> int \<Rightarrow> net_addr option"

definition pool_ParseCIDR :: "cidr_parser \<Rightarrow> string \<Rightarrow> ippool_error + IPPool" where
  "pool_ParseCIDR parse s =
     (case parse s of
        None \<Rightarrow> Inl InvalidCIDR
      | Some (ip, ipNet) \<Rightarrow>
          if net_bits ipNet = 32 \<or> net_bits ipNet = 128
          then Inr \<lparr>pool_IPNet = ipNet,
                    maxIPs = int64 (int64 (2 ^ (net_bits ipNet - net_ones ipNet)) - 1),
                    pool_bits = {}\<rparr>
          else Inl OnlyIPv4AndIPv6)"

definition pool_IsEmpty :: "IPPool \<Rightarrow> bool" where
  "pool_IsEmpty p \<longleftrightarrow> pool_bits p = {}"

definition pool_Size :: "IPPool \<Rightarrow> int" where
  "pool_Size p = int (length (filter (\<lambda>i. nat i \<in> pool_bits p) [0..maxIPs p]))"

definition EqualCIDR :: "IPPool \<Rightarrow> IPNet \<Rightarrow> bool" where
  "EqualCIDR p other \<longleftrightarrow>
     net_IP (pool_IPNet p) = net_IP other \<and> net_ones (pool_IPNet p) = net_ones other \<and>
     net_bits (pool_IPNet p) = net_bits other"

definition pool_Contains :: "IPPool \<Rightarrow> net_addr \<Rightarrow> bool" where
  "pool_Contains p ip = net_Contains (pool_IPNet p) ip"

definition ContainsCIDR :: "IPPool \<Rightarrow> IPNet \<Rightarrow> bool" where
  "ContainsCIDR p n = net_Contains (pool_IPNet p) (net_IP n)"

definition HostIndex :: "IPPool \<Rightarrow> net_addr \<Rightarrow> ippool_error + int" where
  "HostIndex p ip =
     (if \<not> net_Contains (pool_IPNet p) ip then Inl (NotInCIDR ip)
      else let index = int64 (int ip - int (net_IP (pool_IPNet p)))
           in if index > maxIPs p then Inl (IndexOutOfRange ip) else Inr (int64 (index - 1)))"

definition Occupy :: "IPPool \<Rightarrow> net_addr \<Rightarrow> ippool_error + bool \<times> IPPool" where
  "Occupy p ip =
     (if net_IP (pool_IPNet p) = ip then Inr (False, p)
      else case HostIndex p ip of
             Inl e \<Rightarrow> Inr (False, p)
           | Inr inx \<Rightarrow>
               if inx < 0 then Inl (NegativeBitIndex inx)
               else if nat inx \<notin> pool_bits p
               then Inr (True, p\<lparr>pool_bits := insert (nat inx) (pool_bits p)\<rparr>)
               else Inr (False, p))"

text \<open>The search of \<open>Next\<close>: at most \<open>maxIPs\<close> steps to the first zero bit, wrapping around.\<close>

fun next_candidate :: "nat \<Rightarrow> nat set \<Rightarrow> int \<Rightarrow> int \<Rightarrow> ippool_error + int" where
  "next_candidate 0 bits m c = Inr c"
| "next_candidate (Suc k) bits m c =
     (if c < 0 then Inl (NegativeBitIndex c)
      else if nat c \<notin> bits then Inr c
      else next_candidate k bits m ((c + 1) mod m))"

definition first_candidate :: "IPPool \<Rightarrow> IPNet option \<Rightarrow> int" where
  "first_candidate p cidr =
     (case cidr of
        None \<Rightarrow> 0
      | Some n \<Rightarrow>
          if net_IP (pool_IPNet p) = net_IP n then 0
          else (case HostIndex p (net_IP n) of Inl e \<Rightarrow> 0 | Inr inx \<Rightarrow> inx))"

definition Next :: "cidr_host \<Rightarrow> IPPool \<Rightarrow> IPNet option \<Rightarrow> ippool_error + net_addr option \<times> IPPool" where
  "Next host p cidr =
     (case next_candidate (nat (maxIPs p)) (pool_bits p) (maxIPs p) (first_candidate p cidr) of
        Inl e \<Rightarrow> Inl e
      | Inr c \<Rightarrow>
          if c < 0 then Inl (NegativeBitIndex c)
          else Inr (host (pool_IPNet p) (c + 1), p\<lparr>pool_bits := insert (nat c) (pool_bits p)\<rparr>))"

definition pool_Release :: "IPPool \<Rightarrow> net_addr \<Rightarrow> ippool_error + IPPool" where
  "pool_Release p ip =
     (if net_IP (pool_IPNet p) = ip then Inr p
      else case HostIndex p ip of
             Inl e \<Rightarrow> Inl e
           | Inr inx \<Rightarrow>
               if inx < 0 then Inl (NegativeBitIndex inx)
               else Inr (p\<lparr>pool_bits := pool_bits p - {nat inx}\<rparr>))"

section \<open>What an address pool promises\<close>

text \<open>
  The addresses a pool can give out, and those it holds. Every operation is described by what it
  does to the held addresses; a pool with a free address gives out one that nobody holds.
\<close>

locale address_pool =
  fixes inv :: "'p \<Rightarrow> bool"
    and hosts held :: "'p \<Rightarrow> net_addr set"
    and occupy :: "'p \<Rightarrow> net_addr \<Rightarrow> 'e + bool \<times> 'p"
    and release :: "'p \<Rightarrow> net_addr \<Rightarrow> 'e + 'p"
    and next_ip :: "'p \<Rightarrow> 'e + net_addr option \<times> 'p"
  assumes finite_hosts: "inv p \<Longrightarrow> finite (hosts p)"
    and held_hosts: "inv p \<Longrightarrow> held p \<subseteq> hosts p"
    and occupy_spec: "inv p \<Longrightarrow> \<exists>p'. occupy p ip = Inr (ip \<in> hosts p - held p, p') \<and> inv p' \<and>
          hosts p' = hosts p \<and> held p' = held p \<union> ({ip} \<inter> hosts p)"
    and release_spec: "inv p \<Longrightarrow> ip \<in> hosts p \<Longrightarrow> \<exists>p'. release p ip = Inr p' \<and> inv p' \<and>
          hosts p' = hosts p \<and> held p' = held p - {ip}"
    and next_spec: "inv p \<Longrightarrow> held p \<noteq> hosts p \<Longrightarrow> \<exists>ip p'. next_ip p = Inr (Some ip, p') \<and> inv p' \<and>
          hosts p' = hosts p \<and> ip \<in> hosts p - held p \<and> held p' = insert ip (held p)"
begin

text \<open>Occupying a free address and releasing it restores what the pool holds.\<close>

lemma occupy_release:
  assumes "inv p" and "ip \<in> hosts p" and "ip \<notin> held p"
  obtains p1 p2 where "occupy p ip = Inr (True, p1)" "release p1 ip = Inr p2" "inv p2" "held p2 = held p"
proof -
  obtain p1 where p1: "occupy p ip = Inr (True, p1)" "inv p1" "hosts p1 = hosts p" "held p1 = insert ip (held p)"
    using occupy_spec [OF assms(1), of ip] assms(2,3) by auto
  obtain p2 where "release p1 ip = Inr p2" "inv p2" "held p2 = held p1 - {ip}"
    using release_spec [OF p1(2), of ip] p1(3) assms(2) by auto
  with p1 assms(3) show thesis by (intro that [of p1 p2]) auto
qed

end

text \<open>Taking \<open>n\<close> addresses one after the other.\<close>

fun draw :: "('p \<Rightarrow> 'e + 'a option \<times> 'p) \<Rightarrow> nat \<Rightarrow> 'p \<Rightarrow> ('a list \<times> 'p) option" where
  "draw next_ip 0 p = Some ([], p)"
| "draw next_ip (Suc n) p =
     (case next_ip p of
        Inr (Some ip, p') \<Rightarrow>
          (case draw next_ip n p' of None \<Rightarrow> None | Some (ips, p'') \<Rightarrow> Some (ip # ips, p''))
      | _ \<Rightarrow> None)"

context address_pool
begin

lemma draw_fresh:
  assumes "inv p" and "n \<le> card (hosts p - held p)"
  shows "\<exists>ips p'. draw next_ip n p = Some (ips, p') \<and> length ips = n \<and> distinct ips \<and>
           set ips \<subseteq> hosts p - held p \<and> inv p' \<and> hosts p' = hosts p \<and> held p' = held p \<union> set ips"
  using assms
proof (induction n arbitrary: p)
  case (Suc n)
  then have "held p \<noteq> hosts p" by auto
  from next_spec [OF Suc.prems(1) this] obtain ip p1 where
    p1: "next_ip p = Inr (Some ip, p1)" "inv p1" "hosts p1 = hosts p" "ip \<in> hosts p - held p"
      "held p1 = insert ip (held p)" by blast
  have "hosts p - held p = insert ip (hosts p1 - held p1)" "ip \<notin> hosts p1 - held p1"
    using p1 by auto
  moreover have "finite (hosts p1 - held p1)" using finite_hosts [OF p1(2)] by simp
  ultimately have "n \<le> card (hosts p1 - held p1)" using Suc.prems(2) by simp
  from Suc.IH [OF p1(2) this] obtain ips p2 where
    "draw next_ip n p1 = Some (ips, p2)" "length ips = n" "distinct ips" "set ips \<subseteq> hosts p1 - held p1"
    "inv p2" "hosts p2 = hosts p1" "held p2 = held p1 \<union> set ips" by blast
  with p1 show ?case by auto
qed simp

end

section \<open>IPv4 pools\<close>

text \<open>
  The pools the provider makes: IPv4 networks with a masked base address. \<open>Host\<close> of \<open>go-cidr\<close>
  gives the address with a number, when the network has that many.
\<close>

definition net4 :: "IPNet \<Rightarrow> bool" where
  "net4 n \<longleftrightarrow> is4 (net_IP n) \<and> net_bits n = 32 \<and> net_ones n \<le> 32 \<and> 2 ^ (32 - net_ones n) dvd net_IP n"

definition net_size :: "IPNet \<Rightarrow> nat" where
  "net_size n = 2 ^ (32 - net_ones n)"

definition host_laws :: "cidr_host \<Rightarrow> bool" where
  "host_laws host \<longleftrightarrow>
     (\<forall>n k. net4 n \<longrightarrow> 0 \<le> k \<longrightarrow>
        host n k = (if nat k < net_size n then Some (net_IP n + nat k) else None))"

definition pool_inv :: "IPPool \<Rightarrow> bool" where
  "pool_inv p \<longleftrightarrow>
     net4 (pool_IPNet p) \<and> maxIPs p = int (net_size (pool_IPNet p)) - 1 \<and>
     pool_bits p \<subseteq> {..<max 1 (nat (maxIPs p))}"

definition pool_hosts :: "IPPool \<Rightarrow> net_addr set" where
  "pool_hosts p = {net_IP (pool_IPNet p)<..<net_IP (pool_IPNet p) + net_size (pool_IPNet p)}"

definition pool_held :: "IPPool \<Rightarrow> net_addr set" where
  "pool_held p = (\<lambda>i. net_IP (pool_IPNet p) + 1 + i) ` pool_bits p \<inter> pool_hosts p"

lemma int64_small: "- (2 ^ 63) \<le> x \<Longrightarrow> x < 2 ^ 63 \<Longrightarrow> int64 x = x"
  unfolding int64_def by (simp add: sint_sbintrunc' signed_take_bit_int_eq_self)

lemma net_size_pos: "0 < net_size n" "net_size n \<le> 2 ^ 32"
  using power_increasing [of "32 - net_ones n" 32 "2 :: nat"] by (simp_all add: net_size_def)

lemma net4_Contains:
  assumes "net4 n"
  shows "net_Contains n ip \<longleftrightarrow> net_IP n \<le> ip \<and> ip < net_IP n + net_size n"
proof -
  let ?s = "net_size n" let ?q = "net_IP n div ?s"
  have hb: "2 ^ host_bits n = ?s" using assms by (simp add: net4_def host_bits_def net_size_def)
  have base: "net_IP n = ?q * ?s" using assms by (simp add: net4_def net_size_def)
  have range: "ip div ?s = ?q \<longleftrightarrow> net_IP n \<le> ip \<and> ip < net_IP n + ?s"
  proof
    assume "ip div ?s = ?q"
    then have "?q * ?s \<le> ip" "ip < ?q * ?s + ?s"
      using net_size_pos(1) [of n] by (metis div_times_less_eq_dividend, metis dividend_less_div_times add.commute)
    with base show "net_IP n \<le> ip \<and> ip < net_IP n + ?s" by simp
  next
    assume "net_IP n \<le> ip \<and> ip < net_IP n + ?s"
    with base show "ip div ?s = ?q"
      by (intro div_nat_eqI) (metis mult.commute, metis add.commute mult.commute mult_Suc)
  qed
  have "(2::nat) ^ 32 = ?s * 2 ^ net_ones n"
    using assms by (simp add: net4_def net_size_def flip: power_add)
  then have "ip div 2 ^ 32 = ip div ?s div 2 ^ net_ones n" for ip by (simp only: div_mult2_eq)
  then have "is4 ip" if "ip div ?s = ?q" using that assms by (simp add: is4_def net4_def)
  with assms show ?thesis by (auto simp: net_Contains_def hb range net4_def)
qed

lemma pool_invD:
  assumes "pool_inv p"
  shows "net4 (pool_IPNet p)" "maxIPs p = int (net_size (pool_IPNet p)) - 1" "0 \<le> maxIPs p" "maxIPs p < 2 ^ 32"
    "finite (pool_bits p)"
  using assms net_size_pos [of "pool_IPNet p"] finite_subset [of "pool_bits p"] by (auto simp: pool_inv_def)

lemma ParseCIDR_inv:
  assumes "parse s = Some (ip, n)" and "net4 n"
  shows "pool_ParseCIDR parse s = Inr \<lparr>pool_IPNet = n, maxIPs = int (net_size n) - 1, pool_bits = {}\<rparr>"
    and "pool_inv \<lparr>pool_IPNet = n, maxIPs = int (net_size n) - 1, pool_bits = {}\<rparr>"
proof -
  have "2 ^ (32 - net_ones n) = int (net_size n)" by (simp add: net_size_def)
  moreover have "int (net_size n) \<le> 2 ^ 32" using net_size_pos(2) [of n] of_nat_mono [of "net_size n" "2 ^ 32"] by simp
  ultimately have "int64 (int64 (2 ^ (32 - net_ones n)) - 1) = int (net_size n) - 1"
    by (simp only:) (simp add: int64_small)
  then show "pool_ParseCIDR parse s = Inr \<lparr>pool_IPNet = n, maxIPs = int (net_size n) - 1, pool_bits = {}\<rparr>"
    using assms by (simp add: pool_ParseCIDR_def net4_def)
  show "pool_inv \<lparr>pool_IPNet = n, maxIPs = int (net_size n) - 1, pool_bits = {}\<rparr>"
    using assms by (simp add: pool_inv_def)
qed

lemma HostIndex_host:
  assumes inv: "pool_inv p" and "ip \<noteq> net_IP (pool_IPNet p)"
  shows "HostIndex p ip = (if ip \<in> pool_hosts p then Inr (int (ip - net_IP (pool_IPNet p)) - 1) else Inl (NotInCIDR ip))"
proof -
  note p = pool_invD [OF inv] and size = net_size_pos [of "pool_IPNet p"]
  have host: "net_Contains (pool_IPNet p) ip \<longleftrightarrow> ip \<in> pool_hosts p"
    using assms(2) by (auto simp: net4_Contains [OF p(1)] pool_hosts_def)
  have "int64 (int ip - int (net_IP (pool_IPNet p))) = int (ip - net_IP (pool_IPNet p))"
    "int64 (int (ip - net_IP (pool_IPNet p)) - 1) = int (ip - net_IP (pool_IPNet p)) - 1"
    "int (ip - net_IP (pool_IPNet p)) \<le> maxIPs p" if "ip \<in> pool_hosts p"
    using that size p(2) by (auto simp: pool_hosts_def intro!: int64_small)
  then show ?thesis by (auto simp: HostIndex_def host)
qed

text \<open>The bit of an address.\<close>

lemma held_bit:
  "ip \<in> pool_hosts p \<Longrightarrow> ip \<in> pool_held p \<longleftrightarrow> ip - net_IP (pool_IPNet p) - 1 \<in> pool_bits p"
  by (force simp: pool_held_def pool_hosts_def image_iff)

lemma held_insert:
  assumes "ip \<in> pool_hosts p" and "i = ip - net_IP (pool_IPNet p) - 1"
  shows "pool_held (p\<lparr>pool_bits := insert i (pool_bits p)\<rparr>) = insert ip (pool_held p)"
    and "pool_held (p\<lparr>pool_bits := pool_bits p - {i}\<rparr>) = pool_held p - {ip}"
  using assms by (auto simp: pool_held_def pool_hosts_def)

lemma pool_bits_update [simp]:
  "pool_hosts (p\<lparr>pool_bits := b\<rparr>) = pool_hosts p"
  by (simp add: pool_hosts_def)

lemma pool_inv_bits:
  "pool_inv p \<Longrightarrow> b \<subseteq> {..<max 1 (nat (maxIPs p))} \<Longrightarrow> pool_inv (p\<lparr>pool_bits := b\<rparr>)"
  by (simp add: pool_inv_def)

lemma host_bit_range:
  "pool_inv p \<Longrightarrow> ip \<in> pool_hosts p \<Longrightarrow> ip - net_IP (pool_IPNet p) - 1 < nat (maxIPs p)"
  using pool_invD(2) [of p] by (auto simp: pool_hosts_def)

lemma Occupy_spec:
  assumes inv: "pool_inv p"
  shows "\<exists>p'. Occupy p ip = Inr (ip \<in> pool_hosts p - pool_held p, p') \<and> pool_inv p' \<and>
           pool_hosts p' = pool_hosts p \<and> pool_held p' = pool_held p \<union> ({ip} \<inter> pool_hosts p)"
proof (cases "ip \<in> pool_hosts p")
  case False
  then have "Occupy p ip = Inr (False, p)"
    using HostIndex_host [OF inv, of ip] by (cases "ip = net_IP (pool_IPNet p)") (auto simp: Occupy_def)
  with False inv show ?thesis by auto
next
  case True
  define i where i: "i = ip - net_IP (pool_IPNet p) - 1"
  have ip: "net_IP (pool_IPNet p) < ip" using True by (simp add: pool_hosts_def)
  then have idx: "HostIndex p ip = Inr (int i)" using HostIndex_host [OF inv, of ip] True by (simp add: i)
  show ?thesis
  proof (cases "i \<in> pool_bits p")
    case bit: True
    then have "ip \<in> pool_held p" using held_bit [OF True] i by blast
    with idx bit ip inv show ?thesis by (auto simp: Occupy_def)
  next
    case bit: False
    then have "ip \<notin> pool_held p" using held_bit [OF True] i by blast
    moreover have "pool_inv (p\<lparr>pool_bits := insert i (pool_bits p)\<rparr>)"
      using host_bit_range [OF inv True] inv unfolding i by (intro pool_inv_bits) (auto simp: pool_inv_def)
    ultimately show ?thesis using idx bit ip True held_insert(1) [OF True i] by (auto simp: Occupy_def)
  qed
qed

lemma Release_spec:
  assumes inv: "pool_inv p" and host: "ip \<in> pool_hosts p"
  shows "\<exists>p'. pool_Release p ip = Inr p' \<and> pool_inv p' \<and> pool_hosts p' = pool_hosts p \<and> pool_held p' = pool_held p - {ip}"
proof -
  define i where i: "i = ip - net_IP (pool_IPNet p) - 1"
  have ip: "net_IP (pool_IPNet p) < ip" using host by (simp add: pool_hosts_def)
  then have "HostIndex p ip = Inr (int i)" using HostIndex_host [OF inv, of ip] host by (simp add: i)
  moreover have "pool_inv (p\<lparr>pool_bits := pool_bits p - {i}\<rparr>)"
    using inv by (intro pool_inv_bits) (auto simp: pool_inv_def)
  ultimately show ?thesis using ip held_insert(2) [OF host i] by (simp add: pool_Release_def)
qed

text \<open>The search looks at one bit after the other, from the candidate on.\<close>

lemma next_candidate_spec:
  "0 \<le> c \<Longrightarrow> c < m \<Longrightarrow> \<exists>j\<le>k. next_candidate k bits m c = Inr ((c + int j) mod m) \<and>
     (\<forall>i<j. nat ((c + int i) mod m) \<in> bits) \<and> (j < k \<longrightarrow> nat ((c + int j) mod m) \<notin> bits)"
proof (induction k arbitrary: c)
  case (Suc k)
  show ?case
  proof (cases "nat c \<in> bits")
    case False
    with Suc.prems show ?thesis by (intro exI [of _ 0]) auto
  next
    case True
    have "0 \<le> (c + 1) mod m" "(c + 1) mod m < m" using Suc.prems by auto
    from Suc.IH [OF this] obtain j where
      "j \<le> k" "next_candidate k bits m ((c + 1) mod m) = Inr (((c + 1) mod m + int j) mod m)"
      "\<forall>i<j. nat (((c + 1) mod m + int i) mod m) \<in> bits" "j < k \<longrightarrow> nat (((c + 1) mod m + int j) mod m) \<notin> bits"
      by blast
    moreover have "((c + 1) mod m + int i) mod m = (c + int (Suc i)) mod m" for i
      using mod_add_left_eq [of "c + 1" m "int i"] by (simp add: algebra_simps)
    moreover have "nat ((c + int i) mod m) \<in> bits" if "i < Suc j" "\<And>i. i < j \<Longrightarrow> nat ((c + int (Suc i)) mod m) \<in> bits" for i
      using that True Suc.prems by (cases i) auto
    ultimately show ?thesis using True Suc.prems by (intro exI [of _ "Suc j"]) auto
  qed
qed simp

lemma next_candidate_free:
  assumes c: "0 \<le> c" "c < m" and free: "i < nat m" "i \<notin> bits"
  shows "\<exists>c'. next_candidate (nat m) bits m c = Inr c' \<and> 0 \<le> c' \<and> c' < m \<and> nat c' \<notin> bits"
proof -
  obtain j where j: "j \<le> nat m" "next_candidate (nat m) bits m c = Inr ((c + int j) mod m)"
    "\<forall>i<j. nat ((c + int i) mod m) \<in> bits" "j < nat m \<longrightarrow> nat ((c + int j) mod m) \<notin> bits"
    using next_candidate_spec [OF c, of "nat m" bits] by blast
  define k where "k = nat ((int i - c) mod m)"
  have k: "int k = (int i - c) mod m" "k < nat m" using c by (auto simp: k_def nat_less_iff)
  have "(c + int k) mod m = int i mod m" unfolding k(1) by (simp add: mod_add_right_eq)
  then have "nat ((c + int k) mod m) = i" using free(1) by simp
  with free(2) j(3) have "\<not> k < j" by metis
  with j k(2) c show ?thesis by auto
qed

lemma next_candidate_full:
  assumes c: "0 \<le> c" "c < m" and full: "{..<nat m} \<subseteq> bits"
  shows "next_candidate (nat m) bits m c = Inr c"
proof -
  obtain j where j: "j \<le> nat m" "next_candidate (nat m) bits m c = Inr ((c + int j) mod m)"
    "j < nat m \<longrightarrow> nat ((c + int j) mod m) \<notin> bits"
    using next_candidate_spec [OF c, of "nat m" bits] by blast
  have "nat ((c + int j) mod m) < nat m" using c by simp
  with full have "nat ((c + int j) mod m) \<in> bits" by blast
  with j(3) have "\<not> j < nat m" by blast
  with j(1) c have "int j = m" by simp
  with j(2) c show ?thesis by simp
qed

lemma first_candidate_range:
  assumes inv: "pool_inv p" and "0 < maxIPs p"
  shows "0 \<le> first_candidate p cidr" "first_candidate p cidr < maxIPs p"
proof -
  have "0 \<le> first_candidate p cidr \<and> first_candidate p cidr < maxIPs p"
  proof (cases "\<exists>n. cidr = Some n \<and> net_IP n \<noteq> net_IP (pool_IPNet p) \<and> net_IP n \<in> pool_hosts p")
    case True
    then obtain n where n: "cidr = Some n" "net_IP n \<noteq> net_IP (pool_IPNet p)" "net_IP n \<in> pool_hosts p" by blast
    then show ?thesis
      using HostIndex_host [OF inv n(2)] host_bit_range [OF inv n(3)]
      by (auto simp: first_candidate_def pool_hosts_def of_nat_diff)
  next
    case False
    then have "first_candidate p cidr = 0"
      using HostIndex_host [OF inv] by (auto simp: first_candidate_def split: option.split)
    with assms(2) show ?thesis by simp
  qed
  then show "0 \<le> first_candidate p cidr" "first_candidate p cidr < maxIPs p" by auto
qed

lemma Next_at:
  assumes "host_laws host" and inv: "pool_inv p" and "0 \<le> c" "c < maxIPs p"
    and "next_candidate (nat (maxIPs p)) (pool_bits p) (maxIPs p) (first_candidate p cidr) = Inr c"
  shows "Next host p cidr =
           Inr (Some (net_IP (pool_IPNet p) + 1 + nat c), p\<lparr>pool_bits := insert (nat c) (pool_bits p)\<rparr>)"
    and "net_IP (pool_IPNet p) + 1 + nat c \<in> pool_hosts p"
proof -
  have "nat (c + 1) < net_size (pool_IPNet p)" "nat (c + 1) = 1 + nat c"
    using pool_invD(2) [OF inv] assms(3,4) by auto
  then show "Next host p cidr =
           Inr (Some (net_IP (pool_IPNet p) + 1 + nat c), p\<lparr>pool_bits := insert (nat c) (pool_bits p)\<rparr>)"
    "net_IP (pool_IPNet p) + 1 + nat c \<in> pool_hosts p"
    using assms pool_invD(1) [OF inv] by (auto simp: Next_def host_laws_def pool_hosts_def)
qed

lemma Next_spec:
  assumes laws: "host_laws host" and inv: "pool_inv p" and free: "pool_held p \<noteq> pool_hosts p"
  shows "\<exists>ip p'. Next host p cidr = Inr (Some ip, p') \<and> pool_inv p' \<and> pool_hosts p' = pool_hosts p \<and>
           ip \<in> pool_hosts p - pool_held p \<and> pool_held p' = insert ip (pool_held p)"
proof -
  obtain ip where ip: "ip \<in> pool_hosts p" "ip \<notin> pool_held p"
    using free by (auto simp: pool_held_def)
  note bit = host_bit_range [OF inv ip(1)]
  have m: "0 < maxIPs p" using bit by auto
  have "ip - net_IP (pool_IPNet p) - 1 \<notin> pool_bits p" using ip held_bit by blast
  from next_candidate_free [OF first_candidate_range [OF inv m] bit this] obtain c where
    c: "next_candidate (nat (maxIPs p)) (pool_bits p) (maxIPs p) (first_candidate p cidr) = Inr c"
      "0 \<le> c" "c < maxIPs p" "nat c \<notin> pool_bits p" by blast
  let ?ip = "net_IP (pool_IPNet p) + 1 + nat c"
  note next_at = Next_at [OF laws inv c(2,3,1)]
  have "?ip \<notin> pool_held p" using held_bit [OF next_at(2)] c(4) by simp
  moreover have "pool_inv (p\<lparr>pool_bits := insert (nat c) (pool_bits p)\<rparr>)"
    using inv c(2,3) by (intro pool_inv_bits) (auto simp: pool_inv_def)
  moreover have "pool_held (p\<lparr>pool_bits := insert (nat c) (pool_bits p)\<rparr>) = insert ?ip (pool_held p)"
    by (rule held_insert(1) [OF next_at(2)]) simp
  ultimately show ?thesis using next_at by auto
qed

lemma pool_full_bits:
  assumes inv: "pool_inv p" and full: "pool_held p = pool_hosts p"
  shows "{..<nat (maxIPs p)} \<subseteq> pool_bits p"
proof
  fix i assume "i \<in> {..<nat (maxIPs p)}"
  then have "net_IP (pool_IPNet p) + 1 + i \<in> pool_hosts p"
    using pool_invD(2) [OF inv] by (auto simp: pool_hosts_def)
  with full held_bit [OF this] show "i \<in> pool_bits p" by simp
qed

lemma Next_full:
  assumes laws: "host_laws host" and inv: "pool_inv p" and "0 < maxIPs p" and full: "pool_held p = pool_hosts p"
  shows "\<exists>ip. Next host p cidr = Inr (Some ip, p) \<and> ip \<in> pool_held p"
proof -
  note bits = pool_full_bits [OF inv full] and range = first_candidate_range [OF inv assms(3), of cidr]
  note next_at = Next_at [OF laws inv range next_candidate_full [OF range bits]]
  from bits range have "nat (first_candidate p cidr) \<in> pool_bits p" by auto
  then have "p\<lparr>pool_bits := insert (nat (first_candidate p cidr)) (pool_bits p)\<rparr> = p"
    by (simp add: insert_absorb)
  with next_at full show ?thesis by auto
qed

lemma Next_inv:
  assumes laws: "host_laws host" and inv: "pool_inv p"
  shows "\<exists>r p'. Next host p cidr = Inr (r, p') \<and> pool_inv p' \<and> pool_hosts p' = pool_hosts p"
proof (cases "maxIPs p = 0")
  case True
  then have "pool_hosts p = {}" using pool_invD(2) [OF inv] by (auto simp: pool_hosts_def)
  then have "first_candidate p cidr = 0"
    using HostIndex_host [OF inv] by (auto simp: first_candidate_def split: option.split)
  moreover have "pool_inv (p\<lparr>pool_bits := insert 0 (pool_bits p)\<rparr>)"
    using inv by (intro pool_inv_bits) (auto simp: pool_inv_def)
  ultimately show ?thesis using True by (simp add: Next_def)
next
  case False
  then have "0 < maxIPs p" using pool_invD(3) [OF inv] by simp
  then show ?thesis
    using Next_full [OF laws inv, of cidr] Next_spec [OF laws inv, of cidr] inv
    by (cases "pool_held p = pool_hosts p") blast+
qed

lemma Release_inv:
  assumes "pool_inv p" and "pool_Release p ip = Inr p'"
  shows "pool_inv p' \<and> pool_hosts p' = pool_hosts p \<and> pool_held p' = pool_held p - {ip}"
proof (cases "ip \<in> pool_hosts p")
  case True
  from Release_spec [OF assms(1) True] assms(2) show ?thesis by auto
next
  case False
  with assms HostIndex_host [OF assms(1), of ip] have "p' = p" by (auto simp: pool_Release_def split: if_splits)
  with assms(1) False show ?thesis by (auto simp: pool_held_def)
qed

text \<open>An IPv4 pool keeps the promises, whichever function \<open>Host\<close> is that obeys its laws.\<close>

interpretation ip4: address_pool "\<lambda>p. host_laws host \<and> pool_inv p" pool_hosts pool_held Occupy pool_Release
  "\<lambda>p. Next host p cidr"
proof
  fix p :: IPPool and ip assume inv: "host_laws host \<and> pool_inv p"
  show "finite (pool_hosts p)" by (simp add: pool_hosts_def)
  show "pool_held p \<subseteq> pool_hosts p" by (simp add: pool_held_def)
  show "\<exists>p'. Occupy p ip = Inr (ip \<in> pool_hosts p - pool_held p, p') \<and> (host_laws host \<and> pool_inv p') \<and>
          pool_hosts p' = pool_hosts p \<and> pool_held p' = pool_held p \<union> ({ip} \<inter> pool_hosts p)"
    using Occupy_spec inv by blast
  show "ip \<in> pool_hosts p \<Longrightarrow> \<exists>p'. pool_Release p ip = Inr p' \<and> (host_laws host \<and> pool_inv p') \<and>
          pool_hosts p' = pool_hosts p \<and> pool_held p' = pool_held p - {ip}"
    using Release_spec inv by blast
  show "pool_held p \<noteq> pool_hosts p \<Longrightarrow> \<exists>ip p'. Next host p cidr = Inr (Some ip, p') \<and> (host_laws host \<and> pool_inv p') \<and>
          pool_hosts p' = pool_hosts p \<and> ip \<in> pool_hosts p - pool_held p \<and> pool_held p' = insert ip (pool_held p)"
    using Next_spec inv by blast
qed

section \<open>Properties of address pools\<close>

text \<open>The network \<open>10.0.0.0/30\<close>, and \<open>Host\<close> as the package documents it.\<close>

definition example_net :: IPNet where
  "example_net = \<lparr>net_IP = 281470849515520, net_ones = 30, net_bits = 32\<rparr>"

definition example_Host :: cidr_host where
  "example_Host n k = (if 0 \<le> k \<and> nat k < net_size n then Some (net_IP n + nat k) else None)"

definition example_ips :: IPPool where
  "example_ips = \<lparr>pool_IPNet = example_net, maxIPs = 3, pool_bits = {}\<rparr>"

lemma example_Host_laws: "host_laws example_Host"
  by (simp add: host_laws_def example_Host_def)

lemma example_net4: "net4 example_net"
  by (simp add: net4_def is4_def example_net_def)

lemma example_ips_inv: "pool_inv example_ips"
  by (simp add: pool_inv_def example_ips_def example_net4 net_size_def) (simp add: example_net_def)

text \<open>
  C15. The operations of an IPv4 pool do to its bitmap what they promise to do to the set of held
  addresses: \<open>Occupy\<close> adds the address and reports whether it was a free address of the subnet,
  \<open>Release\<close> removes it, and \<open>Next\<close>, as long as an address is free, returns one that is free and
  holds it; the network address is never among them.
\<close>

theorem pool_refines_address_set:
  assumes "host_laws host" and "pool_inv p"
  shows "(\<exists>p'. Occupy p ip = Inr (ip \<in> pool_hosts p - pool_held p, p') \<and> pool_inv p' \<and>
            pool_hosts p' = pool_hosts p \<and> pool_held p' = pool_held p \<union> ({ip} \<inter> pool_hosts p)) \<and>
         (ip \<in> pool_hosts p \<longrightarrow> (\<exists>p'. pool_Release p ip = Inr p' \<and> pool_inv p' \<and>
            pool_hosts p' = pool_hosts p \<and> pool_held p' = pool_held p - {ip})) \<and>
         (pool_held p \<noteq> pool_hosts p \<longrightarrow> (\<exists>ip p'. Next host p cidr = Inr (Some ip, p') \<and> pool_inv p' \<and>
            pool_hosts p' = pool_hosts p \<and> ip \<in> pool_hosts p - pool_held p \<and> pool_held p' = insert ip (pool_held p)))"
  using Occupy_spec [OF assms(2), of ip] Release_spec [OF assms(2), of ip] Next_spec [OF assms, of cidr]
  by (intro conjI impI) assumption+

theorem pool_refines_address_set_witness:
  "\<exists>ip p'. Next example_Host example_ips None = Inr (Some ip, p') \<and> pool_inv p' \<and>
     pool_hosts p' = pool_hosts example_ips \<and> ip \<in> pool_hosts example_ips - pool_held example_ips \<and>
     pool_held p' = insert ip (pool_held example_ips)"
proof -
  have "281470849515521 \<in> pool_hosts example_ips" "pool_held example_ips = {}"
    by (simp_all add: pool_held_def pool_hosts_def example_ips_def net_size_def example_net_def)
  then have "pool_held example_ips \<noteq> pool_hosts example_ips" by blast
  then show ?thesis
    using pool_refines_address_set [OF example_Host_laws example_ips_inv, of 0 None] by blast
qed

text \<open>
  Asking a pool for addresses again and again yields different addresses, all of them free at
  the start, for as many requests as the pool has free addresses.
\<close>

lemma pool_draws_distinct:
  assumes "host_laws host" and "pool_inv p" and "n \<le> card (pool_hosts p - pool_held p)"
  shows "\<exists>ips p'. draw (\<lambda>p. Next host p cidr) n p = Some (ips, p') \<and> length ips = n \<and> distinct ips \<and>
           set ips \<subseteq> pool_hosts p - pool_held p \<and> pool_held p' = pool_held p \<union> set ips"
  using ip4.draw_fresh [of host p n cidr] assms by blast

text \<open>
  A full pool does not say so: \<open>Next\<close> returns an address that is already held, and the caller
  cannot tell.
\<close>

lemma pool_full_duplicate:
  assumes "host_laws host" and "pool_inv p" and "0 < maxIPs p" and "pool_held p = pool_hosts p"
  shows "\<exists>ip. Next host p cidr = Inr (Some ip, p) \<and> ip \<in> pool_held p"
  using assms by (rule Next_full)

end
