(* ===== verification/NodeIpam.thy ===== *)
theory NodeIpam
  imports IPPool CloudCapacity
begin

text \<open>
  The address management of nodes (\<open>src/pkg/providers/nodeipam/nodeipam.go\<close>): a list of pools, one
  for each known IPv4 subnet. The functions of the packages \<open>net\<close> and \<open>go-cidr\<close> are the fields of
  \<open>net_lib\<close>. An operation returns its result and the provider as it is afterwards, also
  when it fails. The list holds no \<open>nil\<close> entries: only \<open>AllocateOrOccupyCIDR\<close> adds to it.
\<close>

section \<open>State and operations\<close>

record net_lib =
  lib_ParseCIDR :: cidr_parser
  lib_ParseIP :: "string \<Rightarrow> net_addr option"
  lib_Host :: cidr_host

record nodeIpam =
  subnets :: "IPPool list"

datatype ipam_error =
    BadCIDR
  | OnlyIPv4
  | PoolError ippool_error
  | ErrNoSubnetFound
  | NoAvailableIPs
  | NoSubnetForCIDR

type_synonym 'a outcome = "(ipam_error + 'a) \<times> nodeIpam"

definition NewIpamProvider :: nodeIpam where
  "NewIpamProvider = \<lparr>subnets = []\<rparr>"

fun first_index :: "('a \<Rightarrow> bool) \<Rightarrow> 'a list \<Rightarrow> nat option" where
  "first_index P [] = None"
| "first_index P (x # xs) = (if P x then Some 0 else map_option Suc (first_index P xs))"

definition set_pool :: "nodeIpam \<Rightarrow> nat \<Rightarrow> IPPool \<Rightarrow> nodeIpam" where
  "set_pool p i pool = p\<lparr>subnets := (subnets p)[i := pool]\<rparr>"

definition occupy_at :: "nodeIpam \<Rightarrow> nat \<Rightarrow> net_addr \<Rightarrow> unit outcome" where
  "occupy_at p i ip =
     (case Occupy (subnets p ! i) ip of
        Inl e \<Rightarrow> (Inl (PoolError e), p)
      | Inr (done, pool) \<Rightarrow> (Inr (), set_pool p i pool))"

definition AllocateOrOccupyCIDR :: "net_lib \<Rightarrow> nodeIpam \<Rightarrow> string \<Rightarrow> unit outcome" where
  "AllocateOrOccupyCIDR lib p subnet =
     (case lib_ParseCIDR lib subnet of
        None \<Rightarrow> (Inl BadCIDR, p)
      | Some (ip, cidr) \<Rightarrow>
          if \<not> is4 (net_IP cidr) then (Inl OnlyIPv4, p)
          else (case first_index (\<lambda>s. ContainsCIDR s cidr) (subnets p) of
                 Some i \<Rightarrow> if ip \<noteq> net_IP cidr then occupy_at p i ip else (Inr (), p)
               | None \<Rightarrow>
                   (case pool_ParseCIDR (lib_ParseCIDR lib) subnet of
                      Inl e \<Rightarrow> (Inl (PoolError e), p)
                    | Inr pool \<Rightarrow>
                        let p' = p\<lparr>subnets := subnets p @ [pool]\<rparr>
                        in if ip \<noteq> net_IP cidr then occupy_at p' (length (subnets p)) ip else (Inr (), p'))))"

definition ReleaseCIDR :: "net_lib \<Rightarrow> nodeIpam \<Rightarrow> string \<Rightarrow> unit outcome" where
  "ReleaseCIDR lib p subnet =
     (case lib_ParseCIDR lib subnet of
        None \<Rightarrow> (Inl BadCIDR, p)
      | Some (ip, cidr) \<Rightarrow>
          (case first_index (\<lambda>s. EqualCIDR s cidr) (subnets p) of
             None \<Rightarrow> (Inr (), p)
           | Some i \<Rightarrow> (Inr (), p\<lparr>subnets := take i (subnets p) @ drop (Suc i) (subnets p)\<rparr>)))"

definition OccupyIP :: "net_lib \<Rightarrow> nodeIpam \<Rightarrow> string \<Rightarrow> net_addr outcome" where
  "OccupyIP lib p subnet =
     (case lib_ParseCIDR lib subnet of
        None \<Rightarrow> (Inl BadCIDR, p)
      | Some (ip, cidr0) \<Rightarrow>
          let cidr = cidr0\<lparr>net_IP := ip\<rparr>
          in (case first_index (\<lambda>s. ContainsCIDR s cidr) (subnets p) of
               None \<Rightarrow> (Inl NoSubnetForCIDR, p)
             | Some i \<Rightarrow>
                 (case Next (lib_Host lib) (subnets p ! i) (Some cidr) of
                    Inl e \<Rightarrow> (Inl (PoolError e), p)
                  | Inr (None, pool) \<Rightarrow> (Inl NoAvailableIPs, set_pool p i pool)
                  | Inr (Some ip', pool) \<Rightarrow> (Inr ip', set_pool p i pool))))"

definition ReleaseIP :: "net_lib \<Rightarrow> nodeIpam \<Rightarrow> string \<Rightarrow> unit outcome" where
  "ReleaseIP lib p subnet =
     (if subnets p = [] then (Inl ErrNoSubnetFound, p)
      else case lib_ParseCIDR lib subnet of
             None \<Rightarrow> (Inl BadCIDR, p)
           | Some (ip, cidr0) \<Rightarrow>
               (case first_index (\<lambda>s. ContainsCIDR s (cidr0\<lparr>net_IP := ip\<rparr>)) (subnets p) of
                  None \<Rightarrow> (Inl ErrNoSubnetFound, p)
                | Some i \<Rightarrow>
                    (case pool_Release (subnets p ! i) ip of
                       Inl e \<Rightarrow> (Inl (PoolError e), p)
                     | Inr pool \<Rightarrow> (Inr (), set_pool p i pool))))"

text \<open>The loop over the subnets that contain an address, and the loop over the addresses of a node.\<close>

fun update_subnets ::
  "(IPPool \<Rightarrow> net_addr \<Rightarrow> ippool_error + IPPool) \<Rightarrow> net_addr \<Rightarrow> IPPool list \<Rightarrow> ippool_error option \<times> IPPool list" where
  "update_subnets f ip [] = (None, [])"
| "update_subnets f ip (s # ss) =
     (if pool_Contains s ip
      then (case f s ip of
              Inl e \<Rightarrow> (Some e, s # ss)
            | Inr s' \<Rightarrow> (let (e, ss') = update_subnets f ip ss in (e, s' # ss')))
      else (let (e, ss') = update_subnets f ip ss in (e, s # ss')))"

type_synonym node_address = "string \<times> string"

fun updateNodeIPs ::
  "net_lib \<Rightarrow> (IPPool \<Rightarrow> net_addr \<Rightarrow> ippool_error + IPPool) \<Rightarrow> node_address list \<Rightarrow> nodeIpam \<Rightarrow> unit outcome" where
  "updateNodeIPs lib f [] p = (Inr (), p)"
| "updateNodeIPs lib f ((kind, address) # addrs) p =
     (if kind \<noteq> ''InternalIP'' \<and> kind \<noteq> ''ExternalIP'' then updateNodeIPs lib f addrs p
      else case lib_ParseIP lib address of
             None \<Rightarrow> updateNodeIPs lib f addrs p
           | Some ip \<Rightarrow>
               if \<not> is4 ip then updateNodeIPs lib f addrs p
               else (case update_subnets f ip (subnets p) of
                       (Some e, ss) \<Rightarrow> (Inl (PoolError e), p\<lparr>subnets := ss\<rparr>)
                     | (None, ss) \<Rightarrow> updateNodeIPs lib f addrs (p\<lparr>subnets := ss\<rparr>)))"

definition occupy_pool :: "IPPool \<Rightarrow> net_addr \<Rightarrow> ippool_error + IPPool" where
  "occupy_pool s ip = (case Occupy s ip of Inl e \<Rightarrow> Inl e | Inr (done, s') \<Rightarrow> Inr s')"

definition OccupyNodeIPs :: "net_lib \<Rightarrow> nodeIpam \<Rightarrow> node_address list \<Rightarrow> unit outcome" where
  "OccupyNodeIPs lib p addrs =
     (if subnets p = [] then (Inl ErrNoSubnetFound, p) else updateNodeIPs lib occupy_pool addrs p)"

definition ReleaseNodeIPs :: "net_lib \<Rightarrow> nodeIpam \<Rightarrow> node_address list \<Rightarrow> unit outcome" where
  "ReleaseNodeIPs lib p addrs =
     (if subnets p = [] then (Inl ErrNoSubnetFound, p) else updateNodeIPs lib pool_Release addrs p)"

text \<open>
  \<open>UpdateNodeCIDR\<close> walks over the interfaces of all hosts. It ignores errors, but a panic of the
  bitmap is no error: it ends the walk.
\<close>

fun is_panic :: "ipam_error + 'a \<Rightarrow> bool" where
  "is_panic (Inl (PoolError (NegativeBitIndex i))) = True"
| "is_panic r = False"

definition occupy_gateway :: "net_lib \<Rightarrow> nodeIpam \<Rightarrow> string \<Rightarrow> unit outcome" where
  "occupy_gateway lib p gateway =
     (case lib_ParseIP lib gateway of
        None \<Rightarrow> (Inr (), p)
      | Some ip \<Rightarrow>
          (case update_subnets occupy_pool ip (subnets p) of
             (Some e, ss) \<Rightarrow> (Inl (PoolError e), p\<lparr>subnets := ss\<rparr>)
           | (None, ss) \<Rightarrow> (Inr (), p\<lparr>subnets := ss\<rparr>)))"

definition update_iface :: "net_lib \<Rightarrow> nodeIpam \<Rightarrow> NetworkIfaceInfo \<Rightarrow> unit outcome" where
  "update_iface lib p iface =
     (let (r, p1) = (if Address4 iface \<noteq> [] then AllocateOrOccupyCIDR lib p (Address4 iface) else (Inr (), p))
      in if is_panic r then (r, p1)
         else if Gateway4 iface \<noteq> [] then occupy_gateway lib p1 (Gateway4 iface) else (Inr (), p1))"

fun update_ifaces :: "net_lib \<Rightarrow> NetworkIfaceInfo list \<Rightarrow> nodeIpam \<Rightarrow> unit outcome" where
  "update_ifaces lib [] p = (Inr (), p)"
| "update_ifaces lib (i # is) p =
     (case update_iface lib p i of
        (Inl e, p') \<Rightarrow> (Inl e, p')
      | (Inr u, p') \<Rightarrow> update_ifaces lib is p')"

definition host_ifaces :: "cloudProvider \<Rightarrow> NetworkIfaceInfo list" where
  "host_ifaces c =
     concat (map (\<lambda>region.
       concat (map (\<lambda>zone.
         case GetNetwork c region zone [] of
           None \<Rightarrow> []
         | Some n \<Rightarrow> map snd (Ifaces n)) (Zones c region))) (Regions c))"

definition UpdateNodeCIDR :: "net_lib \<Rightarrow> cloudProvider \<Rightarrow> nodeIpam \<Rightarrow> unit outcome" where
  "UpdateNodeCIDR lib c p = update_ifaces lib (host_ifaces c) p"

section \<open>The provider as a state machine\<close>

text \<open>
  The laws of the library for IPv4: \<open>net.ParseCIDR\<close> returns an address and its masked network. They hold for
  networks in IPv4 notation, which the interfaces of Proxmox hosts have; an IPv4-mapped IPv6
  network such as \<open>::ffff:10.0.0.0/120\<close>, for which Go returns a mask of 128 bits, is left out.
\<close>

definition lib_laws :: "net_lib \<Rightarrow> bool" where
  "lib_laws lib \<longleftrightarrow>
     host_laws (lib_Host lib) \<and>
     (\<forall>s ip n. lib_ParseCIDR lib s = Some (ip, n) \<longrightarrow> is4 (net_IP n) \<longrightarrow> net4 n \<and> net_Contains n ip)"

definition ipam_inv :: "nodeIpam \<Rightarrow> bool" where
  "ipam_inv p \<longleftrightarrow> list_all pool_inv (subnets p)"

inductive ipam_step :: "net_lib \<Rightarrow> nodeIpam \<Rightarrow> nodeIpam \<Rightarrow> bool" for lib where
  allocate_cidr: "ipam_step lib p (snd (AllocateOrOccupyCIDR lib p s))"
| release_cidr: "ipam_step lib p (snd (ReleaseCIDR lib p s))"
| occupy_ip: "ipam_step lib p (snd (OccupyIP lib p s))"
| release_ip: "ipam_step lib p (snd (ReleaseIP lib p s))"
| occupy_node: "ipam_step lib p (snd (OccupyNodeIPs lib p addrs))"
| release_node: "ipam_step lib p (snd (ReleaseNodeIPs lib p addrs))"
| update_cidr: "ipam_step lib p (snd (UpdateNodeCIDR lib c p))"

lemma first_index_Some:
  "first_index P xs = Some i \<Longrightarrow> i < length xs \<and> P (xs ! i) \<and> (\<forall>j<i. \<not> P (xs ! j))"
proof (induction xs arbitrary: i)
  case (Cons x xs)
  then show ?case by (cases i) (auto simp: nth_Cons' split: if_splits)
qed simp

lemma first_index_None: "first_index P xs = None \<longleftrightarrow> (\<forall>x \<in> set xs. \<not> P x)"
  by (induction xs) auto

lemma set_pool_inv: "ipam_inv p \<Longrightarrow> pool_inv pool \<Longrightarrow> ipam_inv (set_pool p i pool)"
  by (auto simp: ipam_inv_def set_pool_def list_all_iff dest: subsetD [OF set_update_subset_insert])

lemma ipam_inv_nth: "ipam_inv p \<Longrightarrow> i < length (subnets p) \<Longrightarrow> pool_inv (subnets p ! i)"
  by (simp add: ipam_inv_def list_all_length)

lemma occupy_pool_inv: "pool_inv s \<Longrightarrow> \<exists>s'. occupy_pool s ip = Inr s' \<and> pool_inv s'"
  using Occupy_spec [of s ip] by (auto simp: occupy_pool_def)

lemma occupy_at_inv:
  assumes "ipam_inv p" and "i < length (subnets p)"
  shows "\<exists>p'. occupy_at p i ip = (Inr (), p') \<and> ipam_inv p'"
  using Occupy_spec [OF ipam_inv_nth [OF assms], of ip] set_pool_inv [OF assms(1)] by (auto simp: occupy_at_def)

lemma AllocateOrOccupyCIDR_inv:
  assumes laws: "lib_laws lib" and inv: "ipam_inv p"
  shows "ipam_inv (snd (AllocateOrOccupyCIDR lib p s)) \<and> \<not> is_panic (fst (AllocateOrOccupyCIDR lib p s))"
proof (cases "lib_ParseCIDR lib s")
  case None
  with inv show ?thesis by (simp add: AllocateOrOccupyCIDR_def)
next
  case (Some a)
  obtain ip cidr where a: "a = (ip, cidr)" by (cases a)
  note parse = Some [unfolded a]
  show ?thesis
  proof (cases "is4 (net_IP cidr)")
    case False
    with parse inv show ?thesis by (simp add: AllocateOrOccupyCIDR_def)
  next
    case True
    with parse laws have net: "net4 cidr" by (auto simp: lib_laws_def)
    let ?pool = "\<lparr>pool_IPNet = cidr, maxIPs = int (net_size cidr) - 1, pool_bits = {}\<rparr>"
    note pool = ParseCIDR_inv [of "lib_ParseCIDR lib" s, OF parse net]
    show ?thesis
    proof (cases "first_index (\<lambda>s. ContainsCIDR s cidr) (subnets p)")
      case None
      let ?p = "p\<lparr>subnets := subnets p @ [?pool]\<rparr>"
      have "ipam_inv ?p" using inv pool(2) by (simp add: ipam_inv_def)
      with occupy_at_inv [OF this, of "length (subnets p)" ip] show ?thesis
        using parse True None pool(1) by (auto simp: AllocateOrOccupyCIDR_def Let_def)
    next
      case (Some i)
      with occupy_at_inv [OF inv, of i ip] first_index_Some [OF Some] inv show ?thesis
        using parse True by (auto simp: AllocateOrOccupyCIDR_def)
    qed
  qed
qed

lemma update_subnets_inv:
  assumes "\<And>s s'. pool_inv s \<Longrightarrow> f s ip = Inr s' \<Longrightarrow> pool_inv s'"
  shows "list_all pool_inv ss \<Longrightarrow> list_all pool_inv (snd (update_subnets f ip ss))"
proof (induction ss)
  case (Cons s ss)
  then show ?case using assms by (cases "f s ip") (auto split: prod.split)
qed simp

lemma update_subnets_ok:
  assumes "\<And>s. pool_inv s \<Longrightarrow> \<exists>s'. f s ip = Inr s'"
  shows "list_all pool_inv ss \<Longrightarrow> fst (update_subnets f ip ss) = None"
proof (induction ss)
  case (Cons s ss)
  then obtain s' where "f s ip = Inr s'" using assms by fastforce
  with Cons show ?case by (auto split: prod.split)
qed simp

lemma updateNodeIPs_inv:
  assumes "\<And>s s' ip. pool_inv s \<Longrightarrow> f s ip = Inr s' \<Longrightarrow> pool_inv s'"
  shows "ipam_inv p \<Longrightarrow> ipam_inv (snd (updateNodeIPs lib f addrs p))"
proof (induction addrs arbitrary: p)
  case (Cons a addrs)
  have "ipam_inv (p\<lparr>subnets := snd (update_subnets f ip (subnets p))\<rparr>)" for ip
    using update_subnets_inv [of f ip "subnets p", OF assms] Cons.prems by (simp add: ipam_inv_def)
  with Cons show ?case
    by (cases a) (auto simp: prod.case_eq_if split: option.split)
qed simp

lemma OccupyIP_inv:
  assumes laws: "lib_laws lib" and inv: "ipam_inv p"
  shows "ipam_inv (snd (OccupyIP lib p s))"
proof (cases "lib_ParseCIDR lib s")
  case None
  with inv show ?thesis by (simp add: OccupyIP_def)
next
  case (Some a)
  obtain ip cidr where a: "a = (ip, cidr)" by (cases a)
  show ?thesis
  proof (cases "first_index (\<lambda>s. ContainsCIDR s (cidr\<lparr>net_IP := ip\<rparr>)) (subnets p)")
    case None
    with Some a inv show ?thesis by (simp add: OccupyIP_def Let_def)
  next
    case idx: (Some i)
    have host: "host_laws (lib_Host lib)" using laws by (simp add: lib_laws_def)
    have "pool_inv (subnets p ! i)" using first_index_Some [OF idx] inv by (intro ipam_inv_nth) auto
    from Next_inv [OF host this] obtain r pool where
      "Next (lib_Host lib) (subnets p ! i) (Some (cidr\<lparr>net_IP := ip\<rparr>)) = Inr (r, pool)" "pool_inv pool" by blast
    with Some a idx set_pool_inv [OF inv] show ?thesis
      by (simp add: OccupyIP_def Let_def split: option.split)
  qed
qed

lemma ReleaseIP_inv:
  assumes inv: "ipam_inv p"
  shows "ipam_inv (snd (ReleaseIP lib p s))"
proof -
  have "ipam_inv (set_pool p i pool)"
    if "first_index P (subnets p) = Some i" "pool_Release (subnets p ! i) ip = Inr pool" for P i ip pool
    using first_index_Some [OF that(1)] Release_inv [OF ipam_inv_nth [OF inv] that(2)] inv
    by (intro set_pool_inv) auto
  with inv show ?thesis by (auto simp: ReleaseIP_def split: option.split sum.split)
qed

lemma update_ifaces_inv:
  assumes laws: "lib_laws lib"
  shows "ipam_inv p \<Longrightarrow> ipam_inv (snd (update_ifaces lib is p)) \<and> fst (update_ifaces lib is p) = Inr ()"
proof (induction "is" arbitrary: p)
  case (Cons i "is")
  have gate: "\<exists>p'. occupy_gateway lib q g = (Inr (), p') \<and> ipam_inv p'" if "ipam_inv q" for q g
  proof (cases "lib_ParseIP lib g")
    case (Some ip)
    obtain e ss where u: "update_subnets occupy_pool ip (subnets q) = (e, ss)" by fastforce
    have "e = None" "list_all pool_inv ss"
      using update_subnets_ok [of occupy_pool ip "subnets q"] update_subnets_inv [of occupy_pool ip "subnets q"]
        occupy_pool_inv [of _ ip] that u by (fastforce simp: ipam_inv_def)+
    with Some u show ?thesis by (simp add: occupy_gateway_def ipam_inv_def)
  qed (use that in \<open>simp add: occupy_gateway_def\<close>)
  obtain r p1 where r: "(if Address4 i \<noteq> [] then AllocateOrOccupyCIDR lib p (Address4 i) else (Inr (), p)) = (r, p1)"
    by fastforce
  have p1: "\<not> is_panic r" "ipam_inv p1"
    using AllocateOrOccupyCIDR_inv [OF laws Cons.prems, of "Address4 i"] r Cons.prems by (auto split: if_splits)
  have "\<exists>p'. update_iface lib p i = (Inr (), p') \<and> ipam_inv p'"
    using gate [OF p1(2)] p1 by (auto simp: update_iface_def r)
  with Cons.IH show ?case by auto
qed simp

lemma ipam_step_inv:
  assumes "ipam_step lib p p'" and "lib_laws lib" and "ipam_inv p"
  shows "ipam_inv p'"
  using assms
proof cases
  case (allocate_cidr s)
  then show ?thesis using AllocateOrOccupyCIDR_inv assms by blast
next
  case (release_cidr s)
  with assms(3) show ?thesis
    by (auto simp: ReleaseCIDR_def ipam_inv_def list_all_iff split: option.split dest: in_set_takeD in_set_dropD)
next
  case (occupy_ip s)
  then show ?thesis using OccupyIP_inv assms by blast
next
  case (release_ip s)
  then show ?thesis using ReleaseIP_inv assms by blast
next
  case (occupy_node addrs)
  have "ipam_inv (snd (updateNodeIPs lib occupy_pool addrs p))"
    by (rule updateNodeIPs_inv [OF _ assms(3)]) (metis occupy_pool_inv sum.inject(2))
  with assms(3) occupy_node show ?thesis by (simp add: OccupyNodeIPs_def)
next
  case (release_node addrs)
  have "ipam_inv (snd (updateNodeIPs lib pool_Release addrs p))"
    by (rule updateNodeIPs_inv [OF _ assms(3)]) (use Release_inv in blast)
  with assms(3) release_node show ?thesis by (simp add: ReleaseNodeIPs_def)
next
  case (update_cidr c)
  then show ?thesis using update_ifaces_inv [OF assms(2,3)] by (simp add: UpdateNodeCIDR_def)
qed

section \<open>Properties of the address management\<close>

text \<open>
  The addresses held in any of the pools. Subnets of a well-planned cluster do not overlap.
\<close>

definition ipam_held :: "nodeIpam \<Rightarrow> net_addr set" where
  "ipam_held p = (\<Union>s \<in> set (subnets p). pool_held s)"

definition ipam_disjoint :: "nodeIpam \<Rightarrow> bool" where
  "ipam_disjoint p \<longleftrightarrow>
     (\<forall>i < length (subnets p). \<forall>j < length (subnets p). i \<noteq> j \<longrightarrow>
        pool_hosts (subnets p ! i) \<inter> pool_hosts (subnets p ! j) = {})"

lemma OccupyIP_fresh:
  assumes laws: "lib_laws lib" and inv: "ipam_inv p" and disj: "ipam_disjoint p"
    and parse: "lib_ParseCIDR lib s = Some (ip, n)"
    and idx: "first_index (\<lambda>q. net_Contains (pool_IPNet q) ip) (subnets p) = Some i"
    and free: "pool_held (subnets p ! i) \<noteq> pool_hosts (subnets p ! i)"
  shows "\<exists>ip' p'. OccupyIP lib p s = (Inr ip', p') \<and> ip' \<in> pool_hosts (subnets p ! i) \<and>
           ip' \<notin> ipam_held p \<and> ipam_held p' = insert ip' (ipam_held p)"
proof -
  let ?s = "subnets p ! i"
  have i: "i < length (subnets p)" using first_index_Some [OF idx] by simp
  have host: "host_laws (lib_Host lib)" using laws by (simp add: lib_laws_def)
  from Next_spec [OF host ipam_inv_nth [OF inv i] free, of "Some (n\<lparr>net_IP := ip\<rparr>)"] obtain ip' s' where
    s': "Next (lib_Host lib) ?s (Some (n\<lparr>net_IP := ip\<rparr>)) = Inr (Some ip', s')" "pool_hosts s' = pool_hosts ?s"
      "ip' \<in> pool_hosts ?s" "ip' \<notin> pool_held ?s" "pool_held s' = insert ip' (pool_held ?s)" by auto
  have "OccupyIP lib p s = (Inr ip', set_pool p i s')"
    using parse idx s'(1) by (simp add: OccupyIP_def ContainsCIDR_def Let_def)
  moreover have "ip' \<notin> pool_held q" if q: "q \<in> set (subnets p)" for q
  proof -
    obtain j where j: "j < length (subnets p)" "q = subnets p ! j" using q by (auto simp: in_set_conv_nth)
    have "pool_held q \<subseteq> pool_hosts q" by (simp add: pool_held_def)
    with disj i j s'(3,4) show ?thesis unfolding ipam_disjoint_def by (cases "j = i") blast+
  qed
  moreover have "ipam_held (set_pool p i s') = insert ip' (ipam_held p)"
  proof -
    have "subnets p = take i (subnets p) @ ?s # drop (Suc i) (subnets p)" using i by (rule id_take_nth_drop)
    then have old: "set (subnets p) = insert ?s (set (take i (subnets p)) \<union> set (drop (Suc i) (subnets p)))"
      by (metis Un_insert_right list.simps(15) set_append)
    have "set (subnets (set_pool p i s')) = insert s' (set (take i (subnets p)) \<union> set (drop (Suc i) (subnets p)))"
      using i by (simp add: set_pool_def upd_conv_take_nth_drop)
    then show ?thesis unfolding ipam_held_def old using s'(5) by auto
  qed
  ultimately show ?thesis using s'(3) by (auto simp: ipam_held_def)
qed

text \<open>A library that knows two overlapping networks, \<open>10.0.0.4/30\<close> and \<open>10.0.0.0/29\<close>.\<close>

definition example_lib :: net_lib where
  "example_lib =
     \<lparr>lib_ParseCIDR = (\<lambda>s.
        if s = ''10.0.0.4/30'' then Some (281470849515524, \<lparr>net_IP = 281470849515524, net_ones = 30, net_bits = 32\<rparr>)
        else if s = ''10.0.0.0/29'' then Some (281470849515520, \<lparr>net_IP = 281470849515520, net_ones = 29, net_bits = 32\<rparr>)
        else None),
      lib_ParseIP = (\<lambda>s. None), lib_Host = example_Host\<rparr>"

lemma example_lib_laws: "lib_laws example_lib"
  by (auto simp: lib_laws_def example_lib_def example_Host_laws net4_def net_Contains_def is4_def split: if_splits)

definition example_small :: IPPool where
  "example_small = \<lparr>pool_IPNet = \<lparr>net_IP = 281470849515524, net_ones = 30, net_bits = 32\<rparr>, maxIPs = 3, pool_bits = {}\<rparr>"

lemma example_allocated:
  "AllocateOrOccupyCIDR example_lib NewIpamProvider ''10.0.0.4/30'' = (Inr (), \<lparr>subnets = [example_small]\<rparr>)"
proof -
  have "pool_ParseCIDR (lib_ParseCIDR example_lib) ''10.0.0.4/30'' = Inr example_small"
    by (subst ParseCIDR_inv(1) [where n = "\<lparr>net_IP = 281470849515524, net_ones = 30, net_bits = 32\<rparr>"
        and ip = 281470849515524])
      (simp_all add: example_lib_def net4_def is4_def example_small_def net_size_def)
  then show ?thesis
    by (simp add: AllocateOrOccupyCIDR_def NewIpamProvider_def example_lib_def is4_def)
qed

lemma example_small_inv: "pool_inv example_small"
  by (simp add: pool_inv_def example_small_def net4_def is4_def net_size_def)

text \<open>
  C36. Whatever sequence of operations the address management goes through, every pool stays within
  its subnet, and taking over the interfaces of all hosts runs to its end: no bit outside of a
  bitmap is ever touched. Networks are in IPv4 notation, none is an IPv4-mapped IPv6 network.
\<close>

theorem ipam_reachable:
  assumes laws: "lib_laws lib" and run: "(ipam_step lib)\<^sup>*\<^sup>* NewIpamProvider p"
  shows "list_all pool_inv (subnets p) \<and> fst (UpdateNodeCIDR lib c p) = Inr ()"
proof -
  have "ipam_inv p"
    using run
  proof (induction rule: rtranclp_induct)
    case base
    show ?case by (simp add: ipam_inv_def NewIpamProvider_def)
  next
    case (step q r)
    then show ?case using ipam_step_inv laws by blast
  qed
  with update_ifaces_inv [OF laws this] show ?thesis
    by (simp add: UpdateNodeCIDR_def ipam_inv_def list_all_iff)
qed

theorem ipam_reachable_witness:
  "list_all pool_inv (subnets \<lparr>subnets = [example_small]\<rparr>) \<and>
   fst (UpdateNodeCIDR example_lib NewCapacityProvider \<lparr>subnets = [example_small]\<rparr>) = Inr ()"
proof (rule ipam_reachable [OF example_lib_laws])
  have "ipam_step example_lib NewIpamProvider (snd (AllocateOrOccupyCIDR example_lib NewIpamProvider ''10.0.0.4/30''))"
    by (rule ipam_step.allocate_cidr)
  then show "(ipam_step example_lib)\<^sup>*\<^sup>* NewIpamProvider \<lparr>subnets = [example_small]\<rparr>"
    unfolding example_allocated snd_conv by (rule r_into_rtranclp)
qed

text \<open>
  C14. When the subnets do not overlap and the subnet of the request has a free address, \<open>OccupyIP\<close>
  returns an address of that subnet that no pool held before, and holds it. Networks are in IPv4
  notation, none is an IPv4-mapped IPv6 network.
\<close>

theorem ipam_occupy_fresh:
  assumes "lib_laws lib" and "ipam_inv p" and "ipam_disjoint p" and "lib_ParseCIDR lib s = Some (ip, n)"
    and "first_index (\<lambda>q. net_Contains (pool_IPNet q) ip) (subnets p) = Some i"
    and "pool_held (subnets p ! i) \<noteq> pool_hosts (subnets p ! i)"
  shows "\<exists>ip' p'. OccupyIP lib p s = (Inr ip', p') \<and> ip' \<in> pool_hosts (subnets p ! i) \<and>
           ip' \<notin> ipam_held p \<and> ipam_held p' = insert ip' (ipam_held p)"
  using assms by (rule OccupyIP_fresh)

theorem ipam_occupy_fresh_witness:
  "\<exists>ip' p'. OccupyIP example_lib \<lparr>subnets = [example_small]\<rparr> ''10.0.0.4/30'' = (Inr ip', p') \<and>
     ip' \<in> pool_hosts (subnets \<lparr>subnets = [example_small]\<rparr> ! 0) \<and> ip' \<notin> ipam_held \<lparr>subnets = [example_small]\<rparr> \<and>
     ipam_held p' = insert ip' (ipam_held \<lparr>subnets = [example_small]\<rparr>)"
proof (rule ipam_occupy_fresh [OF example_lib_laws])
  show "ipam_inv \<lparr>subnets = [example_small]\<rparr>" by (simp add: ipam_inv_def example_small_inv)
  show "ipam_disjoint \<lparr>subnets = [example_small]\<rparr>" by (simp add: ipam_disjoint_def)
  show "lib_ParseCIDR example_lib ''10.0.0.4/30'' =
      Some (281470849515524, \<lparr>net_IP = 281470849515524, net_ones = 30, net_bits = 32\<rparr>)"
    by (simp add: example_lib_def)
  show "first_index (\<lambda>q. net_Contains (pool_IPNet q) 281470849515524) (subnets \<lparr>subnets = [example_small]\<rparr>) = Some 0"
    by (simp add: example_small_def net_Contains_def)
  have "281470849515525 \<in> pool_hosts example_small" "pool_held example_small = {}"
    by (simp_all add: pool_held_def pool_hosts_def example_small_def net_size_def)
  then show "pool_held (subnets \<lparr>subnets = [example_small]\<rparr> ! 0) \<noteq> pool_hosts (subnets \<lparr>subnets = [example_small]\<rparr> ! 0)"
    by force
qed

text \<open>Addresses are handed out from the bottom when the lowest ones are held.\<close>

lemma next_candidate_prefix:
  "0 \<le> c \<Longrightarrow> c \<le> int k \<Longrightarrow> int k < m \<Longrightarrow> k - nat c < n \<Longrightarrow> next_candidate n {..<k} m c = Inr (int k)"
proof (induction n arbitrary: c)
  case (Suc n)
  show ?case
  proof (cases "c = int k")
    case False
    then have "next_candidate n {..<k} m (c + 1) = Inr (int k)" using Suc.prems by (intro Suc.IH) auto
    with False Suc.prems show ?thesis by simp
  qed simp
qed simp

text \<open>
  Overlapping subnets break this: when the hosts report \<open>10.0.0.4/30\<close> first and \<open>10.0.0.0/29\<close>
  later, two pools share addresses, and \<open>10.0.0.5\<close> is handed out by each of them.
\<close>

lemma ipam_overlap_duplicate:
  "\<exists>p1 p2 p3 p4 p5 p6 p7 p8 a1 a2 a3 a4.
     AllocateOrOccupyCIDR example_lib NewIpamProvider ''10.0.0.4/30'' = (Inr (), p1) \<and>
     AllocateOrOccupyCIDR example_lib p1 ''10.0.0.0/29'' = (Inr (), p2) \<and>
     OccupyIP example_lib p2 ''10.0.0.4/30'' = (Inr 281470849515525, p3) \<and>
     OccupyIP example_lib p3 ''10.0.0.0/29'' = (Inr a1, p4) \<and>
     OccupyIP example_lib p4 ''10.0.0.0/29'' = (Inr a2, p5) \<and>
     OccupyIP example_lib p5 ''10.0.0.0/29'' = (Inr a3, p6) \<and>
     OccupyIP example_lib p6 ''10.0.0.0/29'' = (Inr a4, p7) \<and>
     OccupyIP example_lib p7 ''10.0.0.0/29'' = (Inr 281470849515525, p8)"
proof -
  let ?big = "\<lambda>b. \<lparr>pool_IPNet = \<lparr>net_IP = 281470849515520, net_ones = 29, net_bits = 32\<rparr>, maxIPs = 7, pool_bits = b\<rparr>"
  let ?state = "\<lambda>k. \<lparr>subnets = [example_small\<lparr>pool_bits := {0}\<rparr>, ?big {..<k}]\<rparr>"
  note defs = example_lib_def is4_def ContainsCIDR_def net_Contains_def example_small_def host_bits_def
  have "pool_ParseCIDR (lib_ParseCIDR example_lib) ''10.0.0.0/29'' = Inr (?big {})"
    by (subst ParseCIDR_inv(1) [where n = "\<lparr>net_IP = 281470849515520, net_ones = 29, net_bits = 32\<rparr>"
        and ip = 281470849515520])
      (simp_all add: example_lib_def net4_def is4_def net_size_def)
  then have big: "AllocateOrOccupyCIDR example_lib \<lparr>subnets = [example_small]\<rparr> ''10.0.0.0/29'' =
      (Inr (), \<lparr>subnets = [example_small, ?big {}]\<rparr>)"
    by (simp add: AllocateOrOccupyCIDR_def defs)
  have first: "OccupyIP example_lib \<lparr>subnets = [example_small, ?big {}]\<rparr> ''10.0.0.4/30'' = (Inr 281470849515525, ?state 0)"
    by (simp add: OccupyIP_def defs Next_def first_candidate_def numeral_3_eq_3 example_Host_def net_size_def set_pool_def)
  have step: "OccupyIP example_lib (?state k) ''10.0.0.0/29'' = (Inr (281470849515521 + k), ?state (Suc k))" if "k < 5" for k
    using that next_candidate_prefix [of 0 k 7 7]
    by (simp add: OccupyIP_def defs Next_def first_candidate_def example_Host_def net_size_def set_pool_def
        lessThan_Suc nat_add_distrib)
  have four: "Suc (Suc (Suc (Suc 0))) = 4" by simp
  have "281470849515521 + 4 = (281470849515525 :: nat)" by simp
  with step [of 4] have last: "OccupyIP example_lib (?state (Suc (Suc (Suc (Suc 0))))) ''10.0.0.0/29'' =
      (Inr 281470849515525, ?state (Suc 4))" unfolding four by simp
  show ?thesis
    by (intro exI conjI, rule example_allocated, rule big, rule first, rule step, simp, rule step, simp,
        rule step, simp, rule step, simp, rule last)
qed

end
