(* ===== verification/SysNode.thy ===== *)
theory SysNode
  imports Discovery
begin

text \<open>
  What the node scheduler does to the operating system of a Proxmox host
  (\<open>src/pkg/utils/sys\<close>, \<open>src/pkg/utils/vmconfig\<close>): reading \<open>/proc\<close> and \<open>/sys\<close>, pinning threads with
  \<open>taskset\<close>, setting CPU governors and interrupt affinities. The operating system is a record: the
  contents of files and directories, what can be written, for which tasks \<open>taskset\<close> succeeds,
  and the affinities it has set.
\<close>

section \<open>The operating system\<close>

datatype write_status = Written | Missing | Denied

record os =
  os_missing :: "string \<Rightarrow> bool"
  os_file :: "string \<Rightarrow> string option"
  os_dir :: "string \<Rightarrow> (string \<times> bool) list option"
  os_writable :: "string \<Rightarrow> write_status"
  os_taskset :: "int \<Rightarrow> bool"
  os_affinity :: "int \<Rightarrow> string"

definition write_file :: "os \<Rightarrow> string \<Rightarrow> string \<Rightarrow> os" where
  "write_file os path content = os\<lparr>os_file := (os_file os)(path \<mapsto> content)\<rparr>"

section \<open>Package strings\<close>

text \<open>ASCII white space, the vertical tab included.\<close>

definition go_space :: "char \<Rightarrow> bool" where
  "go_space c \<longleftrightarrow> is_space c \<or> c = CHR 0x0B"

definition TrimSpace :: "string \<Rightarrow> string" where
  "TrimSpace s = rev (dropWhile go_space (rev (dropWhile go_space s)))"

fun fields_from :: "string \<Rightarrow> string \<Rightarrow> string list" where
  "fields_from [] w = (if w = [] then [] else [rev w])"
| "fields_from (c # s) w =
     (if go_space c then (if w = [] then fields_from s [] else rev w # fields_from s [])
      else fields_from s (c # w))"

definition Fields :: "string \<Rightarrow> string list" where
  "Fields s = fields_from s []"

definition CutPrefix :: "string \<Rightarrow> string \<Rightarrow> string option" where
  "CutPrefix s p = (if HasPrefix s p then Some (drop (length p) s) else None)"

definition CutSuffix :: "string \<Rightarrow> string \<Rightarrow> string option" where
  "CutSuffix s p = map_option rev (CutPrefix (rev s) (rev p))"

section \<open>Processes\<close>

text \<open>\<open>filepath.Base\<close>: the part after the last slash, trailing slashes apart.\<close>

definition path_Base :: "string \<Rightarrow> string" where
  "path_Base p =
     (if p = [] then ''.''
      else let q = rev (dropWhile (\<lambda>c. c = CHR ''/'') (rev p))
           in if q = [] then ''/'' else last (Split q (CHR ''/'')))"

datatype sys_error =
    ReadFailed string
  | NotANumber string
  | InvalidPID int
  | GovernorNotAvailable string
  | WriteFailed string
  | ThreadCountMismatch int int
  | TasksetFailed int

definition GetPidFromFile :: "os \<Rightarrow> string \<Rightarrow> sys_error + int" where
  "GetPidFromFile os path =
     (case os_file os path of
        None \<Rightarrow> Inl (ReadFailed path)
      | Some content \<Rightarrow>
          (case Atoi (TrimSpace content) of
             None \<Rightarrow> Inl (NotANumber (TrimSpace content))
           | Some pid \<Rightarrow> if pid \<le> 0 then Inl (InvalidPID pid) else Inr pid))"

definition proc_path :: "int \<Rightarrow> string \<Rightarrow> string" where
  "proc_path pid f = ''/proc/'' @ show_int pid @ f"

definition ProcessExists :: "os \<Rightarrow> int \<Rightarrow> bool" where
  "ProcessExists os pid \<longleftrightarrow> \<not> os_missing os (proc_path pid []) \<and> os_file os (proc_path pid ''/stat'') \<noteq> None"

definition GetProcessCmdline :: "os \<Rightarrow> int \<Rightarrow> sys_error + string list" where
  "GetProcessCmdline os pid =
     (case os_file os (proc_path pid ''/cmdline'') of
        None \<Rightarrow> Inl (ReadFailed (proc_path pid ''/cmdline''))
      | Some content \<Rightarrow>
          let args = Split content (CHR 0x00)
          in Inr (if last args = [] then butlast args else args))"

fun select_threads :: "os \<Rightarrow> int \<Rightarrow> string \<Rightarrow> (string \<times> bool) list \<Rightarrow> int list" where
  "select_threads os pid flt [] = []"
| "select_threads os pid flt ((name, dir) # entries) =
     (let rest = select_threads os pid flt entries
      in case (if dir then Atoi name else None) of
           None \<Rightarrow> rest
         | Some tid \<Rightarrow>
             if tid \<le> 0 then rest
             else if flt = [] then tid # rest
             else (case os_file os (proc_path pid (''/task/'' @ show_int tid @ ''/comm'')) of
                     None \<Rightarrow> rest
                   | Some comm \<Rightarrow> if Contains (TrimSpace comm) flt then tid # rest else rest))"

definition GetProcessThreads :: "os \<Rightarrow> int \<Rightarrow> string \<Rightarrow> sys_error + int list" where
  "GetProcessThreads os pid flt =
     (case os_dir os (proc_path pid ''/task'') of
        None \<Rightarrow> Inl (ReadFailed (proc_path pid ''/task''))
      | Some entries \<Rightarrow> Inr (select_threads os pid flt entries))"

section \<open>Affinities and governors\<close>

definition taskset :: "os \<Rightarrow> int \<Rightarrow> string \<Rightarrow> os" where
  "taskset os task cpus = os\<lparr>os_affinity := (os_affinity os)(task := cpus)\<rparr>"

fun pin_threads :: "os \<Rightarrow> int list \<Rightarrow> int list \<Rightarrow> sys_error option \<times> os" where
  "pin_threads os (thread # threads) (core # cores) =
     (if os_taskset os thread then pin_threads (taskset os thread (show_int core)) threads cores
      else (Some (TasksetFailed thread), os))"
| "pin_threads os threads cores = (None, os)"

text \<open>After a failure the code sets the affinity of the process, that is of its first thread.\<close>

definition PinThreadsToCores :: "os \<Rightarrow> int \<Rightarrow> int list \<Rightarrow> int list \<Rightarrow> sys_error option \<times> os" where
  "PinThreadsToCores os pid threads cores =
     (if threads = [] \<or> cores = [] \<or> pid \<le> 0 then (None, os)
      else if length threads \<noteq> length cores
      then (Some (ThreadCountMismatch (int (length threads)) (int (length cores))), os)
      else case pin_threads os threads cores of
             (None, os') \<Rightarrow> (None, os')
           | (Some e, os') \<Rightarrow>
               (Some e, if os_taskset os' pid then taskset os' pid (Join (map show_int cores) '','') else os'))"

fun set_irqs :: "os \<Rightarrow> string \<Rightarrow> int list \<Rightarrow> sys_error option \<times> os" where
  "set_irqs os cpus [] = (None, os)"
| "set_irqs os cpus (irq # irqs) =
     (let path = ''/proc/irq/'' @ show_int irq @ ''/smp_affinity_list''
      in case os_writable os path of
           Written \<Rightarrow> set_irqs (write_file os path (cpus @ [CHR 0x0A])) cpus irqs
         | Missing \<Rightarrow> set_irqs os cpus irqs
         | Denied \<Rightarrow> (Some (WriteFailed path), os))"

definition SetPciIRQAffinity :: "(CPUSet \<Rightarrow> string) \<Rightarrow> os \<Rightarrow> int list \<Rightarrow> CPUSet \<Rightarrow> sys_error option \<times> os" where
  "SetPciIRQAffinity render os irqs cpus =
     (if irqs = [] \<or> IsEmpty cpus then (None, os) else set_irqs os (render cpus) irqs)"

definition governor_path :: "int \<Rightarrow> string" where
  "governor_path cpu = ''/sys/devices/system/cpu/cpu'' @ show_int cpu @ ''/cpufreq/scaling_governor''"

definition GetCPUGovernor :: "os \<Rightarrow> int \<Rightarrow> sys_error + string" where
  "GetCPUGovernor os cpu =
     (case os_file os (governor_path cpu) of
        None \<Rightarrow> Inl (ReadFailed (governor_path cpu))
      | Some content \<Rightarrow> Inr (TrimSpace content))"

definition checkCpuGovernorAvailable :: "os \<Rightarrow> int \<Rightarrow> string \<Rightarrow> bool" where
  "checkCpuGovernorAvailable os cpu governor =
     (case os_file os (''/sys/devices/system/cpu/cpu'' @ show_int cpu @ ''/cpufreq/scaling_available_governors'') of
        None \<Rightarrow> False
      | Some content \<Rightarrow> governor \<in> set (Fields content))"

fun set_governors :: "os \<Rightarrow> int list \<Rightarrow> string \<Rightarrow> sys_error option \<times> os" where
  "set_governors os [] governor = (None, os)"
| "set_governors os (cpu # cpus) governor =
     (case os_file os (governor_path cpu) of
        None \<Rightarrow> set_governors os cpus governor
      | Some content \<Rightarrow>
          if TrimSpace content = governor then set_governors os cpus governor
          else if os_writable os (governor_path cpu) = Written
          then set_governors (write_file os (governor_path cpu) (governor @ [CHR 0x0A])) cpus governor
          else (Some (WriteFailed (governor_path cpu)), os))"

definition SetCPUGovernor :: "os \<Rightarrow> int list \<Rightarrow> string \<Rightarrow> sys_error option \<times> os" where
  "SetCPUGovernor os cpus governor =
     (case cpus of
        [] \<Rightarrow> (None, os)
      | cpu # _ \<Rightarrow>
          if \<not> checkCpuGovernorAvailable os cpu governor then (Some (GovernorNotAvailable governor), os)
          else set_governors os cpus governor)"

section \<open>Devices\<close>

fun line_irqs :: "string \<Rightarrow> string list \<Rightarrow> int list" where
  "line_irqs pci [] = []"
| "line_irqs pci (line # lines) =
     (case (if line \<noteq> [] \<and> Contains line pci then Fields line else []) of
        [] \<Rightarrow> line_irqs pci lines
      | f # _ \<Rightarrow>
          (case Atoi (case CutSuffix f '':'' of None \<Rightarrow> f | Some g \<Rightarrow> g) of
             None \<Rightarrow> line_irqs pci lines
           | Some irq \<Rightarrow> irq # line_irqs pci lines))"

definition GetPciDeviceIRQs :: "os \<Rightarrow> string \<Rightarrow> sys_error + int list" where
  "GetPciDeviceIRQs os pci =
     (case os_file os ''/proc/interrupts'' of
        None \<Rightarrow> Inl (ReadFailed ''/proc/interrupts'')
      | Some content \<Rightarrow>
          Inr (line_irqs pci (Split content (CHR 0x0A)) @
               (case os_dir os (''/sys/bus/pci/devices/'' @ pci @ ''/msi_irqs'') of
                  None \<Rightarrow> []
                | Some entries \<Rightarrow> List.map_filter (\<lambda>(name, dir). Atoi name) entries)))"

record VfioPciDevice =
  dev_ID :: string
  HostAddress :: string

fun vfio_params :: "string list \<Rightarrow> string \<times> string \<Rightarrow> string \<times> string" where
  "vfio_params [] (host, ident) = (host, ident)"
| "vfio_params (param # params) (host, ident) =
     (let host' = (case CutPrefix param ''host='' of None \<Rightarrow> host | Some v \<Rightarrow> v);
          ident' = (case CutPrefix param ''id='' of None \<Rightarrow> ident | Some v \<Rightarrow> v)
      in if host' \<noteq> [] \<and> ident' \<noteq> [] then (host', ident') else vfio_params params (host', ident'))"

definition vfio_device :: "string \<Rightarrow> VfioPciDevice option" where
  "vfio_device arg =
     (if Contains arg ''vfio-pci'' \<and> Contains arg ''host='' \<and> Contains arg ''id=''
      then (let (host, ident) = vfio_params (Split arg (CHR '','')) ([], [])
            in if host \<noteq> [] \<and> ident \<noteq> [] then Some \<lparr>dev_ID = ident, HostAddress = host\<rparr> else None)
      else None)"

definition ParseVfioPciDevices :: "string list \<Rightarrow> VfioPciDevice list" where
  "ParseVfioPciDevices args = List.map_filter vfio_device args"

section \<open>Configurations of local VMs\<close>

record local_config =
  lc_Name :: string
  lc_Cores :: int
  lc_Memory :: int
  lc_Affinity :: string
  lc_Description :: string
  lc_HostPCIs :: "string list"

fun description_affinity :: "(string \<Rightarrow> CPUSet option) \<Rightarrow> string list \<Rightarrow> string" where
  "description_affinity parse [] = []"
| "description_affinity parse (part # parts) =
     (case CutPrefix (TrimSpace part) ''affinity='' of
        None \<Rightarrow> description_affinity parse parts
      | Some affinity \<Rightarrow> if parse affinity = None then [] else affinity)"

text \<open>\<open>GetLocalVMConfig\<close> of \<open>go-proxmox\<close> is the argument \<open>local\<close>.\<close>

definition LoadVMConfig ::
  "(string \<Rightarrow> CPUSet option) \<Rightarrow> (int \<Rightarrow> local_config option) \<Rightarrow> int \<Rightarrow> local_config option" where
  "LoadVMConfig parse local vmID =
     map_option (\<lambda>vm. if lc_Affinity vm = []
       then vm\<lparr>lc_Affinity := description_affinity parse (Split (lc_Description vm) (CHR '',''))\<rparr> else vm) (local vmID)"

end
