(* ===== verification/InstanceNetwork.thy ===== *)
theory InstanceNetwork
  imports NodeIpam SysNode
begin

text \<open>
  The network of an instance: reading it from the configuration of the VM and writing it back
  (\<open>src/pkg/providers/instance/cloudinit/utils.go\<close>, \<open>types.go\<close>), choosing its addresses
  (\<open>src/pkg/providers/instance/instance_network.go\<close>) and computing them
  (\<open>src/pkg/utils/ip/ip.go\<close>). The syntax of network devices and of \<open>ipconfig\<close> lines belongs
  to \<open>go-proxmox\<close>, the one of addresses to the package \<open>net\<close>; both are parameters, as fields of
  \<open>net_syntax\<close>.
\<close>

section \<open>Configuration\<close>

record InterfaceConfig =
  if_Name :: string
  MacAddr :: string
  DHCPv4 :: bool
  DHCPv6 :: bool
  SLAAC :: bool
  if_Address4 :: "string list"
  if_Address6 :: "string list"
  if_Gateway4 :: string
  if_Gateway6 :: string
  if_MTU :: "32 word"
  NodeAddress4 :: string
  NodeAddress6 :: string
  NodeGateway4 :: string
  NodeGateway6 :: string

record NetworkConfig =
  Interfaces :: "InterfaceConfig list"
  SearchDomains :: "string list"
  NameServers :: "string list"

record VMNetworkDevice =
  Virtio :: string
  Bridge :: string
  dev_MTU :: "int option"

record VMCloudInitIPConfig =
  GatewayIPv4 :: string
  GatewayIPv6 :: string
  cfg_IPv4 :: string
  cfg_IPv6 :: string

record vm_network =
  Nameserver :: string
  Searchdomain :: string
  MergeNets :: "(string, string) go_map"
  MergeIPConfigs :: "(string, string) go_map"
  MergeIDEs :: "(string, string) go_map"

record net_syntax = net_lib +
  syn_NetworkDevice :: "string \<Rightarrow> VMNetworkDevice option"
  syn_IPConfig :: "string \<Rightarrow> VMCloudInitIPConfig option"
  syn_IPConfigString :: "VMCloudInitIPConfig \<Rightarrow> string option"
  syn_IPString :: "net_addr \<Rightarrow> string"
  syn_NetString :: "IPNet \<Rightarrow> string"
  syn_ParseMAC :: "string \<Rightarrow> nat list option"

definition empty_iface :: InterfaceConfig where
  "empty_iface = \<lparr>if_Name = [], MacAddr = [], DHCPv4 = False, DHCPv6 = False, SLAAC = False, if_Address4 = [],
     if_Address6 = [], if_Gateway4 = [], if_Gateway6 = [], if_MTU = 0, NodeAddress4 = [], NodeAddress6 = [],
     NodeGateway4 = [], NodeGateway6 = []\<rparr>"

text \<open>\<open>Atoi\<close> of what follows \<open>net\<close>; an error leaves the index 0.\<close>

definition net_index :: "string \<Rightarrow> int" where
  "net_index key =
     (case Atoi (case CutPrefix key ''net'' of None \<Rightarrow> key | Some s \<Rightarrow> s) of None \<Rightarrow> 0 | Some i \<Rightarrow> i)"

definition node_iface :: "(string, NetworkIfaceInfo) go_map \<Rightarrow> VMNetworkDevice \<Rightarrow> InterfaceConfig \<Rightarrow> InterfaceConfig" where
  "node_iface nodeIfaces dev iface =
     (let iface' = (case map_of nodeIfaces (Bridge dev) of
                      None \<Rightarrow> iface
                    | Some i \<Rightarrow> iface\<lparr>NodeAddress4 := Address4 i, NodeAddress6 := Address6 i,
                        NodeGateway4 := Gateway4 i, NodeGateway6 := Gateway6 i,
                        if_MTU := (if if_MTU iface = 0 \<or> if_MTU iface = 1 then MTU i else if_MTU iface)\<rparr>)
      in if if_MTU iface' = 0 then iface'\<lparr>if_MTU := 1500\<rparr> else iface')"

definition apply_ipconfig :: "VMCloudInitIPConfig \<Rightarrow> InterfaceConfig \<Rightarrow> InterfaceConfig" where
  "apply_ipconfig ip iface =
     iface\<lparr>if_Gateway4 := GatewayIPv4 ip, if_Gateway6 := GatewayIPv6 ip,
       DHCPv4 := (cfg_IPv4 ip = ''dhcp''),
       if_Address4 := (if cfg_IPv4 ip = [] \<or> cfg_IPv4 ip = ''dhcp'' then [] else [cfg_IPv4 ip]),
       DHCPv6 := (cfg_IPv6 ip = ''dhcp''), SLAAC := (cfg_IPv6 ip = ''auto''),
       if_Address6 := (if cfg_IPv6 ip = [] \<or> cfg_IPv6 ip = ''dhcp'' \<or> cfg_IPv6 ip = ''auto'' then [] else [cfg_IPv6 ip])\<rparr>"

definition ipconfig_key :: "string \<Rightarrow> string" where
  "ipconfig_key inx = ''ipconfig'' @ inx"

text \<open>A device or an \<open>ipconfig\<close> line that cannot be read makes the loop skip the interface.\<close>

definition read_iface ::
  "'a net_syntax_scheme \<Rightarrow> (string, string) go_map \<Rightarrow> (string, NetworkIfaceInfo) go_map \<Rightarrow> string \<times> string
   \<Rightarrow> InterfaceConfig option" where
  "read_iface syn ipconfigs nodeIfaces kv =
     (case syn_NetworkDevice syn (snd kv) of
        None \<Rightarrow> None
      | Some dev \<Rightarrow>
          let inx = show_int (net_index (fst kv));
              iface = node_iface nodeIfaces dev (empty_iface\<lparr>if_Name := ''eth'' @ inx, MacAddr := Virtio dev,
                        if_MTU := (case dev_MTU dev of None \<Rightarrow> 0 | Some m \<Rightarrow> word_of_int m)\<rparr>)
          in (case map_of ipconfigs (ipconfig_key inx) of
                None \<Rightarrow> Some iface
              | Some line \<Rightarrow> map_option (\<lambda>ip. apply_ipconfig ip iface) (syn_IPConfig syn line)))"

definition GetNetworkConfigFromVirtualMachineConfig ::
  "'a net_syntax_scheme \<Rightarrow> vm_network \<Rightarrow> (string, NetworkIfaceInfo) go_map \<Rightarrow> NetworkConfig" where
  "GetNetworkConfigFromVirtualMachineConfig syn vmc nodeIfaces =
     \<lparr>Interfaces = List.map_filter (read_iface syn (MergeIPConfigs vmc) nodeIfaces) (MergeNets vmc),
      SearchDomains = (if Searchdomain vmc = [] then [] else Split (Searchdomain vmc) (CHR '' '')),
      NameServers = (if Nameserver vmc = [] then [] else Split (Nameserver vmc) (CHR '' ''))\<rparr>"

datatype network_error =
    NoInterfaces
  | CannotMarshal string
  | BadAddress string
  | IpamError ipam_error
  | SlaacError
  | NoCluster
  | NoVMConfig
  | ConfigRejected
  | RegenerateFailed

definition iface_ipconfig :: "InterfaceConfig \<Rightarrow> VMCloudInitIPConfig" where
  "iface_ipconfig iface =
     \<lparr>GatewayIPv4 = if_Gateway4 iface, GatewayIPv6 = if_Gateway6 iface,
      cfg_IPv4 = (if DHCPv4 iface then ''dhcp'' else case if_Address4 iface of [] \<Rightarrow> [] | a # _ \<Rightarrow> a),
      cfg_IPv6 = (if DHCPv6 iface then ''dhcp'' else if SLAAC iface then ''auto''
                  else case if_Address6 iface of [] \<Rightarrow> [] | a # _ \<Rightarrow> a)\<rparr>"

fun iface_options :: "'a net_syntax_scheme \<Rightarrow> InterfaceConfig list \<Rightarrow> network_error + (string \<times> string) list" where
  "iface_options syn [] = Inr []"
| "iface_options syn (iface # ifaces) =
     (case syn_IPConfigString syn (iface_ipconfig iface) of
        None \<Rightarrow> Inl (CannotMarshal (if_Name iface))
      | Some val \<Rightarrow>
          (case iface_options syn ifaces of
             Inl e \<Rightarrow> Inl e
           | Inr opts \<Rightarrow> Inr ((ipconfig_key (drop 3 (if_Name iface)), val) # opts)))"

text \<open>The options \<open>SetNetworkConfig\<close> sends to the API.\<close>

definition SetNetworkConfig :: "'a net_syntax_scheme \<Rightarrow> NetworkConfig \<Rightarrow> network_error + (string \<times> string) list" where
  "SetNetworkConfig syn net =
     (if Interfaces net = [] then Inl NoInterfaces
      else case iface_options syn (Interfaces net) of
             Inl e \<Rightarrow> Inl e
           | Inr opts \<Rightarrow>
               Inr ((if NameServers net = [] then [] else [(''nameserver'', Join (NameServers net) '' '')]) @
                    (if SearchDomains net = [] then [] else [(''searchdomain'', Join (SearchDomains net) '' '')]) @ opts))"

section \<open>Addresses\<close>

definition CIDRHost :: "'a net_syntax_scheme \<Rightarrow> string \<Rightarrow> int option \<Rightarrow> string option" where
  "CIDRHost syn cidr hostnum =
     (case lib_ParseCIDR syn cidr of
        None \<Rightarrow> None
      | Some (ip, ipnet) \<Rightarrow>
          (case hostnum of
             None \<Rightarrow> Some (syn_IPString syn ip)
           | Some n \<Rightarrow> map_option (syn_IPString syn) (lib_Host syn ipnet n)))"

text \<open>The 16 bytes of an address, most significant first.\<close>

definition ip_bytes :: "net_addr \<Rightarrow> nat list" where
  "ip_bytes ip = map (\<lambda>i. ip div 256 ^ (15 - i) mod 256) [0..<16]"

definition bytes_ip :: "nat list \<Rightarrow> net_addr" where
  "bytes_ip bs = foldl (\<lambda>n b. n * 256 + b) 0 bs"

definition flip_local :: "nat \<Rightarrow> nat" where
  "flip_local b = (if b div 2 mod 2 = 0 then b + 2 else b - 2)"

definition eui64 :: "nat list \<Rightarrow> nat list" where
  "eui64 hw = [flip_local (hw ! 0), hw ! 1, hw ! 2, 255, 254, hw ! 3, hw ! 4, hw ! 5]"

text \<open>
  The bytes of the network below the prefix are replaced by those of the interface identifier. The
  code writes through the package variable \<open>net.IPv6zero\<close>, all of whose bytes it sets first.
\<close>

definition Slaac :: "'a net_syntax_scheme \<Rightarrow> string \<Rightarrow> string \<Rightarrow> string option" where
  "Slaac syn mac cidr =
     (case lib_ParseCIDR syn cidr of
        None \<Rightarrow> None
      | Some (ip, ipnet) \<Rightarrow>
          (case syn_ParseMAC syn mac of
             None \<Rightarrow> None
           | Some hw \<Rightarrow>
               if net_ones ipnet > 112 then None
               else let base = ip_bytes (net_IP ipnet);
                        id64 = take 8 base @ eui64 hw;
                        l = net_ones ipnet div 8
                    in Some (syn_NetString syn (ipnet\<lparr>net_IP := bytes_ip (take l base @ drop l id64)\<rparr>))))"

section \<open>Choosing addresses\<close>

text \<open>One IPv4 entry of an interface: a network address stands for any free address of the network.\<close>

definition choose_address4 ::
  "'a net_syntax_scheme \<Rightarrow> string \<Rightarrow> InterfaceConfig \<Rightarrow> nodeIpam
   \<Rightarrow> (network_error + string option \<times> InterfaceConfig) \<times> nodeIpam" where
  "choose_address4 syn addr iface ipam =
     (case lib_ParseCIDR syn addr of
        None \<Rightarrow> (Inl (BadAddress addr), ipam)
      | Some (ip, ipnet) \<Rightarrow>
          if ip \<noteq> net_IP ipnet then (Inr (None, iface), ipam)
          else (case AllocateOrOccupyCIDR (net_lib.truncate syn) ipam addr of
                 (Inl e, ipam1) \<Rightarrow> (Inl (IpamError e), ipam1)
               | (Inr u, ipam1) \<Rightarrow>
                   (case (if NodeAddress4 iface = [] then Some (syn_NetString syn ipnet, iface)
                          else (case lib_ParseCIDR syn (NodeAddress4 iface) of
                                 None \<Rightarrow> None
                               | Some (nodeip, nodenet) \<Rightarrow>
                                   if net_Contains ipnet (net_IP nodenet)
                                   then Some (syn_NetString syn (nodenet\<lparr>net_IP := nodeip\<rparr>),
                                          if if_Gateway4 iface = [] then iface\<lparr>if_Gateway4 := syn_IPString syn nodeip\<rparr> else iface)
                                   else Some (syn_NetString syn ipnet, iface))) of
                      None \<Rightarrow> (Inl (BadAddress (NodeAddress4 iface)), ipam1)
                    | Some (subnet, iface') \<Rightarrow>
                        (case OccupyIP (net_lib.truncate syn) ipam1 subnet of
                           (Inl e, ipam2) \<Rightarrow> (Inl (IpamError e), ipam2)
                         | (Inr ip', ipam2) \<Rightarrow>
                             (Inr (Some (syn_NetString syn (ipnet\<lparr>net_IP := ip'\<rparr>)), iface'), ipam2)))))"

fun choose_addresses4 ::
  "'a net_syntax_scheme \<Rightarrow> string list \<Rightarrow> InterfaceConfig \<Rightarrow> nodeIpam
   \<Rightarrow> (network_error + string list \<times> InterfaceConfig) \<times> nodeIpam" where
  "choose_addresses4 syn [] iface ipam = (Inr ([], iface), ipam)"
| "choose_addresses4 syn (addr # addrs) iface ipam =
     (case choose_address4 syn addr iface ipam of
        (Inl e, ipam1) \<Rightarrow> (Inl e, ipam1)
      | (Inr (chosen, iface1), ipam1) \<Rightarrow>
          (case choose_addresses4 syn addrs iface1 ipam1 of
             (Inl e, ipam2) \<Rightarrow> (Inl e, ipam2)
           | (Inr (rest, iface2), ipam2) \<Rightarrow>
               (Inr (case chosen of None \<Rightarrow> rest | Some a \<Rightarrow> a # rest, iface2), ipam2)))"

fun choose_addresses6 :: "'a net_syntax_scheme \<Rightarrow> string \<Rightarrow> string list \<Rightarrow> network_error + string list" where
  "choose_addresses6 syn mac [] = Inr []"
| "choose_addresses6 syn mac (addr # addrs) =
     (case lib_ParseCIDR syn addr of
        None \<Rightarrow> Inl (BadAddress addr)
      | Some (ip, ipnet) \<Rightarrow>
          (case choose_addresses6 syn mac addrs of
             Inl e \<Rightarrow> Inl e
           | Inr rest \<Rightarrow>
               Inr (case (if ip = net_IP ipnet then Slaac syn mac addr else None) of
                      None \<Rightarrow> rest | Some a \<Rightarrow> a # rest)))"

definition generate_iface ::
  "'a net_syntax_scheme \<Rightarrow> InterfaceConfig \<Rightarrow> nodeIpam \<Rightarrow> (network_error + InterfaceConfig) \<times> nodeIpam" where
  "generate_iface syn iface ipam =
     (case (if if_Address4 iface = [] then (Inr ([], iface), ipam)
            else choose_addresses4 syn (if_Address4 iface) iface ipam) of
        (Inl e, ipam1) \<Rightarrow> (Inl e, ipam1)
      | (Inr (addrs4, iface1), ipam1) \<Rightarrow>
          (case choose_addresses6 syn (MacAddr iface1) (if_Address6 iface1) of
             Inl e \<Rightarrow> (Inl e, ipam1)
           | Inr addrs6 \<Rightarrow> (Inr (iface1\<lparr>if_Address4 := addrs4, if_Address6 := addrs6\<rparr>), ipam1)))"

fun generateNetworkIPs ::
  "'a net_syntax_scheme \<Rightarrow> InterfaceConfig list \<Rightarrow> nodeIpam \<Rightarrow> (network_error + InterfaceConfig list) \<times> nodeIpam" where
  "generateNetworkIPs syn [] ipam = (Inr [], ipam)"
| "generateNetworkIPs syn (iface # ifaces) ipam =
     (case generate_iface syn iface ipam of
        (Inl e, ipam1) \<Rightarrow> (Inl e, ipam1)
      | (Inr iface', ipam1) \<Rightarrow>
          (case generateNetworkIPs syn ifaces ipam1 of
             (Inl e, ipam2) \<Rightarrow> (Inl e, ipam2)
           | (Inr ifaces', ipam2) \<Rightarrow> (Inr (iface' # ifaces'), ipam2)))"

end
