(* ===== verification/ProviderID.thy ===== *)
theory ProviderID
  imports GoStrings
begin

text \<open>
  The provider ids of Kubernetes nodes (\<open>src/pkg/providers/instance/provider/provider.go\<close>):
  \<open>proxmox://region/vmid\<close>. The regular expression of the source,
  \<open>^proxmox://([^/]*)/([^/]+)$\<close>, matches exactly the strings that start with
  \<open>proxmox://\<close> and continue with two words without a slash, separated by a slash, the second
  of them not empty.
\<close>

definition ProviderName :: string where
  "ProviderName = ''proxmox''"

datatype provider_error = ForeignProviderID | MalformedProviderID | InstanceIDNotNumber string

definition GetProviderID :: "string \<Rightarrow> int \<Rightarrow> string" where
  "GetProviderID region vmid = ProviderName @ ''://'' @ region @ ''/'' @ show_int vmid"

definition GetProviderIDFromUUID :: "string \<Rightarrow> string" where
  "GetProviderIDFromUUID uuid = ProviderName @ ''://'' @ uuid"

definition providerIDRegexp :: "string \<Rightarrow> (string \<times> string) option" where
  "providerIDRegexp s =
     (if HasPrefix s (ProviderName @ ''://'')
      then case Split (drop (length (ProviderName @ ''://'')) s) (CHR ''/'') of
             [region, vmid] \<Rightarrow> if vmid \<noteq> [] then Some (region, vmid) else None
           | _ \<Rightarrow> None
      else None)"

definition ParseProviderID :: "string \<Rightarrow> provider_error + int \<times> string" where
  "ParseProviderID providerID =
     (if \<not> HasPrefix providerID ProviderName then Inl ForeignProviderID
      else case providerIDRegexp providerID of
             None \<Rightarrow> Inl MalformedProviderID
           | Some (region, vmid) \<Rightarrow>
               (case Atoi vmid of
                  None \<Rightarrow> Inl (InstanceIDNotNumber vmid)
                | Some vmID \<Rightarrow> Inr (vmID, region)))"

definition GetVMID :: "string \<Rightarrow> provider_error + int" where
  "GetVMID providerID =
     (if \<not> HasPrefix providerID ProviderName then Inl ForeignProviderID
      else case providerIDRegexp providerID of
             None \<Rightarrow> Inl MalformedProviderID
           | Some (region, vmid) \<Rightarrow>
               (case Atoi vmid of None \<Rightarrow> Inl (InstanceIDNotNumber vmid) | Some vmID \<Rightarrow> Inr vmID))"

lemma providerIDRegexp_iff:
  "providerIDRegexp s = Some (region, vmid) \<longleftrightarrow>
   s = ProviderName @ ''://'' @ region @ ''/'' @ vmid \<and>
   CHR ''/'' \<notin> set region \<and> CHR ''/'' \<notin> set vmid \<and> vmid \<noteq> []"
proof
  assume match: "providerIDRegexp s = Some (region, vmid)"
  let ?p = "ProviderName @ ''://''" and ?rest = "drop (length (ProviderName @ ''://'')) s"
  have pre: "HasPrefix s ?p" and split: "Split ?rest (CHR ''/'') = [region, vmid]" and "vmid \<noteq> []"
    using match by (auto simp: providerIDRegexp_def split: if_splits list.splits)
  have "?rest = region @ ''/'' @ vmid" using Join_Split [of ?rest "CHR ''/''"] split by simp
  moreover have "s = ?p @ ?rest" using pre unfolding HasPrefix_def by (metis append_take_drop_id)
  ultimately show "s = ProviderName @ ''://'' @ region @ ''/'' @ vmid \<and>
      CHR ''/'' \<notin> set region \<and> CHR ''/'' \<notin> set vmid \<and> vmid \<noteq> []"
    using Split_words [of _ ?rest "CHR ''/''"] split \<open>vmid \<noteq> []\<close> by auto
qed (auto simp: providerIDRegexp_def ProviderName_def HasPrefix_def Split_append Split_word)

lemma ParseProviderID_Get:
  assumes "CHR ''/'' \<notin> set region" and "- (2 ^ 63) \<le> vmid" and "vmid < 2 ^ 63"
  shows "ParseProviderID (GetProviderID region vmid) = Inr (vmid, region) \<and>
         GetVMID (GetProviderID region vmid) = Inr vmid"
proof -
  have "providerIDRegexp (GetProviderID region vmid) = Some (region, show_int vmid)"
    using assms(1) by (simp add: providerIDRegexp_iff GetProviderID_def show_int_plain)
  moreover have "HasPrefix (GetProviderID region vmid) ProviderName"
    by (simp add: GetProviderID_def)
  ultimately show ?thesis using Atoi_show_int [OF assms(2,3)]
    by (simp add: ParseProviderID_def GetVMID_def)
qed

text \<open>
  The provider id written for a VM is read back as the same VM and region, for every region
  name without a slash; the two readers agree on it.
\<close>

lemma provider_id_roundtrip:
  assumes "CHR ''/'' \<notin> set region" and "- (2 ^ 63) \<le> vmid" and "vmid < 2 ^ 63"
  shows "ParseProviderID (GetProviderID region vmid) = Inr (vmid, region) \<and>
         GetVMID (GetProviderID region vmid) = Inr vmid"
  using assms by (rule ParseProviderID_Get)

text \<open>
  \<open>ParseProviderID\<close> accepts exactly the strings \<open>proxmox://region/vmid\<close> whose region has no
  slash and whose VM id is a decimal 64-bit number; every other string is an error.
\<close>

lemma provider_id_accepts:
  "ParseProviderID s = Inr (vmid, region) \<longleftrightarrow>
   (\<exists>t. s = ''proxmox://'' @ region @ ''/'' @ t \<and> CHR ''/'' \<notin> set region \<and> CHR ''/'' \<notin> set t \<and>
        Atoi t = Some vmid)"
proof -
  have "ParseProviderID s = Inr (vmid, region) \<longleftrightarrow>
        HasPrefix s ProviderName \<and> (\<exists>t. providerIDRegexp s = Some (region, t) \<and> Atoi t = Some vmid)"
    by (auto simp: ParseProviderID_def split: option.split)
  moreover have "Atoi t = Some vmid \<Longrightarrow> t \<noteq> []" for t by (auto simp: Atoi_def)
  ultimately show ?thesis
    by (auto simp: providerIDRegexp_iff ProviderName_def HasPrefix_def)
qed

end
