(* ===== verification/Bootstrap.thy ===== *)
theory Bootstrap
  imports GoStrings
begin

text \<open>
  The bootstrap tokens (\<open>src/pkg/providers/bootstrap/bootstrap.go\<close>): creating the secret of a
  token, deleting it, and deleting the expired ones.

  The Kubernetes API is a record of functions on the state \<open>'w\<close> of the cluster; the token
  generator and the RFC 3339 texts of times are parameters. Times are in nanoseconds. The server
  stores the \<open>StringData\<close> of a secret as its \<open>Data\<close>, so a secret has one map.
\<close>

section \<open>Operations\<close>

datatype kube_error = KubeNotFound | KubeConflict | KubeFailure

record Secret =
  sec_Name :: string
  sec_Namespace :: string
  sec_Labels :: "(string, string) go_map"
  sec_Type :: string
  sec_Data :: "(string, string) go_map"

record 'w secret_api =
  GenerateBootstrapToken :: "'w \<Rightarrow> string option"
  time_Now :: "'w \<Rightarrow> int"
  time_Format :: "int \<Rightarrow> string"
  time_Parse :: "string \<Rightarrow> int option"
  CreateSecret :: "'w \<Rightarrow> Secret \<Rightarrow> kube_error option \<times> 'w"
  DeleteSecret :: "'w \<Rightarrow> string \<Rightarrow> string \<Rightarrow> kube_error option \<times> 'w"
  ListSecrets :: "'w \<Rightarrow> string \<Rightarrow> string \<Rightarrow> string \<Rightarrow> Secret list option"

datatype token_error = TokenNotGenerated | TokenMalformed | TokenIDRequired | TokenKubeError kube_error

definition AnnotationProxmoxCloudInitToken :: string where
  "AnnotationProxmoxCloudInitToken = ''karpenter.proxmox.sinextra.dev/proxmoxcloudinit-token''"

definition LabelBootstrapToken :: string where
  "LabelBootstrapToken = ''karpenter.proxmox.sinextra.dev/bootstrap-token''"

definition SecretTypeBootstrapToken :: string where
  "SecretTypeBootstrapToken = ''bootstrap.kubernetes.io/token''"

definition NamespaceSystem :: string where
  "NamespaceSystem = ''kube-system''"

definition BootstrapTokenSecretPrefix :: string where
  "BootstrapTokenSecretPrefix = ''bootstrap-token-''"

definition BootstrapUserPostfix :: string where
  "BootstrapUserPostfix = ''karpenter:proxmox''"

definition token_secret :: "string \<Rightarrow> string \<Rightarrow> string \<Rightarrow> Secret" where
  "token_secret tokenID tokenSecret expired =
     \<lparr>sec_Name = BootstrapTokenSecretPrefix @ tokenID, sec_Namespace = NamespaceSystem,
      sec_Labels = [(LabelBootstrapToken, ''true'')], sec_Type = SecretTypeBootstrapToken,
      sec_Data = [(''token-id'', tokenID), (''token-secret'', tokenSecret), (''usage-bootstrap-authentication'', ''true''),
        (''auth-extra-groups'', ''system:bootstrappers'' @ '':'' @ BootstrapUserPostfix),
        (''description'', ''Karpenter Proxmox Bootstrap Token''), (''expiration'', expired)]\<rparr>"

text \<open>
  \<open>CreateToken\<close> also writes the id of the token into the annotations of the claim. A token
  without a dot makes it panic.
\<close>

definition CreateToken ::
  "('w, 'z) secret_api_scheme \<Rightarrow> (string, string) go_map \<Rightarrow> 'w \<Rightarrow> (token_error + string) \<times> (string, string) go_map \<times> 'w" where
  "CreateToken api annotations w =
     (case GenerateBootstrapToken api w of
        None \<Rightarrow> (Inl TokenNotGenerated, annotations, w)
      | Some token \<Rightarrow>
          (case Split token (CHR ''.'') of
             tokenID # tokenSecret # _ \<Rightarrow>
               (case CreateSecret api w (token_secret tokenID tokenSecret (time_Format api (time_Now api w + 3600 * 10 ^ 9))) of
                  (Some e, w') \<Rightarrow> (Inl (TokenKubeError e), annotations, w')
                | (None, w') \<Rightarrow> (Inr token, go_update annotations AnnotationProxmoxCloudInitToken tokenID, w'))
           | _ \<Rightarrow> (Inl TokenMalformed, annotations, w)))"

definition DeleteToken :: "('w, 'z) secret_api_scheme \<Rightarrow> string \<Rightarrow> 'w \<Rightarrow> token_error option \<times> 'w" where
  "DeleteToken api tokenID w =
     (if tokenID = [] then (Some TokenIDRequired, w)
      else case DeleteSecret api w NamespaceSystem (BootstrapTokenSecretPrefix @ tokenID) of
             (None, w') \<Rightarrow> (None, w')
           | (Some KubeNotFound, w') \<Rightarrow> (None, w')
           | (Some e, w') \<Rightarrow> (Some (TokenKubeError e), w'))"

definition TrimPrefix :: "string \<Rightarrow> string \<Rightarrow> string" where
  "TrimPrefix s p = (if HasPrefix s p then drop (length p) s else s)"

definition token_expired :: "('w, 'z) secret_api_scheme \<Rightarrow> Secret \<Rightarrow> 'w \<Rightarrow> bool" where
  "token_expired api secret w \<longleftrightarrow>
     sec_Type secret = SecretTypeBootstrapToken \<and>
     (case map_of (sec_Data secret) ''expiration'' of
        None \<Rightarrow> False
      | Some expBytes \<Rightarrow> (case time_Parse api expBytes of None \<Rightarrow> False | Some expTime \<Rightarrow> time_Now api w > expTime))"

fun delete_expired :: "('w, 'z) secret_api_scheme \<Rightarrow> Secret list \<Rightarrow> 'w \<Rightarrow> 'w" where
  "delete_expired api [] w = w"
| "delete_expired api (secret # secrets) w =
     delete_expired api secrets
       (if token_expired api secret w
        then snd (DeleteToken api (TrimPrefix (sec_Name secret) BootstrapTokenSecretPrefix) w) else w)"

definition DeleteExpiredTokens :: "('w, 'z) secret_api_scheme \<Rightarrow> 'w \<Rightarrow> bool \<times> 'w" where
  "DeleteExpiredTokens api w =
     (case ListSecrets api w NamespaceSystem LabelBootstrapToken ''true'' of
        None \<Rightarrow> (False, w)
      | Some secrets \<Rightarrow> (True, delete_expired api secrets w))"

section \<open>What the operations do to the secrets of the cluster\<close>

text \<open>
  The documented behaviour of the Kubernetes API on secrets, over the secrets \<open>view w\<close> a state
  holds under their namespace and name: a secret is created where there was none, a deletion removes
  the named secret or fails without effect, a list by label is complete, and the clock does not
  run backwards.
\<close>

type_synonym secret_view = "string \<times> string \<Rightarrow> Secret option"

definition secret_laws :: "('w, 'z) secret_api_scheme \<Rightarrow> ('w \<Rightarrow> secret_view) \<Rightarrow> bool" where
  "secret_laws api view \<longleftrightarrow>
     (\<forall>w key s. view w key = Some s \<longrightarrow> key = (sec_Namespace s, sec_Name s)) \<and>
     (\<forall>w s w'. CreateSecret api w s = (None, w') \<longrightarrow>
        view w (sec_Namespace s, sec_Name s) = None \<and> view w' = (view w)((sec_Namespace s, sec_Name s) \<mapsto> s)) \<and>
     (\<forall>w ns n e w'. DeleteSecret api w ns n = (e, w') \<longrightarrow>
        view w' = (if e = None then (view w)((ns, n) := None) else view w) \<and>
        (e = Some KubeNotFound \<longrightarrow> view w (ns, n) = None) \<and> time_Now api w \<le> time_Now api w') \<and>
     (\<forall>w ns k v secrets. ListSecrets api w ns k v = Some secrets \<longrightarrow>
        set secrets = {s. view w (ns, sec_Name s) = Some s \<and> map_of (sec_Labels s) k = Some v})"

lemma secret_lawsD:
  assumes "secret_laws api view"
  shows "view w key = Some s \<Longrightarrow> key = (sec_Namespace s, sec_Name s)"
    and "CreateSecret api w s = (None, w') \<Longrightarrow>
      view w (sec_Namespace s, sec_Name s) = None \<and> view w' = (view w)((sec_Namespace s, sec_Name s) \<mapsto> s)"
    and "DeleteSecret api w ns n = (e, w') \<Longrightarrow>
      view w' = (if e = None then (view w)((ns, n) := None) else view w) \<and>
      (e = Some KubeNotFound \<longrightarrow> view w (ns, n) = None) \<and> time_Now api w \<le> time_Now api w'"
    and "ListSecrets api w ns k v = Some secrets \<Longrightarrow>
      set secrets = {s. view w (ns, sec_Name s) = Some s \<and> map_of (sec_Labels s) k = Some v}"
  using assms unfolding secret_laws_def by blast+

lemma DeleteToken_view:
  assumes laws: "secret_laws api view" and run: "DeleteToken api tokenID w = (r, w')"
  shows "view w' = view w \<or> view w' = (view w)((NamespaceSystem, BootstrapTokenSecretPrefix @ tokenID) := None)"
    and "r = None \<Longrightarrow> view w' = (view w)((NamespaceSystem, BootstrapTokenSecretPrefix @ tokenID) := None)"
    and "time_Now api w \<le> time_Now api w'"
proof -
  obtain e w1 where d: "DeleteSecret api w NamespaceSystem (BootstrapTokenSecretPrefix @ tokenID) = (e, w1)" by fastforce
  note law = secret_lawsD(3) [OF laws d]
  show "view w' = view w \<or> view w' = (view w)((NamespaceSystem, BootstrapTokenSecretPrefix @ tokenID) := None)"
    using run d law by (auto simp: DeleteToken_def split: if_splits option.splits kube_error.splits)
  show "r = None \<Longrightarrow> view w' = (view w)((NamespaceSystem, BootstrapTokenSecretPrefix @ tokenID) := None)"
    using run d law by (auto simp: DeleteToken_def fun_upd_idem split: if_splits option.splits kube_error.splits)
  show "time_Now api w \<le> time_Now api w'"
    using run d law by (auto simp: DeleteToken_def split: if_splits option.splits kube_error.splits)
qed

text \<open>Deleting the token named in the annotations undoes the creation.\<close>

lemma token_create_delete:
  assumes laws: "secret_laws api view" and new: "CreateToken api annotations w = (Inr token, annotations', w1)"
    and del: "DeleteToken api (go_lookup [] annotations' AnnotationProxmoxCloudInitToken) w1 = (None, w2)"
  shows "view w2 = view w"
proof -
  obtain tokenID tokenSecret rest s where ok: "Split token (CHR ''.'') = tokenID # tokenSecret # rest"
    "CreateSecret api w s = (None, w1)" "sec_Namespace s = NamespaceSystem" "sec_Name s = BootstrapTokenSecretPrefix @ tokenID"
    "annotations' = go_update annotations AnnotationProxmoxCloudInitToken tokenID"
    using new by (auto simp: CreateToken_def token_secret_def split: option.splits list.splits prod.splits)
  have "go_lookup [] annotations' AnnotationProxmoxCloudInitToken = tokenID" by (simp add: ok(5) go_lookup_update)
  with DeleteToken_view(2) [OF laws del] secret_lawsD(2) [OF laws ok(2)] ok(3,4)
  show ?thesis by (auto simp: fun_upd_idem)
qed

lemma TrimPrefix_append [simp]: "TrimPrefix (p @ s) p = s"
  by (simp add: TrimPrefix_def)

lemma token_expired_later: "token_expired api s w \<Longrightarrow> time_Now api w \<le> time_Now api w' \<Longrightarrow> token_expired api s w'"
  by (auto simp: token_expired_def split: option.splits)

definition token_named :: "Secret \<Rightarrow> bool" where
  "token_named s \<longleftrightarrow> HasPrefix (sec_Name s) BootstrapTokenSecretPrefix \<and> sec_Name s \<noteq> BootstrapTokenSecretPrefix"

lemma token_namedE:
  assumes "token_named s"
  obtains tokenID where "sec_Name s = BootstrapTokenSecretPrefix @ tokenID" and "tokenID \<noteq> []"
  using assms by (auto simp: token_named_def HasPrefix_def) (metis append_Nil2 append_take_drop_id)

lemma delete_expired_clock: "secret_laws api view \<Longrightarrow> time_Now api w \<le> time_Now api (delete_expired api secrets w)"
proof (induction secrets arbitrary: w)
  case (Cons s secrets)
  have "time_Now api w \<le> time_Now api (snd (DeleteToken api tokenID w))" for tokenID
    using DeleteToken_view(3) [OF Cons.prems surjective_pairing] .
  with Cons.IH [OF Cons.prems] show ?case by (auto intro: order_trans)
qed simp

lemma delete_expired_only:
  assumes laws: "secret_laws api view" and "\<forall>s \<in> set secrets. token_named s"
    and "view (delete_expired api secrets w) key \<noteq> view w key"
  shows "view (delete_expired api secrets w) key = None \<and>
    (\<exists>s \<in> set secrets. key = (NamespaceSystem, sec_Name s) \<and> token_expired api s (delete_expired api secrets w))"
  using assms(2,3)
proof (induction secrets arbitrary: w)
  case (Cons s secrets)
  define w1 where "w1 = (if token_expired api s w
     then snd (DeleteToken api (TrimPrefix (sec_Name s) BootstrapTokenSecretPrefix) w) else w)"
  have rest: "delete_expired api (s # secrets) w = delete_expired api secrets w1" by (simp add: w1_def)
  obtain tokenID where name: "sec_Name s = BootstrapTokenSecretPrefix @ tokenID"
    using Cons.prems(1) by (auto elim: token_namedE)
  have step: "view w1 = view w \<or> token_expired api s w \<and> view w1 = (view w)((NamespaceSystem, sec_Name s) := None)"
    using DeleteToken_view(1) [OF laws surjective_pairing, where tokenID = tokenID and w = w] by (auto simp: w1_def name)
  have clock: "time_Now api w \<le> time_Now api (delete_expired api secrets w1)"
    using DeleteToken_view(3) [OF laws surjective_pairing, where tokenID = tokenID and w = w] delete_expired_clock [OF laws, of w1 secrets]
    by (auto simp: w1_def name split: if_splits)
  show ?case
  proof (cases "view (delete_expired api secrets w1) key = view w1 key")
    case True
    with step Cons.prems(2) rest have "token_expired api s w" "key = (NamespaceSystem, sec_Name s)" "view w1 key = None"
      by (auto split: if_splits)
    with True rest token_expired_later [OF _ clock] show ?thesis by auto
  next
    case False
    with Cons.IH [of w1] Cons.prems(1) rest show ?thesis by auto
  qed
qed simp

lemma delete_expired_all:
  assumes laws: "secret_laws api view" and works: "\<forall>w ns n. fst (DeleteSecret api w ns n) \<in> {None, Some KubeNotFound}"
    and "\<forall>s \<in> set secrets. token_named s" and "s \<in> set secrets" and "token_expired api s w"
  shows "view (delete_expired api secrets w) (NamespaceSystem, sec_Name s) = None"
  using assms(3-5)
proof (induction secrets arbitrary: w)
  case (Cons t secrets)
  define w1 where "w1 = (if token_expired api t w
     then snd (DeleteToken api (TrimPrefix (sec_Name t) BootstrapTokenSecretPrefix) w) else w)"
  have rest: "delete_expired api (t # secrets) w = delete_expired api secrets w1" by (simp add: w1_def)
  obtain tokenID where name: "sec_Name t = BootstrapTokenSecretPrefix @ tokenID" "tokenID \<noteq> []"
    using Cons.prems(1) by (auto elim: token_namedE)
  have clock: "time_Now api w \<le> time_Now api w1"
    using DeleteToken_view(3) [OF laws surjective_pairing, where tokenID = tokenID and w = w] by (simp add: w1_def name)
  show ?case
  proof (cases "s = t")
    case True
    have "fst (DeleteSecret api w NamespaceSystem (BootstrapTokenSecretPrefix @ tokenID)) \<in> {None, Some KubeNotFound}"
      using works by blast
    then have "fst (DeleteToken api tokenID w) = None"
      using name(2) by (auto simp: DeleteToken_def split: prod.splits)
    with True Cons.prems(3) DeleteToken_view(2) [OF laws surjective_pairing, where tokenID = tokenID and w = w]
    have gone: "view w1 (NamespaceSystem, sec_Name s) = None" by (simp add: w1_def name)
    show ?thesis
    proof (cases "view (delete_expired api secrets w1) (NamespaceSystem, sec_Name s) = view w1 (NamespaceSystem, sec_Name s)")
      case False
      with delete_expired_only [OF laws, of secrets w1] Cons.prems(1) rest show ?thesis by auto
    qed (use gone rest in simp)
  next
    case False
    with Cons.prems have "s \<in> set secrets" by simp
    with Cons.IH [of w1] Cons.prems token_expired_later [OF Cons.prems(3) clock] rest show ?thesis by simp
  qed
qed simp

text \<open>
  C30. DeleteExpiredTokens deletes the expired bootstrap tokens and nothing else: a secret that is
  gone or changed afterwards was a labelled token that has expired, and when the server accepts the
  deletions no labelled token that had expired at the start is left.
\<close>

theorem expired_tokens_deleted:
  assumes laws: "secret_laws api view" and run: "DeleteExpiredTokens api w = (True, w')"
    and named: "\<And>n s. view w (NamespaceSystem, n) = Some s \<Longrightarrow> map_of (sec_Labels s) LabelBootstrapToken = Some ''true'' \<Longrightarrow> token_named s"
  shows "(view w' key \<noteq> view w key \<longrightarrow>
        view w' key = None \<and>
        (\<exists>s. view w key = Some s \<and> map_of (sec_Labels s) LabelBootstrapToken = Some ''true'' \<and> token_expired api s w')) \<and>
      ((\<forall>w ns n. fst (DeleteSecret api w ns n) \<in> {None, Some KubeNotFound}) \<and> view w (NamespaceSystem, n) = Some s \<and>
        map_of (sec_Labels s) LabelBootstrapToken = Some ''true'' \<and> token_expired api s w \<longrightarrow> view w' (NamespaceSystem, n) = None)"
proof -
  obtain secrets where list: "ListSecrets api w NamespaceSystem LabelBootstrapToken ''true'' = Some secrets"
    and w': "w' = delete_expired api secrets w"
    using run by (auto simp: DeleteExpiredTokens_def split: option.splits)
  note listed = secret_lawsD(4) [OF laws list]
  have tokens: "\<forall>s \<in> set secrets. token_named s" using listed named by auto
  have only: "view w' key \<noteq> view w key \<longrightarrow> view w' key = None \<and>
      (\<exists>s. view w key = Some s \<and> map_of (sec_Labels s) LabelBootstrapToken = Some ''true'' \<and> token_expired api s w')"
    using delete_expired_only [OF laws tokens, of w key] listed unfolding w' by blast
  have "view w' (NamespaceSystem, n) = None"
    if works: "\<forall>w ns n. fst (DeleteSecret api w ns n) \<in> {None, Some KubeNotFound}"
      and s: "view w (NamespaceSystem, n) = Some s" "map_of (sec_Labels s) LabelBootstrapToken = Some ''true''" "token_expired api s w"
  proof -
    have n: "n = sec_Name s" using secret_lawsD(1) [OF laws s(1)] by simp
    with s listed have "s \<in> set secrets" by simp
    with delete_expired_all [OF laws works tokens] s(3) n show ?thesis unfolding w' by simp
  qed
  with only show ?thesis by blast
qed

text \<open>A server that keeps its secrets in a list, for the examples.\<close>

definition list_view :: "Secret list \<Rightarrow> secret_view" where
  "list_view w = map_of (map (\<lambda>s. ((sec_Namespace s, sec_Name s), s)) w)"

definition list_api :: "(Secret list) secret_api" where
  "list_api = \<lparr>GenerateBootstrapToken = (\<lambda>w. Some ''abcdef.0123456789abcdef''), time_Now = (\<lambda>w. 0), time_Format = show_int, time_Parse = Atoi,
     CreateSecret = (\<lambda>w s. if list_view w (sec_Namespace s, sec_Name s) = None then (None, s # w) else (Some KubeConflict, w)),
     DeleteSecret = (\<lambda>w ns n. if list_view w (ns, n) = None then (Some KubeNotFound, w)
       else (None, filter (\<lambda>s. (sec_Namespace s, sec_Name s) \<noteq> (ns, n)) w)),
     ListSecrets = (\<lambda>w ns k v. Some (filter (\<lambda>s. list_view w (ns, sec_Name s) = Some s \<and> map_of (sec_Labels s) k = Some v) w))\<rparr>"

lemma list_view_filter:
  "list_view (filter (\<lambda>s. (sec_Namespace s, sec_Name s) \<noteq> key) w) = (list_view w)(key := None)"
  by (induction w) (auto simp: list_view_def fun_eq_iff)

lemma list_view_key: "list_view w key = Some s \<Longrightarrow> s \<in> set w \<and> key = (sec_Namespace s, sec_Name s)"
  by (auto simp: list_view_def dest!: map_of_SomeD)

lemma list_api_laws: "secret_laws list_api list_view"
  unfolding secret_laws_def
proof (intro conjI allI impI)
  fix w ns n e w' assume "DeleteSecret list_api w ns n = (e, w')"
  then show "list_view w' = (if e = None then (list_view w)((ns, n) := None) else list_view w)"
    and "e = Some KubeNotFound \<Longrightarrow> list_view w (ns, n) = None" and "time_Now list_api w \<le> time_Now list_api w'"
    using list_view_filter [of "(ns, n)" w] by (auto simp: list_api_def split: if_splits)
qed (auto simp: list_api_def list_view_def split: if_splits dest: list_view_key [unfolded list_view_def])

theorem expired_tokens_deleted_witness:
  "let s = token_secret ''abcdef'' ''0123456789abcdef'' ''-1''; w = [s]; w' = snd (DeleteExpiredTokens list_api w)
   in list_view w (NamespaceSystem, sec_Name s) = Some s \<and> list_view w' (NamespaceSystem, sec_Name s) = None"
proof -
  define s where "s = token_secret ''abcdef'' ''0123456789abcdef'' ''-1''"
  have run: "DeleteExpiredTokens list_api [s] = (True, [])" unfolding s_def by code_simp
  have view: "list_view [s] (NamespaceSystem, n) = Some x \<Longrightarrow> x = s" for n x by (auto simp: list_view_def split: if_splits)
  have "token_named s" "map_of (sec_Labels s) LabelBootstrapToken = Some ''true''" "token_expired list_api s [s]"
    "list_view [s] (NamespaceSystem, sec_Name s) = Some s" unfolding s_def by code_simp+
  moreover have "\<forall>w ns n. fst (DeleteSecret list_api w ns n) \<in> {None, Some KubeNotFound}" by (simp add: list_api_def)
  ultimately show ?thesis
    using expired_tokens_deleted [OF list_api_laws run, of _ "sec_Name s" s] view
    unfolding s_def [symmetric] Let_def run by fastforce
qed

end
