(* ===== verification/CloudInit.thy ===== *)
theory CloudInit
  imports NodeClass InstanceNetwork ProviderID Bootstrap
begin

text \<open>
  The values of the cloud-init templates (\<open>src/pkg/providers/instance/instance_cloudinit.go\<close>,
  \<open>types.go\<close>, \<open>cloudinit/types.go\<close>): the kubelet configuration and the data the user data,
  metadata and network templates are rendered with.

  The Kubernetes API is a record of functions on a state \<open>'w\<close>, see \<open>Bootstrap\<close> for the tokens;
  rendering a template and the default templates are parameters. Durations are integers.
\<close>

section \<open>Data\<close>

record MetaData =
  md_Hostname :: string
  md_InstanceID :: string
  md_InstanceUUID :: string
  md_InstanceType :: string
  md_ProviderID :: string
  md_Region :: string
  md_Zone :: string
  md_Tags :: "string list"
  md_NodeClass :: string

record user_Resources =
  ur_CPU :: int
  ur_Memory :: int
  Hugepages1Gi :: int
  Hugepages2Mi :: int

record KubernetesTaint =
  taint_Key :: string
  taint_Value :: string
  taint_Effect :: string

record KubeletConfiguration =
  kc_CPUManagerPolicy :: string
  kc_CPUCFSQuota :: "bool option"
  kc_CPUManagerPolicyOptions :: "(string, string) go_map"
  kc_CPUManagerReconcilePeriod :: "int option"
  kc_MemoryManagerPolicy :: string
  kc_TopologyManagerPolicy :: string
  kc_TopologyManagerScope :: string
  kc_TopologyManagerPolicyOptions :: "(string, string) go_map"
  kc_ImageMinimumGCAge :: "int option"
  kc_ImageMaximumGCAge :: "int option"
  kc_ImageGCHighThresholdPercent :: "int option"
  kc_ImageGCLowThresholdPercent :: "int option"
  kc_ShutdownGracePeriod :: "int option"
  kc_ShutdownGracePeriodCriticalPods :: "int option"
  kc_AllowedUnsafeSysctls :: "string list"
  kc_ClusterDNS :: "string list"
  kc_MaxPods :: "int option"
  kc_ProviderID :: string
  kc_FailSwapOn :: "bool option"
  kc_SystemReserved :: "(string, string) go_map"
  kc_KubeReserved :: "(string, string) go_map"
  kc_EvictionHard :: "(string, string) go_map"
  RegisterWithTaints :: "KubernetesTaint list"

record UserDataValues =
  uv_Metadata :: MetaData
  uv_Network :: NetworkConfig
  uv_Resources :: user_Resources
  kube_Version :: string
  kube_RootCA :: string
  kube_BootstrapToken :: string
  uv_Kubelet :: KubeletConfiguration
  uv_Values :: "(string, string) go_map"

datatype template_data = UserData UserDataValues | Meta MetaData | NetworkData NetworkConfig

record 'w kube_api = "'w secret_api" +
  kube_SystemNamespace :: string
  kube_ServerVersion :: "'w \<Rightarrow> string option"
  kube_ConfigMap :: "'w \<Rightarrow> string \<Rightarrow> string \<Rightarrow> (string, string) go_map option"
  kube_Secret :: "'w \<Rightarrow> string \<Rightarrow> string \<Rightarrow> (string, string) go_map option"
  ExecuteTemplate :: "string \<Rightarrow> template_data \<Rightarrow> string option"
  DefaultUserdata :: string
  DefaultMetadata :: string
  DefaultNetworkV2 :: string

datatype cloudinit_error =
    NoServerVersion
  | NoRootCA
  | NilTemplatesRef
  | NoTemplates
  | NoValues
  | NoBootstrapToken token_error
  | BadTemplate string

section \<open>Kubelet configuration\<close>

definition empty_kubelet :: KubeletConfiguration where
  "empty_kubelet = \<lparr>kc_CPUManagerPolicy = [], kc_CPUCFSQuota = None, kc_CPUManagerPolicyOptions = [],
     kc_CPUManagerReconcilePeriod = None, kc_MemoryManagerPolicy = [], kc_TopologyManagerPolicy = [],
     kc_TopologyManagerScope = [], kc_TopologyManagerPolicyOptions = [], kc_ImageMinimumGCAge = None, kc_ImageMaximumGCAge = None,
     kc_ImageGCHighThresholdPercent = None, kc_ImageGCLowThresholdPercent = None, kc_ShutdownGracePeriod = None,
     kc_ShutdownGracePeriodCriticalPods = None, kc_AllowedUnsafeSysctls = [], kc_ClusterDNS = [], kc_MaxPods = None,
     kc_ProviderID = [], kc_FailSwapOn = None, kc_SystemReserved = [], kc_KubeReserved = [], kc_EvictionHard = [],
     RegisterWithTaints = []\<rparr>"

text \<open>
  The configuration of the class is copied by encoding it as JSON and decoding it into the other
  type: a field is kept when both types have one of that name. The target has no CFS quota
  period.
\<close>

definition copy_kubelet :: "v1_KubeletConfiguration \<Rightarrow> KubeletConfiguration" where
  "copy_kubelet k = empty_kubelet
     \<lparr>kc_CPUManagerPolicy := v1_CPUManagerPolicy k, kc_CPUCFSQuota := v1_CPUCFSQuota k,
      kc_TopologyManagerPolicy := v1_TopologyManagerPolicy k, kc_TopologyManagerScope := v1_TopologyManagerScope k,
      kc_ImageGCHighThresholdPercent := v1_ImageGCHighThresholdPercent k,
      kc_ImageGCLowThresholdPercent := v1_ImageGCLowThresholdPercent k,
      kc_ShutdownGracePeriod := v1_ShutdownGracePeriod k, kc_AllowedUnsafeSysctls := v1_AllowedUnsafeSysctls k,
      kc_ClusterDNS := v1_ClusterDNS k, kc_MaxPods := v1_MaxPods k, kc_FailSwapOn := v1_FailSwapOn k\<rparr>"

definition requestsToMap :: "resource_list \<Rightarrow> (string, string) go_map" where
  "requestsToMap requests =
     (let cpu = \<lceil>quantity requests ResourceCPU * 1000\<rceil>;
          mem = go_div \<lceil>quantity requests ResourceMemory\<rceil> (1024 * 1024);
          storage = go_div \<lceil>quantity requests ResourceEphemeralStorage\<rceil> (1024 * 1024 * 1024)
      in (if cpu > 0 then [(ResourceCPU, show_int cpu @ ''m'')] else []) @
         (if mem > 0 then [(ResourceMemory, show_int mem @ ''Mi'')] else []) @
         (if storage > 0 then [(ResourceEphemeralStorage, show_int storage @ ''Gi'')] else []))"

definition DefaultEvictionHard :: "(string, string) go_map" where
  "DefaultEvictionHard = [(''memory.available'', ''100Mi''), (''nodefs.available'', ''10%''), (''imagefs.available'', ''15%'')]"

text \<open>The text of a quantity is a parameter; it is never empty.\<close>

definition applyKubernetesConfiguration ::
  "(rat \<Rightarrow> string) \<Rightarrow> ProxmoxNodeClass \<Rightarrow> 'r InstanceType \<Rightarrow> KubeletConfiguration" where
  "applyKubernetesConfiguration quantity_String cls it =
     (let kc0 = (case class_Kubelet cls of None \<Rightarrow> empty_kubelet | Some k \<Rightarrow> copy_kubelet k);
          ov = it_Overhead it;
          kc1 = (if KubeReserved ov = [] then kc0 else kc0\<lparr>kc_KubeReserved := requestsToMap (KubeReserved ov)\<rparr>);
          kc2 = (if SystemReserved ov = [] then kc1 else kc1\<lparr>kc_SystemReserved := requestsToMap (SystemReserved ov)\<rparr>);
          eviction = quantity_String (quantity (EvictionThreshold ov) ResourceMemory)
      in if EvictionThreshold ov \<noteq> [] \<and> eviction \<noteq> []
         then kc2\<lparr>kc_EvictionHard := go_update DefaultEvictionHard ''memory.available'' eviction\<rparr> else kc2)"

section \<open>Template values\<close>

definition hugepages :: "resource_list \<Rightarrow> string \<Rightarrow> int \<Rightarrow> int" where
  "hugepages capacity page bytes =
     (case map_of capacity (''hugepages-'' @ page) of None \<Rightarrow> 0 | Some q \<Rightarrow> go_div \<lceil>q\<rceil> bytes)"

definition userdata_values ::
  "(rat \<Rightarrow> string) \<Rightarrow> ProxmoxNodeClass \<Rightarrow> 'r InstanceType \<Rightarrow> MetaData \<Rightarrow> NetworkConfig \<Rightarrow> string \<Rightarrow> string \<Rightarrow> string
   \<Rightarrow> (string, string) go_map \<Rightarrow> UserDataValues" where
  "userdata_values quantity_String cls it metadata network version rootCA token values =
     (let kc = (applyKubernetesConfiguration quantity_String cls it)\<lparr>kc_ProviderID := md_ProviderID metadata\<rparr>
      in \<lparr>uv_Metadata = metadata, uv_Network = network,
          uv_Resources = \<lparr>ur_CPU = \<lceil>quantity (it_Capacity it) ResourceCPU\<rceil>, ur_Memory = \<lceil>quantity (it_Capacity it) ResourceMemory\<rceil>,
             Hugepages1Gi = hugepages (it_Capacity it) ''1Gi'' (1024 * 1024 * 1024),
             Hugepages2Mi = hugepages (it_Capacity it) ''2Mi'' (2 * 1024 * 1024)\<rparr>,
          kube_Version = version, kube_RootCA = rootCA, kube_BootstrapToken = token,
          uv_Kubelet = (if RegisterWithTaints kc = []
             then kc\<lparr>RegisterWithTaints := [\<lparr>taint_Key = ''karpenter.sh/unregistered'', taint_Value = [], taint_Effect = ''NoExecute''\<rparr>]\<rparr>
             else kc),
          uv_Values = values\<rparr>)"

definition secret_template :: "(string, string) go_map \<Rightarrow> string \<Rightarrow> string \<Rightarrow> string" where
  "secret_template secret key fallback = (let s = go_lookup [] secret key in if s = [] then fallback else s)"

text \<open>The four documents, from the values: user data, metadata, vendor data, network configuration.\<close>

definition render_documents ::
  "'w kube_api \<Rightarrow> (string, string) go_map \<Rightarrow> UserDataValues \<Rightarrow> cloudinit_error + string \<times> string \<times> string \<times> string" where
  "render_documents kube secret values =
     (case ExecuteTemplate kube (secret_template secret ''user-data'' (DefaultUserdata kube)) (UserData values) of
        None \<Rightarrow> Inl (BadTemplate ''userdata'')
      | Some userdata \<Rightarrow>
          (case ExecuteTemplate kube (secret_template secret ''meta-data'' (DefaultMetadata kube)) (Meta (uv_Metadata values)) of
             None \<Rightarrow> Inl (BadTemplate ''metadata'')
           | Some metadata \<Rightarrow>
               (let vendor = go_lookup [] secret ''vendor-data'';
                    network = secret_template secret ''network-config'' (DefaultNetworkV2 kube)
                in case (if vendor = [] then Some [] else ExecuteTemplate kube vendor (Meta (uv_Metadata values))) of
                     None \<Rightarrow> Inl (BadTemplate ''vendor-data'')
                   | Some vendordata \<Rightarrow>
                       (case (if network = [] then Some [] else ExecuteTemplate kube network (NetworkData (uv_Network values))) of
                          None \<Rightarrow> Inl (BadTemplate ''network-config'')
                        | Some networkconfig \<Rightarrow> Inr (userdata, metadata, vendordata, networkconfig)))))"

definition generateCloudInitVars ::
  "'w kube_api \<Rightarrow> 'a net_syntax_scheme \<Rightarrow> (rat \<Rightarrow> string) \<Rightarrow> (int \<Rightarrow> string) \<Rightarrow> cloudProvider \<Rightarrow> string \<Rightarrow> (string, string) go_map
   \<Rightarrow> ProxmoxNodeClass \<Rightarrow> 'r InstanceType \<Rightarrow> string \<Rightarrow> string \<Rightarrow> int \<Rightarrow> vm_network \<Rightarrow> 'w
   \<Rightarrow> (cloudinit_error + string \<times> string \<times> string \<times> string) \<times> (string, string) go_map \<times> 'w" where
  "generateCloudInitVars kube syn quantity_String uuid cap claim annotations cls it region zone vmid vmc w =
     (let ns = (if kube_SystemNamespace kube = [] then ''kube-system'' else kube_SystemNamespace kube);
          opts = class_MetadataOptions cls
      in case kube_ServerVersion kube w of
           None \<Rightarrow> (Inl NoServerVersion, annotations, w)
         | Some version \<Rightarrow>
             (case kube_ConfigMap kube w ns ''kube-root-ca.crt'' of
                None \<Rightarrow> (Inl NoRootCA, annotations, w)
              | Some cm \<Rightarrow>
                  (case TemplatesRef opts of
                     None \<Rightarrow> (Inl NilTemplatesRef, annotations, w)
                   | Some ref \<Rightarrow>
                       (case kube_Secret kube w (sr_Namespace ref) (sr_Name ref) of
                          None \<Rightarrow> (Inl NoTemplates, annotations, w)
                        | Some secret \<Rightarrow>
                            (case (case ValuesRef opts of
                                     None \<Rightarrow> Some []
                                   | Some v \<Rightarrow> if sr_Name v \<noteq> [] \<and> sr_Namespace v \<noteq> []
                                              then kube_Secret kube w (sr_Namespace v) (sr_Name v) else Some []) of
                               None \<Rightarrow> (Inl NoValues, annotations, w)
                             | Some values \<Rightarrow>
                                 (case CreateToken kube annotations w of
                                    (Inl e, annotations', w') \<Rightarrow> (Inl (NoBootstrapToken e), annotations', w')
                                  | (Inr token, annotations', w') \<Rightarrow>
                                      let metadata = \<lparr>md_Hostname = claim, md_InstanceID = show_int vmid, md_InstanceUUID = uuid vmid,
                                            md_InstanceType = it_Name it, md_ProviderID = GetProviderID region vmid,
                                            md_Region = region, md_Zone = zone, md_Tags = class_Tags cls, md_NodeClass = class_Name cls\<rparr>;
                                          ifaces = (case GetNetwork cap region zone [] of None \<Rightarrow> [] | Some n \<Rightarrow> Ifaces n);
                                          network = GetNetworkConfigFromVirtualMachineConfig syn vmc ifaces
                                      in (render_documents kube secret
                                            (userdata_values quantity_String cls it metadata network version
                                               (go_lookup [] cm ''ca.crt'') token values), annotations', w')))))))"

end
