(* ===== verification/InstanceTemplate.thy ===== *)
theory InstanceTemplate
  imports NodeClass SysNode
begin

text \<open>
  The VM templates (\<open>src/pkg/providers/instancetemplate/{instancetemplate,utils}.go\<close>,
  \<open>src/pkg/apis/v1alpha1/nodetemplate.go\<close>, \<open>nodetemplate_status.go\<close>, \<open>src/pkg/utils/locks\<close>):
  downloading images, creating, updating and deleting templates, and the cache of known templates.

  The Proxmox client is a record of functions on the state \<open>'w\<close> of the cluster. Option texts of
  go-proxmox and the hashes of hashstructure are parameters. A lock that is requested again by the
  call that holds it is never granted: the call is \<open>Blocked\<close>. A call waits for locks of others,
  so the model starts each call with the locks free.
\<close>

section \<open>Data\<close>

datatype any = AnyString string | AnyInt int

type_synonym options_map = "(string, any) go_map"

record SourceImage =
  si_URL :: string
  ImageName :: string
  Checksum :: string
  ChecksumType :: string

record QemuGuestAgent =
  qa_Enabled :: bool
  FsFreezeOnBackup :: "bool option"
  FsTrimClonedDisks :: "bool option"

record template_CPU =
  cpu_Type :: string
  cpu_Flags :: "string list"

record template_VGA =
  vga_Type :: string
  vga_Memory :: "int option"

record template_Network =
  tn_Address4 :: string
  tn_Address6 :: string
  tn_Gateway4 :: string
  tn_Gateway6 :: string
  DNSServers :: "string list"
  tn_Name :: string
  tn_Bridge :: string
  tn_Model :: "string option"
  tn_MTU :: "int option"
  tn_VLAN :: "int option"
  tn_Firewall :: "bool option"

record PCIDevice =
  Mapping :: string
  MDev :: string
  PCIe :: "bool option"
  XVga :: "bool option"

record ProxmoxTemplate =
  tc_Name :: string
  tc_Annotations :: "(string, string) go_map"
  tc_Finalizers :: "string list"
  tc_Deleting :: bool
  tc_Region :: string
  tc_Description :: string
  tc_SourceImage :: SourceImage
  tc_StorageIDs :: "string list"
  Machine :: string
  Bios :: string
  TPM :: "string option"
  tc_Agent :: "QemuGuestAgent option"
  tc_CPU :: "template_CPU option"
  tc_VGA :: "template_VGA option"
  tc_Network :: "template_Network list"
  PCIDevices :: "PCIDevice list"
  tc_Tags :: "string list"
  tc_ResourcePool :: string
  OnBoot :: "bool option"
  st_Conditions :: conditions
  st_Resources :: resource_list
  st_ImageID :: string
  st_Zones :: "string list"

record InstanceTemplateInfo =
  ti_Name :: string
  ti_Region :: string
  ti_Zone :: string
  TemplateID :: uint64
  TemplateHash :: string
  TemplateTags :: "string list"
  TemplateStorageID :: string
  ti_Status :: string

definition InstanceTemplateStatusAvailable :: string where
  "InstanceTemplateStatusAvailable = ''available''"

definition InstanceTemplateStatusUnknown :: string where
  "InstanceTemplateStatusUnknown = ''unknown''"

definition InstanceTemplateStatusMultipleStorageIDs :: string where
  "InstanceTemplateStatusMultipleStorageIDs = ''multiple_storage_ids''"

definition importContent :: string where
  "importContent = ''import''"

record template_config =
  cfg_Tags :: string
  cfg_Meta :: string
  cfg_Description :: string
  MergeDisks :: "(string, string) go_map"

record download_options =
  do_Node :: string
  do_Storage :: string
  do_URL :: string
  do_Filename :: string
  do_Checksum :: string
  do_ChecksumAlgorithm :: string

record 'w template_api =
  tpl_GetVMTemplates :: "'w \<Rightarrow> ClusterResource list option"
  tpl_GetVMTemplateConfig :: "'w \<Rightarrow> int \<Rightarrow> template_config option option"
  tpl_GetVMTemplateByID :: "'w \<Rightarrow> uint64 \<Rightarrow> api_error option"
  tpl_GetStorageContent :: "'w \<Rightarrow> string \<Rightarrow> string \<Rightarrow> string list option"
  tpl_StorageDownloadURL :: "'w \<Rightarrow> download_options \<Rightarrow> string option \<times> 'w"
  tpl_WaitFor :: "'w \<Rightarrow> string \<Rightarrow> (bool \<times> bool) \<times> 'w"
  tpl_DeleteContent :: "'w \<Rightarrow> string \<Rightarrow> string option \<times> 'w"
  tpl_GetNextID :: "'w \<Rightarrow> int \<Rightarrow> int option"
  tpl_CreateVM :: "'w \<Rightarrow> string \<Rightarrow> options_map \<Rightarrow> bool \<times> 'w"
  tpl_UpdateVMByID :: "'w \<Rightarrow> string \<Rightarrow> int \<Rightarrow> options_map \<Rightarrow> bool \<times> 'w"
  tpl_DeleteVMByID :: "'w \<Rightarrow> string \<Rightarrow> int \<Rightarrow> api_error option \<times> 'w"

record 'w template_pool =
  tp_GetRegions :: "string list"
  tp_GetProxmoxCluster :: "string \<Rightarrow> 'w template_api option"

text \<open>
  \<open>fmt_pointer\<close> is what \<open>%d\<close> prints for a pointer to an integer (its address).
\<close>

record template_lib =
  hash_fields :: "SourceImage \<times> string list \<times> string \<times> string option \<Rightarrow> string"
  hash_spec :: "ProxmoxTemplate \<Rightarrow> string"
  hash_string :: "string \<Rightarrow> string"
  agent_ToString :: "QemuGuestAgent \<Rightarrow> string"
  network_ToString :: "template_Network \<Rightarrow> string \<Rightarrow> string"
  ipconfig_ToString :: "template_Network \<Rightarrow> string"
  pci_ToString :: "PCIDevice \<Rightarrow> string"
  fmt_pointer :: "int \<Rightarrow> string"

record 'w templates =
  instanceTemplate :: "(string, InstanceTemplateInfo list) go_map"
  zoneLocks :: "string set"
  tpl_world :: 'w

datatype template_error =
    OldImagePending
  | NoTemplateCluster
  | NoStorageContent
  | DownloadFailed
  | DeleteContentFailed
  | NoNextID
  | CreateVMFailed
  | UpdateVMFailed
  | DeleteVMFailed api_error
  | TemplateNotFound
  | TemplateLookupFailed
  | StillInstalled "string list"
  | ImageNamePanic

datatype 'a run = Returns 'a | Blocked string

section \<open>Locks\<close>

definition Lock :: "string \<Rightarrow> string set \<Rightarrow> string set option" where
  "Lock name held = (if name \<in> held then None else Some (insert name held))"

definition Unlock :: "string \<Rightarrow> string set \<Rightarrow> string set" where
  "Unlock name held = held - {name}"

section \<open>Hashes\<close>

text \<open>
  \<open>Hash\<close> covers the fields that need a new template, \<open>InPlaceHash\<close> the whole specification: the
  object without its metadata and status.
\<close>

definition template_Hash :: "template_lib \<Rightarrow> ProxmoxTemplate \<Rightarrow> string" where
  "template_Hash lib cls = hash_fields lib (tc_SourceImage cls, tc_StorageIDs cls, Bios cls, TPM cls)"

definition template_spec :: "ProxmoxTemplate \<Rightarrow> ProxmoxTemplate" where
  "template_spec cls = cls\<lparr>tc_Name := [], tc_Annotations := [], tc_Finalizers := [], tc_Deleting := False,
     st_Conditions := [], st_Resources := [], st_ImageID := [], st_Zones := []\<rparr>"

definition template_InPlaceHash :: "template_lib \<Rightarrow> ProxmoxTemplate \<Rightarrow> string" where
  "template_InPlaceHash lib cls = hash_spec lib (template_spec cls)"

section \<open>Cache of templates\<close>

text \<open>
  \<open>GetImageID\<close> panics (\<open>None\<close>) for an image name without a dot. The panic leaves \<open>Create\<close> as the error value
  \<open>ImageNamePanic\<close>; the reconciler calls \<open>GetImageID\<close> itself before, so that it ends there.
\<close>

definition GetImageID :: "template_lib \<Rightarrow> ProxmoxTemplate \<Rightarrow> string option" where
  "GetImageID lib cls =
     (case SplitN (ImageName (tc_SourceImage cls)) (CHR ''.'') 2 of
        [name, ext] \<Rightarrow> Some (name @ ''-'' @ hash_string lib (si_URL (tc_SourceImage cls)) @ ''.'' @ ext)
      | _ \<Rightarrow> None)"

definition templates_ListWithFilter ::
  "'w template_pool \<Rightarrow> 'w templates \<Rightarrow> (InstanceTemplateInfo \<Rightarrow> bool) \<Rightarrow> InstanceTemplateInfo list" where
  "templates_ListWithFilter pool p flt =
     concat (map (\<lambda>region. filter (\<lambda>info. ti_Status info = InstanceTemplateStatusAvailable \<and> flt info)
        (go_lookup [] (instanceTemplate p) region)) (tp_GetRegions pool))"

text \<open>The first match of \<open>Hash:\s*(\d+)\<close>.\<close>

fun description_hash :: "string \<Rightarrow> string option" where
  "description_hash [] = None"
| "description_hash (c # s) =
     (let ds = takeWhile (\<lambda>d. digit_value d \<noteq> None) (dropWhile is_space (drop 4 s))
      in if HasPrefix (c # s) ''Hash:'' \<and> ds \<noteq> [] then Some ds else description_hash s)"

fun template_storage :: "(string \<times> string) list \<Rightarrow> InstanceTemplateInfo \<Rightarrow> InstanceTemplateInfo" where
  "template_storage [] info = info"
| "template_storage ((k, disk) # disks) info =
     (let storageID = hd (Split disk (CHR '':''));
          info' = (if TemplateStorageID info = [] then info\<lparr>TemplateStorageID := storageID\<rparr> else info)
      in if TemplateStorageID info' \<noteq> storageID
         then info'\<lparr>TemplateStorageID := [], ti_Status := InstanceTemplateStatusMultipleStorageIDs\<rparr>
         else template_storage disks info')"

definition template_info ::
  "template_lib \<Rightarrow> 'w template_api \<Rightarrow> 'w \<Rightarrow> string \<Rightarrow> ClusterResource \<Rightarrow> InstanceTemplateInfo option" where
  "template_info lib cl w region vm =
     (let info = \<lparr>ti_Name = cr_Name vm, ti_Region = region, ti_Zone = cr_Node vm, TemplateID = word_of_int (cr_VMID vm),
                  TemplateHash = [], TemplateTags = [], TemplateStorageID = [], ti_Status = InstanceTemplateStatusUnknown\<rparr>
      in case tpl_GetVMTemplateConfig cl w (cr_VMID vm) of
           None \<Rightarrow> None
         | Some None \<Rightarrow> Some info
         | Some (Some cfg) \<Rightarrow>
             let hash = show_int (cr_VMID vm) @ ''-'' @ hash_string lib (cfg_Meta cfg);
                 hash' = (if Contains (cfg_Description cfg) ''Hash: ''
                          then (case description_hash (cfg_Description cfg) of None \<Rightarrow> hash | Some h \<Rightarrow> TrimSpace h)
                          else hash)
             in Some (template_storage (MergeDisks cfg)
                  (info\<lparr>TemplateTags := Split (cfg_Tags cfg) (CHR '';''), TemplateHash := hash',
                        ti_Status := InstanceTemplateStatusAvailable\<rparr>)))"

fun sync_templates :: "template_lib \<Rightarrow> 'w template_pool \<Rightarrow> string list \<Rightarrow> 'w templates \<Rightarrow> 'w templates" where
  "sync_templates lib pool [] p = p"
| "sync_templates lib pool (region # regions) p =
     sync_templates lib pool regions
       (case tp_GetProxmoxCluster pool region of
          None \<Rightarrow> p
        | Some cl \<Rightarrow>
            (case tpl_GetVMTemplates cl (tpl_world p) of
               None \<Rightarrow> p
             | Some vms \<Rightarrow>
                 p\<lparr>instanceTemplate := go_update (instanceTemplate p) region
                      (List.map_filter (template_info lib cl (tpl_world p) region) vms)\<rparr>))"

definition SyncInstanceTemplates :: "template_lib \<Rightarrow> 'w template_pool \<Rightarrow> string list \<Rightarrow> 'w templates \<Rightarrow> 'w templates" where
  "SyncInstanceTemplates lib pool regions p =
     sync_templates lib pool (if regions = [] then tp_GetRegions pool else regions) p"

section \<open>Options of a template\<close>

definition defaultVirtualMachineTemplate :: options_map where
  "defaultVirtualMachineTemplate =
     [(''template'', AnyInt 1), (''acpi'', AnyInt 1), (''cores'', AnyInt 1), (''sockets'', AnyInt 1), (''numa'', AnyInt 1),
      (''memory'', AnyInt 1024), (''balloon'', AnyInt 0), (''machine'', AnyString ''pc''), (''bios'', AnyString ''seabios''),
      (''ostype'', AnyString ''l26''), (''scsihw'', AnyString ''virtio-scsi-single''), (''boot'', AnyString ''order=scsi0''),
      (''tablet'', AnyInt 0)]"

definition set_option :: "string \<Rightarrow> string \<Rightarrow> options_map \<Rightarrow> options_map" where
  "set_option key value vm = go_update vm key (AnyString value)"

definition description_text :: "template_lib \<Rightarrow> ProxmoxTemplate \<Rightarrow> string" where
  "description_text lib cls =
     (if tc_Description cls \<noteq> [] then tc_Description cls @ '' Hash: '' @ template_Hash lib cls
      else ''The virtual machine managed by Karpenter, do not delete it. Hash: '' @ template_Hash lib cls)"

definition cpu_text :: "template_CPU \<Rightarrow> string" where
  "cpu_text cpu =
     ''cputype='' @ cpu_Type cpu @ (if cpu_Flags cpu = [] then [] else '',flags='' @ Join (cpu_Flags cpu) '','')"

definition vga_text :: "template_lib \<Rightarrow> template_VGA \<Rightarrow> string" where
  "vga_text lib vga =
     ''type='' @ vga_Type vga @ (case vga_Memory vga of None \<Rightarrow> [] | Some mem \<Rightarrow> '',memory='' @ fmt_pointer lib mem)"

definition network_name :: "nat \<Rightarrow> template_Network \<Rightarrow> string" where
  "network_name i iface = (if tn_Name iface \<noteq> [] then tn_Name iface else ''net'' @ show_int (int i))"

fun apply_network :: "template_lib \<Rightarrow> nat \<Rightarrow> template_Network list \<Rightarrow> options_map \<Rightarrow> options_map" where
  "apply_network lib i [] vm = vm"
| "apply_network lib i (iface # ifaces) vm =
     (let name = network_name i iface;
          model = (case tn_Model iface of None \<Rightarrow> ''virtio'' | Some m \<Rightarrow> m);
          config = ipconfig_ToString lib iface;
          inx = (case CutPrefix name ''net'' of None \<Rightarrow> name | Some r \<Rightarrow> r)
      in apply_network lib (Suc i) ifaces
           (set_option (''ipconfig'' @ inx) (if config = [] then ''ip=dhcp,ip6=auto'' else config)
             (set_option name (network_ToString lib iface model) vm)))"

fun apply_pci :: "template_lib \<Rightarrow> nat \<Rightarrow> PCIDevice list \<Rightarrow> options_map \<Rightarrow> options_map" where
  "apply_pci lib i [] vm = vm"
| "apply_pci lib i (dev # devs) vm = apply_pci lib (Suc i) devs (set_option (''hostpci'' @ show_int (int i)) (pci_ToString lib dev) vm)"

definition string_less :: "string \<Rightarrow> string \<Rightarrow> bool" where
  "string_less s t \<longleftrightarrow> (s, t) \<in> lexord {(a, b). (of_char a :: nat) < of_char b}"

definition applyVirtualMachineTemplateConfig :: "template_lib \<Rightarrow> ProxmoxTemplate \<Rightarrow> options_map \<Rightarrow> options_map" where
  "applyVirtualMachineTemplateConfig lib cls vm =
     (let vm1 = set_option ''description'' (description_text lib cls) vm;
          vm2 = (if Machine cls = [] then vm1 else set_option ''machine'' (Machine cls) vm1);
          vm3 = (if Bios cls = [] then vm2 else set_option ''bios'' (Bios cls) vm2);
          vm4 = (case tc_Agent cls of None \<Rightarrow> vm3 | Some agent \<Rightarrow> set_option ''agent'' (agent_ToString lib agent) vm3);
          vm5 = (case tc_CPU cls of None \<Rightarrow> vm4 | Some cpu \<Rightarrow> set_option ''cpu'' (cpu_text cpu) vm4);
          vm6 = (case tc_VGA cls of None \<Rightarrow> vm5
                 | Some vga \<Rightarrow>
                     let vm = set_option ''vga'' (vga_text lib vga) vm5
                     in if vga_Type vga = ''serial0'' then set_option ''serial0'' ''socket'' vm else vm);
          dnsservers = concat (map DNSServers (tc_Network cls));
          vm7 = apply_network lib 0 (tc_Network cls) vm6;
          vm8 = (if dnsservers = [] then vm7 else set_option ''nameserver'' (Join dnsservers '' '') vm7);
          vm9 = apply_pci lib 0 (PCIDevices cls) vm8;
          vm10 = (if tc_Tags cls = [] then vm9
                  else set_option ''tags'' (Join (sort_slice string_less (rev (remdups (rev (tc_Tags cls))))) '';'') vm9);
          vm11 = (if tc_ResourcePool cls = [] then vm10 else set_option ''pool'' (tc_ResourcePool cls) vm10)
      in case OnBoot cls of None \<Rightarrow> vm11 | Some b \<Rightarrow> go_update vm11 ''onboot'' (AnyInt (if b then 1 else 0)))"

definition base_options :: "template_lib \<Rightarrow> ProxmoxTemplate \<Rightarrow> string \<Rightarrow> int \<Rightarrow> options_map" where
  "base_options lib cls zone vmid =
     applyVirtualMachineTemplateConfig lib cls
       (set_option ''name'' (tc_Name cls)
         (go_update (set_option ''node'' zone defaultVirtualMachineTemplate) ''vmid'' (AnyInt vmid)))"

section \<open>Images and templates of a zone\<close>

definition volume :: "string \<Rightarrow> string \<Rightarrow> string" where
  "volume storage imageID = storage @ '':'' @ importContent @ ''/'' @ path_Base imageID"

definition downloadImage ::
  "'w template_pool \<Rightarrow> ProxmoxTemplate \<Rightarrow> string \<Rightarrow> string \<Rightarrow> string \<Rightarrow> NodeStorageCapacityInfo \<Rightarrow> 'w templates
   \<Rightarrow> template_error option \<times> 'w templates" where
  "downloadImage pool cls imageID region zone storage p =
     (case tp_GetProxmoxCluster pool region of
        None \<Rightarrow> (Some NoTemplateCluster, p)
      | Some cl \<Rightarrow>
          (case tpl_GetStorageContent cl (tpl_world p) zone (sc_Name storage) of
             None \<Rightarrow> (Some NoStorageContent, p)
           | Some content \<Rightarrow>
               if volume (sc_Name storage) imageID \<in> set content then (None, p)
               else (case tpl_StorageDownloadURL cl (tpl_world p)
                       \<lparr>do_Node = zone, do_Storage = sc_Name storage, do_URL = si_URL (tc_SourceImage cls), do_Filename = imageID,
                        do_Checksum = Checksum (tc_SourceImage cls), do_ChecksumAlgorithm = ChecksumType (tc_SourceImage cls)\<rparr> of
                       (None, w) \<Rightarrow> (Some DownloadFailed, p\<lparr>tpl_world := w\<rparr>)
                     | (Some upid, w) \<Rightarrow>
                         (case tpl_WaitFor cl w upid of
                            ((ok, failed), w') \<Rightarrow>
                              (if ok \<and> \<not> failed then None else Some DownloadFailed, p\<lparr>tpl_world := w'\<rparr>)))))"

definition deleteImage ::
  "'w template_pool \<Rightarrow> ProxmoxTemplate \<Rightarrow> string \<Rightarrow> string \<Rightarrow> NodeStorageCapacityInfo \<Rightarrow> 'w templates
   \<Rightarrow> template_error option \<times> 'w templates" where
  "deleteImage pool cls region zone storage p =
     (let v = volume (sc_Name storage) (st_ImageID cls)
      in case tp_GetProxmoxCluster pool region of
           None \<Rightarrow> (Some NoTemplateCluster, p)
         | Some cl \<Rightarrow>
             (case tpl_GetStorageContent cl (tpl_world p) zone (sc_Name storage) of
                None \<Rightarrow> (Some NoStorageContent, p)
              | Some content \<Rightarrow>
                  if v \<notin> set content then (None, p)
                  else (case tpl_DeleteContent cl (tpl_world p)
                          (''/nodes/'' @ zone @ ''/storage/'' @ sc_Name storage @ ''/content/'' @ v) of
                          (None, w) \<Rightarrow> (Some DeleteContentFailed, p\<lparr>tpl_world := w\<rparr>)
                        | (Some upid, w) \<Rightarrow>
                            (case tpl_WaitFor cl w upid of
                               ((ok, failed), w') \<Rightarrow> (if ok then None else Some DeleteContentFailed, p\<lparr>tpl_world := w'\<rparr>)))))"

definition deleteTemplate ::
  "'w template_pool \<Rightarrow> string \<Rightarrow> string \<Rightarrow> int \<Rightarrow> 'w templates \<Rightarrow> template_error option \<times> 'w templates" where
  "deleteTemplate pool region zone vmID p =
     (if vmID = 0 \<or> templates_ListWithFilter pool p (\<lambda>info. ti_Region info = region \<and> ti_Zone info = zone \<and>
           TemplateID info = word_of_int vmID) = []
      then (None, p)
      else case tp_GetProxmoxCluster pool region of
             None \<Rightarrow> (Some NoTemplateCluster, p)
           | Some cl \<Rightarrow>
               (case tpl_DeleteVMByID cl (tpl_world p) zone vmID of
                  (err, w) \<Rightarrow> (map_option DeleteVMFailed err, p\<lparr>tpl_world := w\<rparr>)))"

text \<open>
  The loop over the templates of that name: the first one with the current hash is kept
  (\<open>Inr (Some id)\<close>), outdated ones are deleted and the last of their ids is used again.
\<close>

fun outdated ::
  "template_lib \<Rightarrow> 'w template_pool \<Rightarrow> ProxmoxTemplate \<Rightarrow> string \<Rightarrow> string \<Rightarrow> InstanceTemplateInfo list \<Rightarrow> int \<Rightarrow> 'w templates
   \<Rightarrow> (template_error + int option \<times> int) \<times> 'w templates" where
  "outdated lib pool cls region zone [] vmid p = (Inr (None, vmid), p)"
| "outdated lib pool cls region zone (t # ts) vmid p =
     (if TemplateHash t = template_Hash lib cls then (Inr (Some (sint (TemplateID t)), vmid), p)
      else case deleteTemplate pool region zone (sint (TemplateID t)) p of
             (Some e, p') \<Rightarrow> (Inl e, p')
           | (None, p') \<Rightarrow> outdated lib pool cls region zone ts (sint (TemplateID t)) p')"

definition create_options ::
  "template_lib \<Rightarrow> ProxmoxTemplate \<Rightarrow> string \<Rightarrow> string \<Rightarrow> int \<Rightarrow> NodeStorageCapacityInfo \<Rightarrow> NodeStorageCapacityInfo \<Rightarrow> options_map" where
  "create_options lib cls imageID zone vmid storageImage storageTemplate =
     (let vm1 = set_option ''scsi0'' (''file='' @ sc_Name storageTemplate @ '':0,format=raw,import-from='' @ sc_Name storageImage @
                  '':'' @ importContent @ ''/'' @ imageID @ '',iothread=on'') (base_options lib cls zone vmid);
          vm2 = (case TPM cls of None \<Rightarrow> vm1
                 | Some version \<Rightarrow> set_option ''tpmstate0'' (''file='' @ sc_Name storageTemplate @ '':4,version='' @ version) vm1)
      in if Bios cls = ''ovmf'' then set_option ''efidisk0'' (sc_Name storageTemplate @ '':0,efitype=4m'') vm2 else vm2)"

definition createTemplate ::
  "template_lib \<Rightarrow> 'w template_pool \<Rightarrow> ProxmoxTemplate \<Rightarrow> string \<Rightarrow> string \<Rightarrow> string \<Rightarrow> NodeStorageCapacityInfo
   \<Rightarrow> NodeStorageCapacityInfo \<Rightarrow> 'w templates \<Rightarrow> (template_error + int) \<times> 'w templates" where
  "createTemplate lib pool cls imageID region zone storageImage storageTemplate p =
     (case outdated lib pool cls region zone
             (templates_ListWithFilter pool p (\<lambda>info. ti_Region info = region \<and> ti_Zone info = zone \<and> ti_Name info = tc_Name cls)) 0 p of
        (Inl e, p1) \<Rightarrow> (Inl e, p1)
      | (Inr (Some current, _), p1) \<Rightarrow> (Inr current, p1)
      | (Inr (None, old), p1) \<Rightarrow>
          (case tp_GetProxmoxCluster pool region of
             None \<Rightarrow> (Inl NoTemplateCluster, p1)
           | Some cl \<Rightarrow>
               (case (if old = 0 then tpl_GetNextID cl (tpl_world p1) 1000 else Some old) of
                  None \<Rightarrow> (Inl NoNextID, p1)
                | Some vmid \<Rightarrow>
                    (case tpl_CreateVM cl (tpl_world p1) zone (create_options lib cls imageID zone vmid storageImage storageTemplate) of
                       (True, w) \<Rightarrow> (Inr vmid, p1\<lparr>tpl_world := w\<rparr>)
                     | (False, w) \<Rightarrow>
                         (Inl CreateVMFailed,
                          p1\<lparr>tpl_world := (if vmid = 0 then w else snd (tpl_DeleteVMByID cl w zone vmid))\<rparr>)))))"

definition missing_options :: "options_map \<Rightarrow> string list" where
  "missing_options vm =
     filter (\<lambda>key. key \<notin> fst ` set vm)
       ([''agent'', ''cpu'', ''vga'', ''tags'', ''onboot''] @ map (\<lambda>i. ''hostpci'' @ show_int i) [0..5] @
        concat (map (\<lambda>i. [''net'' @ show_int i, ''ipconfig'' @ show_int i]) [0..5]))"

definition updateTemplate ::
  "template_lib \<Rightarrow> 'w template_pool \<Rightarrow> ProxmoxTemplate \<Rightarrow> string \<Rightarrow> string \<Rightarrow> int \<Rightarrow> 'w templates
   \<Rightarrow> template_error option \<times> 'w templates" where
  "updateTemplate lib pool cls region zone vmid p =
     (if templates_ListWithFilter pool p (\<lambda>info. ti_Region info = region \<and> ti_Zone info = zone \<and>
           TemplateID info = word_of_int vmid) = []
      then (Some TemplateNotFound, p)
      else case tp_GetProxmoxCluster pool region of
             None \<Rightarrow> (Some NoTemplateCluster, p)
           | Some cl \<Rightarrow>
               (case tpl_GetVMTemplateByID cl (tpl_world p) (word_of_int vmid) of
                  Some VirtualMachineNotFound \<Rightarrow> (None, p)
                | Some ApiFailure \<Rightarrow> (Some TemplateLookupFailed, p)
                | None \<Rightarrow>
                    let vm = base_options lib cls zone vmid;
                        removed = missing_options vm
                    in (case tpl_UpdateVMByID cl (tpl_world p) zone vmid
                               (if removed = [] then vm else set_option ''delete'' (Join removed '','') vm) of
                          (ok, w) \<Rightarrow> (if ok then None else Some UpdateVMFailed, p\<lparr>tpl_world := w\<rparr>))))"

section \<open>Provider\<close>

text \<open>\<open>lo.Intersect\<close>: the elements of the second list that occur in the first.\<close>

definition Intersect :: "string list \<Rightarrow> string list \<Rightarrow> string list" where
  "Intersect xs ys = filter (\<lambda>y. y \<in> set xs) ys"

definition first_storage ::
  "cloudProvider \<Rightarrow> string \<Rightarrow> string list \<Rightarrow> (NodeStorageCapacityInfo \<Rightarrow> bool) \<Rightarrow> NodeStorageCapacityInfo option" where
  "first_storage cap region storageIDs flt =
     (case List.map_filter (\<lambda>storageID. GetStorage cap region storageID [flt]) storageIDs of
        [] \<Rightarrow> None | info # _ \<Rightarrow> Some info)"

definition has_content :: "string \<Rightarrow> NodeStorageCapacityInfo \<Rightarrow> bool" where
  "has_content c info \<longleftrightarrow> c \<in> set (Capabilities info) \<and> sc_Zones info \<noteq> []"

fun create_zones ::
  "template_lib \<Rightarrow> 'w template_pool \<Rightarrow> ProxmoxTemplate \<Rightarrow> string \<Rightarrow> string \<Rightarrow> NodeStorageCapacityInfo \<Rightarrow> NodeStorageCapacityInfo
   \<Rightarrow> string list \<Rightarrow> 'w templates \<Rightarrow> (string list \<times> 'w templates) run" where
  "create_zones lib pool cls imageID region storageImage storageTemplate [] p = Returns ([], p)"
| "create_zones lib pool cls imageID region storageImage storageTemplate (zone # zones) p =
     (case Lock zone (zoneLocks p) of
        None \<Rightarrow> Blocked zone
      | Some held \<Rightarrow>
          let (installed, p') =
                (case downloadImage pool cls imageID region zone storageImage (p\<lparr>zoneLocks := held\<rparr>) of
                   (Some e, p1) \<Rightarrow> ([], p1)
                 | (None, p1) \<Rightarrow>
                     (case createTemplate lib pool cls imageID region zone storageImage storageTemplate
                             (SyncInstanceTemplates lib pool [region] p1) of
                        (Inl e, p2) \<Rightarrow> ([], p2)
                      | (Inr vmid, p2) \<Rightarrow>
                          (if vmid = 0 then [] else [region @ ''/'' @ zone @ ''/'' @ show_int vmid], p2)))
          in (case create_zones lib pool cls imageID region storageImage storageTemplate zones
                     (p'\<lparr>zoneLocks := Unlock zone (zoneLocks p')\<rparr>) of
                Blocked z \<Rightarrow> Blocked z
              | Returns (rest, p'') \<Rightarrow> Returns (installed @ rest, p'')))"

fun create_regions ::
  "template_lib \<Rightarrow> 'w template_pool \<Rightarrow> cloudProvider \<Rightarrow> ProxmoxTemplate \<Rightarrow> string \<Rightarrow> string list \<Rightarrow> 'w templates
   \<Rightarrow> (string list \<times> 'w templates) run" where
  "create_regions lib pool cap cls imageID [] p = Returns ([], p)"
| "create_regions lib pool cap cls imageID (region # regions) p =
     (case (first_storage cap region (tc_StorageIDs cls) (has_content importContent),
            first_storage cap region (tc_StorageIDs cls) (has_content ''images'')) of
        (Some storageImage, Some storageTemplate) \<Rightarrow>
          (case create_zones lib pool cls imageID region storageImage storageTemplate
                  (if Shared storageTemplate then [hd (sc_Zones storageTemplate)]
                   else Intersect (sc_Zones storageImage) (sc_Zones storageTemplate)) p of
             Blocked z \<Rightarrow> Blocked z
           | Returns (installed, p1) \<Rightarrow>
               (case create_regions lib pool cap cls imageID regions (SyncInstanceTemplates lib pool [region] p1) of
                  Blocked z \<Rightarrow> Blocked z
                | Returns (rest, p2) \<Rightarrow> Returns (installed @ rest, p2)))
      | _ \<Rightarrow> create_regions lib pool cap cls imageID regions p)"

definition templates_Create ::
  "template_lib \<Rightarrow> 'w template_pool \<Rightarrow> cloudProvider \<Rightarrow> ProxmoxTemplate \<Rightarrow> 'w templates
   \<Rightarrow> ((template_error + ProxmoxTemplate) \<times> 'w templates) run" where
  "templates_Create lib pool cap cls p =
     (case GetImageID lib cls of
        None \<Rightarrow> Returns (Inl ImageNamePanic, p)
      | Some imageID \<Rightarrow>
          if st_ImageID cls \<noteq> [] \<and> st_ImageID cls \<noteq> imageID then Returns (Inl OldImagePending, p)
          else (case create_regions lib pool cap cls imageID
                       (if tc_Region cls \<noteq> [] then [tc_Region cls] else tp_GetRegions pool) p of
                  Blocked z \<Rightarrow> Blocked z
                | Returns (installed, p') \<Rightarrow>
                    Returns (Inr (if installed = [] then cls else cls\<lparr>st_ImageID := imageID, st_Zones := installed\<rparr>), p')))"

text \<open>
  The locks of \<open>Delete\<close> are released when \<open>Delete\<close> returns, not at the end of an iteration.
\<close>

fun delete_storages ::
  "'w template_pool \<Rightarrow> cloudProvider \<Rightarrow> ProxmoxTemplate \<Rightarrow> string \<Rightarrow> string \<Rightarrow> string list \<Rightarrow> 'w templates
   \<Rightarrow> (template_error option \<times> 'w templates) run" where
  "delete_storages pool cap cls region zone [] p = Returns (None, p)"
| "delete_storages pool cap cls region zone (storageID # ids) p =
     (case GetStorage cap region storageID [\<lambda>info. importContent \<in> set (Capabilities info) \<and> zone \<in> set (sc_Zones info)] of
        None \<Rightarrow> delete_storages pool cap cls region zone ids p
      | Some storage \<Rightarrow>
          (case Lock zone (zoneLocks p) of
             None \<Rightarrow> Blocked zone
           | Some held \<Rightarrow>
               (case deleteImage pool cls region zone storage (p\<lparr>zoneLocks := held\<rparr>) of
                  (Some e, p1) \<Rightarrow> Returns (Some e, p1)
                | (None, p1) \<Rightarrow> delete_storages pool cap cls region zone ids p1)))"

fun delete_zones ::
  "'w template_pool \<Rightarrow> cloudProvider \<Rightarrow> ProxmoxTemplate \<Rightarrow> string list \<Rightarrow> 'w templates
   \<Rightarrow> ((template_error + string list) \<times> 'w templates) run" where
  "delete_zones pool cap cls [] p = Returns (Inr [], p)"
| "delete_zones pool cap cls (key # keys) p =
     (let parts = SplitN key (CHR ''/'') 3; region = parts ! 0; zone = parts ! 1;
          next = (\<lambda>removed q. case delete_zones pool cap cls keys q of
                    Blocked z \<Rightarrow> Blocked z
                  | Returns (Inl e, q') \<Rightarrow> Returns (Inl e, q')
                  | Returns (Inr rest, q') \<Rightarrow> Returns (Inr (removed @ rest), q'));
          storages = (\<lambda>q. case delete_storages pool cap cls region zone (tc_StorageIDs cls) q of
                    Blocked z \<Rightarrow> Blocked z
                  | Returns (Some e, q') \<Rightarrow> Returns (Inl e, q')
                  | Returns (None, q') \<Rightarrow> next [key] q')
      in if length parts < 2 then next [key] p
         else if length parts = 3
         then (case Atoi (parts ! 2) of
                 None \<Rightarrow> next [] p
               | Some vmid \<Rightarrow>
                   (case deleteTemplate pool region zone vmid p of
                      (Some e, p1) \<Rightarrow> Returns (Inl e, p1)
                    | (None, p1) \<Rightarrow> storages p1))
         else storages p)"

definition templates_Delete ::
  "template_lib \<Rightarrow> 'w template_pool \<Rightarrow> cloudProvider \<Rightarrow> ProxmoxTemplate \<Rightarrow> 'w templates
   \<Rightarrow> ((template_error option \<times> ProxmoxTemplate) \<times> 'w templates) run" where
  "templates_Delete lib pool cap cls p =
     (case delete_zones pool cap cls (st_Zones cls) p of
        Blocked z \<Rightarrow> Blocked z
      | Returns (Inl e, p1) \<Rightarrow> Returns ((Some e, cls), p1\<lparr>zoneLocks := zoneLocks p\<rparr>)
      | Returns (Inr removed, p1) \<Rightarrow>
          let left = filter (\<lambda>item. item \<notin> set removed) (st_Zones cls); cls' = cls\<lparr>st_Zones := left\<rparr>
          in if left \<noteq> [] then Returns ((Some (StillInstalled left), cls'), p1\<lparr>zoneLocks := zoneLocks p\<rparr>)
             else Returns ((None, cls'), (SyncInstanceTemplates lib pool [] p1)\<lparr>zoneLocks := zoneLocks p\<rparr>))"

fun templates_update ::
  "template_lib \<Rightarrow> 'w template_pool \<Rightarrow> ProxmoxTemplate \<Rightarrow> string list \<Rightarrow> 'w templates \<Rightarrow> template_error list \<times> 'w templates" where
  "templates_update lib pool cls [] p = ([], p)"
| "templates_update lib pool cls (key # keys) p =
     (case SplitN key (CHR ''/'') 3 of
        [region, zone, tid] \<Rightarrow>
          (case Atoi tid of
             None \<Rightarrow> templates_update lib pool cls keys p
           | Some vmid \<Rightarrow>
               (case updateTemplate lib pool cls region zone vmid p of
                  (err, p1) \<Rightarrow>
                    (case templates_update lib pool cls keys p1 of
                       (errs, p2) \<Rightarrow> (case err of None \<Rightarrow> errs | Some e \<Rightarrow> e # errs, p2))))
      | _ \<Rightarrow> templates_update lib pool cls keys p)"

definition templates_Update ::
  "template_lib \<Rightarrow> 'w template_pool \<Rightarrow> ProxmoxTemplate \<Rightarrow> 'w templates \<Rightarrow> template_error list \<times> 'w templates" where
  "templates_Update lib pool cls p = templates_update lib pool cls (st_Zones cls) p"

section \<open>Locks are released\<close>

lemma template_calls_locks:
  "downloadImage pool cls imageID region zone storage p = (e, q) \<Longrightarrow> zoneLocks q = zoneLocks p"
  "deleteImage pool cls region zone storage p = (e, q) \<Longrightarrow> zoneLocks q = zoneLocks p"
  "deleteTemplate pool region zone vmid p = (e, q) \<Longrightarrow> zoneLocks q = zoneLocks p"
  by (auto simp: downloadImage_def deleteImage_def deleteTemplate_def Let_def split: option.splits prod.splits if_splits)

lemma SyncInstanceTemplates_locks [simp]: "zoneLocks (SyncInstanceTemplates lib pool regions p) = zoneLocks p"
proof -
  have "zoneLocks (sync_templates lib pool rs p) = zoneLocks p" for rs
    by (induction lib pool rs p rule: sync_templates.induct) (auto split: option.split)
  then show ?thesis by (simp add: SyncInstanceTemplates_def)
qed

lemma outdated_locks: "outdated lib pool cls region zone ts vmid p = (r, q) \<Longrightarrow> zoneLocks q = zoneLocks p"
  by (induction lib pool cls region zone ts vmid p rule: outdated.induct)
    (auto dest: template_calls_locks(3) split: if_splits prod.splits option.splits)

lemma createTemplate_locks:
  "createTemplate lib pool cls imageID region zone si st p = (r, q) \<Longrightarrow> zoneLocks q = zoneLocks p"
  by (auto simp: createTemplate_def dest: outdated_locks split: prod.splits sum.splits option.splits bool.splits)

lemma create_zones_returns:
  "zoneLocks p = {} \<Longrightarrow>
   \<exists>installed p'. create_zones lib pool cls imageID region si st zones p = Returns (installed, p') \<and> zoneLocks p' = {}"
proof (induction zones arbitrary: p)
  case (Cons zone zones)
  obtain e p1 where d: "downloadImage pool cls imageID region zone si (p\<lparr>zoneLocks := {zone}\<rparr>) = (e, p1)" by fastforce
  obtain c p2 where c: "createTemplate lib pool cls imageID region zone si st (SyncInstanceTemplates lib pool [region] p1) = (c, p2)"
    by fastforce
  define r where "r = (case e of Some e' \<Rightarrow> ([], p1)
      | None \<Rightarrow> (case c of Inl e' \<Rightarrow> ([], p2)
          | Inr vmid \<Rightarrow> (if vmid = 0 then [] else [region @ ''/'' @ zone @ ''/'' @ show_int vmid], p2)))"
  have "zoneLocks (snd r) = {zone}"
    using template_calls_locks(1) [OF d] createTemplate_locks [OF c]
    unfolding r_def by (auto split: option.split sum.split)
  then have "zoneLocks ((snd r)\<lparr>zoneLocks := Unlock zone (zoneLocks (snd r))\<rparr>) = {}" by (simp add: Unlock_def)
  from Cons.IH [OF this] obtain rest q where
    "create_zones lib pool cls imageID region si st zones ((snd r)\<lparr>zoneLocks := Unlock zone (zoneLocks (snd r))\<rparr>) =
       Returns (rest, q)" "zoneLocks q = {}" by blast
  with Cons.prems d c show ?case
    by (cases e; cases c) (auto simp: Lock_def r_def Let_def)
qed simp

lemma create_regions_returns:
  "zoneLocks p = {} \<Longrightarrow>
   \<exists>installed p'. create_regions lib pool cap cls imageID regions p = Returns (installed, p') \<and> zoneLocks p' = {}"
proof (induction regions arbitrary: p)
  case (Cons region regions)
  show ?case
  proof (cases "first_storage cap region (tc_StorageIDs cls) (has_content importContent)")
    case None
    with Cons show ?thesis by simp
  next
    case (Some si)
    show ?thesis
    proof (cases "first_storage cap region (tc_StorageIDs cls) (has_content ''images'')")
      case None
      with Cons Some show ?thesis by simp
    next
      case st: (Some st)
      obtain installed p1 where c: "create_zones lib pool cls imageID region si st
          (if Shared st then [hd (sc_Zones st)] else Intersect (sc_Zones si) (sc_Zones st)) p = Returns (installed, p1)"
        and "zoneLocks p1 = {}" using create_zones_returns [OF Cons.prems] by blast
      then have "zoneLocks (SyncInstanceTemplates lib pool [region] p1) = {}" by simp
      from Cons.IH [OF this] show ?thesis using Some st c by auto
    qed
  qed
qed simp

text \<open>
  C26. Creating the templates of a class runs to its end: no zone lock is requested while it is
  held, whatever the storages and zones are, and every lock is free again afterwards.
\<close>

theorem templates_create_returns:
  assumes "zoneLocks p = {}"
  shows "\<exists>result p'. templates_Create lib pool cap cls p = Returns (result, p') \<and> zoneLocks p' = {}"
proof (cases "GetImageID lib cls")
  case None
  with assms show ?thesis by (simp add: templates_Create_def)
next
  case (Some imageID)
  obtain installed p' where
    "create_regions lib pool cap cls imageID (if tc_Region cls \<noteq> [] then [tc_Region cls] else tp_GetRegions pool) p =
       Returns (installed, p')" "zoneLocks p' = {}"
    using create_regions_returns [OF assms] by blast
  with Some assms show ?thesis by (auto simp: templates_Create_def)
qed

section \<open>Deleting a class\<close>

definition import_storage :: "cloudProvider \<Rightarrow> string \<Rightarrow> string \<Rightarrow> string \<Rightarrow> bool" where
  "import_storage cap region zone storageID \<longleftrightarrow>
     GetStorage cap region storageID [\<lambda>info. importContent \<in> set (Capabilities info) \<and> zone \<in> set (sc_Zones info)] \<noteq> None"

lemma delete_storages_held:
  assumes "zone \<in> zoneLocks p" and "storageID \<in> set ids" and "import_storage cap region zone storageID"
  shows "delete_storages pool cap cls region zone ids p = Blocked zone"
  using assms
proof (induction ids)
  case (Cons a ids)
  then show ?case
    by (cases "GetStorage cap region a [\<lambda>info. importContent \<in> set (Capabilities info) \<and> zone \<in> set (sc_Zones info)]")
      (auto simp: import_storage_def Lock_def)
qed simp

lemma delete_storages_blocked:
  assumes "import_storage cap region zone a" and "import_storage cap region zone b"
    and "\<And>storage q. fst (deleteImage pool cls region zone storage q) = None"
  shows "delete_storages pool cap cls region zone (xs @ a # ys @ b # zs) p = Blocked zone"
proof (induction xs arbitrary: p)
  case Nil
  obtain storage where s: "GetStorage cap region a
      [\<lambda>info. importContent \<in> set (Capabilities info) \<and> zone \<in> set (sc_Zones info)] = Some storage"
    using assms(1) by (auto simp: import_storage_def)
  let ?d = "deleteImage pool cls region zone storage (p\<lparr>zoneLocks := insert zone (zoneLocks p)\<rparr>)"
  have "zone \<in> zoneLocks (snd ?d)" using template_calls_locks(2) [OF prod.collapse [symmetric, of ?d]] by simp
  from delete_storages_held [OF this _ assms(2)]
  have "delete_storages pool cap cls region zone (ys @ b # zs) (snd ?d) = Blocked zone" by simp
  with s assms(3) [of storage "p\<lparr>zoneLocks := insert zone (zoneLocks p)\<rparr>"] show ?case
    by (cases ?d) (simp add: Lock_def)
next
  case (Cons x xs)
  have ok: "e = None" if "deleteImage pool cls region zone storage q = (e, q')" for storage q e q'
    using assms(3) [of storage q] that by simp
  with Cons.IH show ?case
    by (cases "GetStorage cap region x [\<lambda>info. importContent \<in> set (Capabilities info) \<and> zone \<in> set (sc_Zones info)]")
      (auto simp: Lock_def dest: ok split: prod.split)
qed

text \<open>
  C40. Deleting the templates of a class never returns when two of its storages hold images in the
  same zone: the lock of the zone is taken for the first storage, kept until \<open>Delete\<close> returns,
  and requested again for the second. Every step before succeeds.
\<close>

theorem template_delete_blocks:
  assumes "st_Zones cls = selected_zone region zone vmid # keys"
    and "CHR ''/'' \<notin> set region" and "CHR ''/'' \<notin> set zone" and "- (2 ^ 63) \<le> vmid" and "vmid < 2 ^ 63"
    and "tc_StorageIDs cls = xs @ a # ys @ b # zs"
    and "import_storage cap region zone a" and "import_storage cap region zone b"
    and "\<And>q. fst (deleteTemplate pool region zone vmid q) = None"
    and "\<And>storage q. fst (deleteImage pool cls region zone storage q) = None"
  shows "templates_Delete lib pool cap cls p = Blocked zone"
proof -
  have parts: "SplitN (selected_zone region zone vmid) (CHR ''/'') 3 = [region, zone, show_int vmid]"
    using assms(2,3) by (rule SplitN_selected_zone)
  obtain q where "deleteTemplate pool region zone vmid p = (None, q)"
    using assms(9) [of p] by (cases "deleteTemplate pool region zone vmid p") auto
  with parts delete_storages_blocked [OF assms(7,8,10), of xs ys zs] assms(4-6)
  have "delete_zones pool cap cls (st_Zones cls) p = Blocked zone"
    by (simp add: assms(1) Let_def Atoi_show_int)
  then show ?thesis by (simp add: templates_Delete_def)
qed

text \<open>A storage for images in one zone, and a cluster whose calls succeed.\<close>

definition example_storage :: "string \<Rightarrow> NodeStorageCapacityInfo" where
  "example_storage name = \<lparr>sc_Name = name, sc_Region = ''r'', Shared = False, sc_Type = ''dir'',
     Capabilities = [''images'', ''import''], sc_Zones = [''node-1'']\<rparr>"

definition example_storages :: cloudProvider where
  "example_storages = \<lparr>zoneList = [(''r'', [''node-1''])], capacityInfo = [],
     storageInfo = [(''r/a'', example_storage ''a''), (''r/b'', example_storage ''b'')], networkInfo = []\<rparr>"

definition example_template_api :: "unit template_api" where
  "example_template_api =
     \<lparr>tpl_GetVMTemplates = (\<lambda>w. Some []), tpl_GetVMTemplateConfig = (\<lambda>w i. None), tpl_GetVMTemplateByID = (\<lambda>w i. None),
      tpl_GetStorageContent = (\<lambda>w zone storage. Some []), tpl_StorageDownloadURL = (\<lambda>w opts. (Some [], w)),
      tpl_WaitFor = (\<lambda>w upid. ((True, False), w)), tpl_DeleteContent = (\<lambda>w path. (Some [], w)),
      tpl_GetNextID = (\<lambda>w i. Some i), tpl_CreateVM = (\<lambda>w zone vm. (True, w)),
      tpl_UpdateVMByID = (\<lambda>w zone vmid vm. (True, w)), tpl_DeleteVMByID = (\<lambda>w zone vmid. (None, w))\<rparr>"

definition example_template_pool :: "unit template_pool" where
  "example_template_pool = \<lparr>tp_GetRegions = [''r''], tp_GetProxmoxCluster = (\<lambda>region. Some example_template_api)\<rparr>"

definition example_template_lib :: template_lib where
  "example_template_lib = \<lparr>hash_fields = (\<lambda>h. ''17''), hash_spec = (\<lambda>cls. ''18''), hash_string = (\<lambda>s. ''4''), agent_ToString = (\<lambda>a. ''1''),
     network_ToString = (\<lambda>n model. model), ipconfig_ToString = tn_Address4, pci_ToString = Mapping, fmt_pointer = (\<lambda>m. ''824634466304'')\<rparr>"

definition example_template :: ProxmoxTemplate where
  "example_template =
     \<lparr>tc_Name = ''base'', tc_Annotations = [], tc_Finalizers = [], tc_Deleting = False, tc_Region = ''r'', tc_Description = ''Base image'',
      tc_SourceImage = \<lparr>si_URL = ''https://a.b/i'', ImageName = ''i.raw'', Checksum = [], ChecksumType = []\<rparr>,
      tc_StorageIDs = [''a'', ''b''], Machine = [], Bios = [], TPM = None, tc_Agent = None, tc_CPU = None, tc_VGA = None,
      tc_Network = [], PCIDevices = [], tc_Tags = [], tc_ResourcePool = [], OnBoot = None, st_Conditions = [], st_Resources = [],
      st_ImageID = ''i-4.raw'', st_Zones = [selected_zone ''r'' ''node-1'' 1000]\<rparr>"

definition example_templates :: "unit templates" where
  "example_templates = \<lparr>instanceTemplate = [], zoneLocks = {}, tpl_world = ()\<rparr>"

theorem templates_create_returns_witness:
  "\<exists>result p'. templates_Create example_template_lib example_template_pool example_storages example_template example_templates =
     Returns (result, p') \<and> zoneLocks p' = {}"
  by (rule templates_create_returns) (simp add: example_templates_def)

theorem template_delete_blocks_witness:
  "templates_Delete example_template_lib example_template_pool example_storages example_template example_templates =
   Blocked ''node-1''"
proof (rule template_delete_blocks [where region = "''r''" and vmid = 1000 and keys = "[]" and xs = "[]" and a = "''a''"
      and ys = "[]" and b = "''b''" and zs = "[]"])
  show "import_storage example_storages ''r'' ''node-1'' ''a''" "import_storage example_storages ''r'' ''node-1'' ''b''"
    by (simp_all add: import_storage_def GetStorage_def example_storages_def zone_key_def example_storage_def importContent_def)
  show "fst (deleteTemplate example_template_pool ''r'' ''node-1'' 1000 q) = None" for q
    by (simp add: deleteTemplate_def example_template_pool_def example_template_api_def)
  show "fst (deleteImage example_template_pool example_template ''r'' ''node-1'' storage q) = None" for storage q
    by (simp add: deleteImage_def example_template_pool_def example_template_api_def Let_def)
qed (simp_all add: example_template_def)

section \<open>The hash of a template\<close>

lemma HasPrefix_spaced:
  assumes "CHR '' '' \<notin> set p" and "HasPrefix (xs @ CHR '' '' # ys) p"
  shows "HasPrefix xs p"
proof (cases "length p \<le> length xs")
  case True
  with assms(2) show ?thesis by (simp add: HasPrefix_def)
next
  case False
  then have "CHR '' '' \<in> set (take (length p) (xs @ CHR '' '' # ys))"
    by (cases "length p - length xs") auto
  with assms show ?thesis by (simp add: HasPrefix_def)
qed

lemma Contains_infix: "Contains (xs @ p @ ys) p"
proof (induction xs)
  case Nil
  show ?case by (cases p; cases ys) (auto simp: HasPrefix_def)
qed simp

lemma Contains_NilE: "\<not> Contains s p \<Longrightarrow> \<not> HasPrefix s p"
  by (cases s) (auto simp: HasPrefix_def)

lemma description_hash_text:
  assumes "h \<noteq> []" and digits: "\<And>d. d \<in> set h \<Longrightarrow> digit_value d \<noteq> None" and "\<not> Contains pre ''Hash:''"
  shows "description_hash (pre @ '' Hash: '' @ h) = Some h"
  using assms(3)
proof (induction pre)
  case Nil
  obtain d ds where h: "h = d # ds" using assms(1) by (cases h) auto
  then have "\<not> is_space d" using digits [of d] by (auto simp: digit_value_def is_space_def)
  then have "takeWhile (\<lambda>d. digit_value d \<noteq> None)
      (dropWhile is_space (CHR '' '' # h)) = h"
    using digits unfolding h by (simp add: takeWhile_eq_all_conv is_space_def [of "CHR '' ''"])
  with assms(1) show ?case by (simp add: HasPrefix_def)
next
  case (Cons c pre)
  have "\<not> HasPrefix (c # pre @ '' Hash: '' @ h) ''Hash:''"
    using HasPrefix_spaced [of "''Hash:''" "c # pre" "''Hash: '' @ h"] Cons.prems by (auto dest: Contains_NilE)
  with Cons show ?case by simp
qed

lemma TrimSpace_digits:
  assumes "\<And>d. d \<in> set h \<Longrightarrow> digit_value d \<noteq> None"
  shows "TrimSpace h = h"
proof -
  have "\<not> go_space d" if "d \<in> set h" for d using assms [OF that] by (auto simp: go_space_def is_space_def digit_value_def)
  then have "dropWhile go_space h = h" "dropWhile go_space (rev h) = rev h"
    by (cases h, simp_all) (cases h rule: rev_cases, simp_all)
  then show ?thesis by (simp add: TrimSpace_def)
qed

lemma template_storage_fields [simp]:
  "TemplateHash (template_storage disks info) = TemplateHash info" "ti_Name (template_storage disks info) = ti_Name info"
  "ti_Zone (template_storage disks info) = ti_Zone info" "ti_Region (template_storage disks info) = ti_Region info"
  "TemplateID (template_storage disks info) = TemplateID info"
  by (induction disks info rule: template_storage.induct) (auto simp: Let_def)

text \<open>The cache lists every template under its own region.\<close>

definition cache_ok :: "'w templates \<Rightarrow> bool" where
  "cache_ok p \<longleftrightarrow> list_all (\<lambda>(region, infos). list_all (\<lambda>info. ti_Region info = region) infos) (instanceTemplate p)"

lemma template_info_fields:
  "template_info lib cl w region vm = Some info \<Longrightarrow>
   ti_Region info = region \<and> ti_Name info = cr_Name vm \<and> ti_Zone info = cr_Node vm \<and> TemplateID info = word_of_int (cr_VMID vm)"
  by (auto simp: template_info_def Let_def split: option.splits)

lemma filter_map_filter:
  assumes "\<And>x y. x \<in> set xs \<Longrightarrow> f x = Some y \<Longrightarrow> P y \<Longrightarrow> Q x"
  shows "filter P (List.map_filter f xs) = filter P (List.map_filter f (filter Q xs))"
  using assms by (induction xs) (auto simp: map_filter_simps split: option.split)

lemma concat_single:
  "distinct xs \<Longrightarrow> a \<in> set xs \<Longrightarrow> (\<And>x. x \<in> set xs \<Longrightarrow> x \<noteq> a \<Longrightarrow> f x = []) \<Longrightarrow> concat (map f xs) = f a"
proof (induction xs)
  case (Cons x xs)
  show ?case
  proof (cases "x = a")
    case True
    with Cons.prems have "\<forall>y \<in> set xs. f y = []" by auto
    then have "concat (map f xs) = []" by auto
    with True show ?thesis by simp
  next
    case False
    with Cons show ?thesis by auto
  qed
qed simp

lemma template_info_current:
  assumes cfg: "tpl_GetVMTemplateConfig cl w (cr_VMID vm) = Some (Some cfg)" "cfg_Description cfg = description_text lib cls"
    "MergeDisks cfg = [(k, disk)]"
    and hash: "template_Hash lib cls \<noteq> []" "\<And>d. d \<in> set (template_Hash lib cls) \<Longrightarrow> digit_value d \<noteq> None"
    and plain: "\<not> Contains (tc_Description cls) ''Hash:''"
  shows "\<exists>info. template_info lib cl w region vm = Some info \<and> TemplateHash info = template_Hash lib cls \<and>
           ti_Status info = InstanceTemplateStatusAvailable"
proof -
  define pre where "pre = (if tc_Description cls \<noteq> [] then tc_Description cls
    else ''The virtual machine managed by Karpenter, do not delete it.'')"
  have pre: "description_text lib cls = pre @ '' Hash: '' @ template_Hash lib cls" "\<not> Contains pre ''Hash:''"
    using plain by (simp_all add: description_text_def pre_def HasPrefix_def)
  have "Contains (pre @ '' Hash: '' @ template_Hash lib cls) ''Hash: ''"
    using Contains_infix [of "pre @ '' ''" "''Hash: ''" "template_Hash lib cls"] by simp
  with pre description_hash_text [OF hash pre(2)] cfg TrimSpace_digits [OF hash(2)] show ?thesis
    by (simp add: template_info_def Let_def)
qed

text \<open>
  C29. Creating a template again changes nothing: when the cluster has a template of that name in the zone, with
  the description \<open>createTemplate\<close> gave it, the hash is read back from the description,
  recognised as current, and the id of the existing template is returned without a call to the
  cluster. The hash is a decimal number, and the description of the class does not itself
  contain \<open>Hash:\<close>. The template has one disk, as \<open>createTemplate\<close> makes it.
\<close>

theorem template_create_idempotent:
  assumes pool: "tp_GetProxmoxCluster pool region = Some cl" "distinct (tp_GetRegions pool)" "region \<in> set (tp_GetRegions pool)"
    and cache: "cache_ok p"
    and vms: "tpl_GetVMTemplates cl (tpl_world p) = Some vms"
      "filter (\<lambda>v. cr_Name v = tc_Name cls \<and> cr_Node v = zone) vms = [vm]" "0 \<le> cr_VMID vm" "cr_VMID vm < 2 ^ 63"
    and cfg: "tpl_GetVMTemplateConfig cl (tpl_world p) (cr_VMID vm) = Some (Some cfg)"
      "cfg_Description cfg = description_text lib cls" "MergeDisks cfg = [(k, disk)]"
    and hash: "template_Hash lib cls \<noteq> []" "\<And>d. d \<in> set (template_Hash lib cls) \<Longrightarrow> digit_value d \<noteq> None"
      "\<not> Contains (tc_Description cls) ''Hash:''"
  shows "createTemplate lib pool cls imageID region zone si st (SyncInstanceTemplates lib pool [region] p) =
         (Inr (cr_VMID vm), SyncInstanceTemplates lib pool [region] p)"
proof -
  let ?f = "template_info lib cl (tpl_world p) region" and ?s = "SyncInstanceTemplates lib pool [region] p"
  let ?P = "\<lambda>info. ti_Status info = InstanceTemplateStatusAvailable \<and>
    ti_Region info = region \<and> ti_Zone info = zone \<and> ti_Name info = tc_Name cls"
  obtain info where info: "?f vm = Some info" "TemplateHash info = template_Hash lib cls"
    "ti_Status info = InstanceTemplateStatusAvailable"
    using template_info_current [OF cfg hash] by blast
  have vm: "cr_Name vm = tc_Name cls" "cr_Node vm = zone"
    using arg_cong [OF vms(2), of set] by auto
  have s: "instanceTemplate ?s = go_update (instanceTemplate p) region (List.map_filter ?f vms)"
    using pool vms by (simp add: SyncInstanceTemplates_def)
  have "filter ?P (List.map_filter ?f vms) = filter ?P (List.map_filter ?f [vm])"
    unfolding vms(2) [symmetric] by (rule filter_map_filter) (auto dest: template_info_fields)
  also have "\<dots> = [info]"
    using info vm template_info_fields [OF info(1)] by (simp add: map_filter_simps)
  finally have here: "filter ?P (go_lookup [] (instanceTemplate ?s) region) = [info]"
    by (simp add: s go_lookup_def)
  have other: "filter ?P (go_lookup [] (instanceTemplate ?s) r) = []" if "r \<noteq> region" for r
  proof (cases "map_of (instanceTemplate p) r")
    case None
    with that show ?thesis by (simp add: s go_lookup_def)
  next
    case (Some infos)
    then have "list_all (\<lambda>info. ti_Region info = r) infos"
      using cache map_of_SomeD [OF Some] by (auto simp: cache_ok_def list_all_iff)
    with Some that show ?thesis by (auto simp: s go_lookup_def filter_empty_conv list_all_iff)
  qed
  have "templates_ListWithFilter pool ?s (\<lambda>info. ti_Region info = region \<and> ti_Zone info = zone \<and> ti_Name info = tc_Name cls) = [info]"
    unfolding templates_ListWithFilter_def using concat_single [OF pool(2,3), of "\<lambda>r. filter ?P (go_lookup [] (instanceTemplate ?s) r)"]
      here other by simp
  moreover have "sint (TemplateID info) = cr_VMID vm"
    using template_info_fields [OF info(1)] vms(3,4) by (simp add: int_word_sint)
  ultimately show ?thesis using info(2) by (simp add: createTemplate_def)
qed

definition example_template_vm :: ClusterResource where
  "example_template_vm = example_item\<lparr>cr_Node := ''node-1'', cr_VMID := 1000, cr_Name := ''base''\<rparr>"

definition example_template_config :: template_config where
  "example_template_config = \<lparr>cfg_Tags = [], cfg_Meta = [], cfg_Description = ''Base image Hash: 17'',
     MergeDisks = [(''scsi0'', ''a:base-1000-disk-0'')]\<rparr>"

definition example_built_api :: "unit template_api" where
  "example_built_api = example_template_api
     \<lparr>tpl_GetVMTemplates := (\<lambda>w. Some [example_template_vm]),
      tpl_GetVMTemplateConfig := (\<lambda>w i. Some (Some example_template_config))\<rparr>"

definition example_built_pool :: "unit template_pool" where
  "example_built_pool = \<lparr>tp_GetRegions = [''r''], tp_GetProxmoxCluster = (\<lambda>region. Some example_built_api)\<rparr>"

theorem template_create_idempotent_witness:
  "createTemplate example_template_lib example_built_pool example_template ''i-4.raw'' ''r'' ''node-1''
     (example_storage ''a'') (example_storage ''b'') (SyncInstanceTemplates example_template_lib example_built_pool [''r''] example_templates) =
   (Inr (cr_VMID example_template_vm), SyncInstanceTemplates example_template_lib example_built_pool [''r''] example_templates)"
proof (rule template_create_idempotent [where cl = example_built_api and vms = "[example_template_vm]"
      and cfg = example_template_config and k = "''scsi0''" and disk = "''a:base-1000-disk-0''"])
  show "digit_value d \<noteq> None" if "d \<in> set (template_Hash example_template_lib example_template)" for d
    using that by (auto simp: template_Hash_def example_template_lib_def digit_value_def)
qed (simp_all add: example_built_pool_def example_built_api_def cache_ok_def example_templates_def example_template_vm_def
    example_template_def example_template_config_def example_template_lib_def description_text_def template_Hash_def HasPrefix_def)

end
