(* ===== verification/Instance.thy ===== *)
theory Instance
  imports CloudInit InstanceTemplate
begin

text \<open>
  The instance provider (\<open>src/pkg/providers/instance/{instance,instance_utils,instance_network,
  instance_placement,instance_cloudinit}.go\<close>): creating a VM in the best zone, with the steps of
  its set-up and the clean-up after a failure, deleting it, and keeping it up to date.

  Its state are the books of the capacity provider, the address pools and the cluster, a state \<open>'w\<close>
  that the calls of the Proxmox client (a record of functions) read and change. Requirements and
  offerings are those of karpenter (see \<open>InstanceTypes\<close>), the random permutation of the zones is a
  parameter.
\<close>

section \<open>What the code calls\<close>

record vm_info =
  vi_machine :: VirtualMachine
  vi_network :: vm_network
  vi_Node :: string
  vi_CPU :: string
  vi_Tags :: string

record FirewallRule =
  fw_Enable :: int
  fw_Pos :: nat
  fw_Type :: string
  fw_Action :: string
  fw_Iface :: string

record VMCloneRequest =
  NewID :: int
  clone_Node :: string
  clone_Name :: string
  Description :: string
  Full :: int
  clone_Pool :: string
  clone_Storage :: string
  clone_CPU :: int
  CPUAffinity :: string
  clone_NUMANodes :: "(int, NUMANodeState) go_map"
  clone_Memory :: "32 word"
  DiskSize :: string
  clone_Tags :: string
  clone_InstanceType :: string

record 'w instance_api =
  px_GetNextID :: "'w \<Rightarrow> int \<Rightarrow> int option"
  px_GetVMByID :: "'w \<Rightarrow> uint64 \<Rightarrow> api_error + ClusterResource"
  px_GetVMConfig :: "'w \<Rightarrow> int \<Rightarrow> vm_info option"
  px_Node :: "'w \<Rightarrow> string \<Rightarrow> bool"
  px_VirtualMachine :: "'w \<Rightarrow> string \<Rightarrow> int \<Rightarrow> vm_info option"
  px_CloneVM :: "'w \<Rightarrow> int \<Rightarrow> VMCloneRequest \<Rightarrow> (int \<times> bool) \<times> 'w"
  px_SetConfig :: "'w \<Rightarrow> int \<Rightarrow> (string \<times> string) list \<Rightarrow> bool \<times> 'w"
  px_RegenerateVMCloudInit :: "'w \<Rightarrow> string \<Rightarrow> int \<Rightarrow> bool \<times> 'w"
  px_CreateVMFirewallRules :: "'w \<Rightarrow> int \<Rightarrow> string \<Rightarrow> FirewallRule list \<Rightarrow> bool \<times> 'w"
  px_UpdateVMFirewallRules :: "'w \<Rightarrow> int \<Rightarrow> string \<Rightarrow> FirewallRule list \<Rightarrow> bool \<times> 'w"
  px_CloudInit :: "'w \<Rightarrow> string \<Rightarrow> int \<Rightarrow> string \<times> string \<times> string \<times> string \<Rightarrow> bool \<times> 'w"
  px_UnmountCloudInitISO :: "'w \<Rightarrow> string \<Rightarrow> int \<Rightarrow> bool \<times> 'w"
  px_RemoveTag :: "'w \<Rightarrow> string \<Rightarrow> int \<Rightarrow> string \<Rightarrow> 'w"
  px_StartVMByID :: "'w \<Rightarrow> string \<Rightarrow> int \<Rightarrow> vm_info option \<times> 'w"
  px_DeleteVMByID :: "'w \<Rightarrow> string \<Rightarrow> int \<Rightarrow> api_error option \<times> 'w"
  px_PoolMembers :: "'w \<Rightarrow> string \<Rightarrow> uint64 list option"
  px_PoolUpdate :: "'w \<Rightarrow> string \<Rightarrow> bool \<Rightarrow> string \<Rightarrow> bool \<times> 'w"

record 'w instance_env =
  ie_cluster :: "string \<Rightarrow> 'w instance_api option"
  ie_ProxmoxVMID :: int
  ie_parse :: "string \<Rightarrow> CPUSet option"
  ie_render :: "CPUSet \<Rightarrow> string"
  ie_unmarshal :: "string \<Rightarrow> VMNUMA option"
  ie_syn :: net_syntax
  ie_kube :: "'w kube_api"
  ie_quantity :: "rat \<Rightarrow> string"
  ie_uuid :: "int \<Rightarrow> string"
  ie_cpu_type :: "string \<Rightarrow> string"
  ie_perm :: "nat \<Rightarrow> nat list"
  ie_cloudinit_tag :: string

record 'w instances =
  in_capacity :: cloudProvider
  in_ipam :: nodeIpam
  in_annotations :: "(string, string) go_map"
  in_world :: 'w

record 'r NodeClaim =
  claim_Name :: string
  claim_Requirements :: 'r
  claim_Labels :: "(string, string) go_map"
  claim_Annotations :: "(string, string) go_map"
  claim_ProviderID :: string
  claim_Capacity :: resource_list
  claim_Allocatable :: resource_list
  claim_NodeClassRef :: "string option"
  claim_Requests :: resource_list
  claim_NodeName :: string
  claim_ImageID :: string
  claim_Deleting :: bool
  claim_Initialized :: bool

record node_object =
  node_Name :: string
  node_Labels :: "(string, string) go_map"
  node_ProviderID :: string
  node_Taints :: "string list"
  node_Ready :: "bool option"
  node_Capacity :: resource_list
  node_Allocatable :: resource_list
  node_Architecture :: string
  node_OperatingSystem :: string

datatype instance_error =
    RegionNotFound
  | NoFreeID
  | NoVMTemplate
  | NoStorageDevice
  | NilBootSize
  | ReserveFailed capacity_error
  | CloneFailed
  | NetworkFailed network_error
  | FirewallFailed
  | NoNode
  | NoVM
  | CloudInitFailed cloudinit_error
  | AttachFailed
  | DetachFailed
  | StartFailed
  | BadProviderID provider_error
  | NodeClaimNotFound
  | GetFailed
  | GetVMFailed api_error
  | NoConfig
  | DeleteFailed api_error
  | NoTemplatesIn string string
  | NoRegions string
  | AllTypesFailed "instance_error list"
  | PoolFailed string

section \<open>Placement\<close>

definition maxFloat64 :: rat where
  "maxFloat64 = (2 ^ 53 - 1) * 2 ^ 971"

definition cheapest :: "rat list \<Rightarrow> rat" where
  "cheapest prices = (case prices of [] \<Rightarrow> maxFloat64 | p # ps \<Rightarrow> foldl min p ps)"

definition type_price :: "'r scheduling \<Rightarrow> 'r \<Rightarrow> 'r InstanceType \<Rightarrow> rat" where
  "type_price sch reqs it = cheapest (map of_Price (Compatible sch reqs (Available (it_Offerings it))))"

definition price_less :: "'r scheduling \<Rightarrow> 'r \<Rightarrow> 'r InstanceType \<Rightarrow> 'r InstanceType \<Rightarrow> bool" where
  "price_less sch reqs a b \<longleftrightarrow>
     (if type_price sch reqs a = type_price sch reqs b then string_less (it_Name a) (it_Name b)
      else type_price sch reqs a < type_price sch reqs b)"

definition orderInstanceTypesByPrice :: "'r scheduling \<Rightarrow> 'r \<Rightarrow> 'r InstanceType list \<Rightarrow> 'r InstanceType list" where
  "orderInstanceTypesByPrice sch reqs its = sort_slice (price_less sch reqs) its"

definition uniq :: "'a list \<Rightarrow> 'a list" where
  "uniq xs = rev (remdups (rev xs))"

definition getValuesByKey :: "'r scheduling \<Rightarrow> 'r InstanceType \<Rightarrow> string \<Rightarrow> string list \<Rightarrow> string list" where
  "getValuesByKey sch it key defaults =
     (let offers = Available (it_Offerings it);
          offers' = (if defaults = [] then offers else Compatible sch (sch_New sch [(key, OpIn, defaults)]) offers)
      in uniq (concat (map (\<lambda>x. let res = sch_Values sch (of_Requirements x) key in if res = [] then defaults else res)
           (Available offers'))))"

definition getCapacityType :: "'r scheduling \<Rightarrow> 'r NodeClaim \<Rightarrow> 'r InstanceType \<Rightarrow> string \<Rightarrow> string \<Rightarrow> string" where
  "getCapacityType sch claim it region zone =
     (let reqs = sch_Set sch (sch_Set sch (claim_Requirements claim) LabelTopologyRegion [region]) LabelTopologyZone [zone];
          cts = sch_Values sch reqs CapacityTypeLabelKey;
          offered = (\<lambda>ct. Compatible sch (sch_Set sch reqs CapacityTypeLabelKey [ct]) (Available (it_Offerings it)) \<noteq> [])
      in if ''reserved'' \<in> set cts \<and> offered ''reserved'' then ''reserved''
         else if ''spot'' \<in> set cts \<and> offered ''spot'' then ''spot''
         else ''on-demand'')"

text \<open>\<open>sortedZones[v] = zones[i]\<close> for the values \<open>v\<close> of a permutation.\<close>

definition shuffle_zones :: "nat list \<Rightarrow> string list \<Rightarrow> string list" where
  "shuffle_zones perm zones =
     foldl (\<lambda>sorted (i, v). sorted[v := zones ! i]) (replicate (length zones) []) (enumerate 0 perm)"

definition sortBestZoneByPlacementStrategy ::
  "(nat \<Rightarrow> nat list) \<Rightarrow> cloudProvider \<Rightarrow> string option \<Rightarrow> string \<Rightarrow> string list \<Rightarrow> string list" where
  "sortBestZoneByPlacementStrategy perm cap strategy region zones =
     (if length zones = 1 then zones
      else if (case strategy of None \<Rightarrow> ''Balanced'' | Some balance \<Rightarrow> balance) = ''AvailabilityFirst''
      then shuffle_zones (perm (length zones)) zones
      else SortZonesByCPULoad cap region zones)"

section \<open>Set-up of a VM\<close>

definition instanceNetworkSetup ::
  "'w instance_env \<Rightarrow> string \<Rightarrow> string \<Rightarrow> int \<Rightarrow> 'w instances \<Rightarrow> network_error option \<times> 'w instances" where
  "instanceNetworkSetup env region zone vmID s =
     (case ie_cluster env region of
        None \<Rightarrow> (Some NoCluster, s)
      | Some px \<Rightarrow>
          (case px_GetVMConfig px (in_world s) vmID of
             None \<Rightarrow> (Some NoVMConfig, s)
           | Some vm \<Rightarrow>
               let ifaces = (case GetNetwork (in_capacity s) region zone [] of None \<Rightarrow> [] | Some n \<Rightarrow> Ifaces n);
                   net = GetNetworkConfigFromVirtualMachineConfig (ie_syn env) (vi_network vm) ifaces
               in (case generateNetworkIPs (ie_syn env) (Interfaces net) (in_ipam s) of
                     (Inl e, ipam1) \<Rightarrow> (Some e, s\<lparr>in_ipam := ipam1\<rparr>)
                   | (Inr ifs, ipam1) \<Rightarrow>
                       (case SetNetworkConfig (ie_syn env) (net\<lparr>Interfaces := ifs\<rparr>) of
                          Inl e \<Rightarrow> (Some e, s\<lparr>in_ipam := ipam1\<rparr>)
                        | Inr opts \<Rightarrow>
                            (case px_SetConfig px (in_world s) vmID opts of
                               (False, w) \<Rightarrow> (Some ConfigRejected, s\<lparr>in_ipam := ipam1, in_world := w\<rparr>)
                             | (True, w) \<Rightarrow>
                                 if list_ex (\<lambda>(k, iso). Contains iso ''cloudinit'') (MergeIDEs (vi_network vm))
                                 then (case px_RegenerateVMCloudInit px w (vi_Node vm) vmID of
                                         (ok, w') \<Rightarrow> (if ok then None else Some RegenerateFailed,
                                            s\<lparr>in_ipam := ipam1, in_world := w'\<rparr>))
                                 else (None, s\<lparr>in_ipam := ipam1, in_world := w\<rparr>))))))"

definition firewall_rules :: "SecurityGroup list \<Rightarrow> FirewallRule list" where
  "firewall_rules groups = map (\<lambda>(i, sg). \<lparr>fw_Enable = 1, fw_Pos = i, fw_Type = ''group'', fw_Action = sg_Name sg,
     fw_Iface = sg_Interface sg\<rparr>) (enumerate 0 groups)"

definition attachCloudInitISO ::
  "'w instance_env \<Rightarrow> 'r NodeClaim \<Rightarrow> ProxmoxNodeClass \<Rightarrow> 'r InstanceType \<Rightarrow> string \<Rightarrow> string \<Rightarrow> int \<Rightarrow> 'w instances
   \<Rightarrow> instance_error option \<times> 'w instances" where
  "attachCloudInitISO env claim cls it region zone vmID s =
     (case ie_cluster env region of
        None \<Rightarrow> (Some RegionNotFound, s)
      | Some px \<Rightarrow>
          if \<not> px_Node px (in_world s) zone then (Some NoNode, s)
          else (case px_VirtualMachine px (in_world s) zone vmID of
                  None \<Rightarrow> (Some NoVM, s)
                | Some vm \<Rightarrow>
                    (case generateCloudInitVars (ie_kube env) (ie_syn env) (ie_quantity env) (ie_uuid env) (in_capacity s)
                            (claim_Name claim) (in_annotations s) cls it region zone (px_VMID (vi_machine vm)) (vi_network vm) (in_world s) of
                       (Inl e, ann, w) \<Rightarrow> (Some (CloudInitFailed e), s\<lparr>in_annotations := ann, in_world := w\<rparr>)
                     | (Inr docs, ann, w) \<Rightarrow>
                         (case px_CloudInit px w ''ide2'' vmID docs of
                            (ok, w') \<Rightarrow> (if ok then None else Some AttachFailed, s\<lparr>in_annotations := ann, in_world := w'\<rparr>)))))"

definition detachCloudInitISO ::
  "'w instance_env \<Rightarrow> string \<Rightarrow> string \<Rightarrow> int \<Rightarrow> 'w instances \<Rightarrow> instance_error option \<times> 'w instances" where
  "detachCloudInitISO env region zone vmID s =
     (case ie_cluster env region of
        None \<Rightarrow> (Some RegionNotFound, s)
      | Some px \<Rightarrow>
          if \<not> px_Node px (in_world s) zone then (Some NoNode, s)
          else (case px_VirtualMachine px (in_world s) zone vmID of
                  None \<Rightarrow> (Some NoVM, s)
                | Some vm \<Rightarrow>
                    if ie_cloudinit_tag env \<in> set (Split (vi_Tags vm) (CHR '';''))
                    then (case px_UnmountCloudInitISO px (in_world s) ''ide2'' vmID of
                            (False, w) \<Rightarrow> (Some DetachFailed, s\<lparr>in_world := w\<rparr>)
                          | (True, w) \<Rightarrow> (None, s\<lparr>in_world := px_RemoveTag px w zone vmID (ie_cloudinit_tag env)\<rparr>))
                    else (None, s)))"

text \<open>The steps from the network to the start of the cloned VM; the first failure ends them.\<close>

definition instance_setup ::
  "'w instance_env \<Rightarrow> 'w instance_api \<Rightarrow> 'r NodeClaim \<Rightarrow> ProxmoxNodeClass \<Rightarrow> 'r InstanceType \<Rightarrow> string \<Rightarrow> string \<Rightarrow> int
   \<Rightarrow> 'w instances \<Rightarrow> (instance_error + vm_info) \<times> 'w instances" where
  "instance_setup env px claim cls it region zone newID s =
     (case instanceNetworkSetup env region zone newID s of
        (Some e, s1) \<Rightarrow> (Inl (NetworkFailed e), s1)
      | (None, s1) \<Rightarrow>
          (case (if SecurityGroups cls = [] then (True, in_world s1)
                 else px_CreateVMFirewallRules px (in_world s1) newID zone (firewall_rules (SecurityGroups cls))) of
             (False, w) \<Rightarrow> (Inl FirewallFailed, s1\<lparr>in_world := w\<rparr>)
           | (True, w) \<Rightarrow>
               (case (if mo_Type (class_MetadataOptions cls) = ''cdrom''
                      then attachCloudInitISO env claim cls it region zone newID (s1\<lparr>in_world := w\<rparr>)
                      else (None, s1\<lparr>in_world := w\<rparr>)) of
                  (Some e, s2) \<Rightarrow> (Inl e, s2)
                | (None, s2) \<Rightarrow>
                    (case px_StartVMByID px (in_world s2) zone newID of
                       (None, w') \<Rightarrow> (Inl StartFailed, s2\<lparr>in_world := w'\<rparr>)
                     | (Some vm, w') \<Rightarrow> (Inr vm, s2\<lparr>in_world := w'\<rparr>)))))"

text \<open>The deferred function of \<open>instanceCreate\<close>, after an error.\<close>

definition create_cleanup ::
  "'w instance_api \<Rightarrow> string \<Rightarrow> string \<Rightarrow> int \<Rightarrow> VMResources option \<Rightarrow> 'w instances \<Rightarrow> 'w instances" where
  "create_cleanup px region zone newID opt s =
     (if newID = 0 then s
      else let cap = (case ReleaseCapacityInZone (in_capacity s) region zone opt of Inl e \<Rightarrow> in_capacity s | Inr (cap', _) \<Rightarrow> cap')
           in s\<lparr>in_capacity := cap, in_world := snd (px_DeleteVMByID px (in_world s) zone newID)\<rparr>)"

section \<open>Creation\<close>

definition instance_request :: "int \<Rightarrow> resource_list \<Rightarrow> rat \<Rightarrow> string \<Rightarrow> VMResources" where
  "instance_request newID capacity boot storage =
     \<lparr>vm_ID = newID, vm_CPUs = \<lceil>quantity capacity ResourceCPU\<rceil>, Affinity = [],
      Memory = word_of_int \<lceil>quantity capacity ResourceMemory\<rceil>,
      DiskGBytes = word_of_int (max \<lceil>boot / 10 ^ 9\<rceil> \<lceil>quantity capacity ResourceEphemeralStorage / 10 ^ 9\<rceil>),
      StorageID = storage, vm_CPUSet = {}, vm_NUMANodes = []\<rparr>"

definition instance_description :: "(CPUSet \<Rightarrow> string) \<Rightarrow> string \<Rightarrow> string \<Rightarrow> CPUSet \<Rightarrow> string" where
  "instance_description render cls_name capacityType cpus =
     Join ([''Karpenter managed instance'', ''class='' @ cls_name, ''capacity-type='' @ capacityType] @
           (if IsEmpty cpus then [] else [''affinity='' @ render cpus])) '', ''"

definition clone_request ::
  "'w instance_env \<Rightarrow> ProxmoxNodeClass \<Rightarrow> string \<Rightarrow> string \<Rightarrow> string \<Rightarrow> string \<Rightarrow> string \<Rightarrow> int \<Rightarrow> VMResources
   \<Rightarrow> VMCloneRequest" where
  "clone_request env cls claim type_name capacityType zone storage newID opt =
     \<lparr>NewID = newID, clone_Node = zone, clone_Name = claim,
      Description = instance_description (ie_render env) (class_Name cls) capacityType (vm_CPUSet opt),
      Full = 1, clone_Pool = class_ResourcePool cls, clone_Storage = storage, clone_CPU = vm_CPUs opt,
      CPUAffinity = ie_render env (vm_CPUSet opt), clone_NUMANodes = vm_NUMANodes opt,
      clone_Memory = ucast (Memory opt div 1024 div 1024), DiskSize = show_nat (unat (DiskGBytes opt)) @ ''G'',
      clone_Tags = Join (class_Tags cls) '';'', clone_InstanceType = type_name\<rparr>"

definition created_node ::
  "'w instance_env \<Rightarrow> string \<Rightarrow> string \<Rightarrow> string \<Rightarrow> string \<Rightarrow> string \<Rightarrow> int \<Rightarrow> vm_info \<Rightarrow> node_object" where
  "created_node env claim type_name capacityType region zone newID vm =
     \<lparr>node_Name = claim,
      node_Labels = [(LabelTopologyRegion, region), (LabelTopologyZone, zone), (LabelInstanceTypeStable, type_name),
        (CapacityTypeLabelKey, capacityType), (LabelInstanceFamily, hd (Split type_name (CHR ''.''))),
        (LabelInstanceCPUType, ie_cpu_type env (vi_CPU vm))],
      node_ProviderID = GetProviderID region newID, node_Taints = [''karpenter.sh/unregistered''], node_Ready = None,
      node_Capacity = [], node_Allocatable = [], node_Architecture = ''amd64'', node_OperatingSystem = ''linux''\<rparr>"

definition instanceCreate ::
  "'w instance_env \<Rightarrow> 'r scheduling \<Rightarrow> 'r NodeClaim \<Rightarrow> ProxmoxNodeClass \<Rightarrow> InstanceTemplateInfo \<Rightarrow> 'r InstanceType
   \<Rightarrow> string \<Rightarrow> string \<Rightarrow> 'w instances \<Rightarrow> (instance_error + node_object) \<times> 'w instances" where
  "instanceCreate env sch claim cls tpl it region zone s =
     (case ie_cluster env region of
        None \<Rightarrow> (Inl RegionNotFound, s)
      | Some px \<Rightarrow>
          (case px_GetNextID px (in_world s) (ie_ProxmoxVMID env) of
             None \<Rightarrow> (Inl NoFreeID, s)
           | Some newID \<Rightarrow>
               let storage = (if bd_Storage (BootDevice cls) \<noteq> [] then bd_Storage (BootDevice cls) else TemplateStorageID tpl)
               in if TemplateID tpl = 0 then (Inl NoVMTemplate, s)
                  else if storage = [] then (Inl NoStorageDevice, s)
                  else (case bd_Size (BootDevice cls) of
                     None \<Rightarrow> (Inl NilBootSize, s)
                   | Some boot \<Rightarrow>
                       (case AllocateCapacityInZone (in_capacity s) region zone
                               (Some (instance_request newID (it_Capacity it) boot storage)) of
                          Inl e \<Rightarrow> (Inl (ReserveFailed e), s)
                        | Inr (cap, opt) \<Rightarrow>
                            let capacityType = getCapacityType sch claim it region zone;
                                request = clone_request env cls (claim_Name claim) (it_Name it) capacityType zone storage newID (the opt)
                            in (case px_CloneVM px (in_world s) (sint (TemplateID tpl)) request of
                                  ((vmID, ok), w) \<Rightarrow>
                                    let s1 = s\<lparr>in_capacity := cap, in_world := w\<rparr>
                                    in (case (if ok then instance_setup env px claim cls it region zone vmID s1
                                              else (Inl CloneFailed, s1)) of
                                          (Inl e, s2) \<Rightarrow> (Inl e, create_cleanup px region zone vmID opt s2)
                                        | (Inr vm, s2) \<Rightarrow>
                                            (Inr (created_node env (claim_Name claim) (it_Name it) capacityType region zone vmID vm), s2)))))))"

section \<open>The search for a place\<close>

type_synonym search = "instance_error list \<times> node_object option"

fun create_in_zones ::
  "'w instance_env \<Rightarrow> 'r scheduling \<Rightarrow> (string \<Rightarrow> InstanceTemplateInfo list) \<Rightarrow> 'r NodeClaim \<Rightarrow> ProxmoxNodeClass \<Rightarrow> 'r InstanceType
   \<Rightarrow> string \<Rightarrow> string list \<Rightarrow> 'w instances \<Rightarrow> search \<times> 'w instances" where
  "create_in_zones env sch templates claim cls it region [] s = (([], None), s)"
| "create_in_zones env sch templates claim cls it region (zone # zones) s =
     (case templates zone of
        [] \<Rightarrow>
          (case create_in_zones env sch templates claim cls it region zones s of
             ((errs, found), s') \<Rightarrow> ((NoTemplatesIn region zone # errs, found), s'))
      | tpl # _ \<Rightarrow>
          (case instanceCreate env sch claim cls tpl it region zone s of
             (Inr node, s1) \<Rightarrow>
               (([], Some (node\<lparr>node_Labels := go_update (node_Labels node) LabelInstanceImageID (TemplateHash tpl)\<rparr>)), s1)
           | (Inl e, s1) \<Rightarrow>
               (case create_in_zones env sch templates claim cls it region zones s1 of
                  ((errs, found), s') \<Rightarrow> ((e # errs, found), s'))))"

definition candidate_zones ::
  "'w instance_env \<Rightarrow> 'r scheduling \<Rightarrow> cloudProvider \<Rightarrow> 'r NodeClaim \<Rightarrow> ProxmoxNodeClass \<Rightarrow> 'r InstanceType \<Rightarrow> string \<Rightarrow> string list" where
  "candidate_zones env sch cap claim cls it region =
     (let wanted = sch_Values sch (claim_Requirements claim) LabelTopologyZone;
          zones = getValuesByKey sch it LabelTopologyZone
                    (if wanted = [] then GetAvailableZonesInRegion cap region (as_request (it_Capacity it)) else wanted)
      in if zones = [] then []
         else sortBestZoneByPlacementStrategy (ie_perm env) cap (PlacementStrategy cls) region (Intersect zones (GetZones cls region)))"

fun create_in_regions ::
  "'w instance_env \<Rightarrow> 'r scheduling \<Rightarrow> 'v template_pool \<Rightarrow> 'v templates \<Rightarrow> 'r NodeClaim \<Rightarrow> ProxmoxNodeClass \<Rightarrow> 'r InstanceType
   \<Rightarrow> string list \<Rightarrow> 'w instances \<Rightarrow> search \<times> 'w instances" where
  "create_in_regions env sch tpool tp claim cls it [] s = (([], None), s)"
| "create_in_regions env sch tpool tp claim cls it (region # regions) s =
     (case create_in_zones env sch
             (\<lambda>zone. templates_ListWithFilter tpool tp (\<lambda>c. ti_Region c = region \<and> ti_Zone c = zone \<and>
                TemplateID c \<in> set (GetTemplateIDs cls region)))
             claim cls it region (candidate_zones env sch (in_capacity s) claim cls it region) s of
        ((errs, Some node), s1) \<Rightarrow> ((errs, Some node), s1)
      | ((errs, None), s1) \<Rightarrow>
          (case create_in_regions env sch tpool tp claim cls it regions s1 of
             ((errs', found), s') \<Rightarrow> ((errs @ errs', found), s')))"

definition candidate_regions :: "'r scheduling \<Rightarrow> cloudProvider \<Rightarrow> ProxmoxNodeClass \<Rightarrow> 'r InstanceType \<Rightarrow> string list" where
  "candidate_regions sch cap cls it =
     (if class_Region cls \<noteq> [] then [class_Region cls] else getValuesByKey sch it LabelTopologyRegion (Regions cap))"

fun create_from_types ::
  "'w instance_env \<Rightarrow> 'r scheduling \<Rightarrow> 'v template_pool \<Rightarrow> 'v templates \<Rightarrow> 'r NodeClaim \<Rightarrow> ProxmoxNodeClass \<Rightarrow> 'r InstanceType list
   \<Rightarrow> 'w instances \<Rightarrow> search \<times> 'w instances" where
  "create_from_types env sch tpool tp claim cls [] s = (([], None), s)"
| "create_from_types env sch tpool tp claim cls (it # its) s =
     (case create_in_regions env sch tpool tp claim cls it (candidate_regions sch (in_capacity s) cls it) s of
        ((errs, Some node), s1) \<Rightarrow> ((errs, Some node), s1)
      | ((errs, None), s1) \<Rightarrow>
          (case create_from_types env sch tpool tp claim cls its s1 of
             ((errs', found), s') \<Rightarrow> ((errs @ NoRegions (it_Name it) # errs', found), s')))"

definition instances_Create ::
  "'w instance_env \<Rightarrow> 'r scheduling \<Rightarrow> 'v template_pool \<Rightarrow> 'v templates \<Rightarrow> 'r NodeClaim \<Rightarrow> ProxmoxNodeClass \<Rightarrow> 'r InstanceType list
   \<Rightarrow> 'w instances \<Rightarrow> (instance_error + node_object) \<times> 'w instances" where
  "instances_Create env sch tpool tp claim cls its s =
     (case create_from_types env sch tpool tp claim cls (orderInstanceTypesByPrice sch (claim_Requirements claim) its)
             (s\<lparr>in_annotations := claim_Annotations claim\<rparr>) of
        ((errs, Some node), s') \<Rightarrow> (Inr node, s')
      | ((errs, None), s') \<Rightarrow> (Inl (AllTypesFailed errs), s'))"

section \<open>The other operations\<close>

definition GetVMByIDInRegion :: "'w instance_env \<Rightarrow> 'w \<Rightarrow> string \<Rightarrow> uint64 \<Rightarrow> (unit + api_error) + ClusterResource" where
  "GetVMByIDInRegion env w region vmid =
     (case ie_cluster env region of
        None \<Rightarrow> Inl (Inl ())
      | Some px \<Rightarrow> (case px_GetVMByID px w vmid of Inl e \<Rightarrow> Inl (Inr e) | Inr vm \<Rightarrow> Inr vm))"

definition instances_Get :: "'w instance_env \<Rightarrow> string \<Rightarrow> 'w instances \<Rightarrow> instance_error + node_object" where
  "instances_Get env providerID s =
     (case ParseProviderID providerID of
        Inl e \<Rightarrow> Inl (BadProviderID e)
      | Inr (vmid, region) \<Rightarrow>
          (case GetVMByIDInRegion env (in_world s) region (word_of_int vmid) of
             Inl (Inl _) \<Rightarrow> Inl RegionNotFound
           | Inl (Inr e) \<Rightarrow> Inl (GetVMFailed e)
           | Inr vm \<Rightarrow>
               Inr \<lparr>node_Name = cr_Name vm, node_Labels = [(LabelTopologyRegion, region), (LabelTopologyZone, cr_Node vm)],
                    node_ProviderID = [], node_Taints = [], node_Ready = Some (cr_Status vm \<noteq> ''stopped''),
                    node_Capacity = [], node_Allocatable = [], node_Architecture = ''amd64'', node_OperatingSystem = ''linux''\<rparr>))"

fun release_addresses :: "net_syntax \<Rightarrow> string list \<Rightarrow> nodeIpam \<Rightarrow> nodeIpam" where
  "release_addresses syn [] ipam = ipam"
| "release_addresses syn (cidr # cidrs) ipam = release_addresses syn cidrs (snd (ReleaseIP (net_lib.truncate syn) ipam cidr))"

definition instanceDelete ::
  "'w instance_env \<Rightarrow> 'r NodeClaim \<Rightarrow> string \<Rightarrow> string \<Rightarrow> ClusterResource \<Rightarrow> 'w instances \<Rightarrow> instance_error option \<times> 'w instances" where
  "instanceDelete env claim region zone vmr s =
     (case ie_cluster env region of
        None \<Rightarrow> (Some RegionNotFound, s)
      | Some px \<Rightarrow>
          (case px_GetVMConfig px (in_world s) (cr_VMID vmr) of
             None \<Rightarrow> (Some NoConfig, s)
           | Some vm \<Rightarrow>
               let opt = (case GetResourceFromVM (ie_parse env) (ie_render env) (ie_unmarshal env) (Some (vi_machine vm)) of
                            Inl e \<Rightarrow> \<lparr>vm_ID = cr_VMID vmr, vm_CPUs = \<lceil>quantity (claim_Capacity claim) ResourceCPU\<rceil>, Affinity = [],
                               Memory = word_of_int \<lceil>quantity (claim_Capacity claim) ResourceMemory\<rceil>, DiskGBytes = 0, StorageID = [],
                               vm_CPUSet = {}, vm_NUMANodes = []\<rparr>
                          | Inr opt \<Rightarrow> opt);
                   opt' = opt\<lparr>DiskGBytes := word_of_int \<lceil>quantity (claim_Capacity claim) ResourceEphemeralStorage / 10 ^ 9\<rceil>\<rparr>
               in (case px_DeleteVMByID px (in_world s) (cr_Node vmr) (cr_VMID vmr) of
                     (Some e, w) \<Rightarrow> (Some (DeleteFailed e), s\<lparr>in_world := w\<rparr>)
                   | (None, w) \<Rightarrow>
                       let net = GetNetworkConfigFromVirtualMachineConfig (ie_syn env) (vi_network vm) [];
                           ipam' = release_addresses (ie_syn env) (concat (map if_Address4 (Interfaces net))) (in_ipam s);
                           cap = (case ReleaseCapacityInZone (in_capacity s) region zone (Some opt') of
                                    Inl e \<Rightarrow> in_capacity s | Inr (cap', _) \<Rightarrow> cap')
                       in (None, s\<lparr>in_capacity := cap, in_ipam := ipam', in_world := w\<rparr>))))"

definition claim_region :: "'r NodeClaim \<Rightarrow> string \<Rightarrow> string" where
  "claim_region claim region = (if region = [] then go_lookup [] (claim_Labels claim) LabelTopologyRegion else region)"

definition instances_Delete :: "'w instance_env \<Rightarrow> 'r NodeClaim \<Rightarrow> 'w instances \<Rightarrow> instance_error option \<times> 'w instances" where
  "instances_Delete env claim s =
     (case ParseProviderID (claim_ProviderID claim) of
        Inl e \<Rightarrow> (Some (BadProviderID e), s)
      | Inr (vmid, region0) \<Rightarrow>
          let region = claim_region claim region0
          in (case GetVMByIDInRegion env (in_world s) region (word_of_int vmid) of
                Inl (Inr VirtualMachineNotFound) \<Rightarrow> (Some NodeClaimNotFound, s)
              | Inl _ \<Rightarrow> (Some GetFailed, s)
              | Inr vmr \<Rightarrow>
                  instanceDelete env claim region
                    (if cr_Node vmr = [] then go_lookup [] (claim_Labels claim) LabelTopologyZone else cr_Node vmr) vmr s))"

definition with_cluster ::
  "'w instance_env \<Rightarrow> 'r NodeClaim \<Rightarrow> ('w instance_api \<Rightarrow> int \<Rightarrow> string \<Rightarrow> 'w instances \<Rightarrow> instance_error option \<times> 'w instances)
   \<Rightarrow> 'w instances \<Rightarrow> instance_error option \<times> 'w instances" where
  "with_cluster env claim act s =
     (case ParseProviderID (claim_ProviderID claim) of
        Inl e \<Rightarrow> (Some (BadProviderID e), s)
      | Inr (vmid, region0) \<Rightarrow>
          (case ie_cluster env (claim_region claim region0) of
             None \<Rightarrow> (Some RegionNotFound, s)
           | Some px \<Rightarrow> act px vmid (go_lookup [] (claim_Labels claim) LabelTopologyZone) s))"

definition UpdateFirewallRules ::
  "'w instance_env \<Rightarrow> 'r NodeClaim \<Rightarrow> ProxmoxNodeClass \<Rightarrow> 'w instances \<Rightarrow> instance_error option \<times> 'w instances" where
  "UpdateFirewallRules env claim cls s =
     with_cluster env claim (\<lambda>px vmid zone s.
       case px_UpdateVMFirewallRules px (in_world s) vmid zone (firewall_rules (SecurityGroups cls)) of
         (ok, w) \<Rightarrow> (if ok then None else Some FirewallFailed, s\<lparr>in_world := w\<rparr>)) s"

text \<open>The result of setting the tags is not looked at.\<close>

definition UpdateTags ::
  "'w instance_env \<Rightarrow> 'r NodeClaim \<Rightarrow> ProxmoxNodeClass \<Rightarrow> 'w instances \<Rightarrow> instance_error option \<times> 'w instances" where
  "UpdateTags env claim cls s =
     with_cluster env claim (\<lambda>px vmid zone s.
       if \<not> px_Node px (in_world s) zone then (Some NoNode, s)
       else (case px_VirtualMachine px (in_world s) zone vmid of
               None \<Rightarrow> (Some NoVM, s)
             | Some vm \<Rightarrow>
                 let tags = sort_slice string_less (uniq (class_Tags cls)) @
                       (if ie_cloudinit_tag env \<in> set (Split (vi_Tags vm) (CHR '';'')) then [ie_cloudinit_tag env] else [])
                 in (None, if Split (vi_Tags vm) (CHR '';'') = tags then s
                           else s\<lparr>in_world := snd (px_SetConfig px (in_world s) vmid [(''tags'', Join tags '';'')])\<rparr>))) s"

definition leave_pool ::
  "'w instance_api \<Rightarrow> int \<Rightarrow> string \<Rightarrow> 'w instances \<Rightarrow> instance_error option \<times> 'w instances" where
  "leave_pool px vmid pool s =
     (case px_PoolMembers px (in_world s) pool of
        None \<Rightarrow> (Some (PoolFailed pool), s)
      | Some members \<Rightarrow>
          if word_of_int vmid \<in> set members
          then (case px_PoolUpdate px (in_world s) pool True (show_int vmid) of
                  (ok, w) \<Rightarrow> (if ok then None else Some (PoolFailed pool), s\<lparr>in_world := w\<rparr>))
          else (None, s))"

definition join_pool ::
  "'w instance_api \<Rightarrow> int \<Rightarrow> string \<Rightarrow> 'w instances \<Rightarrow> instance_error option \<times> 'w instances" where
  "join_pool px vmid pool s =
     (case px_PoolMembers px (in_world s) pool of
        None \<Rightarrow> (Some (PoolFailed pool), s)
      | Some members \<Rightarrow>
          if word_of_int vmid \<in> set members then (None, s)
          else (case px_PoolUpdate px (in_world s) pool False (show_int vmid) of
                  (ok, w) \<Rightarrow> (if ok then None else Some (PoolFailed pool), s\<lparr>in_world := w\<rparr>)))"

definition UpdatePoolMembership ::
  "'w instance_env \<Rightarrow> 'r NodeClaim \<Rightarrow> ProxmoxNodeClass \<Rightarrow> 'w instances \<Rightarrow> instance_error option \<times> 'w instances" where
  "UpdatePoolMembership env claim cls s =
     with_cluster env claim (\<lambda>px vmid zone s.
       let pool = class_ResourcePool cls; old = go_lookup [] (claim_Annotations claim) AnnotationProxmoxNodeClassPool
       in (case (if pool \<noteq> old \<and> old \<noteq> [] then leave_pool px vmid old s else (None, s)) of
             (Some e, s1) \<Rightarrow> (Some e, s1)
           | (None, s1) \<Rightarrow> if pool = [] then (None, s1) else join_pool px vmid pool s1)) s"

definition DetachCloudInit :: "'w instance_env \<Rightarrow> 'r NodeClaim \<Rightarrow> 'w instances \<Rightarrow> instance_error option \<times> 'w instances" where
  "DetachCloudInit env claim s =
     (case ParseProviderID (claim_ProviderID claim) of
        Inl e \<Rightarrow> (Some (BadProviderID e), s)
      | Inr (vmid, region) \<Rightarrow>
          (case detachCloudInitISO env region (go_lookup [] (claim_Labels claim) LabelTopologyZone) vmid s of
             (Some e, s1) \<Rightarrow> (Some DetachFailed, s1)
           | (None, s1) \<Rightarrow> (None, s1)))"

end
