(* ===== verification/InstanceLifecycle.thy ===== *)
theory InstanceLifecycle
  imports Instance
begin

text \<open>
  The life of a VM across the components: what a creation that fails or succeeds does to the books
  of the capacity provider, that deleting a VM undoes its creation, and what is written into its
  description.
\<close>

section \<open>Capacity after a failed or successful creation\<close>

text \<open>The set-up of a VM never touches the books.\<close>

lemma instanceNetworkSetup_capacity:
  "instanceNetworkSetup env region zone vmID s = (e, s') \<Longrightarrow> in_capacity s' = in_capacity s"
  by (auto simp: instanceNetworkSetup_def Let_def split: option.splits sum.splits prod.splits if_splits bool.splits)

lemma attachCloudInitISO_capacity:
  "attachCloudInitISO env claim cls it region zone vmID s = (e, s') \<Longrightarrow> in_capacity s' = in_capacity s"
  by (auto simp: attachCloudInitISO_def split: option.splits sum.splits prod.splits if_splits)

lemma instance_setup_capacity:
  assumes "instance_setup env px claim cls it region zone newID s = (r, s')"
  shows "in_capacity s' = in_capacity s"
proof -
  obtain e s1 where n: "instanceNetworkSetup env region zone newID s = (e, s1)" by fastforce
  obtain ok w where f: "(if SecurityGroups cls = [] then (True, in_world s1)
      else px_CreateVMFirewallRules px (in_world s1) newID zone (firewall_rules (SecurityGroups cls))) = (ok, w)" by fastforce
  obtain e2 s2 where a: "(if mo_Type (class_MetadataOptions cls) = ''cdrom''
      then attachCloudInitISO env claim cls it region zone newID (s1\<lparr>in_world := w\<rparr>)
      else (None, s1\<lparr>in_world := w\<rparr>)) = (e2, s2)" by fastforce
  have "in_capacity s1 = in_capacity s" using instanceNetworkSetup_capacity [OF n] .
  moreover have "in_capacity s2 = in_capacity s1"
    using a by (auto dest: attachCloudInitISO_capacity split: if_splits)
  ultimately show ?thesis
    using assms n f a by (auto simp: instance_setup_def split: option.splits bool.splits prod.splits)
qed

text \<open>
  The books are in order, and what the client must do for it: a free id is not 0 (ids of Proxmox start
  at 100). Nothing is assumed of a clone: it may fail, and return any id beside the error.
\<close>

definition books_ok :: "cloudProvider \<Rightarrow> bool" where
  "books_ok cap \<longleftrightarrow> provider_inv cap \<and>
     list_all (\<lambda>(key, info). case nc_ResourceManager info of None \<Rightarrow> True | Some r \<Rightarrow> node_books (rm_nodePolicy r)) (capacityInfo cap)"

definition client_laws :: "'w instance_env \<Rightarrow> bool" where
  "client_laws env \<longleftrightarrow>
     (\<forall>region px. ie_cluster env region = Some px \<longrightarrow> (\<forall>w i. px_GetNextID px w i \<noteq> Some 0))"

definition type_ok :: "'r InstanceType \<Rightarrow> bool" where
  "type_ok it \<longleftrightarrow> 0 \<le> quantity (it_Capacity it) ResourceCPU \<and> 0 \<le> quantity (it_Capacity it) ResourceMemory \<and>
     \<lceil>quantity (it_Capacity it) ResourceMemory\<rceil> < 2 ^ 63"

lemma word_of_int_small: "0 \<le> i \<Longrightarrow> i < 2 ^ 63 \<Longrightarrow> (word_of_int i :: uint64) < 2 ^ 63 \<and> uint (word_of_int i :: uint64) = i"
  by (simp add: word_less_alt take_bit_int_eq_self unsigned_of_int)

lemma instance_request_admissible:
  assumes "type_ok it"
  shows "node_admissible p (instance_request newID (it_Capacity it) boot storage)"
  using assms word_of_int_small [of "\<lceil>quantity (it_Capacity it) ResourceMemory\<rceil>"]
  by (cases p) (auto simp: base_request_def instance_request_def type_ok_def le_ceiling_iff)

lemma instance_request_roundtrip:
  assumes books: "books_ok cap" and "type_ok it" and "newID \<noteq> 0"
    and alloc: "AllocateCapacityInZone cap region zone (Some (instance_request newID (it_Capacity it) boot storage)) = Inr (cap', op')"
  shows "ReleaseCapacityInZone cap' region zone op' = Inr (cap, op')"
proof -
  have "node_books (rm_nodePolicy r)"
    if "map_of (capacityInfo cap) (zone_key region zone) = Some info" "nc_ResourceManager info = Some r" for info r
    using books map_of_SomeD [OF that(1)] that(2) by (auto simp: books_ok_def list_all_iff)
  then show ?thesis
    using zone_roundtrip [OF _ _ _ _ alloc] books instance_request_admissible [OF assms(2)] assms(3)
    by (simp add: books_ok_def host_request_def plain_request_def instance_request_def)
qed

lemma create_cleanup_capacity:
  assumes "newID \<noteq> 0" and "ReleaseCapacityInZone (in_capacity s) region zone opt = Inr (cap, opt')"
  shows "in_capacity (create_cleanup px region zone newID opt s) = cap"
  using assms by (simp add: create_cleanup_def Let_def)

text \<open>An allocation keeps the books in order.\<close>

lemma charge_nodes_keeps:
  "k \<in> fst ` set m \<Longrightarrow> k \<in> fst ` set (charge_nodes ns m)" "go_map_ok m \<Longrightarrow> go_map_ok (charge_nodes ns m)"
proof (atomize (full), induction ns arbitrary: m)
  case (Cons n ns)
  obtain i node where n: "n = (i, node)" by (cases n)
  define m1 where "m1 = go_update m i (go_lookup 0 m i - node_bytes node)"
  have "charge_nodes (n # ns) m = charge_nodes ns m1" by (simp add: charge_nodes_def n m1_def)
  moreover have "k \<in> fst ` set m \<Longrightarrow> k \<in> fst ` set m1" "go_map_ok m \<Longrightarrow> go_map_ok m1" by (simp_all add: m1_def keys_go_update)
  ultimately show ?case using Cons [of m1] by simp
qed (simp add: charge_nodes_def)

lemma node_books_Allocate:
  assumes "node_books p" and "policy_Allocate p op = Inr (q, op')"
  shows "node_books q"
proof (cases p)
  case (StaticNode st)
  then obtain st' where st': "static_Allocate st op = Inr (st', op')" "q = StaticNode st'" using assms(2) by (auto simp: lift_policy_Inr)
  then have "cpuTopology st' = cpuTopology st \<and> (numaNodes st' = numaNodes st \<or> (\<exists>ns. numaNodes st' = charge_nodes ns (numaNodes st)))"
    by (auto simp: static_Allocate_def static_book_def Let_def split: if_splits option.splits sum.splits)
  then show ?thesis using assms(1) StaticNode st'(2) using charge_nodes_keeps(1) [of _ "numaNodes st"] charge_nodes_keeps(2) by (auto simp: subset_iff)
qed (use assms in \<open>auto simp: lift_policy_Inr\<close>)

lemma members_go_update: "set (go_update m k v) \<subseteq> insert (k, v) (set m)"
  by (induction m k v rule: go_update.induct) auto

lemma books_ok_Allocate:
  assumes books: "books_ok cap" and it: "type_ok it"
    and alloc: "AllocateCapacityInZone cap region zone (Some (instance_request newID (it_Capacity it) boot storage)) = Inr (cap', op')"
  shows "books_ok cap'"
proof -
  obtain info r r' where z: "map_of (capacityInfo cap) (zone_key region zone) = Some info" "nc_ResourceManager info = Some r"
    "rm_Allocate r (Some (instance_request newID (it_Capacity it) boot storage)) = Inr (r', op')"
    "cap' = cap\<lparr>capacityInfo := go_update (capacityInfo cap) (zone_key region zone) (info\<lparr>nc_ResourceManager := Some r'\<rparr>)\<rparr>"
    using alloc unfolding AllocateCapacityInZone_def by (rule in_zone_Inr)
  have old: "\<forall>(key, info) \<in> set (capacityInfo cap). \<forall>r. nc_ResourceManager info = Some r \<longrightarrow> node_books (rm_nodePolicy r)"
    using books by (auto simp: books_ok_def list_all_iff split: option.splits)
  obtain q op1 where q: "policy_Allocate (rm_nodePolicy r) (instance_request newID (it_Capacity it) boot storage) = Inr (q, op1)"
    "r' = r\<lparr>rm_nodePolicy := q\<rparr>" using z(3) by (rule rm_Allocate_granted)
  have "node_books (rm_nodePolicy r)" using old map_of_SomeD [OF z(1)] z(2) by blast
  then have "node_books q" using q(1) by (rule node_books_Allocate)
  then have "list_all (\<lambda>(key, info). case nc_ResourceManager info of None \<Rightarrow> True | Some r \<Rightarrow> node_books (rm_nodePolicy r)) (capacityInfo cap')"
    using old members_go_update [of "capacityInfo cap" "zone_key region zone" "info\<lparr>nc_ResourceManager := Some r'\<rparr>"]
    by (fastforce simp: z(4) q(2) list_all_iff split: option.split)
  moreover have "provider_inv cap'"
  proof (rule provider_step_inv [OF provider_step.allocate [OF alloc]])
    show "host_request cap region zone (instance_request newID (it_Capacity it) boot storage)"
      using instance_request_admissible [OF it] by (simp add: host_request_def)
    show "provider_inv cap" using books by (simp add: books_ok_def)
  qed
  ultimately show ?thesis by (simp add: books_ok_def)
qed

text \<open>What one attempt does up to its reservation.\<close>

definition boot_storage :: "ProxmoxNodeClass \<Rightarrow> InstanceTemplateInfo \<Rightarrow> string" where
  "boot_storage cls tpl = (if bd_Storage (BootDevice cls) \<noteq> [] then bd_Storage (BootDevice cls) else TemplateStorageID tpl)"

text \<open>The part of \<open>instanceCreate\<close> up to the reservation succeeds.\<close>

definition reserves ::
  "'w instance_env \<Rightarrow> ProxmoxNodeClass \<Rightarrow> InstanceTemplateInfo \<Rightarrow> 'r InstanceType \<Rightarrow> string \<Rightarrow> string \<Rightarrow> 'w instances
   \<Rightarrow> 'w instance_api \<Rightarrow> int \<Rightarrow> cloudProvider \<Rightarrow> VMResources \<Rightarrow> bool" where
  "reserves env cls tpl it region zone s px newID cap opt \<longleftrightarrow>
     ie_cluster env region = Some px \<and> px_GetNextID px (in_world s) (ie_ProxmoxVMID env) = Some newID \<and>
     TemplateID tpl \<noteq> 0 \<and> boot_storage cls tpl \<noteq> [] \<and>
     (case bd_Size (BootDevice cls) of None \<Rightarrow> False
      | Some boot \<Rightarrow> AllocateCapacityInZone (in_capacity s) region zone
          (Some (instance_request newID (it_Capacity it) boot (boot_storage cls tpl))) = Inr (cap, Some opt))"

lemma instanceCreate_reserved:
  assumes "reserves env cls tpl it region zone s px newID cap opt"
    and "px_CloneVM px (in_world s) (sint (TemplateID tpl)) (clone_request env cls (claim_Name claim) (it_Name it)
      (getCapacityType sch claim it region zone) zone (boot_storage cls tpl) newID opt) = ((vmID, ok), w)"
  shows "instanceCreate env sch claim cls tpl it region zone s =
    (case (if ok then instance_setup env px claim cls it region zone vmID (s\<lparr>in_capacity := cap, in_world := w\<rparr>)
           else (Inl CloneFailed, s\<lparr>in_capacity := cap, in_world := w\<rparr>)) of
       (Inl e, s2) \<Rightarrow> (Inl e, create_cleanup px region zone vmID (Some opt) s2)
     | (Inr vm, s2) \<Rightarrow> (Inr (created_node env (claim_Name claim) (it_Name it) (getCapacityType sch claim it region zone) region zone vmID vm), s2))"
  using assms unfolding reserves_def boot_storage_def instanceCreate_def Let_def
  by (auto split: option.splits)

lemma instanceCreate_refused:
  assumes "\<not> (\<exists>px newID cap opt. reserves env cls tpl it region zone s px newID cap opt)"
    and "instanceCreate env sch claim cls tpl it region zone s = (r, s')"
  shows "isl r \<and> s' = s"
proof -
  have some: "\<exists>opt. op' = Some opt" if "AllocateCapacityInZone cap region zone (Some op) = Inr (cap', op')" for cap cap' op op'
    using that by (auto simp: AllocateCapacityInZone_def elim!: in_zone_Inr rm_Allocate_granted)
  show ?thesis
    using assms unfolding instanceCreate_def Let_def boot_storage_def [symmetric] reserves_def
    by (auto dest!: some split: option.splits sum.splits if_splits)
qed

text \<open>
  An attempt whose clone returned no id: the clean-up passes over it, and its reservation stays in
  the books.
\<close>

inductive lost_clone ::
  "'w instance_env \<Rightarrow> 'r scheduling \<Rightarrow> 'r NodeClaim \<Rightarrow> ProxmoxNodeClass \<Rightarrow> 'r InstanceType set \<Rightarrow> cloudProvider \<Rightarrow> cloudProvider \<Rightarrow> bool"
  for env sch claim cls its where
  lost: "it \<in> its \<Longrightarrow> reserves env cls tpl it region zone s px newID cap opt \<Longrightarrow>
    px_CloneVM px (in_world s) (sint (TemplateID tpl)) (clone_request env cls (claim_Name claim) (it_Name it)
      (getCapacityType sch claim it region zone) zone (boot_storage cls tpl) newID opt) = ((0, ok), w) \<Longrightarrow>
    lost_clone env sch claim cls its (in_capacity s) cap"

inductive_cases lost_cloneE: "lost_clone env sch claim cls its cap cap'"

abbreviation lost_clones where
  "lost_clones env sch claim cls its \<equiv> (lost_clone env sch claim cls its)\<^sup>*\<^sup>*"

lemma lost_clones_mono:
  assumes "lost_clones env sch claim cls its cap cap'" and "its \<subseteq> its'"
  shows "lost_clones env sch claim cls its' cap cap'"
  using assms(1)
proof (induction rule: rtranclp_induct)
  case (step y z)
  from step(2) have "lost_clone env sch claim cls its' y z" using assms(2) by (auto elim!: lost_cloneE intro: lost_clone.lost)
  with step(3) show ?case by (rule rtranclp.rtrancl_into_rtrancl)
qed simp

lemma lost_clones_books:
  assumes "lost_clones env sch claim cls its cap cap'" and "books_ok cap" and "\<forall>it \<in> its. type_ok it"
  shows "books_ok cap'"
  using assms(1,2)
proof (induction rule: rtranclp_induct)
  case (step y z)
  from step(2) obtain it region zone newID boot storage opt where "it \<in> its"
    "AllocateCapacityInZone y region zone (Some (instance_request newID (it_Capacity it) boot storage)) = Inr (z, Some opt)"
    by (auto simp: reserves_def elim!: lost_cloneE split: option.splits)
  then show ?case using books_ok_Allocate step.IH [OF step.prems] assms(3) by blast
qed simp

lemma lost_clones_none:
  assumes "lost_clones env sch claim cls its cap cap'"
    and "\<forall>region px w i req. ie_cluster env region = Some px \<longrightarrow> fst (fst (px_CloneVM px w i req)) \<noteq> 0"
  shows "cap' = cap"
  using assms(1)
proof (induction rule: rtranclp_induct)
  case (step y z)
  from step(2) obtain region px w i req ok w' where "ie_cluster env region = Some px" "px_CloneVM px w i req = ((0, ok), w')"
    by (auto simp: reserves_def elim!: lost_cloneE)
  with assms(2) have False by (metis fst_conv)
  then show ?case ..
qed simp

text \<open>What one attempt does: nothing in the end, a lost reservation, or one allocation for the node it returns.\<close>

definition books_after :: "'r InstanceType \<Rightarrow> cloudProvider \<Rightarrow> node_object \<Rightarrow> cloudProvider \<Rightarrow> bool" where
  "books_after it cap node cap' \<longleftrightarrow>
     (\<exists>region zone newID boot storage op'. newID \<noteq> 0 \<and>
        AllocateCapacityInZone cap region zone (Some (instance_request newID (it_Capacity it) boot storage)) = Inr (cap', op') \<and>
        map_of (node_Labels node) LabelTopologyRegion = Some region \<and> map_of (node_Labels node) LabelTopologyZone = Some zone \<and>
        map_of (node_Labels node) LabelInstanceTypeStable = Some (it_Name it))"

lemma instanceCreate_books:
  assumes laws: "client_laws env" and books: "books_ok (in_capacity s)" and it: "type_ok it"
    and run: "instanceCreate env sch claim cls tpl it region zone s = (r, s')"
  shows "case r of Inl e \<Rightarrow> lost_clones env sch claim cls {it} (in_capacity s) (in_capacity s')
    | Inr node \<Rightarrow> books_after it (in_capacity s) node (in_capacity s')"
proof (cases "\<exists>px newID cap opt. reserves env cls tpl it region zone s px newID cap opt")
  case False
  from instanceCreate_refused [OF this run] show ?thesis by (cases r) auto
next
  case True
  then obtain px newID cap opt where res: "reserves env cls tpl it region zone s px newID cap opt" by blast
  define ct where "ct = getCapacityType sch claim it region zone"
  obtain vmID ok w where clone: "px_CloneVM px (in_world s) (sint (TemplateID tpl)) (clone_request env cls (claim_Name claim) (it_Name it)
      ct zone (boot_storage cls tpl) newID opt) = ((vmID, ok), w)" by (metis surj_pair)
  obtain r2 s2 where stp: "(if ok then instance_setup env px claim cls it region zone vmID (s\<lparr>in_capacity := cap, in_world := w\<rparr>)
      else (Inl CloneFailed, s\<lparr>in_capacity := cap, in_world := w\<rparr>)) = (r2, s2)" by fastforce
  have s2: "in_capacity s2 = cap" using stp by (auto dest: instance_setup_capacity split: if_splits)
  have result: "(r, s') = (case r2 of Inl e \<Rightarrow> (Inl e, create_cleanup px region zone vmID (Some opt) s2)
      | Inr vm \<Rightarrow> (Inr (created_node env (claim_Name claim) (it_Name it) ct region zone vmID vm), s2))"
    using run stp unfolding instanceCreate_reserved [OF res clone [unfolded ct_def]] ct_def by (simp split: sum.splits)
  obtain boot where alloc: "AllocateCapacityInZone (in_capacity s) region zone
      (Some (instance_request newID (it_Capacity it) boot (boot_storage cls tpl))) = Inr (cap, Some opt)"
    using res by (auto simp: reserves_def split: option.splits)
  have id: "newID \<noteq> 0" using res laws unfolding reserves_def client_laws_def by blast
  show ?thesis
  proof (cases r2)
    case (Inl e)
    have "lost_clone env sch claim cls {it} (in_capacity s) cap" if "vmID = 0"
      by (rule lost_clone.lost [OF _ res]) (use clone that in \<open>auto simp: ct_def\<close>)
    moreover have "in_capacity s' = cap" if "vmID = 0" using that Inl result s2 by (simp add: create_cleanup_def)
    moreover have "in_capacity s' = in_capacity s" if "vmID \<noteq> 0"
      using that Inl result s2 instance_request_roundtrip [OF books it id alloc] by (simp add: create_cleanup_capacity)
    ultimately show ?thesis using Inl result by (cases "vmID = 0") auto
  next
    case (Inr vm)
    have "books_after it (in_capacity s) (created_node env (claim_Name claim) (it_Name it) ct region zone vmID vm) cap"
      unfolding books_after_def using id alloc
      by (intro exI conjI) (auto simp: created_node_def LabelTopologyRegion_def LabelTopologyZone_def LabelInstanceTypeStable_def)
    with Inr result s2 show ?thesis by simp
  qed
qed

definition search_books ::
  "'w instance_env \<Rightarrow> 'r scheduling \<Rightarrow> 'r NodeClaim \<Rightarrow> ProxmoxNodeClass \<Rightarrow> 'r InstanceType set
   \<Rightarrow> cloudProvider \<Rightarrow> node_object option \<Rightarrow> cloudProvider \<Rightarrow> bool" where
  "search_books env sch claim cls its cap found cap' \<longleftrightarrow>
     (\<exists>cap1. lost_clones env sch claim cls its cap cap1 \<and>
        (case found of None \<Rightarrow> cap' = cap1 | Some node \<Rightarrow> \<exists>it \<in> its. books_after it cap1 node cap'))"

lemma books_after_image_label:
  "books_after it cap (node\<lparr>node_Labels := go_update (node_Labels node) LabelInstanceImageID h\<rparr>) cap' \<longleftrightarrow> books_after it cap node cap'"
  by (simp add: books_after_def LabelInstanceImageID_def LabelTopologyRegion_def LabelTopologyZone_def LabelInstanceTypeStable_def)

lemma search_books_None [simp]: "search_books env sch claim cls its cap None cap' \<longleftrightarrow> lost_clones env sch claim cls its cap cap'"
  by (simp add: search_books_def)

lemma search_books_found:
  "it \<in> its \<Longrightarrow> books_after it cap node cap' \<Longrightarrow> search_books env sch claim cls its cap (Some node) cap'"
  by (auto simp: search_books_def)

lemma search_books_mono:
  "search_books env sch claim cls its cap found cap' \<Longrightarrow> its \<subseteq> its' \<Longrightarrow> search_books env sch claim cls its' cap found cap'"
  unfolding search_books_def by (cases found) (auto dest: lost_clones_mono)

lemma search_books_trans:
  "lost_clones env sch claim cls its cap cap1 \<Longrightarrow> search_books env sch claim cls its cap1 found cap' \<Longrightarrow>
   search_books env sch claim cls its cap found cap'"
  unfolding search_books_def by (meson rtranclp_trans)

lemma search_cases:
  obtains errs found s where "x = ((errs, found), s)"
  by (cases x) auto

lemma create_in_zones_books:
  assumes "client_laws env" and "type_ok it" and "books_ok (in_capacity s)"
    and "create_in_zones env sch templates claim cls it region zones s = ((errs, found), s')"
  shows "search_books env sch claim cls {it} (in_capacity s) found (in_capacity s')"
  using assms(3,4)
proof (induction zones arbitrary: s errs found s')
  case (Cons zone zones)
  show ?case
  proof (cases "templates zone")
    case Nil
    with Cons show ?thesis by (auto split: prod.splits)
  next
    case (Cons tpl tpls)
    obtain r s1 where r: "instanceCreate env sch claim cls tpl it region zone s = (r, s1)" by fastforce
    note books = instanceCreate_books [OF assms(1) Cons.prems(1) assms(2) r]
    show ?thesis
    proof (cases r)
      case (Inl e)
      with books have lost: "lost_clones env sch claim cls {it} (in_capacity s) (in_capacity s1)" by simp
      have books1: "books_ok (in_capacity s1)" by (rule lost_clones_books [OF lost Cons.prems(1)]) (simp add: assms(2))
      obtain errs' found' s'' where rest: "create_in_zones env sch templates claim cls it region zones s1 = ((errs', found'), s'')"
        by (rule search_cases)
      with Cons.prems(2) Cons Inl r have "found = found'" "s' = s''" by auto
      with Cons.IH [OF books1 rest] search_books_trans [OF lost] show ?thesis by simp
    next
      case (Inr node)
      with books Cons.prems(2) Cons r show ?thesis by (auto simp: books_after_image_label intro: search_books_found)
    qed
  qed
qed simp

lemma create_in_regions_books:
  assumes "client_laws env" and "type_ok it" and "books_ok (in_capacity s)"
    and "create_in_regions env sch tpool tp claim cls it regions s = ((errs, found), s')"
  shows "search_books env sch claim cls {it} (in_capacity s) found (in_capacity s')"
  using assms(3,4)
proof (induction regions arbitrary: s errs found s')
  case (Cons region regions)
  obtain errs1 found1 s1 where z: "create_in_zones env sch
      (\<lambda>zone. templates_ListWithFilter tpool tp (\<lambda>c. ti_Region c = region \<and> ti_Zone c = zone \<and>
         TemplateID c \<in> set (GetTemplateIDs cls region)))
      claim cls it region (candidate_zones env sch (in_capacity s) claim cls it region) s = ((errs1, found1), s1)"
    by (rule search_cases)
  note zb = create_in_zones_books [OF assms(1,2) Cons.prems(1) z]
  show ?case
  proof (cases found1)
    case None
    obtain errs2 found2 s2 where rest: "create_in_regions env sch tpool tp claim cls it regions s1 = ((errs2, found2), s2)"
      by (rule search_cases)
    with Cons.prems(2) z None have "found = found2" "s' = s2" by auto
    moreover have lost: "lost_clones env sch claim cls {it} (in_capacity s) (in_capacity s1)" using zb None by simp
    moreover have "books_ok (in_capacity s1)" by (rule lost_clones_books [OF lost Cons.prems(1)]) (simp add: assms(2))
    ultimately show ?thesis using Cons.IH [OF _ rest] search_books_trans [OF lost] by simp
  next
    case (Some node)
    with zb Cons.prems(2) z show ?thesis by auto
  qed
qed simp

lemma create_from_types_books:
  assumes "client_laws env" and "list_all type_ok its" and "books_ok (in_capacity s)"
    and "create_from_types env sch tpool tp claim cls its s = ((errs, found), s')"
  shows "search_books env sch claim cls (set its) (in_capacity s) found (in_capacity s')"
  using assms(2-4)
proof (induction its arbitrary: s errs found s')
  case (Cons it its)
  obtain errs1 found1 s1 where z: "create_in_regions env sch tpool tp claim cls it
      (candidate_regions sch (in_capacity s) cls it) s = ((errs1, found1), s1)"
    by (rule search_cases)
  have zb: "search_books env sch claim cls (set (it # its)) (in_capacity s) found1 (in_capacity s1)"
    by (rule search_books_mono [OF create_in_regions_books [OF assms(1) _ Cons.prems(2) z]]) (use Cons.prems(1) in auto)
  show ?case
  proof (cases found1)
    case None
    obtain errs2 found2 s2 where rest: "create_from_types env sch tpool tp claim cls its s1 = ((errs2, found2), s2)"
      by (rule search_cases)
    with Cons.prems(3) z None have same: "found = found2" "s' = s2" by auto
    have lost: "lost_clones env sch claim cls (set (it # its)) (in_capacity s) (in_capacity s1)" using zb None by simp
    have "books_ok (in_capacity s1)"
      by (rule lost_clones_books [OF lost Cons.prems(2)]) (use Cons.prems(1) in \<open>simp add: list_all_iff\<close>)
    then have "search_books env sch claim cls (set its) (in_capacity s1) found2 (in_capacity s2)"
      using Cons.IH [OF _ _ rest] Cons.prems(1) by simp
    then have "search_books env sch claim cls (set (it # its)) (in_capacity s1) found2 (in_capacity s2)"
      by (rule search_books_mono) auto
    with search_books_trans [OF lost] same show ?thesis by simp
  next
    case (Some node)
    with zb Cons.prems(3) z show ?thesis by auto
  qed
qed simp

lemma set_orderInstanceTypesByPrice [simp]: "set (orderInstanceTypesByPrice sch reqs its) = set its"
  by (simp add: orderInstanceTypesByPrice_def)

lemma instances_Create_books:
  assumes laws: "client_laws env" and its: "list_all type_ok its" and books: "books_ok (in_capacity s)"
    and run: "instances_Create env sch tpool tp claim cls its s = (r, s')"
  shows "search_books env sch claim cls (set its) (in_capacity s) (case r of Inl e \<Rightarrow> None | Inr node \<Rightarrow> Some node) (in_capacity s')"
proof -
  define s0 where "s0 = s\<lparr>in_annotations := claim_Annotations claim\<rparr>"
  obtain errs found s'' where f: "create_from_types env sch tpool tp claim cls
      (orderInstanceTypesByPrice sch (claim_Requirements claim) its) s0 = ((errs, found), s'')" by (rule search_cases)
  with run have "found = (case r of Inl e \<Rightarrow> None | Inr node \<Rightarrow> Some node)" "s' = s''"
    by (auto simp: instances_Create_def s0_def split: option.splits)
  with create_from_types_books [OF laws _ _ f] books its show ?thesis by (simp add: s0_def list_all_iff)
qed

text \<open>
  C5. A creation that fails in the end has released the reservation of every attempt whose clone returned an
  id, however many instance types, regions and zones it tried and at whatever step an attempt failed.
  What remains of it in the books are the reservations of those attempts whose clone returned the id
  0, which the clean-up passes over; when every clone returns an id, also one that fails, the books are
  exactly as they were. Relied on: the cluster never names 0 as a free id.
\<close>

theorem create_failure_keeps_books:
  assumes "client_laws env" and "list_all type_ok its" and "books_ok (in_capacity s)"
    and "instances_Create env sch tpool tp claim cls its s = (Inl e, s')"
  shows "(lost_clone env sch claim cls (set its))\<^sup>*\<^sup>* (in_capacity s) (in_capacity s') \<and>
    ((\<forall>region px w i req. ie_cluster env region = Some px \<longrightarrow> fst (fst (px_CloneVM px w i req)) \<noteq> 0) \<longrightarrow>
       in_capacity s' = in_capacity s)"
  using instances_Create_books [OF assms] lost_clones_none by fastforce

text \<open>
  A creation that succeeds has made one reservation beside those of lost clones: it is in the region and
  zone of the labels of the node, with the CPUs and the memory of one of the given instance types, the type of
  the label.
\<close>

lemma create_success_books_once:
  assumes "client_laws env" and "list_all type_ok its" and "books_ok (in_capacity s)"
    and "instances_Create env sch tpool tp claim cls its s = (Inr node, s')"
  shows "\<exists>cap1. lost_clones env sch claim cls (set its) (in_capacity s) cap1 \<and> (\<exists>it \<in> set its. books_after it cap1 node (in_capacity s'))"
  using instances_Create_books [OF assms] by (simp add: search_books_def)

section \<open>An example cluster\<close>

definition example_syn :: net_syntax where
  "example_syn = net_lib.extend example_lib
     \<lparr>syn_NetworkDevice = (\<lambda>s. Some \<lparr>Virtio = ''bc:24:11:00:00:01'', Bridge = ''vmbr0'', dev_MTU = None\<rparr>),
      syn_IPConfig = (\<lambda>s. Some \<lparr>GatewayIPv4 = [], GatewayIPv6 = [], cfg_IPv4 = s, cfg_IPv6 = []\<rparr>),
      syn_IPConfigString = (\<lambda>c. Some (cfg_IPv4 c)), syn_IPString = (\<lambda>a. ''10.0.0.5''), syn_NetString = (\<lambda>n. ''10.0.0.4/30''),
      syn_ParseMAC = (\<lambda>s. None)\<rparr>"

definition example_vm_info :: "string \<Rightarrow> vm_info" where
  "example_vm_info ipconfig =
     \<lparr>vi_machine = \<lparr>px_VMID = 100, px_CPUs = 2, px_MaxMem = 1073741824, px_Config = None\<rparr>,
      vi_network = \<lparr>Nameserver = [], Searchdomain = [], MergeNets = [(''net0'', ''virtio'')],
        MergeIPConfigs = [(''ipconfig0'', ipconfig)], MergeIDEs = []\<rparr>,
      vi_Node = ''node-1'', vi_CPU = ''host'', vi_Tags = []\<rparr>"

definition example_px :: "string \<Rightarrow> bool \<Rightarrow> bool \<Rightarrow> int \<Rightarrow> 'w instance_api" where
  "example_px ipconfig clones starts failed_id =
     \<lparr>px_GetNextID = (\<lambda>w i. Some 100),
      px_GetVMByID = (\<lambda>w i. Inr (example_item\<lparr>cr_Node := ''node-1'', cr_VMID := 100\<rparr>)),
      px_GetVMConfig = (\<lambda>w i. Some (example_vm_info ipconfig)), px_Node = (\<lambda>w zone. True),
      px_VirtualMachine = (\<lambda>w zone i. Some (example_vm_info ipconfig)),
      px_CloneVM = (\<lambda>w i req. (if clones then (100, True) else (failed_id, False), w)),
      px_SetConfig = (\<lambda>w i opts. (True, w)), px_RegenerateVMCloudInit = (\<lambda>w zone i. (True, w)),
      px_CreateVMFirewallRules = (\<lambda>w i zone rules. (True, w)), px_UpdateVMFirewallRules = (\<lambda>w i zone rules. (True, w)),
      px_CloudInit = (\<lambda>w device i docs. (True, w)), px_UnmountCloudInitISO = (\<lambda>w device i. (True, w)),
      px_RemoveTag = (\<lambda>w zone i tag. w),
      px_StartVMByID = (\<lambda>w zone i. (if starts then Some (example_vm_info ipconfig) else None, w)),
      px_DeleteVMByID = (\<lambda>w zone i. (None, w)), px_PoolMembers = (\<lambda>w pool. Some []), px_PoolUpdate = (\<lambda>w pool del vms. (True, w))\<rparr>"

definition example_kube :: "'w kube_api" where
  "example_kube = \<lparr>GenerateBootstrapToken = (\<lambda>w. Some ''a.b''), time_Now = (\<lambda>w. 0), time_Format = show_int, time_Parse = Atoi,
     CreateSecret = (\<lambda>w s. (None, w)), DeleteSecret = (\<lambda>w ns n. (None, w)), ListSecrets = (\<lambda>w ns k v. Some []),
     kube_SystemNamespace = [], kube_ServerVersion = (\<lambda>w. Some ''v1.33''), kube_ConfigMap = (\<lambda>w ns n. Some []),
     kube_Secret = (\<lambda>w ns n. Some []), ExecuteTemplate = (\<lambda>t d. Some t),
     DefaultUserdata = [], DefaultMetadata = [], DefaultNetworkV2 = []\<rparr>"

definition example_ienv :: "string \<Rightarrow> bool \<Rightarrow> bool \<Rightarrow> int \<Rightarrow> 'w instance_env" where
  "example_ienv ipconfig clones starts failed_id =
     \<lparr>ie_cluster = (\<lambda>region. if CHR ''/'' \<in> set region then None else Some (example_px ipconfig clones starts failed_id)), ie_ProxmoxVMID = 100,
      ie_parse = (\<lambda>s. Some {}), ie_render = (\<lambda>c. []), ie_unmarshal = (\<lambda>s. None), ie_syn = example_syn, ie_kube = example_kube,
      ie_quantity = (\<lambda>q. ''1''), ie_uuid = (\<lambda>i. []), ie_cpu_type = (\<lambda>s. s), ie_perm = (\<lambda>n. [0..<n]), ie_cloudinit_tag = ''cloud-init''\<rparr>"

definition example_reqs :: "(string \<times> selector_op \<times> string list) list" where
  "example_reqs = [(LabelTopologyRegion, OpIn, [''r'']), (LabelTopologyZone, OpIn, [''node-1''])]"

definition example_type :: "(string \<times> selector_op \<times> string list) list InstanceType" where
  "example_type = \<lparr>it_Name = ''c1.2VCPU-1GB'', it_Requirements = [],
     it_Offerings = [\<lparr>of_Price = 1, of_Available = True, of_Requirements = example_reqs\<rparr>],
     it_Capacity = [(ResourceCPU, 2), (ResourceMemory, 1073741824)],
     it_Overhead = \<lparr>KubeReserved = [], SystemReserved = [], EvictionThreshold = []\<rparr>\<rparr>"

definition example_claim :: "(string \<times> selector_op \<times> string list) list NodeClaim" where
  "example_claim = \<lparr>claim_Name = ''claim-1'', claim_Requirements = example_reqs, claim_Labels = [], claim_Annotations = [],
     claim_ProviderID = GetProviderID ''r'' 100, claim_Capacity = [(ResourceCPU, 2), (ResourceMemory, 1073741824)],
     claim_Allocatable = [], claim_NodeClassRef = Some ''default'', claim_Requests = [], claim_NodeName = [], claim_ImageID = [],
     claim_Deleting = False, claim_Initialized = False\<rparr>"

definition example_class :: ProxmoxNodeClass where
  "example_class = \<lparr>class_Name = ''default'', class_Annotations = [], class_Region = ''r'', PlacementStrategy = None,
     InstanceTemplateRef = Some \<lparr>ref_Kind = ''ProxmoxTemplate'', ref_Name = ''base''\<rparr>, class_Kubelet = None,
     BootDevice = \<lparr>bd_Size = Some 30000000000, bd_Storage = ''local''\<rparr>, class_Tags = [],
     class_MetadataOptions = \<lparr>mo_Type = ''none'', TemplatesRef = None, ValuesRef = None\<rparr>, SecurityGroups = [],
     class_ResourcePool = [], class_Conditions = [], class_Resources = [], SelectedZones = [selected_zone ''r'' ''node-1'' 1000]\<rparr>"

definition example_template_info :: InstanceTemplateInfo where
  "example_template_info = \<lparr>ti_Name = ''base'', ti_Region = ''r'', ti_Zone = ''node-1'', TemplateID = 1000, TemplateHash = ''17'',
     TemplateTags = [], TemplateStorageID = ''local'', ti_Status = InstanceTemplateStatusAvailable\<rparr>"

definition example_cache :: "unit templates" where
  "example_cache = \<lparr>instanceTemplate = [(''r'', [example_template_info])], zoneLocks = {}, tpl_world = ()\<rparr>"

definition example_instances :: "nodeIpam \<Rightarrow> unit instances" where
  "example_instances ipam = \<lparr>in_capacity = small_provider, in_ipam = ipam, in_annotations = [], in_world = ()\<rparr>"

lemma example_laws: "client_laws (example_ienv ipconfig clones starts failed_id)"
  by (simp add: client_laws_def example_ienv_def example_px_def)

lemma example_books: "books_ok small_provider"
  by (simp add: books_ok_def small_provider_inv) (simp add: small_provider_def small_manager_def)

lemma example_type_ok: "type_ok example_type"
  by (simp add: type_ok_def example_type_def quantity_def go_lookup_def resource_names)

lemmas example_labels = LabelTopologyRegion_def LabelTopologyZone_def CapacityTypeLabelKey_def

lemma example_zones:
  "candidate_zones (example_ienv ipconfig clones starts failed_id) plain_scheduling cap example_claim example_class example_type ''r'' =
   [''node-1'']"
proof -
  have "GetZones example_class ''r'' = [''node-1'']"
    using SplitN_selected_zone [of "''r''" "''node-1''" 1000]
    by (simp add: GetZones_def example_class_def map_filter_simps HasPrefix_def selected_zone_def)
  then show ?thesis
    by (simp add: candidate_zones_def example_claim_def plain_scheduling_def example_reqs_def getValuesByKey_def example_type_def
        Available_def Compatible_def uniq_def example_labels Intersect_def sortBestZoneByPlacementStrategy_def)
qed

lemma example_regions: "candidate_regions plain_scheduling cap example_class example_type = [''r'']"
  by (simp add: candidate_regions_def example_class_def)

lemma example_templates_found:
  "templates_ListWithFilter example_template_pool example_cache (\<lambda>c. ti_Region c = ''r'' \<and> ti_Zone c = ''node-1'' \<and>
     TemplateID c \<in> set (GetTemplateIDs example_class ''r'')) = [example_template_info]"
proof -
  have "GetTemplateIDs example_class ''r'' = [1000]"
    using SplitN_selected_zone [of "''r''" "''node-1''" 1000]
    by (simp add: GetTemplateIDs_def example_class_def map_filter_simps HasPrefix_def Atoi_value_def Atoi_show_int) (simp add: selected_zone_def)
  then show ?thesis
    by (simp add: templates_ListWithFilter_def example_template_pool_def example_cache_def go_lookup_def example_template_info_def)
qed

lemma example_alloc:
  obtains cap where "AllocateCapacityInZone small_provider ''r'' ''node-1''
    (Some (instance_request 100 (it_Capacity example_type) boot storage)) =
      Inr (cap, Some (instance_request 100 (it_Capacity example_type) boot storage))"
  by (simp add: AllocateCapacityInZone_def in_zone_def small_provider_def small_manager_def rm_Allocate_def rm_forward_def
      lift_policy_def simple_Allocate_def example_simple_def zone_key_def Size_def instance_request_def example_type_def
      quantity_def go_lookup_def resource_names)

definition example_request :: VMResources where
  "example_request = instance_request 100 (it_Capacity example_type) 30000000000 ''local''"

lemma example_ienv_simps [simp]:
  "ie_cluster (example_ienv ipconfig clones starts failed_id) region =
     (if CHR ''/'' \<in> set region then None else Some (example_px ipconfig clones starts failed_id))"
  "ie_syn (example_ienv ipconfig clones starts failed_id) = example_syn"
  "px_GetNextID (example_px ipconfig clones starts failed_id) w i = Some 100"
  "px_GetVMConfig (example_px ipconfig clones starts failed_id) w i = Some (example_vm_info ipconfig)"
  "px_SetConfig (example_px ipconfig clones starts failed_id) w i opts = (True, w)"
  "px_CloneVM (example_px ipconfig clones starts failed_id) w i req = (if clones then (100, True) else (failed_id, False), w)"
  "px_StartVMByID (example_px ipconfig clones starts failed_id) w zone i =
     (if starts then Some (example_vm_info ipconfig) else None, w)"
  "px_DeleteVMByID (example_px ipconfig clones starts failed_id) w zone i = (None, w)"
  by (simp_all add: example_ienv_def example_px_def)

lemma example_iface:
  obtains iface where "GetNetworkConfigFromVirtualMachineConfig example_syn (vi_network (example_vm_info ipconfig)) [] =
      \<lparr>Interfaces = [iface], SearchDomains = [], NameServers = []\<rparr>"
    "if_Address4 iface = (if ipconfig = [] \<or> ipconfig = ''dhcp'' then [] else [ipconfig])"
    "if_Address6 iface = []" "NodeAddress4 iface = []"
proof -
  have "net_index ''net0'' = 0" by (simp add: net_index_def HasPrefix_def CutPrefix_def Atoi_def digit_value_def)
  moreover have "show_int 0 = ''0''" by code_simp
  ultimately have "\<exists>iface. read_iface example_syn [(''ipconfig0'', ipconfig)] [] (''net0'', ''virtio'') = Some iface \<and>
      if_Address4 iface = (if ipconfig = [] \<or> ipconfig = ''dhcp'' then [] else [ipconfig]) \<and>
      if_Address6 iface = [] \<and> NodeAddress4 iface = []"
    by (simp add: read_iface_def example_syn_def net_lib.defs node_iface_def apply_ipconfig_def empty_iface_def
        ipconfig_key_def Let_def)
  then show thesis
    by (auto simp: GetNetworkConfigFromVirtualMachineConfig_def example_vm_info_def map_filter_simps intro: that)
qed

lemma example_set_network: "\<exists>opts. SetNetworkConfig example_syn \<lparr>Interfaces = [iface], SearchDomains = [], NameServers = []\<rparr> = Inr opts"
  by (simp add: SetNetworkConfig_def example_syn_def net_lib.defs)

lemma example_network_dhcp:
  assumes "networkInfo (in_capacity s) = []"
  shows "instanceNetworkSetup (example_ienv ''dhcp'' clones starts failed_id) ''r'' zone 100 s = (None, s)"
proof -
  obtain iface where iface: "GetNetworkConfigFromVirtualMachineConfig example_syn (vi_network (example_vm_info ''dhcp'')) [] =
      \<lparr>Interfaces = [iface], SearchDomains = [], NameServers = []\<rparr>"
    "if_Address4 iface = []" "if_Address6 iface = []" using example_iface [of "''dhcp''"] by auto
  obtain opts where "SetNetworkConfig example_syn
      \<lparr>Interfaces = [iface\<lparr>if_Address4 := [], if_Address6 := []\<rparr>], SearchDomains = [], NameServers = []\<rparr> = Inr opts"
    using example_set_network by blast
  with iface assms show ?thesis
    by (simp add: instanceNetworkSetup_def GetNetwork_def generate_iface_def) (simp add: example_vm_info_def)
qed

lemma AllocateCapacityInZone_network:
  "AllocateCapacityInZone cap region zone op = Inr (cap', op') \<Longrightarrow> networkInfo cap' = networkInfo cap"
  by (auto simp: AllocateCapacityInZone_def in_zone_def split: if_splits option.splits sum.splits)

lemma example_create_dhcp:
  "\<exists>r s'. instanceCreate (example_ienv ''dhcp'' True starts failed_id) plain_scheduling example_claim example_class
     example_template_info example_type ''r'' ''node-1'' (example_instances ipam) = (r, s') \<and> isl r = (\<not> starts)"
proof -
  obtain cap where alloc: "AllocateCapacityInZone small_provider ''r'' ''node-1'' (Some example_request) = Inr (cap, Some example_request)"
    unfolding example_request_def by (rule example_alloc)
  then have "networkInfo cap = []" by (simp add: AllocateCapacityInZone_network small_provider_def)
  then have "instanceNetworkSetup (example_ienv ''dhcp'' True starts failed_id) ''r'' ''node-1'' 100
      ((example_instances ipam)\<lparr>in_capacity := cap, in_world := w\<rparr>) =
      (None, (example_instances ipam)\<lparr>in_capacity := cap, in_world := w\<rparr>)" for w
    by (intro example_network_dhcp) simp
  moreover have "AllocateCapacityInZone (in_capacity (example_instances ipam)) ''r'' ''node-1''
      (Some (instance_request 100 (it_Capacity example_type) 30000000000 ''local'')) = Inr (cap, Some example_request)"
    using alloc by (simp add: example_instances_def example_request_def)
  ultimately show ?thesis
    by (cases starts) (simp_all add: instanceCreate_def example_class_def example_template_info_def instance_setup_def Let_def)
qed

lemma example_start: "in_annotations s = [] \<Longrightarrow> s\<lparr>in_annotations := claim_Annotations example_claim\<rparr> = s"
  by (cases s) (simp add: example_claim_def)

lemma example_instances_annotations [simp]: "in_annotations (example_instances ipam) = []"
  by (simp add: example_instances_def)

lemma example_Create:
  assumes "instanceCreate (example_ienv ipconfig clones starts failed_id) plain_scheduling example_claim example_class
     example_template_info example_type ''r'' ''node-1'' s = (r, s')" and "in_annotations s = []"
  shows "\<exists>r'. instances_Create (example_ienv ipconfig clones starts failed_id) plain_scheduling example_template_pool example_cache
     example_claim example_class [example_type] s = (r', s') \<and> isl r' = isl r"
  using assms example_start [OF assms(2)]
  by (cases r) (simp_all add: instances_Create_def orderInstanceTypesByPrice_def sort_slice_def example_regions example_zones
      example_templates_found)

theorem create_failure_keeps_books_witness:
  "\<exists>e s'. instances_Create (example_ienv ''dhcp'' True False 1) plain_scheduling example_template_pool example_cache
     example_claim example_class [example_type] (example_instances NewIpamProvider) = (Inl e, s') \<and> in_capacity s' = small_provider"
proof -
  obtain r s' where "instances_Create (example_ienv ''dhcp'' True False 1) plain_scheduling example_template_pool example_cache
     example_claim example_class [example_type] (example_instances NewIpamProvider) = (r, s')" "isl r"
    using example_create_dhcp [of False 1 NewIpamProvider] example_Create example_instances_annotations by metis
  then obtain e where create: "instances_Create (example_ienv ''dhcp'' True False 1) plain_scheduling example_template_pool example_cache
     example_claim example_class [example_type] (example_instances NewIpamProvider) = (Inl e, s')" by (auto simp: isl_def)
  have "in_capacity s' = in_capacity (example_instances NewIpamProvider)"
    using create_failure_keeps_books [OF example_laws _ _ create] example_type_ok example_books by (simp add: example_instances_def)
  with create show ?thesis by (simp add: example_instances_def)
qed

section \<open>What a failed creation leaves behind\<close>

text \<open>
  C38. The clean-up skips an id of 0. When \<open>CloneVM\<close> fails and returns 0, the value Go functions
  return beside an error, the call does not release the capacity it has reserved: the zone stays charged
  for a VM that does not exist until a synchronisation with the cluster makes new books.
\<close>

theorem create_clone_failure_leaks:
  assumes "reserves env cls tpl it region zone s px newID cap opt"
    and "px_CloneVM px (in_world s) (sint (TemplateID tpl)) (clone_request env cls (claim_Name claim) (it_Name it)
      (getCapacityType sch claim it region zone) zone (boot_storage cls tpl) newID opt) = ((0, False), w)"
  shows "instanceCreate env sch claim cls tpl it region zone s = (Inl CloneFailed, s\<lparr>in_capacity := cap, in_world := w\<rparr>)"
  using instanceCreate_reserved [OF assms] by (simp add: create_cleanup_def)

lemma example_reserves:
  obtains cap where "reserves (example_ienv ipconfig clones starts failed_id) example_class example_template_info example_type
      ''r'' ''node-1'' (example_instances ipam) (example_px ipconfig clones starts failed_id) 100 cap example_request" "networkInfo cap = []"
proof -
  obtain cap where alloc: "AllocateCapacityInZone small_provider ''r'' ''node-1'' (Some example_request) = Inr (cap, Some example_request)"
    unfolding example_request_def by (rule example_alloc)
  moreover from this have "networkInfo cap = []" by (simp add: AllocateCapacityInZone_network small_provider_def)
  ultimately show thesis
    by (intro that [of cap]) (simp_all add: reserves_def boot_storage_def example_class_def example_template_info_def example_instances_def
        example_request_def)
qed

theorem create_clone_failure_leaks_witness:
  "\<exists>cap. reserves (example_ienv ''dhcp'' False True 0) example_class example_template_info example_type
      ''r'' ''node-1'' (example_instances NewIpamProvider) (example_px ''dhcp'' False True 0) 100 cap example_request \<and>
    instanceCreate (example_ienv ''dhcp'' False True 0) plain_scheduling example_claim example_class example_template_info
      example_type ''r'' ''node-1'' (example_instances NewIpamProvider) =
    (Inl CloneFailed, (example_instances NewIpamProvider)\<lparr>in_capacity := cap, in_world := ()\<rparr>)"
proof -
  obtain cap where res: "reserves (example_ienv ''dhcp'' False True 0) example_class example_template_info example_type
      ''r'' ''node-1'' (example_instances NewIpamProvider) (example_px ''dhcp'' False True 0) 100 cap example_request"
    using example_reserves by blast
  from create_clone_failure_leaks [OF res, of example_claim plain_scheduling "()"] res show ?thesis by (auto simp: example_instances_def)
qed

text \<open>
  A creation that fails after the network was set up keeps the addresses it drew: they stay
  held in the pools although the VM is deleted, and only a synchronisation with the nodes of the
  cluster could tell.
\<close>

lemma create_failure_keeps_addresses:
  assumes "reserves env cls tpl it region zone s px newID cap opt"
    and "px_CloneVM px (in_world s) (sint (TemplateID tpl)) (clone_request env cls (claim_Name claim) (it_Name it)
      (getCapacityType sch claim it region zone) zone (boot_storage cls tpl) newID opt) = ((vmID, True), w)"
    and "instanceNetworkSetup env region zone vmID (s\<lparr>in_capacity := cap, in_world := w\<rparr>) = (None, s1)"
    and "instanceCreate env sch claim cls tpl it region zone s = (Inl e, s')"
  shows "ipam_held (in_ipam s') = ipam_held (in_ipam s1)"
proof -
  obtain r2 s2 where stp: "instance_setup env px claim cls it region zone vmID (s\<lparr>in_capacity := cap, in_world := w\<rparr>) = (r2, s2)"
    by fastforce
  have "in_ipam s2 = in_ipam s1"
    using stp assms(3)
    by (auto simp: instance_setup_def attachCloudInitISO_def split: option.splits bool.splits prod.splits sum.splits if_splits)
  moreover have "in_ipam s' = in_ipam s2"
    using assms(4) stp unfolding instanceCreate_reserved [OF assms(1,2)]
    by (auto simp: create_cleanup_def Let_def split: sum.splits)
  ultimately show ?thesis by simp
qed

lemma example_draw:
  "\<exists>ip p. OccupyIP example_lib \<lparr>subnets = [example_small]\<rparr> ''10.0.0.4/30'' = (Inr ip, p) \<and> ip \<in> ipam_held p"
proof -
  have "281470849515525 \<in> pool_hosts example_small" "pool_held example_small = {}"
    by (simp_all add: pool_held_def pool_hosts_def example_small_def net_size_def)
  then have "pool_held (subnets \<lparr>subnets = [example_small]\<rparr> ! 0) \<noteq> pool_hosts (subnets \<lparr>subnets = [example_small]\<rparr> ! 0)"
    by force
  from OccupyIP_fresh [OF example_lib_laws _ _ _ _ this]
  have "\<exists>ip' p'. OccupyIP example_lib \<lparr>subnets = [example_small]\<rparr> ''10.0.0.4/30'' = (Inr ip', p') \<and>
      ip' \<in> pool_hosts (subnets \<lparr>subnets = [example_small]\<rparr> ! 0) \<and> ip' \<notin> ipam_held \<lparr>subnets = [example_small]\<rparr> \<and>
      ipam_held p' = insert ip' (ipam_held \<lparr>subnets = [example_small]\<rparr>)"
    if "lib_ParseCIDR example_lib ''10.0.0.4/30'' = Some (281470849515524, n)"
      "first_index (\<lambda>q. net_Contains (pool_IPNet q) 281470849515524) (subnets \<lparr>subnets = [example_small]\<rparr>) = Some 0" for n
    using that by (simp add: ipam_inv_def example_small_inv ipam_disjoint_def)
  moreover have "lib_ParseCIDR example_lib ''10.0.0.4/30'' = Some (281470849515524, \<lparr>net_IP = 281470849515524, net_ones = 30, net_bits = 32\<rparr>)"
    by (simp add: example_lib_def)
  moreover have "first_index (\<lambda>q. net_Contains (pool_IPNet q) 281470849515524) (subnets \<lparr>subnets = [example_small]\<rparr>) = Some 0"
    by (simp add: example_small_def net_Contains_def)
  ultimately show ?thesis by blast
qed

lemma example_choose:
  assumes "if_Address4 iface = [''10.0.0.4/30'']" "if_Address6 iface = []" "NodeAddress4 iface = []"
  shows "\<exists>ip p. generateNetworkIPs example_syn [iface] NewIpamProvider =
      (Inr [iface\<lparr>if_Address4 := [''10.0.0.4/30''], if_Address6 := []\<rparr>], p) \<and> ip \<in> ipam_held p"
proof -
  obtain ip p where draw: "OccupyIP example_lib \<lparr>subnets = [example_small]\<rparr> ''10.0.0.4/30'' = (Inr ip, p)" "ip \<in> ipam_held p"
    using example_draw by blast
  have lib: "net_lib.truncate example_syn = example_lib" "lib_ParseCIDR example_syn = lib_ParseCIDR example_lib"
    "syn_NetString example_syn = (\<lambda>n. ''10.0.0.4/30'')"
    by (simp_all add: example_syn_def net_lib.defs)
  have parse: "lib_ParseCIDR example_lib ''10.0.0.4/30'' = Some (281470849515524, \<lparr>net_IP = 281470849515524, net_ones = 30, net_bits = 32\<rparr>)"
    by (simp add: example_lib_def)
  have "generateNetworkIPs example_syn [iface] NewIpamProvider = (Inr [iface\<lparr>if_Address4 := [''10.0.0.4/30''], if_Address6 := []\<rparr>], p)"
    using draw(1) assms by (simp add: generate_iface_def choose_address4_def lib parse example_allocated)
  with draw(2) show ?thesis by blast
qed

lemma example_network_static:
  assumes "networkInfo (in_capacity s) = []" and "in_ipam s = NewIpamProvider"
  shows "\<exists>ip s1. instanceNetworkSetup (example_ienv ''10.0.0.4/30'' clones starts failed_id) ''r'' zone 100 s = (None, s1) \<and>
     ip \<in> ipam_held (in_ipam s1)"
proof -
  obtain iface where iface: "GetNetworkConfigFromVirtualMachineConfig example_syn (vi_network (example_vm_info ''10.0.0.4/30'')) [] =
      \<lparr>Interfaces = [iface], SearchDomains = [], NameServers = []\<rparr>"
    "if_Address4 iface = [''10.0.0.4/30'']" "if_Address6 iface = []" "NodeAddress4 iface = []"
    using example_iface [of "''10.0.0.4/30''"] by auto
  obtain ip p where "generateNetworkIPs example_syn [iface] NewIpamProvider =
      (Inr [iface\<lparr>if_Address4 := [''10.0.0.4/30''], if_Address6 := []\<rparr>], p)" "ip \<in> ipam_held p"
    using example_choose [OF iface(2-4)] by blast
  moreover obtain opts where "SetNetworkConfig example_syn
      \<lparr>Interfaces = [iface\<lparr>if_Address4 := [''10.0.0.4/30''], if_Address6 := []\<rparr>], SearchDomains = [], NameServers = []\<rparr> = Inr opts"
    using example_set_network by blast
  ultimately show ?thesis
    using iface(1) assms
    by (simp add: instanceNetworkSetup_def GetNetwork_def del: generateNetworkIPs.simps) (auto simp: example_vm_info_def)
qed

section \<open>Deleting what was created\<close>

lemma policy_Release_disk:
  "policy_Release p (op\<lparr>Affinity := a, StorageID := st, DiskGBytes := d\<rparr>) =
     (case policy_Release p op of Inl e \<Rightarrow> Inl e | Inr (q, op') \<Rightarrow> Inr (q, op\<lparr>Affinity := a, StorageID := st, DiskGBytes := d\<rparr>))"
  by (cases p) (auto simp: lift_policy_def simple_Release_def static_Release_def free_cpus_def Let_def)

lemma ReleaseCapacityInZone_disk:
  assumes "ReleaseCapacityInZone cap region zone (Some op) = Inr (cap', Some op)"
  shows "ReleaseCapacityInZone cap region zone (Some (op\<lparr>Affinity := a, StorageID := st, DiskGBytes := d\<rparr>)) =
         Inr (cap', Some (op\<lparr>Affinity := a, StorageID := st, DiskGBytes := d\<rparr>))"
  using assms
  by (auto simp: ReleaseCapacityInZone_def in_zone_def rm_Release_def rm_forward_def policy_Release_disk
      split: if_splits option.splits sum.splits prod.splits)

text \<open>
  C2. Deleting a VM undoes its creation in the books: when the cluster reports the resources of the
  VM as they were requested, \<open>Delete\<close> with the provider id of the created node finds the VM, removes
  it and brings the capacity provider back to the state before the creation.
\<close>

theorem create_then_delete:
  assumes res: "reserves env cls tpl it region zone s px newID cap opt"
    and books: "books_ok (in_capacity s)" "type_ok it" "newID \<noteq> 0"
    and clone: "px_CloneVM px (in_world s) (sint (TemplateID tpl)) (clone_request env cls (claim_Name claim) (it_Name it)
      (getCapacityType sch claim it region zone) zone (boot_storage cls tpl) newID opt) = ((newID, True), w)"
    and create: "instanceCreate env sch claim cls tpl it region zone s = (Inr node, s')"
    and names: "CHR ''/'' \<notin> set region" "region \<noteq> []" "zone \<noteq> []" "- (2 ^ 63) \<le> newID" "newID < 2 ^ 63"
    and later: "in_capacity t = in_capacity s'" "claim_ProviderID claim' = node_ProviderID node"
    and found: "px_GetVMByID px (in_world t) (word_of_int newID) = Inr vmr" "cr_VMID vmr = newID" "cr_Node vmr = zone"
    and config: "px_GetVMConfig px (in_world t) newID = Some vm"
      "GetResourceFromVM (ie_parse env) (ie_render env) (ie_unmarshal env) (Some (vi_machine vm)) =
         Inr (opt\<lparr>Affinity := a, DiskGBytes := 0, StorageID := []\<rparr>)"
    and del: "px_DeleteVMByID px (in_world t) zone newID = (None, w')"
  shows "\<exists>t'. instances_Delete env claim' t = (None, t') \<and> in_capacity t' = in_capacity s"
proof -
  obtain boot where px: "ie_cluster env region = Some px"
    and alloc: "AllocateCapacityInZone (in_capacity s) region zone
      (Some (instance_request newID (it_Capacity it) boot (boot_storage cls tpl))) = Inr (cap, Some opt)"
    using res by (auto simp: reserves_def split: option.splits)
  obtain r2 s2 where stp: "instance_setup env px claim cls it region zone newID (s\<lparr>in_capacity := cap, in_world := w\<rparr>) = (r2, s2)"
    by fastforce
  from create stp instance_setup_capacity [OF stp] have cap: "in_capacity s' = cap" and
    pid: "node_ProviderID node = GetProviderID region newID"
    unfolding instanceCreate_reserved [OF res clone] by (auto simp: created_node_def split: sum.splits)
  have release: "ReleaseCapacityInZone cap region zone (Some opt) = Inr (in_capacity s, Some opt)"
    by (rule instance_request_roundtrip [OF books alloc])
  have "ParseProviderID (claim_ProviderID claim') = Inr (newID, region)"
    using ParseProviderID_Get [OF names(1,4,5)] later(2) pid by simp
  then have "instances_Delete env claim' t = instanceDelete env claim' region zone vmr t"
    using px found names(2,3) by (simp add: instances_Delete_def claim_region_def GetVMByIDInRegion_def)
  also have "\<exists>t'. \<dots> = (None, t') \<and> in_capacity t' = in_capacity s"
    using px config del found later(1) cap ReleaseCapacityInZone_disk [OF release, where a = a and st = "[]"]
    by (simp add: instanceDelete_def Let_def)
  finally show ?thesis .
qed

theorem create_then_delete_witness:
  "\<exists>node s' t'. instanceCreate (example_ienv ''dhcp'' True True 1) plain_scheduling example_claim example_class
      example_template_info example_type ''r'' ''node-1'' (example_instances NewIpamProvider) = (Inr node, s') \<and>
    instances_Delete (example_ienv ''dhcp'' True True 1) (example_claim\<lparr>claim_ProviderID := node_ProviderID node\<rparr>) s' = (None, t') \<and>
    in_capacity t' = small_provider"
proof -
  let ?env = "example_ienv ''dhcp'' True True 1" and ?px = "example_px ''dhcp'' True True 1"
  let ?s = "example_instances NewIpamProvider"
  obtain cap where res: "reserves ?env example_class example_template_info example_type ''r'' ''node-1'' ?s ?px 100 cap example_request"
    by (rule example_reserves)
  have clone: "px_CloneVM ?px (in_world ?s) i req = ((100, True), ())" for i req by (simp add: example_instances_def)
  obtain r s' where "instanceCreate ?env plain_scheduling example_claim example_class example_template_info example_type ''r'' ''node-1'' ?s = (r, s')"
    "\<not> isl r" using example_create_dhcp [of True 1 NewIpamProvider] by auto
  then obtain node where create: "instanceCreate ?env plain_scheduling example_claim example_class example_template_info
      example_type ''r'' ''node-1'' ?s = (Inr node, s')" by (cases r) auto
  have "\<exists>t'. instances_Delete ?env (example_claim\<lparr>claim_ProviderID := node_ProviderID node\<rparr>) s' = (None, t') \<and> in_capacity t' = in_capacity ?s"
  proof (rule create_then_delete [OF res _ example_type_ok _ clone create, where a = "[]" and vm = "example_vm_info ''dhcp''"
        and w' = "()" and vmr = "example_item\<lparr>cr_Node := ''node-1'', cr_VMID := 100\<rparr>"])
    show "GetResourceFromVM (ie_parse ?env) (ie_render ?env) (ie_unmarshal ?env) (Some (vi_machine (example_vm_info ''dhcp''))) =
        Inr (example_request\<lparr>Affinity := [], DiskGBytes := 0, StorageID := []\<rparr>)"
      by (simp add: GetResourceFromVM_def example_vm_info_def example_request_def instance_request_def example_type_def
          quantity_def go_lookup_def resource_names)
    show "px_GetVMByID ?px (in_world s') (word_of_int 100) = Inr (example_item\<lparr>cr_Node := ''node-1'', cr_VMID := 100\<rparr>)"
      by (simp add: example_px_def)
  qed (simp_all add: example_books example_instances_def)
  with create show ?thesis by (auto simp: example_instances_def)
qed

section \<open>Offerings\<close>

text \<open>
  C16. Under the simple policy the offerings are honest: after an update the offering of a type in
  a zone exists, and it is available if and only if the request that creating an instance of the
  type makes is granted there. The reserved CPUs are CPUs of the host.
\<close>

theorem offered_iff_allocatable:
  assumes entry: "map_of (capacityInfo cap) (zone_key region zone) = Some info"
    "nc_ResourceManager info = Some r" "rm_nodePolicy r = SimpleNode p"
    and inv: "provider_inv cap" "reservedCPUs p \<subseteq> allCPUs p"
    and listed: "region \<in> set (Regions cap)" "zone \<in> set (Zones cap region)"
    and capacity: "0 < quantity (ts_Capacity item) ResourceCPU" "0 < quantity (ts_Capacity item) ResourceMemory"
      "\<lceil>quantity (ts_Capacity item) ResourceMemory\<rceil> < 2 ^ 63"
  shows "make_offering sch cap item region zone (ts_CapacityType item) \<in>
           set (ts_Offerings (createOfferings sch cap item (Regions cap) (ts_CapacityType item))) \<and>
         (of_Available (make_offering sch cap item region zone (ts_CapacityType item)) \<longleftrightarrow>
          (\<exists>cap' op'. AllocateCapacityInZone cap region zone
             (Some (instance_request newID (ts_Capacity item) boot storage)) = Inr (cap', op')))"
proof
  show "make_offering sch cap item region zone (ts_CapacityType item) \<in>
      set (ts_Offerings (createOfferings sch cap item (Regions cap) (ts_CapacityType item)))"
    using listed by (auto simp: createOfferings_def)
  let ?op = "instance_request newID (ts_Capacity item) boot storage"
  have mem: "Memory ?op < 2 ^ 63" "uint (Memory ?op) = \<lceil>quantity (ts_Capacity item) ResourceMemory\<rceil>"
    using word_of_int_small [of "\<lceil>quantity (ts_Capacity item) ResourceMemory\<rceil>"] capacity
    by (auto simp: instance_request_def le_ceiling_iff)
  have "FitInZone cap region zone (as_request (ts_Capacity item)) = FitInZone cap region zone (resources_of ?op)"
  proof -
    have "quantity (ts_Capacity item) ResourceMemory \<le> of_nat n \<longleftrightarrow> of_nat (unat (Memory ?op)) \<le> (of_nat n :: rat)" for n
    proof -
      have "(of_nat (unat (Memory ?op)) :: rat) = of_int \<lceil>quantity (ts_Capacity item) ResourceMemory\<rceil>"
        unfolding mem(2) [symmetric] by simp
      then show ?thesis by (metis ceiling_le_iff of_int_le_iff of_int_of_nat_eq)
    qed
    moreover have "quantity (ts_Capacity item) ResourceCPU \<le> of_int i \<longleftrightarrow> of_int (vm_CPUs ?op) \<le> (of_int i :: rat)" for i
      by (simp add: instance_request_def ceiling_le_iff)
    ultimately show ?thesis
      by (auto simp: FitInZone_def fits_def as_request_def resources_of_def simp del: of_nat_unat split: option.splits)
  qed
  also have "\<dots> \<longleftrightarrow> (\<exists>cap'. AllocateCapacityInZone cap region zone (Some ?op) = Inr (cap', Some ?op))"
  proof (rule fit_iff_allocate [OF entry inv(1) _ inv(2)])
    show "host_request cap region zone ?op"
      using mem(1) capacity(1) entry by (auto simp: host_request_def base_request_def instance_request_def le_ceiling_iff)
    show "1 \<le> vm_CPUs ?op" using capacity(1) by (simp add: instance_request_def int_one_le_iff_zero_less)
    have "0 < \<lceil>quantity (ts_Capacity item) ResourceMemory\<rceil>" using capacity(2) by simp
    with mem(2) show "Memory ?op \<noteq> 0" by force
  qed
  also have "\<dots> \<longleftrightarrow> (\<exists>cap' op'. AllocateCapacityInZone cap region zone (Some ?op) = Inr (cap', op'))"
  proof
    assume "\<exists>cap' op'. AllocateCapacityInZone cap region zone (Some ?op) = Inr (cap', op')"
    then show "\<exists>cap'. AllocateCapacityInZone cap region zone (Some ?op) = Inr (cap', Some ?op)"
      using entry by (auto simp: AllocateCapacityInZone_def in_zone_def rm_Allocate_def rm_forward_def lift_policy_def
          dest: simple_Allocate_request split: if_splits sum.splits)
  qed blast
  finally show "of_Available (make_offering sch cap item region zone (ts_CapacityType item)) \<longleftrightarrow>
      (\<exists>cap' op'. AllocateCapacityInZone cap region zone (Some ?op) = Inr (cap', op'))"
    by (simp add: make_offering_def)
qed

theorem offered_iff_allocatable_witness:
  "make_offering plain_scheduling small_provider (generate_type default_options 1 2) ''r'' ''node-1''
       (ts_CapacityType (generate_type default_options 1 2 :: (string \<times> selector_op \<times> string list) list InstanceTypeStatic)) \<in>
     set (ts_Offerings (createOfferings plain_scheduling small_provider (generate_type default_options 1 2) (Regions small_provider)
       (ts_CapacityType (generate_type default_options 1 2 :: (string \<times> selector_op \<times> string list) list InstanceTypeStatic)))) \<and>
   (of_Available (make_offering plain_scheduling small_provider (generate_type default_options 1 2) ''r'' ''node-1''
       (ts_CapacityType (generate_type default_options 1 2 :: (string \<times> selector_op \<times> string list) list InstanceTypeStatic))) \<longleftrightarrow>
    (\<exists>cap' op'. AllocateCapacityInZone small_provider ''r'' ''node-1''
       (Some (instance_request 100 (ts_Capacity (generate_type default_options 1 2 :: (string \<times> selector_op \<times> string list) list InstanceTypeStatic))
          30000000000 ''local'')) = Inr (cap', op')))"
  by (rule offered_iff_allocatable [where p = example_simple and r = small_manager
        and info = "\<lparr>nc_Name = ''node-1'', nc_Region = ''r'', CPULoad = 25, nc_ResourceManager = Some small_manager\<rparr>", OF _ _ _ small_provider_inv])
    (simp_all add: small_provider_def small_manager_def zone_key_def example_simple_def Regions_def Zones_def go_lookup_def
      generate_type_def type_capacity_def default_options_def Let_def quantity_def resource_names)

end
