(* ===== verification/CloudProvider.thy ===== *)
theory CloudProvider
  imports InstanceLifecycle
begin

text \<open>
  The interface to karpenter (\<open>src/pkg/cloudprovider/{cloudprovider,drift,utils}.go\<close>): creating,
  deleting and listing node claims, the instance types of a pool, and the drift of a claim from its
  class.

  Its state are the states of the providers it calls. The Kubernetes client, karpenter's
  \<open>Allocatable\<close> and \<open>Fits\<close>, the keys and sizes of requirements and the root condition of a condition
  set are parameters. Events and log lines are left out.
\<close>

section \<open>State\<close>

record ('w, 'v, 'r) cloud_env =
  ce_instances :: "'w instance_env"
  ce_sch :: "'r scheduling"
  ce_pool :: "'v template_pool"
  ce_hash :: class_lib
  GetNodeClass :: "'w \<Rightarrow> string \<Rightarrow> kube_error + ProxmoxNodeClass"
  GetNode :: "'w \<Rightarrow> string \<Rightarrow> kube_error + node_object"
  ListNodes :: "'w \<Rightarrow> node_object list option"
  ConditionReady :: "conditions \<Rightarrow> condition_status"
  Allocatable :: "'r InstanceType \<Rightarrow> resource_list"
  Fits :: "resource_list \<Rightarrow> resource_list \<Rightarrow> bool"
  req_Keys :: "'r \<Rightarrow> string list"
  req_Len :: "'r \<Rightarrow> string \<Rightarrow> int"
  WellKnownLabels :: "string list"
  api_error_text :: "api_error \<Rightarrow> string"

record ('w, 'v, 'r) CloudProvider =
  instanceProvider :: "'w instances"
  instanceTypes :: "'r InstanceTypeStatic list"
  instanceTemplates :: "'v templates"

datatype class_error = MissingNodeClassRef | ClassKubeError kube_error

datatype cloud_error =
    ResolvingNodeClass class_error
  | NodeClassNotReady
  | NodeClassReadinessUnknown
  | InsufficientCapacity
  | CreatingInstance instance_error
  | DeletingInstance instance_error
  | EmptyProviderID
  | WrongProviderPrefix
  | NodeClaimGone
  | GettingInstance instance_error
  | GettingNode kube_error
  | ListingNodes

definition ProxmoxProviderPrefix :: string where
  "ProxmoxProviderPrefix = ''proxmox://''"

definition resolveNodeClassFromNodeClaim ::
  "('w \<Rightarrow> string \<Rightarrow> kube_error + ProxmoxNodeClass) \<Rightarrow> 'r NodeClaim \<Rightarrow> 'w \<Rightarrow> class_error + ProxmoxNodeClass" where
  "resolveNodeClassFromNodeClaim get claim w =
     (case claim_NodeClassRef claim of
        None \<Rightarrow> Inl MissingNodeClassRef
      | Some name \<Rightarrow> (case get w name of Inl e \<Rightarrow> Inl (ClassKubeError e) | Inr cls \<Rightarrow> Inr cls))"

section \<open>Instance types and claims of nodes\<close>

definition resolveInstanceTypes ::
  "('w, 'v, 'r) cloud_env \<Rightarrow> 'r NodeClaim \<Rightarrow> ('w, 'v, 'r) CloudProvider \<Rightarrow> 'r InstanceType list" where
  "resolveInstanceTypes env claim c =
     filter (\<lambda>i. Available (Compatible (ce_sch env) (claim_Requirements claim) (it_Offerings i)) \<noteq> [] \<and>
                 Fits env (claim_Requests claim) (Allocatable env i))
       (types_List (ce_sch env) (in_capacity (instanceProvider c)) (instanceTypes c))"

definition matches_capacity :: "node_object \<Rightarrow> 'r InstanceType \<Rightarrow> bool" where
  "matches_capacity node it \<longleftrightarrow>
     Available (it_Offerings it) \<noteq> [] \<and> it_Capacity it \<noteq> [] \<and>
     quantity (it_Capacity it) ResourceCPU \<ge> quantity (node_Capacity node) ResourceCPU \<and>
     quantity (it_Capacity it) ResourceMemory \<ge> quantity (node_Capacity node) ResourceMemory \<and>
     quantity (it_Capacity it) ResourcePods \<ge> quantity (node_Capacity node) ResourcePods"

definition resolveInstanceTypeFromNode ::
  "('w, 'v, 'r) cloud_env \<Rightarrow> node_object \<Rightarrow> ('w, 'v, 'r) CloudProvider \<Rightarrow> 'r InstanceType option" where
  "resolveInstanceTypeFromNode env node c =
     (let cap = in_capacity (instanceProvider c);
          labelled = (case map_of (node_Labels node) LabelInstanceTypeStable of
                        None \<Rightarrow> None | Some name \<Rightarrow> types_Get (ce_sch env) cap (instanceTypes c) name)
      in case labelled of
           Some it \<Rightarrow> Some it
         | None \<Rightarrow>
             (case sort_slice (\<lambda>a b. cheapest (map of_Price (it_Offerings a)) < cheapest (map of_Price (it_Offerings b)))
                     (types_ListWithFilter (ce_sch env) cap (instanceTypes c) (matches_capacity node)) of
                [] \<Rightarrow> None | it # _ \<Rightarrow> Some it))"

text \<open>The label is taken from the node unless it is already set to a value.\<close>

definition fill_label :: "string \<times> string \<Rightarrow> (string, string) go_map \<Rightarrow> (string, string) go_map" where
  "fill_label kv labels =
     (if go_lookup [] labels (fst kv) = [] \<and> snd kv \<noteq> [] then go_update labels (fst kv) (snd kv) else labels)"

definition type_labels :: "('w, 'v, 'r) cloud_env \<Rightarrow> 'r \<Rightarrow> (string, string) go_map" where
  "type_labels env reqs =
     foldl (\<lambda>labels key. if req_Len env reqs key = 1 then go_update labels key (hd (sch_Values (ce_sch env) reqs key)) else labels)
       [] (req_Keys env reqs)"

definition node_label :: "node_object \<Rightarrow> string \<Rightarrow> string \<times> string" where
  "node_label node key = (key, go_lookup [] (node_Labels node) key)"

definition non_zero :: "resource_list \<Rightarrow> resource_list" where
  "non_zero rs = filter (\<lambda>(k, v). v \<noteq> 0) rs"

definition nodeToNodeClaim ::
  "('w, 'v, 'r) cloud_env \<Rightarrow> 'r InstanceType option \<Rightarrow> node_object \<Rightarrow> 'r NodeClaim" where
  "nodeToNodeClaim env it node =
     (let labels0 = (case it of None \<Rightarrow> [] | Some i \<Rightarrow> type_labels env (it_Requirements i));
          labels1 = fold fill_label (map (node_label node) (WellKnownLabels env)) labels0;
          labels2 = fold fill_label [(LabelArchStable, node_Architecture node), (LabelOSStable, node_OperatingSystem node)] labels1
      in \<lparr>claim_Name = node_Name node, claim_Requirements = sch_New (ce_sch env) [], claim_Labels = labels2, claim_Annotations = [],
          claim_ProviderID = node_ProviderID node,
          claim_Capacity = (case it of None \<Rightarrow> node_Capacity node | Some i \<Rightarrow> non_zero (it_Capacity i)),
          claim_Allocatable = (case it of None \<Rightarrow> node_Allocatable node | Some i \<Rightarrow> non_zero (Allocatable env i)),
          claim_NodeClassRef = None, claim_Requests = [], claim_NodeName = node_Name node,
          claim_ImageID = go_lookup [] (node_Labels node) LabelInstanceImageID,
          claim_Deleting = False, claim_Initialized = False\<rparr>)"

section \<open>Operations\<close>

definition cloud_Create ::
  "('w, 'v, 'r) cloud_env \<Rightarrow> 'r NodeClaim \<Rightarrow> ('w, 'v, 'r) CloudProvider
   \<Rightarrow> (cloud_error + 'r NodeClaim) \<times> ('w, 'v, 'r) CloudProvider" where
  "cloud_Create env claim c =
     (case resolveNodeClassFromNodeClaim (GetNodeClass env) claim (in_world (instanceProvider c)) of
        Inl e \<Rightarrow> (Inl (ResolvingNodeClass e), c)
      | Inr cls \<Rightarrow>
          (case ConditionReady env (class_Conditions cls) of
             ConditionFalse \<Rightarrow> (Inl NodeClassNotReady, c)
           | ConditionUnknown \<Rightarrow> (Inl NodeClassReadinessUnknown, c)
           | ConditionTrue \<Rightarrow>
               (case resolveInstanceTypes env claim c of
                  [] \<Rightarrow> (Inl InsufficientCapacity, c)
                | its \<Rightarrow>
                    (case instances_Create (ce_instances env) (ce_sch env) (ce_pool env) (instanceTemplates c) claim cls its (instanceProvider c) of
                       (Inl e, s) \<Rightarrow> (Inl (CreatingInstance e), c\<lparr>instanceProvider := s\<rparr>)
                     | (Inr node, s) \<Rightarrow>
                         let c' = c\<lparr>instanceProvider := s\<rparr>;
                             nc = nodeToNodeClaim env (resolveInstanceTypeFromNode env node c') node
                         in (Inr (nc\<lparr>claim_Annotations := Assign (claim_Annotations nc)
                               [(AnnotationProxmoxNodeClassHash, class_Hash (ce_hash env) cls),
                                (AnnotationProxmoxNodeClassHashVersion, ProxmoxNodeClassHashVersion),
                                (AnnotationProxmoxNodeInPlaceUpdateHash, class_InPlaceHash (ce_hash env) cls)]\<rparr>), c')))))"

definition cloud_Delete ::
  "('w, 'v, 'r) cloud_env \<Rightarrow> 'r NodeClaim \<Rightarrow> ('w, 'v, 'r) CloudProvider \<Rightarrow> cloud_error option \<times> ('w, 'v, 'r) CloudProvider" where
  "cloud_Delete env claim c =
     (if claim_ProviderID claim = [] \<or> \<not> HasPrefix (claim_ProviderID claim) ProxmoxProviderPrefix then (None, c)
      else case instances_Delete (ce_instances env) claim (instanceProvider c) of
             (e, s) \<Rightarrow> ((case e of None \<Rightarrow> None | Some NodeClaimNotFound \<Rightarrow> Some NodeClaimGone | Some e \<Rightarrow> Some (DeletingInstance e)),
                        c\<lparr>instanceProvider := s\<rparr>))"

text \<open>
  \<open>Get\<close> looks for \<open>not found\<close> in the text of the error. The text of an error about the id contains
  the id; the other texts are those of the Proxmox client and of \<open>ErrRegionNotFound\<close>.
\<close>

definition not_found :: "('w, 'v, 'r) cloud_env \<Rightarrow> string \<Rightarrow> instance_error \<Rightarrow> bool" where
  "not_found env providerID e =
     (case e of
        RegionNotFound \<Rightarrow> Contains ''region not found'' ''not found''
      | GetVMFailed a \<Rightarrow> Contains (api_error_text env a) ''not found''
      | BadProviderID _ \<Rightarrow> Contains providerID ''not found''
      | _ \<Rightarrow> False)"

definition cloud_Get ::
  "('w, 'v, 'r) cloud_env \<Rightarrow> string \<Rightarrow> ('w, 'v, 'r) CloudProvider \<Rightarrow> cloud_error + 'r NodeClaim" where
  "cloud_Get env providerID c =
     (if providerID = [] then Inl EmptyProviderID
      else if \<not> HasPrefix providerID ProxmoxProviderPrefix then Inl WrongProviderPrefix
      else case instances_Get (ce_instances env) providerID (instanceProvider c) of
             Inl e \<Rightarrow> Inl (if not_found env providerID e then NodeClaimGone else GettingInstance e)
           | Inr node \<Rightarrow>
               (case GetNode env (in_world (instanceProvider c)) (node_Name node) of
                  Inl KubeNotFound \<Rightarrow> Inl NodeClaimGone
                | Inl e \<Rightarrow> Inl (GettingNode e)
                | Inr node' \<Rightarrow> Inr (nodeToNodeClaim env None node')))"

definition cloud_List :: "('w, 'v, 'r) cloud_env \<Rightarrow> ('w, 'v, 'r) CloudProvider \<Rightarrow> cloud_error + 'r NodeClaim list" where
  "cloud_List env c =
     (case ListNodes env (in_world (instanceProvider c)) of
        None \<Rightarrow> Inl ListingNodes
      | Some nodes \<Rightarrow>
          Inr (map (\<lambda>node. nodeToNodeClaim env (resolveInstanceTypeFromNode env node c) node)
                 (filter (\<lambda>node. HasPrefix (node_ProviderID node) ProxmoxProviderPrefix) nodes)))"

definition GetInstanceTypes ::
  "('w, 'v, 'r) cloud_env \<Rightarrow> string option \<Rightarrow> ('w, 'v, 'r) CloudProvider \<Rightarrow> cloud_error + 'r InstanceType list" where
  "GetInstanceTypes env nodeClassRef c =
     (case nodeClassRef of
        None \<Rightarrow> Inl (ResolvingNodeClass MissingNodeClassRef)
      | Some name \<Rightarrow>
          (case GetNodeClass env (in_world (instanceProvider c)) name of
             Inl e \<Rightarrow> Inl (ResolvingNodeClass (ClassKubeError e))
           | Inr cls \<Rightarrow> Inr (types_List (ce_sch env) (in_capacity (instanceProvider c)) (instanceTypes c))))"

section \<open>Drift\<close>

datatype DriftReason = NoDrift | NodeClassDrift | ImageDrift

definition areStaticFieldsDrifted :: "'r NodeClaim \<Rightarrow> ProxmoxNodeClass \<Rightarrow> DriftReason" where
  "areStaticFieldsDrifted claim cls =
     (case (map_of (class_Annotations cls) AnnotationProxmoxNodeClassHash, map_of (class_Annotations cls) AnnotationProxmoxNodeClassHashVersion,
            map_of (claim_Annotations claim) AnnotationProxmoxNodeClassHash, map_of (claim_Annotations claim) AnnotationProxmoxNodeClassHashVersion) of
        (Some nodeClassHash, Some nodeClassVersion, Some nodeClaimHash, Some nodeClaimVersion) \<Rightarrow>
          if nodeClassVersion \<noteq> nodeClaimVersion then NoDrift
          else if nodeClassHash \<noteq> nodeClaimHash then NodeClassDrift else NoDrift
      | _ \<Rightarrow> NoDrift)"

definition isTemplateDrifted ::
  "'v template_pool \<Rightarrow> 'v templates \<Rightarrow> 'r NodeClaim \<Rightarrow> ProxmoxNodeClass \<Rightarrow> DriftReason" where
  "isTemplateDrifted pool tp claim cls =
     (if claim_ImageID claim = [] then NoDrift
      else case ParseProviderID (claim_ProviderID claim) of
             Inl e \<Rightarrow> NoDrift
           | Inr (_, region) \<Rightarrow>
               let zone = go_lookup [] (claim_Labels claim) LabelTopologyZone
               in (case templates_ListWithFilter pool tp (\<lambda>c. ti_Region c = region \<and> ti_Zone c = zone \<and>
                          TemplateID c \<in> set (GetTemplateIDs cls region)) of
                     [] \<Rightarrow> NoDrift
                   | tpl # _ \<Rightarrow> if TemplateHash tpl \<noteq> claim_ImageID claim then ImageDrift else NoDrift))"

definition isNodeClassDrifted ::
  "'v template_pool \<Rightarrow> 'v templates \<Rightarrow> 'r NodeClaim \<Rightarrow> ProxmoxNodeClass \<Rightarrow> DriftReason" where
  "isNodeClassDrifted pool tp claim cls =
     (case areStaticFieldsDrifted claim cls of
        NoDrift \<Rightarrow> isTemplateDrifted pool tp claim cls
      | reason \<Rightarrow> reason)"

text \<open>A class that is not found is no drift and no error.\<close>

definition IsDrifted ::
  "('w, 'v, 'r) cloud_env \<Rightarrow> 'r NodeClaim \<Rightarrow> ('w, 'v, 'r) CloudProvider \<Rightarrow> cloud_error + DriftReason" where
  "IsDrifted env claim c =
     (case resolveNodeClassFromNodeClaim (GetNodeClass env) claim (in_world (instanceProvider c)) of
        Inl (ClassKubeError KubeNotFound) \<Rightarrow> Inr NoDrift
      | Inl e \<Rightarrow> Inl (ResolvingNodeClass e)
      | Inr cls \<Rightarrow> Inr (isNodeClassDrifted (ce_pool env) (instanceTemplates c) claim cls))"

section \<open>The node a search returns\<close>

definition with_image :: "InstanceTemplateInfo \<Rightarrow> node_object \<Rightarrow> node_object" where
  "with_image tpl node = node\<lparr>node_Labels := go_update (node_Labels node) LabelInstanceImageID (TemplateHash tpl)\<rparr>"

definition class_templates :: "'v template_pool \<Rightarrow> 'v templates \<Rightarrow> ProxmoxNodeClass \<Rightarrow> string \<Rightarrow> string \<Rightarrow> InstanceTemplateInfo list" where
  "class_templates pool tp cls region zone =
     templates_ListWithFilter pool tp (\<lambda>c. ti_Region c = region \<and> ti_Zone c = zone \<and> TemplateID c \<in> set (GetTemplateIDs cls region))"

lemma create_in_zones_node:
  assumes "create_in_zones env sch templates claim cls it region zones s = ((errs, Some node), s')"
  shows "\<exists>zone tpl rest node0 s0. templates zone = tpl # rest \<and>
    instanceCreate env sch claim cls tpl it region zone s0 = (Inr node0, s') \<and> node = with_image tpl node0"
  using assms
proof (induction zones arbitrary: s errs)
  case (Cons zone zones)
  show ?case
  proof (cases "templates zone")
    case Nil
    with Cons show ?thesis by (auto split: prod.splits)
  next
    case (Cons tpl rest)
    obtain r s1 where r: "instanceCreate env sch claim cls tpl it region zone s = (r, s1)" by fastforce
    show ?thesis
    proof (cases r)
      case (Inl e)
      with Cons.IH Cons.prems Cons r show ?thesis by (auto split: prod.splits)
    next
      case (Inr node0)
      with Cons.prems Cons r show ?thesis by (auto simp: with_image_def)
    qed
  qed
qed simp

lemma create_in_regions_node:
  assumes "create_in_regions env sch tpool tp claim cls it regions s = ((errs, Some node), s')"
  shows "\<exists>region zone tpl rest node0 s0. class_templates tpool tp cls region zone = tpl # rest \<and>
    instanceCreate env sch claim cls tpl it region zone s0 = (Inr node0, s') \<and> node = with_image tpl node0"
  using assms
proof (induction regions arbitrary: s errs)
  case (Cons region regions)
  obtain errs1 found1 s1 where z: "create_in_zones env sch (class_templates tpool tp cls region)
      claim cls it region (candidate_zones env sch (in_capacity s) claim cls it region) s = ((errs1, found1), s1)"
    by (rule search_cases)
  show ?case
  proof (cases found1)
    case None
    with Cons.IH Cons.prems z [unfolded class_templates_def] show ?thesis by (auto split: prod.splits)
  next
    case (Some n)
    with Cons.prems z [unfolded class_templates_def] have "n = node" "s1 = s'" by auto
    with z Some have "create_in_zones env sch (class_templates tpool tp cls region)
      claim cls it region (candidate_zones env sch (in_capacity s) claim cls it region) s = ((errs1, Some node), s')" by simp
    from create_in_zones_node [OF this] show ?thesis by blast
  qed
qed simp

lemma create_from_types_node:
  assumes "create_from_types env sch tpool tp claim cls its s = ((errs, Some node), s')"
  shows "\<exists>it \<in> set its. \<exists>region zone tpl rest node0 s0. class_templates tpool tp cls region zone = tpl # rest \<and>
    instanceCreate env sch claim cls tpl it region zone s0 = (Inr node0, s') \<and> node = with_image tpl node0"
  using assms
proof (induction its arbitrary: s errs)
  case (Cons it its)
  obtain errs1 found1 s1 where z: "create_in_regions env sch tpool tp claim cls it
      (candidate_regions sch (in_capacity s) cls it) s = ((errs1, found1), s1)"
    by (rule search_cases)
  show ?case
  proof (cases found1)
    case None
    with Cons.IH Cons.prems z show ?thesis by (auto split: prod.splits)
  next
    case (Some n)
    with Cons.prems z have "n = node" "s1 = s'" by auto
    with create_in_regions_node z Some show ?thesis by (metis list.set_intros(1))
  qed
qed simp

lemma instanceCreate_node:
  assumes "instanceCreate env sch claim cls tpl it region zone s = (Inr node, s')"
  shows "\<exists>px w req vmID ok w' ct vm. ie_cluster env region = Some px \<and> px_CloneVM px w (sint (TemplateID tpl)) req = ((vmID, ok), w') \<and>
    node = created_node env (claim_Name claim) (it_Name it) ct region zone vmID vm"
  using assms unfolding instanceCreate_def Let_def
  by (auto split: option.splits sum.splits prod.splits if_splits) blast+

definition hash_annotations :: "class_lib \<Rightarrow> ProxmoxNodeClass \<Rightarrow> (string, string) go_map" where
  "hash_annotations lib cls =
     [(AnnotationProxmoxNodeClassHash, class_Hash lib cls), (AnnotationProxmoxNodeClassHashVersion, ProxmoxNodeClassHashVersion),
      (AnnotationProxmoxNodeInPlaceUpdateHash, class_InPlaceHash lib cls)]"

lemma Assign_hash_annotations:
  "Assign (claim_Annotations (nodeToNodeClaim env x y)) [(AnnotationProxmoxNodeClassHash, class_Hash lib cls),
     (AnnotationProxmoxNodeClassHashVersion, ProxmoxNodeClassHashVersion),
     (AnnotationProxmoxNodeInPlaceUpdateHash, class_InPlaceHash lib cls)] = hash_annotations lib cls"
  by (simp add: nodeToNodeClaim_def Let_def annotation_keys hash_annotations_def)

lemma cloud_Create_node:
  assumes "cloud_Create env claim c = (Inr nc, c')"
  obtains cls node where
    "resolveNodeClassFromNodeClaim (GetNodeClass env) claim (in_world (instanceProvider c)) = Inr cls"
    "instances_Create (ce_instances env) (ce_sch env) (ce_pool env) (instanceTemplates c) claim cls (resolveInstanceTypes env claim c)
       (instanceProvider c) = (Inr node, instanceProvider c')"
    "instanceTemplates c' = instanceTemplates c" "instanceTypes c' = instanceTypes c"
    "nc = (nodeToNodeClaim env (resolveInstanceTypeFromNode env node c') node)\<lparr>claim_Annotations := hash_annotations (ce_hash env) cls\<rparr>"
  using assms unfolding cloud_Create_def Let_def Assign_hash_annotations
  by (auto split: sum.splits condition_status.splits list.splits prod.splits)

lemma instances_Create_node:
  assumes "instances_Create env sch tpool tp claim cls its s = (Inr node, s')"
  obtains it region zone tpl rest node0 s0 where "it \<in> set its" "class_templates tpool tp cls region zone = tpl # rest"
    "instanceCreate env sch claim cls tpl it region zone s0 = (Inr node0, s')" "node = with_image tpl node0"
proof -
  obtain errs found s'' where f: "create_from_types env sch tpool tp claim cls
      (orderInstanceTypesByPrice sch (claim_Requirements claim) its) (s\<lparr>in_annotations := claim_Annotations claim\<rparr>) = ((errs, found), s'')"
    by (rule search_cases)
  with assms have "found = Some node" "s'' = s'" by (auto simp: instances_Create_def split: option.splits)
  with f create_from_types_node [of env sch tpool tp claim cls] that show thesis by (metis set_orderInstanceTypesByPrice)
qed

text \<open>The labels of a claim that come from the node.\<close>

lemma go_lookup_Nil [simp]: "go_lookup z [] k = z"
  by (simp add: go_lookup_def)

lemma go_lookup_fill_label:
  "go_lookup [] (fill_label (key, v) labels) k =
     (if go_lookup [] labels k \<noteq> [] then go_lookup [] labels k else if k = key then v else [])"
  by (simp add: fill_label_def go_lookup_update)

lemma fill_node_labels:
  "go_lookup [] (fold fill_label (map (node_label node) ks) labels) k =
     (if go_lookup [] labels k \<noteq> [] then go_lookup [] labels k
      else if k \<in> set ks then go_lookup [] (node_Labels node) k else [])"
proof (induction ks arbitrary: labels)
  case (Cons key ks)
  have "go_lookup [] (fill_label (node_label node key) labels) j =
      (if go_lookup [] labels j \<noteq> [] then go_lookup [] labels j else if j = key then go_lookup [] (node_Labels node) j else [])" for j
    by (simp add: node_label_def go_lookup_fill_label)
  then show ?case by (simp add: Cons.IH)
qed simp

lemma type_labels_keys:
  assumes "k \<notin> set (req_Keys env reqs)"
  shows "go_lookup [] (type_labels env reqs) k = []"
proof -
  have "go_lookup [] (foldl (\<lambda>labels key. if req_Len env reqs key = 1 then go_update labels key (f key) else labels) labels ks) k =
      go_lookup [] labels k" if "k \<notin> set ks" for labels ks f
    using that by (induction ks arbitrary: labels) (auto simp: go_lookup_update)
  from this [OF assms, of "\<lambda>key. hd (sch_Values (ce_sch env) reqs key)" "[]"] show ?thesis by (simp add: type_labels_def)
qed

lemma nodeToNodeClaim_label:
  assumes "k \<in> set (WellKnownLabels env)" and "\<And>i. it = Some i \<Longrightarrow> k \<notin> set (req_Keys env (it_Requirements i))"
    and "k \<noteq> LabelArchStable" and "k \<noteq> LabelOSStable"
  shows "go_lookup [] (claim_Labels (nodeToNodeClaim env it node)) k = go_lookup [] (node_Labels node) k"
proof -
  have "go_lookup [] (case it of None \<Rightarrow> [] | Some i \<Rightarrow> type_labels env (it_Requirements i)) k = []"
    using assms(2) by (cases it) (simp_all add: type_labels_keys)
  then show ?thesis
    using assms(1,3,4) by (simp add: nodeToNodeClaim_def Let_def go_lookup_fill_label fill_node_labels)
qed

section \<open>What karpenter sees of a new claim\<close>

text \<open>
  What is relied on: requirements have the keys they are made from, regions have no slash in their
  names and the ids of VMs are Go integers.
\<close>

definition requirement_keys :: "('w, 'v, 'r) cloud_env \<Rightarrow> bool" where
  "requirement_keys env \<longleftrightarrow> (\<forall>rs. set (req_Keys env (sch_New (ce_sch env) rs)) \<subseteq> fst ` set rs)"

definition cluster_names :: "'w instance_env \<Rightarrow> bool" where
  "cluster_names env \<longleftrightarrow>
     (\<forall>region px. ie_cluster env region = Some px \<longrightarrow>
        CHR ''/'' \<notin> set region \<and> (\<forall>w i req. - (2 ^ 63) \<le> fst (fst (px_CloneVM px w i req)) \<and> fst (fst (px_CloneVM px w i req)) < 2 ^ 63))"

lemma resolved_type_listed:
  assumes "resolveInstanceTypeFromNode env node c = Some it"
  shows "\<exists>flt. it \<in> set (types_ListWithFilter (ce_sch env) (in_capacity (instanceProvider c)) (instanceTypes c) flt)"
proof -
  let ?list = "types_ListWithFilter (ce_sch env) (in_capacity (instanceProvider c)) (instanceTypes c)"
  let ?less = "\<lambda>a b. cheapest (map of_Price (it_Offerings a)) < cheapest (map of_Price (it_Offerings b))"
  define sorted where "sorted = sort_slice ?less (?list (matches_capacity node))"
  define labelled where "labelled = (case map_of (node_Labels node) LabelInstanceTypeStable of
      None \<Rightarrow> None | Some name \<Rightarrow> types_Get (ce_sch env) (in_capacity (instanceProvider c)) (instanceTypes c) name)"
  have run: "(case labelled of Some it \<Rightarrow> Some it | None \<Rightarrow> (case sorted of [] \<Rightarrow> None | it # _ \<Rightarrow> Some it)) = Some it"
    using assms unfolding resolveInstanceTypeFromNode_def Let_def labelled_def sorted_def .
  show ?thesis
  proof (cases labelled)
    case None
    with run have "it \<in> set sorted" by (cases sorted) auto
    then show ?thesis unfolding sorted_def set_sort_slice by blast
  next
    case (Some i)
    with run obtain name where "types_Get (ce_sch env) (in_capacity (instanceProvider c)) (instanceTypes c) name = Some it"
      unfolding labelled_def by (cases "map_of (node_Labels node) LabelInstanceTypeStable") auto
    then have "it \<in> set (?list (\<lambda>item. it_Name item = name))"
      unfolding types_Get_def by (cases "?list (\<lambda>item. it_Name item = name)") auto
    then show ?thesis by blast
  qed
qed

lemma resolved_type_keys:
  assumes "requirement_keys env" and "resolveInstanceTypeFromNode env node c = Some it"
  shows "LabelTopologyZone \<notin> set (req_Keys env (it_Requirements it))"
proof -
  obtain name offerings regions where "it_Requirements it = computeRequirements (ce_sch env) name offerings regions"
    using resolved_type_listed [OF assms(2)] by (auto simp: types_ListWithFilter_def)
  then have "set (req_Keys env (it_Requirements it)) \<subseteq> {LabelInstanceTypeStable, LabelArchStable, LabelOSStable, LabelTopologyRegion,
      CapacityTypeLabelKey, LabelInstanceFamily, LabelInstanceCPUType, LabelInstanceImageID}"
    using assms(1) unfolding requirement_keys_def computeRequirements_def by fastforce
  then show ?thesis by (auto simp: LabelTopologyZone_def LabelInstanceTypeStable_def LabelArchStable_def LabelOSStable_def
      LabelTopologyRegion_def CapacityTypeLabelKey_def LabelInstanceFamily_def LabelInstanceCPUType_def LabelInstanceImageID_def)
qed

lemmas label_keys = LabelTopologyZone_def LabelInstanceTypeStable_def LabelArchStable_def LabelOSStable_def
  LabelTopologyRegion_def CapacityTypeLabelKey_def LabelInstanceFamily_def LabelInstanceCPUType_def LabelInstanceImageID_def

lemma created_node_labels:
  "go_lookup [] (node_Labels (with_image tpl (created_node env n type_name ct region zone vmID vm))) LabelTopologyZone = zone"
  "go_lookup [] (node_Labels (with_image tpl (created_node env n type_name ct region zone vmID vm))) LabelTopologyRegion = region"
  "go_lookup [] (node_Labels (with_image tpl (created_node env n type_name ct region zone vmID vm))) LabelInstanceImageID = TemplateHash tpl"
  "map_of (node_Labels (with_image tpl (created_node env n type_name ct region zone vmID vm))) LabelInstanceTypeStable = Some type_name"
  "node_ProviderID (with_image tpl (created_node env n type_name ct region zone vmID vm)) = GetProviderID region vmID"
  by (simp_all add: with_image_def created_node_def go_lookup_update go_lookup_def label_keys)

lemma nodeToNodeClaim_simps [simp]:
  "claim_ProviderID (nodeToNodeClaim env it node) = node_ProviderID node"
  "claim_ImageID (nodeToNodeClaim env it node) = go_lookup [] (node_Labels node) LabelInstanceImageID"
  by (simp_all add: nodeToNodeClaim_def Let_def)

text \<open>What a successful \<open>Create\<close> has done: the class, type, place, template and id of the VM.\<close>

definition launched ::
  "('w, 'v, 'r) cloud_env \<Rightarrow> 'r NodeClaim \<Rightarrow> ('w, 'v, 'r) CloudProvider \<Rightarrow> 'r NodeClaim \<Rightarrow> ('w, 'v, 'r) CloudProvider
   \<Rightarrow> ProxmoxNodeClass \<Rightarrow> 'r InstanceType \<Rightarrow> string \<Rightarrow> string \<Rightarrow> InstanceTemplateInfo \<Rightarrow> int \<Rightarrow> node_object \<Rightarrow> bool" where
  "launched env claim c nc c' cls it region zone tpl vmID node \<longleftrightarrow>
     resolveNodeClassFromNodeClaim (GetNodeClass env) claim (in_world (instanceProvider c)) = Inr cls \<and>
     it \<in> set (resolveInstanceTypes env claim c) \<and>
     (\<exists>rest. class_templates (ce_pool env) (instanceTemplates c) cls region zone = tpl # rest) \<and>
     instances_Create (ce_instances env) (ce_sch env) (ce_pool env) (instanceTemplates c) claim cls (resolveInstanceTypes env claim c)
       (instanceProvider c) = (Inr node, instanceProvider c') \<and>
     (\<exists>ct vm. node = with_image tpl (created_node (ce_instances env) (claim_Name claim) (it_Name it) ct region zone vmID vm)) \<and>
     instanceTemplates c' = instanceTemplates c \<and> instanceTypes c' = instanceTypes c \<and>
     nc = (nodeToNodeClaim env (resolveInstanceTypeFromNode env node c') node)\<lparr>claim_Annotations := hash_annotations (ce_hash env) cls\<rparr> \<and>
     ParseProviderID (claim_ProviderID nc) = Inr (vmID, region)"

lemma cloud_Create_launched:
  assumes create: "cloud_Create env claim c = (Inr nc, c')" and names: "cluster_names (ce_instances env)"
  obtains cls it region zone tpl vmID node where "launched env claim c nc c' cls it region zone tpl vmID node"
proof -
  from create obtain cls node where cls: "resolveNodeClassFromNodeClaim (GetNodeClass env) claim (in_world (instanceProvider c)) = Inr cls"
    and node: "instances_Create (ce_instances env) (ce_sch env) (ce_pool env) (instanceTemplates c) claim cls (resolveInstanceTypes env claim c)
       (instanceProvider c) = (Inr node, instanceProvider c')"
    and same: "instanceTemplates c' = instanceTemplates c" "instanceTypes c' = instanceTypes c"
    and nc: "nc = (nodeToNodeClaim env (resolveInstanceTypeFromNode env node c') node)\<lparr>claim_Annotations := hash_annotations (ce_hash env) cls\<rparr>"
    by (rule cloud_Create_node)
  from node obtain it region zone tpl rest node0 s0 where it: "it \<in> set (resolveInstanceTypes env claim c)"
    and tpl: "class_templates (ce_pool env) (instanceTemplates c) cls region zone = tpl # rest"
    and made: "instanceCreate (ce_instances env) (ce_sch env) claim cls tpl it region zone s0 = (Inr node0, instanceProvider c')"
    and image: "node = with_image tpl node0" by (rule instances_Create_node)
  from instanceCreate_node [OF made] obtain px w req vmID ok w' ct vm where px: "ie_cluster (ce_instances env) region = Some px"
    and clone: "px_CloneVM px w (sint (TemplateID tpl)) req = ((vmID, ok), w')"
    and node0: "node0 = created_node (ce_instances env) (claim_Name claim) (it_Name it) ct region zone vmID vm" by blast
  have "CHR ''/'' \<notin> set region" "- (2 ^ 63) \<le> vmID" "vmID < 2 ^ 63"
    using names px clone unfolding cluster_names_def by (metis fst_conv)+
  then have "ParseProviderID (claim_ProviderID nc) = Inr (vmID, region)"
    using ParseProviderID_Get by (simp add: nc image node0 created_node_labels)
  with cls it tpl node same nc have "launched env claim c nc c' cls it region zone tpl vmID node"
    unfolding launched_def image node0 by blast
  then show thesis by (rule that)
qed

text \<open>
  C12. A node claim that has just been created is not drifted: as long as the class is the one it was
  created from and carries its own hash, or none yet, \<open>IsDrifted\<close> reports no drift, neither of the
  class nor of the image, so that karpenter does not replace a node it has just launched.
\<close>

theorem fresh_claim_not_drifted:
  assumes create: "cloud_Create env claim c = (Inr nc, c')"
    and laws: "requirement_keys env" "cluster_names (ce_instances env)" "LabelTopologyZone \<in> set (WellKnownLabels env)"
    and same: "resolveNodeClassFromNodeClaim (GetNodeClass env) claim (in_world (instanceProvider c')) =
      resolveNodeClassFromNodeClaim (GetNodeClass env) claim (in_world (instanceProvider c))"
    and hashed: "\<And>cls. resolveNodeClassFromNodeClaim (GetNodeClass env) claim (in_world (instanceProvider c)) = Inr cls \<Longrightarrow>
      map_of (class_Annotations cls) AnnotationProxmoxNodeClassHash \<in> {None, Some (class_Hash (ce_hash env) cls)}"
  shows "IsDrifted env (nc\<lparr>claim_NodeClassRef := claim_NodeClassRef claim\<rparr>) c' = Inr NoDrift"
proof -
  from create laws(2) obtain cls it region zone tpl vmID node where launch: "launched env claim c nc c' cls it region zone tpl vmID node"
    by (rule cloud_Create_launched)
  then have cls: "resolveNodeClassFromNodeClaim (GetNodeClass env) claim (in_world (instanceProvider c)) = Inr cls"
    and pid: "ParseProviderID (claim_ProviderID nc) = Inr (vmID, region)" and kept: "instanceTemplates c' = instanceTemplates c"
    and nc: "nc = (nodeToNodeClaim env (resolveInstanceTypeFromNode env node c') node)\<lparr>claim_Annotations := hash_annotations (ce_hash env) cls\<rparr>"
    unfolding launched_def by blast+
  from launch obtain rest ct vm where tpl: "class_templates (ce_pool env) (instanceTemplates c) cls region zone = tpl # rest"
    and node: "node = with_image tpl (created_node (ce_instances env) (claim_Name claim) (it_Name it) ct region zone vmID vm)"
    unfolding launched_def by blast
  let ?nc = "nc\<lparr>claim_NodeClassRef := claim_NodeClassRef claim\<rparr>"
  have resolve: "resolveNodeClassFromNodeClaim (GetNodeClass env) ?nc (in_world (instanceProvider c')) = Inr cls"
    using same cls by (simp add: resolveNodeClassFromNodeClaim_def)
  have "areStaticFieldsDrifted ?nc cls = NoDrift"
    using hashed [OF cls] by (auto simp: areStaticFieldsDrifted_def nc hash_annotations_def annotation_keys split: option.splits)
  moreover have "isTemplateDrifted (ce_pool env) (instanceTemplates c') ?nc cls = NoDrift"
  proof -
    have "go_lookup [] (claim_Labels nc) LabelTopologyZone = go_lookup [] (node_Labels node) LabelTopologyZone"
      unfolding nc using nodeToNodeClaim_label [OF laws(3) resolved_type_keys [OF laws(1)]] by (simp add: label_keys)
    then have "go_lookup [] (claim_Labels nc) LabelTopologyZone = zone" by (simp add: node created_node_labels)
    moreover have "claim_ImageID nc = TemplateHash tpl" by (simp add: nc node created_node_labels)
    ultimately show ?thesis
      using tpl pid kept unfolding isTemplateDrifted_def class_templates_def by simp
  qed
  ultimately show ?thesis by (simp add: IsDrifted_def resolve isNodeClassDrifted_def)
qed

lemma types_List_item:
  assumes "it \<in> set (types_List sch cap info)"
  obtains item where "item \<in> set info" "it_Name it = ts_Name item" "it_Capacity it = ts_Capacity item"
    "it = (list_type sch item)\<lparr>it_Requirements := computeRequirements sch (ts_Name item) (ts_Offerings item) (Regions cap)\<rparr>"
proof -
  obtain item where "item \<in> set info"
    "it = (list_type sch item)\<lparr>it_Requirements := computeRequirements sch (it_Name (list_type sch item)) (it_Offerings (list_type sch item)) (Regions cap)\<rparr>"
    using assms unfolding types_List_def types_ListWithFilter_def filter_True set_map by auto
  with that [of item] show thesis by (simp add: list_type_def)
qed

lemma types_Get_item:
  assumes "distinct (map ts_Name info)" and "item \<in> set info"
  shows "\<exists>it. types_Get sch cap info (ts_Name item) = Some it \<and> it_Capacity it = ts_Capacity item"
proof -
  have "filter (\<lambda>i. it_Name i = ts_Name item) (map (list_type sch) info) = [list_type sch item]"
    using assms
  proof (induction info)
    case (Cons a info)
    have "filter (\<lambda>i. it_Name i = ts_Name item) (map (list_type sch) info) = []" if "ts_Name item \<notin> ts_Name ` set info"
      using that by (simp add: filter_empty_conv list_type_def) (metis imageI)
    moreover have "it_Name (list_type sch a) = ts_Name a" by (simp add: list_type_def)
    ultimately show ?case using Cons by auto
  qed simp
  then show ?thesis by (simp add: types_Get_def types_ListWithFilter_def list_type_def)
qed

lemma types_List_unique:
  assumes "distinct (map ts_Name info)" and it: "it \<in> set (types_List sch cap info)" and it': "it' \<in> set (types_List sch cap info)"
    and "it_Name it' = it_Name it"
  shows "it' = it"
proof -
  from it obtain i where i: "i \<in> set info" "it_Name it = ts_Name i"
    "it = (list_type sch i)\<lparr>it_Requirements := computeRequirements sch (ts_Name i) (ts_Offerings i) (Regions cap)\<rparr>"
    by (rule types_List_item)
  from it' obtain j where j: "j \<in> set info" "it_Name it' = ts_Name j"
    "it' = (list_type sch j)\<lparr>it_Requirements := computeRequirements sch (ts_Name j) (ts_Offerings j) (Regions cap)\<rparr>"
    by (rule types_List_item)
  have "j = i" using i j assms(1,4) by (metis distinct_map inj_onD)
  with i j show ?thesis by simp
qed

text \<open>
  C13. The claim \<open>Create\<close> returns describes the VM that was reserved: its provider id names the
  region and its label the zone in which a reservation was made for it, for the resources of an
  instance type that was offered and whose allocatable resources fit the requests of the claim, and the
  capacity of the claim is that of the type. Beside this one, the books have changed by nothing but the
  reservations of earlier attempts of the call whose clone failed with the id 0; when every clone returns an
  id, it is the only one. Relied on: the cluster never names 0 as a free id.
\<close>

theorem created_claim_faithful:
  assumes create: "cloud_Create env claim c = (Inr nc, c')"
    and laws: "requirement_keys env" "cluster_names (ce_instances env)" "client_laws (ce_instances env)"
      "LabelTopologyZone \<in> set (WellKnownLabels env)"
    and types: "distinct (map ts_Name (instanceTypes c))" "list_all type_ok (resolveInstanceTypes env claim c)"
    and books: "books_ok (in_capacity (instanceProvider c))"
  shows "\<exists>it region vmID newID boot storage op' cls cap1.
    it \<in> set (types_List (ce_sch env) (in_capacity (instanceProvider c)) (instanceTypes c)) \<and>
    Available (Compatible (ce_sch env) (claim_Requirements claim) (it_Offerings it)) \<noteq> [] \<and>
    Fits env (claim_Requests claim) (Allocatable env it) \<and>
    ParseProviderID (claim_ProviderID nc) = Inr (vmID, region) \<and> claim_Capacity nc = non_zero (it_Capacity it) \<and>
    AllocateCapacityInZone cap1 region (go_lookup [] (claim_Labels nc) LabelTopologyZone)
      (Some (instance_request newID (it_Capacity it) boot storage)) = Inr (in_capacity (instanceProvider c'), op') \<and>
    (lost_clone (ce_instances env) (ce_sch env) claim cls (set (resolveInstanceTypes env claim c)))\<^sup>*\<^sup>* (in_capacity (instanceProvider c)) cap1 \<and>
    ((\<forall>region px w i req. ie_cluster (ce_instances env) region = Some px \<longrightarrow> fst (fst (px_CloneVM px w i req)) \<noteq> 0) \<longrightarrow>
       cap1 = in_capacity (instanceProvider c))"
proof -
  from create laws(2) obtain cls it region zone tpl vmID node where launch: "launched env claim c nc c' cls it region zone tpl vmID node"
    by (rule cloud_Create_launched)
  then have made: "instances_Create (ce_instances env) (ce_sch env) (ce_pool env) (instanceTemplates c) claim cls (resolveInstanceTypes env claim c)
       (instanceProvider c) = (Inr node, instanceProvider c')"
    and pid: "ParseProviderID (claim_ProviderID nc) = Inr (vmID, region)" and kept: "instanceTypes c' = instanceTypes c"
    and nc: "nc = (nodeToNodeClaim env (resolveInstanceTypeFromNode env node c') node)\<lparr>claim_Annotations := hash_annotations (ce_hash env) cls\<rparr>"
    and member: "it \<in> set (resolveInstanceTypes env claim c)"
    unfolding launched_def by blast+
  from launch obtain ct vm where node: "node = with_image tpl (created_node (ce_instances env) (claim_Name claim) (it_Name it) ct region zone vmID vm)"
    unfolding launched_def by blast
  obtain it' cap1 where it': "it' \<in> set (resolveInstanceTypes env claim c)"
    and lost: "lost_clones (ce_instances env) (ce_sch env) claim cls (set (resolveInstanceTypes env claim c)) (in_capacity (instanceProvider c)) cap1"
    and after: "books_after it' cap1 node (in_capacity (instanceProvider c'))"
    using create_success_books_once [OF laws(3) types(2) books made] by blast
  have "it_Name it' = it_Name it" using after by (auto simp: books_after_def node created_node_labels)
  have listed: "it \<in> set (types_List (ce_sch env) (in_capacity (instanceProvider c)) (instanceTypes c))"
    and listed': "it' \<in> set (types_List (ce_sch env) (in_capacity (instanceProvider c)) (instanceTypes c))"
    using member it' by (simp_all add: resolveInstanceTypes_def)
  from listed obtain item where item: "item \<in> set (instanceTypes c)" "it_Name it = ts_Name item" "it_Capacity it = ts_Capacity item"
    by (rule types_List_item)
  have "it' = it" using types_List_unique [OF types(1) listed listed' \<open>it_Name it' = it_Name it\<close>] .
  obtain it2 where "resolveInstanceTypeFromNode env node c' = Some it2" "it_Capacity it2 = it_Capacity it"
    using types_Get_item [OF types(1) item(1), of "ce_sch env" "in_capacity (instanceProvider c')"] item(2,3) kept
    by (auto simp: resolveInstanceTypeFromNode_def node created_node_labels)
  then have capacity: "claim_Capacity nc = non_zero (it_Capacity it)" by (simp add: nc nodeToNodeClaim_def Let_def)
  have "go_lookup [] (claim_Labels nc) LabelTopologyZone = go_lookup [] (node_Labels node) LabelTopologyZone"
    unfolding nc using nodeToNodeClaim_label [OF laws(4) resolved_type_keys [OF laws(1)]] by (simp add: label_keys)
  then have zone: "go_lookup [] (claim_Labels nc) LabelTopologyZone = zone" by (simp add: node created_node_labels)
  have "map_of (node_Labels node) LabelTopologyZone = Some zone" "map_of (node_Labels node) LabelTopologyRegion = Some region"
    by (simp_all add: node with_image_def created_node_def label_keys)
  then obtain newID boot storage op' where "AllocateCapacityInZone cap1 region zone
      (Some (instance_request newID (it_Capacity it) boot storage)) = Inr (in_capacity (instanceProvider c'), op')"
    using after unfolding \<open>it' = it\<close> by (auto simp: books_after_def)
  moreover have "Available (Compatible (ce_sch env) (claim_Requirements claim) (it_Offerings it)) \<noteq> []" "Fits env (claim_Requests claim) (Allocatable env it)"
    using member by (simp_all add: resolveInstanceTypes_def)
  ultimately show ?thesis using listed pid capacity zone lost lost_clones_none [OF lost] by blast
qed

section \<open>An example\<close>

text \<open>Creating an instance does not look at the requirements of its type, only at its offerings.\<close>

lemma without_requirements:
  "it_Name (it\<lparr>it_Requirements := r\<rparr>) = it_Name it" "it_Offerings (it\<lparr>it_Requirements := r\<rparr>) = it_Offerings it"
  "it_Capacity (it\<lparr>it_Requirements := r\<rparr>) = it_Capacity it" "it_Overhead (it\<lparr>it_Requirements := r\<rparr>) = it_Overhead it"
  by simp_all

lemma instanceCreate_requirements:
  "instanceCreate env sch claim cls tpl (it\<lparr>it_Requirements := r\<rparr>) region zone s = instanceCreate env sch claim cls tpl it region zone s"
  unfolding instanceCreate_def getCapacityType_def instance_setup_def attachCloudInitISO_def generateCloudInitVars_def
      userdata_values_def applyKubernetesConfiguration_def without_requirements ..

lemma create_in_zones_requirements:
  "create_in_zones env sch templates claim cls (it\<lparr>it_Requirements := r\<rparr>) region zones =
   create_in_zones env sch templates claim cls it region zones"
proof (induction zones)
  case (Cons zone zones)
  show ?case by (rule ext) (unfold create_in_zones.simps instanceCreate_requirements Cons.IH, rule refl)
qed (simp add: fun_eq_iff)

lemma candidate_requirements:
  "candidate_zones env sch cap claim cls (it\<lparr>it_Requirements := r\<rparr>) region = candidate_zones env sch cap claim cls it region"
  "candidate_regions sch cap cls (it\<lparr>it_Requirements := r\<rparr>) = candidate_regions sch cap cls it"
  unfolding candidate_zones_def candidate_regions_def getValuesByKey_def without_requirements by (rule refl)+

lemma create_in_regions_requirements:
  "create_in_regions env sch tpool tp claim cls (it\<lparr>it_Requirements := r\<rparr>) regions =
   create_in_regions env sch tpool tp claim cls it regions"
proof (induction regions)
  case (Cons region regions)
  show ?case
    by (rule ext) (unfold create_in_regions.simps create_in_zones_requirements candidate_requirements Cons.IH, rule refl)
qed (simp add: fun_eq_iff)

definition example_type_static :: "(string \<times> selector_op \<times> string list) list InstanceTypeStatic" where
  "example_type_static = \<lparr>ts_Name = it_Name example_type, ts_Capacity = it_Capacity example_type, ts_CapacityType = ''on-demand'',
     ts_Overhead = Some (it_Overhead example_type), ts_Offerings = it_Offerings example_type\<rparr>"

definition example_cloud_env :: "(unit, unit, (string \<times> selector_op \<times> string list) list) cloud_env" where
  "example_cloud_env = \<lparr>ce_instances = example_ienv ''dhcp'' True True 1, ce_sch = plain_scheduling, ce_pool = example_template_pool,
     ce_hash = \<lparr>hash_class_spec = (\<lambda>cls. ''1''), hash_inplace_fields = (\<lambda>f. ''2'')\<rparr>,
     GetNodeClass = (\<lambda>w n. Inr example_class), GetNode = (\<lambda>w n. Inl KubeNotFound), ListNodes = (\<lambda>w. None),
     ConditionReady = (\<lambda>cs. ConditionTrue), Allocatable = it_Capacity, Fits = (\<lambda>requests allocatable. True),
     req_Keys = map fst, req_Len = (\<lambda>rs k. case map_of rs k of Some (OpIn, vs) \<Rightarrow> int (length (remdups vs)) | _ \<Rightarrow> 0),
     WellKnownLabels = [LabelTopologyRegion, LabelTopologyZone, LabelInstanceTypeStable], api_error_text = (\<lambda>e. [])\<rparr>"

definition example_cloud :: "(unit, unit, (string \<times> selector_op \<times> string list) list) CloudProvider" where
  "example_cloud = \<lparr>instanceProvider = example_instances NewIpamProvider, instanceTypes = [example_type_static], instanceTemplates = example_cache\<rparr>"

lemma example_cloud_env_simps [simp]:
  "ce_instances example_cloud_env = example_ienv ''dhcp'' True True 1" "ce_sch example_cloud_env = plain_scheduling"
  "ce_pool example_cloud_env = example_template_pool" "GetNodeClass example_cloud_env w n = Inr example_class"
  "ConditionReady example_cloud_env cs = ConditionTrue" "Fits example_cloud_env rs al = True"
  "instanceProvider example_cloud = example_instances NewIpamProvider" "instanceTypes example_cloud = [example_type_static]"
  "instanceTemplates example_cloud = example_cache"
  by (simp_all add: example_cloud_env_def example_cloud_def)

lemma example_cloud_types:
  "\<exists>r. resolveInstanceTypes example_cloud_env example_claim example_cloud = [example_type\<lparr>it_Requirements := r\<rparr>]"
proof -
  have "list_type plain_scheduling example_type_static = example_type\<lparr>it_Requirements := []\<rparr>"
    by (simp add: list_type_def example_type_static_def example_type_def plain_scheduling_def)
  moreover have "Available (Compatible plain_scheduling (claim_Requirements example_claim) (it_Offerings example_type)) \<noteq> []"
    by (simp add: Available_def Compatible_def example_type_def example_claim_def example_reqs_def plain_scheduling_def label_keys)
  ultimately show ?thesis by (simp add: resolveInstanceTypes_def types_List_def types_ListWithFilter_def) blast
qed

lemma example_cloud_create: "\<exists>nc c'. cloud_Create example_cloud_env example_claim example_cloud = (Inr nc, c')"
proof -
  obtain r where its: "resolveInstanceTypes example_cloud_env example_claim example_cloud = [example_type\<lparr>it_Requirements := r\<rparr>]"
    using example_cloud_types by blast
  obtain x s' where "instances_Create (example_ienv ''dhcp'' True True 1) plain_scheduling example_template_pool example_cache
     example_claim example_class [example_type] (example_instances NewIpamProvider) = (x, s')" "\<not> isl x"
    using example_create_dhcp [of True 1 NewIpamProvider] example_Create example_instances_annotations by metis
  moreover have "instances_Create (example_ienv ''dhcp'' True True 1) plain_scheduling example_template_pool example_cache
     example_claim example_class [example_type\<lparr>it_Requirements := r\<rparr>] (example_instances NewIpamProvider) =
     instances_Create (example_ienv ''dhcp'' True True 1) plain_scheduling example_template_pool example_cache
     example_claim example_class [example_type] (example_instances NewIpamProvider)"
    by (simp add: instances_Create_def orderInstanceTypesByPrice_def sort_slice_def create_in_regions_requirements
        candidate_requirements)
  ultimately obtain node where "instances_Create (example_ienv ''dhcp'' True True 1) plain_scheduling example_template_pool example_cache
     example_claim example_class [example_type\<lparr>it_Requirements := r\<rparr>] (example_instances NewIpamProvider) = (Inr node, s')" by (cases x) auto
  with its show ?thesis
    by (simp add: cloud_Create_def resolveNodeClassFromNodeClaim_def) (simp add: example_claim_def Let_def)
qed

lemma example_cloud_laws:
  "requirement_keys example_cloud_env" "cluster_names (ce_instances example_cloud_env)"
  "LabelTopologyZone \<in> set (WellKnownLabels example_cloud_env)"
  by (auto simp: requirement_keys_def cluster_names_def example_cloud_env_def plain_scheduling_def split: if_splits)

theorem fresh_claim_not_drifted_witness:
  "\<exists>nc c'. cloud_Create example_cloud_env example_claim example_cloud = (Inr nc, c') \<and>
     IsDrifted example_cloud_env (nc\<lparr>claim_NodeClassRef := claim_NodeClassRef example_claim\<rparr>) c' = Inr NoDrift"
proof -
  obtain nc c' where create: "cloud_Create example_cloud_env example_claim example_cloud = (Inr nc, c')"
    using example_cloud_create by blast
  have "IsDrifted example_cloud_env (nc\<lparr>claim_NodeClassRef := claim_NodeClassRef example_claim\<rparr>) c' = Inr NoDrift"
    by (rule fresh_claim_not_drifted [OF create example_cloud_laws])
      (auto simp: resolveNodeClassFromNodeClaim_def example_claim_def example_class_def)
  with create show ?thesis by blast
qed

theorem created_claim_faithful_witness:
  "\<exists>nc c' it region vmID. cloud_Create example_cloud_env example_claim example_cloud = (Inr nc, c') \<and>
     it \<in> set (types_List plain_scheduling small_provider [example_type_static]) \<and>
     ParseProviderID (claim_ProviderID nc) = Inr (vmID, region) \<and> claim_Capacity nc = non_zero (it_Capacity it)"
proof -
  obtain nc c' where create: "cloud_Create example_cloud_env example_claim example_cloud = (Inr nc, c')"
    using example_cloud_create by blast
  obtain r where its: "resolveInstanceTypes example_cloud_env example_claim example_cloud = [example_type\<lparr>it_Requirements := r\<rparr>]"
    using example_cloud_types by blast
  have ok: "list_all type_ok (resolveInstanceTypes example_cloud_env example_claim example_cloud)"
    using example_type_ok by (simp add: its type_ok_def)
  have client: "client_laws (ce_instances example_cloud_env)" by (simp add: example_laws)
  have books: "books_ok (in_capacity (instanceProvider example_cloud))" "distinct (map ts_Name (instanceTypes example_cloud))"
    by (simp_all add: example_books example_instances_def)
  show ?thesis
    using created_claim_faithful [OF create example_cloud_laws(1,2) client example_cloud_laws(3) books(2) ok books(1)] create
    by (auto simp: example_instances_def)
qed

end
