(* ===== verification/Controllers.thy ===== *)
theory Controllers
  imports CloudProvider
begin

text \<open>
  The controllers of node classes and of unmanaged templates
  (\<open>src/pkg/controllers/nodeclass/{hash,status}\<close>, \<open>src/pkg/controllers/nodetemplateunmanagedclass/{hash,status}\<close>,
  \<open>src/pkg/apis/v1alpha1/nodetemplateunmanaged.go\<close>).

  A reconciler gets an object, changes its copy of it and writes the difference back with a patch.
  The Kubernetes client, the condition sets of operatorpkg, the hash function and karpenter's
  \<open>result.Min\<close> are parameters. Log lines are left out.
\<close>

section \<open>Reconciling\<close>

record Result =
  Requeue :: bool
  RequeueAfter :: int

definition no_requeue :: Result where
  "no_requeue = \<lparr>Requeue = False, RequeueAfter = 0\<rparr>"

definition requeue_after :: "int \<Rightarrow> Result" where
  "requeue_after seconds = \<lparr>Requeue = False, RequeueAfter = seconds\<rparr>"

definition requeue_now :: Result where
  "requeue_now = \<lparr>Requeue = True, RequeueAfter = 0\<rparr>"

datatype template_ref_error = MissingInstanceTemplateRef | UnsupportedKind string | TemplateKubeError kube_error

datatype ctl_error =
    ResolvingTemplateClass template_ref_error
  | TemplatesRefRequired
  | CtlKube kube_error
  | CtlClass class_error
  | CtlInstance instance_error
  | CtlToken token_error
  | CtlTemplate "template_error list"
  | CtlPanic

record condition_lib =
  SetTrue :: "string \<Rightarrow> conditions \<Rightarrow> conditions"
  SetFalse :: "string \<Rightarrow> string \<Rightarrow> string \<Rightarrow> conditions \<Rightarrow> conditions"
  SetUnknownWithReason :: "string \<Rightarrow> string \<Rightarrow> string \<Rightarrow> conditions \<Rightarrow> conditions"
  IsTrue :: "string \<Rightarrow> conditions \<Rightarrow> bool"
  result_Min :: "Result list \<Rightarrow> Result"

text \<open>An object is written back only when it has changed.\<close>

definition patch_changed :: "('w \<Rightarrow> 'o \<Rightarrow> 'o \<Rightarrow> kube_error option \<times> 'w) \<Rightarrow> 'o \<Rightarrow> 'o \<Rightarrow> 'w \<Rightarrow> kube_error option \<times> 'w" where
  "patch_changed patch old new w = (if old = new then (None, w) else patch w old new)"

text \<open>
  The end of the reconcilers that collect errors: a conflict is tried again at once, an object that
  is gone is no error.
\<close>

definition finish_patch :: "condition_lib \<Rightarrow> Result list \<Rightarrow> ctl_error list \<Rightarrow> kube_error option \<times> 'w \<Rightarrow> (Result \<times> ctl_error list) \<times> 'w" where
  "finish_patch cl results errs patched =
     (case patched of (err, w) \<Rightarrow>
        if err = Some KubeConflict then ((requeue_now, []), w)
        else let errs' = errs @ (case err of Some KubeFailure \<Rightarrow> [CtlKube KubeFailure] | _ \<Rightarrow> [])
             in if errs' \<noteq> [] then ((no_requeue, errs'), w) else ((result_Min cl results, []), w))"

section \<open>Unmanaged templates\<close>

record ProxmoxUnmanagedTemplate =
  ut_Name :: string
  ut_Annotations :: "(string, string) go_map"
  ut_Region :: string
  TemplateName :: string
  ut_Tags :: "string list"
  ut_Conditions :: conditions
  ut_Resources :: resource_list
  ut_ImageID :: string
  ut_Zones :: "string list"

definition unmanaged_Hash :: "(string \<times> string \<times> string list \<Rightarrow> string) \<Rightarrow> ProxmoxUnmanagedTemplate \<Rightarrow> string" where
  "unmanaged_Hash hash ut = hash (ut_Region ut, TemplateName ut, ut_Tags ut)"

definition unmanaged_Validate :: "ProxmoxUnmanagedTemplate \<Rightarrow> bool" where
  "unmanaged_Validate ut \<longleftrightarrow> \<not> (TemplateName ut = [] \<and> ut_Tags ut = [])"

definition ProxmoxTemplateClassHashVersion :: string where
  "ProxmoxTemplateClassHashVersion = ''v1''"

definition AnnotationProxmoxTemplateHash :: string where
  "AnnotationProxmoxTemplateHash = ''karpenter.proxmox.sinextra.dev/proxmoxtemplate-hash''"

definition AnnotationProxmoxTemplateHashVersion :: string where
  "AnnotationProxmoxTemplateHashVersion = ''karpenter.proxmox.sinextra.dev/proxmoxtemplate-hash-version''"

definition ConditionTemplateReady :: string where
  "ConditionTemplateReady = ''ProxmoxVirtualMachineTemplateReady''"

definition ResourceZones :: string where
  "ResourceZones = ''zones''"

definition zone_count :: "string list \<Rightarrow> resource_list" where
  "zone_count zones = [(ResourceZones, rat_of_nat (length zones))]"

definition unmanaged_hash_Reconcile ::
  "('w \<Rightarrow> ProxmoxUnmanagedTemplate \<Rightarrow> ProxmoxUnmanagedTemplate \<Rightarrow> kube_error option \<times> 'w) \<Rightarrow>
   (string \<times> string \<times> string list \<Rightarrow> string) \<Rightarrow> ProxmoxUnmanagedTemplate \<Rightarrow> 'w \<Rightarrow> (Result \<times> ctl_error list) \<times> 'w" where
  "unmanaged_hash_Reconcile patch hash ut w =
     (if ut_Zones ut = [] then ((no_requeue, []), w)
      else case patch_changed patch ut
                  (ut\<lparr>ut_Annotations := Assign (ut_Annotations ut) [(AnnotationProxmoxTemplateHash, unmanaged_Hash hash ut),
                        (AnnotationProxmoxTemplateHashVersion, ProxmoxTemplateClassHashVersion)]\<rparr>) w of
             (Some e, w') \<Rightarrow> ((no_requeue, [CtlKube e]), w')
           | (None, w') \<Rightarrow> ((no_requeue, []), w'))"

definition unmanaged_templateScanPeriod :: int where
  "unmanaged_templateScanPeriod = 300"

definition unmanaged_matches :: "ProxmoxUnmanagedTemplate \<Rightarrow> InstanceTemplateInfo \<Rightarrow> bool" where
  "unmanaged_matches ut info \<longleftrightarrow>
     \<not> (TemplateName ut \<noteq> [] \<and> ti_Name info \<noteq> TemplateName ut \<or> ut_Region ut \<noteq> [] \<and> ti_Region info \<noteq> ut_Region ut) \<and>
     \<not> (ut_Tags ut \<noteq> [] \<and> \<not> list_all (\<lambda>tag. tag \<in> set (TemplateTags info)) (ut_Tags ut))"

definition template_key :: "InstanceTemplateInfo \<Rightarrow> string" where
  "template_key info = selected_zone (ti_Region info) (ti_Zone info) (uint (TemplateID info))"

definition unmanaged_InstanceTemplate_Reconcile ::
  "condition_lib \<Rightarrow> template_lib \<Rightarrow> 'v template_pool \<Rightarrow> ProxmoxUnmanagedTemplate \<Rightarrow> 'v templates
   \<Rightarrow> (Result \<times> ProxmoxUnmanagedTemplate) \<times> 'v templates" where
  "unmanaged_InstanceTemplate_Reconcile cl lib pool ut p =
     (if \<not> unmanaged_Validate ut
      then ((no_requeue, ut\<lparr>ut_Zones := [], ut_Conditions := SetFalse cl ConditionTemplateReady ''TemplateValidation''
               ''at least one of templateName or tags must be specified'' (ut_Conditions ut)\<rparr>), p)
      else let p' = SyncInstanceTemplates lib pool [] p; templates = templates_ListWithFilter pool p' (unmanaged_matches ut)
           in if templates = []
              then ((requeue_after unmanaged_templateScanPeriod, ut\<lparr>ut_Zones := [], ut_Conditions := SetFalse cl ConditionTemplateReady ''TemplatesNotFound''
                       ''Proxmox Template did not match the node class requirements'' (ut_Conditions ut)\<rparr>), p')
              else ((requeue_after unmanaged_templateScanPeriod, ut\<lparr>ut_Zones := map template_key templates,
                       ut_Conditions := SetTrue cl ConditionTemplateReady (ut_Conditions ut)\<rparr>), p'))"

definition unmanaged_status_Reconcile ::
  "('v \<Rightarrow> ProxmoxUnmanagedTemplate \<Rightarrow> ProxmoxUnmanagedTemplate \<Rightarrow> kube_error option \<times> 'v) \<Rightarrow>
   condition_lib \<Rightarrow> template_lib \<Rightarrow> 'v template_pool \<Rightarrow> ProxmoxUnmanagedTemplate \<Rightarrow> 'v templates
   \<Rightarrow> (Result \<times> ctl_error list) \<times> 'v templates" where
  "unmanaged_status_Reconcile patch_status cl lib pool ut p =
     (case unmanaged_InstanceTemplate_Reconcile cl lib pool ut p of ((res, ut1), p') \<Rightarrow>
        case finish_patch cl [res] [] (patch_changed patch_status ut (ut1\<lparr>ut_Resources := zone_count (ut_Zones ut1)\<rparr>) (tpl_world p')) of
          (r, w) \<Rightarrow> (r, p'\<lparr>tpl_world := w\<rparr>))"

section \<open>Node classes\<close>

datatype ProxmoxCommonTemplate = ManagedTemplate ProxmoxTemplate | UnmanagedTemplate ProxmoxUnmanagedTemplate

fun common_GetZones :: "ProxmoxCommonTemplate \<Rightarrow> string list" where
  "common_GetZones (ManagedTemplate cls) = st_Zones cls"
| "common_GetZones (UnmanagedTemplate ut) = ut_Zones ut"

record 'w class_api =
  GetTemplate :: "'w \<Rightarrow> string \<Rightarrow> kube_error + ProxmoxTemplate"
  GetUnmanagedTemplate :: "'w \<Rightarrow> string \<Rightarrow> kube_error + ProxmoxUnmanagedTemplate"
  GetSecret :: "'w \<Rightarrow> SecretReference \<Rightarrow> kube_error option"
  PatchClass :: "'w \<Rightarrow> ProxmoxNodeClass \<Rightarrow> ProxmoxNodeClass \<Rightarrow> kube_error option \<times> 'w"
  PatchClassStatus :: "'w \<Rightarrow> ProxmoxNodeClass \<Rightarrow> ProxmoxNodeClass \<Rightarrow> kube_error option \<times> 'w"

definition nodeclass_hash_Reconcile ::
  "'w class_api \<Rightarrow> class_lib \<Rightarrow> ProxmoxNodeClass \<Rightarrow> 'w \<Rightarrow> (Result \<times> ctl_error list) \<times> 'w" where
  "nodeclass_hash_Reconcile api lib cls w =
     (case patch_changed (PatchClass api) cls
             (cls\<lparr>class_Annotations := Assign (class_Annotations cls) [(AnnotationProxmoxNodeClassHash, class_Hash lib cls),
                   (AnnotationProxmoxNodeClassHashVersion, ProxmoxNodeClassHashVersion)]\<rparr>) w of
        (Some e, w') \<Rightarrow> ((no_requeue, [CtlKube e]), w')
      | (None, w') \<Rightarrow> ((no_requeue, []), w'))"

definition ConditionInstanceTemplateReady :: string where
  "ConditionInstanceTemplateReady = ''InstanceTemplateReady''"

definition ConditionInstanceMetadataOptionsReady :: string where
  "ConditionInstanceMetadataOptionsReady = ''InstanceMetadataOptionsReady''"

definition class_templateScanPeriod :: int where
  "class_templateScanPeriod = 15"

definition metadataScanPeriod :: int where
  "metadataScanPeriod = 60"

definition resolveProxmoxTemplateFromNodeClass ::
  "'w class_api \<Rightarrow> ProxmoxNodeClass \<Rightarrow> 'w \<Rightarrow> template_ref_error + ProxmoxCommonTemplate" where
  "resolveProxmoxTemplateFromNodeClass api cls w =
     (case InstanceTemplateRef cls of
        None \<Rightarrow> Inl MissingInstanceTemplateRef
      | Some ref \<Rightarrow>
          if ref_Kind ref = ''ProxmoxUnmanagedTemplate''
          then (case GetUnmanagedTemplate api w (ref_Name ref) of
                  Inl e \<Rightarrow> Inl (TemplateKubeError e) | Inr ut \<Rightarrow> Inr (UnmanagedTemplate ut))
          else if ref_Kind ref = ''ProxmoxTemplate''
          then (case GetTemplate api w (ref_Name ref) of
                  Inl e \<Rightarrow> Inl (TemplateKubeError e) | Inr cls \<Rightarrow> Inr (ManagedTemplate cls))
          else Inl (UnsupportedKind (ref_Kind ref)))"

definition zones_in_region :: "ProxmoxNodeClass \<Rightarrow> string list \<Rightarrow> string list" where
  "zones_in_region cls zones =
     (if class_Region cls \<noteq> [] then filter (\<lambda>zone. SplitN zone (CHR ''/'') 2 ! 0 = class_Region cls) zones else zones)"

definition available_zones :: "cloudProvider \<Rightarrow> ProxmoxNodeClass \<Rightarrow> string list \<Rightarrow> string list" where
  "available_zones cap cls zones =
     concat (map (\<lambda>region. case GetStorage cap region (bd_Storage (BootDevice cls)) [] of
                None \<Rightarrow> []
              | Some storage \<Rightarrow>
                  List.map_filter (\<lambda>z. find (\<lambda>item. HasPrefix item (region @ ''/'' @ z @ ''/'')) zones) (sc_Zones storage)) (Regions cap))"

definition class_InstanceTemplate_Reconcile ::
  "'w class_api \<Rightarrow> condition_lib \<Rightarrow> cloudProvider \<Rightarrow> ProxmoxNodeClass \<Rightarrow> 'w \<Rightarrow> Result \<times> ctl_error option \<times> ProxmoxNodeClass" where
  "class_InstanceTemplate_Reconcile api cl cap cls w =
     (case resolveProxmoxTemplateFromNodeClass api cls w of
        Inl e \<Rightarrow>
          (no_requeue, Some (ResolvingTemplateClass e),
           if e = TemplateKubeError KubeNotFound
           then cls\<lparr>class_Conditions := SetFalse cl ConditionInstanceTemplateReady ''TemplatesNotFound''
                      ''Proxmox Template resource reference did not find'' (class_Conditions cls)\<rparr>
           else cls)
      | Inr template \<Rightarrow>
          let zones = available_zones cap cls (zones_in_region cls (common_GetZones template))
          in (requeue_after class_templateScanPeriod, None,
              cls\<lparr>class_Resources := zone_count zones, SelectedZones := zones,
                  class_Conditions :=
                    (if zones = []
                     then SetFalse cl ConditionInstanceTemplateReady ''TemplatesNotFound''
                            ''Proxmox Template did not match the node class requirements'' (class_Conditions cls)
                     else SetTrue cl ConditionInstanceTemplateReady (class_Conditions cls))\<rparr>))"

definition templates_ref_message :: string where
  "templates_ref_message =
     ''metadataOptions.TemplatesRef is required when metadataOptions.Type is '' @ CHR 0x27 # ''cdrom'' @ [CHR 0x27]"

definition MetadataOptions_Reconcile ::
  "'w class_api \<Rightarrow> condition_lib \<Rightarrow> ProxmoxNodeClass \<Rightarrow> 'w \<Rightarrow> Result \<times> ctl_error option \<times> ProxmoxNodeClass" where
  "MetadataOptions_Reconcile api cl cls w =
     (let ready = cls\<lparr>class_Conditions := SetTrue cl ConditionInstanceMetadataOptionsReady (class_Conditions cls)\<rparr>;
          missing = (\<lambda>message. cls\<lparr>class_Conditions :=
             SetFalse cl ConditionInstanceMetadataOptionsReady ''MetadataOptionsNotFound'' message (class_Conditions cls)\<rparr>)
      in if mo_Type (class_MetadataOptions cls) \<noteq> ''cdrom'' then (no_requeue, None, ready)
         else case TemplatesRef (class_MetadataOptions cls) of
                None \<Rightarrow> (no_requeue, Some TemplatesRefRequired, missing templates_ref_message)
              | Some ref \<Rightarrow>
                  if sr_Name ref = [] \<or> sr_Namespace ref = []
                  then (no_requeue, Some TemplatesRefRequired, missing templates_ref_message)
                  else (case GetSecret api w ref of
                         None \<Rightarrow> (no_requeue, None, ready)
                       | Some e \<Rightarrow>
                           if e = KubeNotFound
                           then (requeue_after metadataScanPeriod, None, missing ''Metadata TemplatesRef secret resource not found'')
                           else (no_requeue, Some (CtlKube e), cls)))"

definition option_list :: "'a option \<Rightarrow> 'a list" where
  "option_list x = (case x of None \<Rightarrow> [] | Some a \<Rightarrow> [a])"

text \<open>The class as the two reconcilers leave it, their results and errors.\<close>

definition class_status ::
  "'w class_api \<Rightarrow> condition_lib \<Rightarrow> cloudProvider \<Rightarrow> ProxmoxNodeClass \<Rightarrow> 'w \<Rightarrow> ProxmoxNodeClass \<times> Result list \<times> ctl_error list" where
  "class_status api cl cap cls w =
     (case class_InstanceTemplate_Reconcile api cl cap cls w of (res1, err1, cls1) \<Rightarrow>
        case MetadataOptions_Reconcile api cl cls1 w of (res2, err2, cls2) \<Rightarrow>
          (cls2, [res1, res2], option_list err1 @ option_list err2))"

definition nodeclass_status_Reconcile ::
  "'w class_api \<Rightarrow> condition_lib \<Rightarrow> cloudProvider \<Rightarrow> ProxmoxNodeClass \<Rightarrow> 'w \<Rightarrow> (Result \<times> ctl_error list) \<times> 'w" where
  "nodeclass_status_Reconcile api cl cap cls w =
     (case class_status api cl cap cls w of (cls', results, errs) \<Rightarrow>
        finish_patch cl results errs (patch_changed (PatchClassStatus api) cls cls' w))"

section \<open>Selected zones\<close>

text \<open>
  What is relied on of the condition sets: a condition that is set has the status it was set to, and
  setting a condition changes no other one but the root condition \<open>Ready\<close>.
\<close>

definition condition_laws :: "condition_lib \<Rightarrow> bool" where
  "condition_laws cl \<longleftrightarrow>
     (\<forall>t cs. IsTrue cl t (SetTrue cl t cs)) \<and> (\<forall>t reason message cs. \<not> IsTrue cl t (SetFalse cl t reason message cs)) \<and>
     (\<forall>t reason message cs. \<not> IsTrue cl t (SetUnknownWithReason cl t reason message cs)) \<and>
     (\<forall>t u cs. t \<noteq> u \<longrightarrow> t \<noteq> ''Ready'' \<longrightarrow> IsTrue cl t (SetTrue cl u cs) = IsTrue cl t cs) \<and>
     (\<forall>t u reason message cs. t \<noteq> u \<longrightarrow> t \<noteq> ''Ready'' \<longrightarrow> IsTrue cl t (SetFalse cl u reason message cs) = IsTrue cl t cs)"

text \<open>The names of regions and zones have no slash.\<close>

definition plain_name :: "string \<Rightarrow> bool" where
  "plain_name s \<longleftrightarrow> CHR ''/'' \<notin> set s"

definition zone_keys :: "string list \<Rightarrow> bool" where
  "zone_keys keys \<longleftrightarrow> (\<forall>key \<in> set keys. \<exists>region zone tid. key = selected_zone region zone tid \<and> plain_name region \<and> plain_name zone)"

definition plain_names :: "cloudProvider \<Rightarrow> bool" where
  "plain_names cap \<longleftrightarrow> (\<forall>region \<in> set (Regions cap). plain_name region) \<and>
     (\<forall>info \<in> snd ` set (storageInfo cap). \<forall>zone \<in> set (sc_Zones info). plain_name zone)"

lemma HasPrefix_part:
  assumes "sep \<notin> set a" and "sep \<notin> set b"
  shows "HasPrefix (a @ sep # x) (b @ sep # y) \<longleftrightarrow> a = b \<and> HasPrefix x y"
  using assms
proof (induction b arbitrary: a)
  case Nil
  then show ?case by (cases a) (auto simp: HasPrefix_def)
next
  case (Cons c b)
  then show ?case by (cases a) (auto simp: HasPrefix_def)
qed

lemma selected_zone_prefix:
  assumes "plain_name r" "plain_name z" "plain_name region"
  shows "HasPrefix (selected_zone r z tid) (region @ ''/'') \<longleftrightarrow> r = region"
    and "plain_name zone \<Longrightarrow> HasPrefix (selected_zone r z tid) (region @ ''/'' @ zone @ ''/'') \<longleftrightarrow> r = region \<and> z = zone"
  using assms by (simp_all add: selected_zone_def plain_name_def HasPrefix_part) (simp_all add: HasPrefix_def)

lemma selected_zone_region:
  assumes "plain_name r" "plain_name z"
  shows "SplitN (selected_zone r z tid) (CHR ''/'') 2 ! 0 = r"
  using assms by (simp add: selected_zone_def plain_name_def numeral_2_eq_2 SplitN_append del: SplitN.simps(3))

lemma zones_in_region_keys:
  assumes "zone_keys keys"
  shows "key \<in> set (zones_in_region cls keys) \<longleftrightarrow>
    key \<in> set keys \<and> (\<exists>region zone tid. key = selected_zone region zone tid \<and> plain_name region \<and> plain_name zone \<and>
      class_Region cls \<in> {[], region})"
proof -
  have "SplitN key (CHR ''/'') 2 ! 0 = class_Region cls \<longleftrightarrow>
      (\<exists>region zone tid. key = selected_zone region zone tid \<and> plain_name region \<and> plain_name zone \<and> class_Region cls = region)"
    if member: "key \<in> set keys"
  proof -
    obtain r z t where key: "key = selected_zone r z t" and names: "plain_name r" "plain_name z"
      using assms member unfolding zone_keys_def by blast
    then have "SplitN key (CHR ''/'') 2 ! 0 = r" by (simp add: selected_zone_region)
    then show ?thesis using key names by (metis selected_zone_region)
  qed
  then show ?thesis using assms by (auto simp: zones_in_region_def zone_keys_def)
qed

lemma zones_in_region_iff:
  assumes keys: "zone_keys keys" and region: "plain_name region" and zone: "plain_name zone"
  shows "(\<exists>key \<in> set (zones_in_region cls keys). HasPrefix key (region @ ''/'' @ zone @ ''/'')) \<longleftrightarrow>
    class_Region cls \<in> {[], region} \<and> (\<exists>tid. selected_zone region zone tid \<in> set keys)"
proof
  assume "\<exists>key \<in> set (zones_in_region cls keys). HasPrefix key (region @ ''/'' @ zone @ ''/'')"
  then obtain r z t where key: "selected_zone r z t \<in> set keys" "plain_name r" "plain_name z" "class_Region cls \<in> {[], r}"
    "HasPrefix (selected_zone r z t) (region @ ''/'' @ zone @ ''/'')"
    unfolding Bex_def zones_in_region_keys [OF keys] by blast
  then have "r = region \<and> z = zone" using selected_zone_prefix(2) [OF key(2,3) region zone] by simp
  with key show "class_Region cls \<in> {[], region} \<and> (\<exists>tid. selected_zone region zone tid \<in> set keys)" by blast
next
  assume "class_Region cls \<in> {[], region} \<and> (\<exists>tid. selected_zone region zone tid \<in> set keys)"
  then obtain tid where "class_Region cls \<in> {[], region}" "selected_zone region zone tid \<in> set keys" by blast
  then have "selected_zone region zone tid \<in> set (zones_in_region cls keys)"
    unfolding zones_in_region_keys [OF keys] using region zone by blast
  moreover have "HasPrefix (selected_zone region zone tid) (region @ ''/'' @ zone @ ''/'')"
    using selected_zone_prefix(2) [OF region zone region zone] by simp
  ultimately show "\<exists>key \<in> set (zones_in_region cls keys). HasPrefix key (region @ ''/'' @ zone @ ''/'')" by blast
qed

lemma map_filter_member: "y \<in> set (List.map_filter f xs) \<longleftrightarrow> (\<exists>x \<in> set xs. f x = Some y)"
  by (force simp: List.map_filter_def)

lemma set_case_option: "y \<in> set (case o1 of None \<Rightarrow> [] | Some x \<Rightarrow> f x) \<longleftrightarrow> (\<exists>x. o1 = Some x \<and> y \<in> set (f x))"
  by (cases o1) auto

lemma available_zones_member:
  "key \<in> set (available_zones cap cls zones) \<longleftrightarrow>
     (\<exists>region \<in> set (Regions cap). \<exists>storage. GetStorage cap region (bd_Storage (BootDevice cls)) [] = Some storage \<and>
        (\<exists>z \<in> set (sc_Zones storage). find (\<lambda>item. HasPrefix item (region @ ''/'' @ z @ ''/'')) zones = Some key))"
  unfolding available_zones_def set_concat set_map Union_iff bex_simps set_case_option map_filter_member by blast

lemma find_key: "find P xs = Some x \<Longrightarrow> x \<in> set xs \<and> P x"
  by (auto simp: find_Some_iff)

lemma GetStorage_plain:
  assumes "plain_names cap" "GetStorage cap region name [] = Some storage" "zone \<in> set (sc_Zones storage)"
  shows "plain_name zone"
  using assms by (force simp: plain_names_def GetStorage_def dest: map_of_SomeD split: option.splits)

lemma available_zones_iff:
  assumes keys: "zone_keys keys" and cap: "plain_names cap" and names: "plain_name region" "plain_name zone"
  shows "(\<exists>tid. selected_zone region zone tid \<in> set (available_zones cap cls (zones_in_region cls keys))) \<longleftrightarrow>
    region \<in> set (Regions cap) \<and> class_Region cls \<in> {[], region} \<and>
    (\<exists>storage. GetStorage cap region (bd_Storage (BootDevice cls)) [] = Some storage \<and> zone \<in> set (sc_Zones storage)) \<and>
    (\<exists>tid. selected_zone region zone tid \<in> set keys)" (is "?selected \<longleftrightarrow> ?available")
proof
  assume ?selected
  then obtain tid r storage z where found: "r \<in> set (Regions cap)" "GetStorage cap r (bd_Storage (BootDevice cls)) [] = Some storage"
    "z \<in> set (sc_Zones storage)" "selected_zone region zone tid \<in> set (zones_in_region cls keys)"
    "HasPrefix (selected_zone region zone tid) (r @ ''/'' @ z @ ''/'')"
    unfolding available_zones_member by (blast dest: find_key)
  have "plain_name r" "plain_name z" using found(1) cap GetStorage_plain [OF cap found(2,3)] by (auto simp: plain_names_def)
  then have "r = region" "z = zone" using selected_zone_prefix(2) [OF names] found(5) by simp_all
  then show ?available using found zones_in_region_iff [OF keys names] by metis
next
  assume available: ?available
  then obtain storage where storage: "GetStorage cap region (bd_Storage (BootDevice cls)) [] = Some storage" "zone \<in> set (sc_Zones storage)"
    by blast
  have "\<exists>key \<in> set (zones_in_region cls keys). HasPrefix key (region @ ''/'' @ zone @ ''/'')"
    using available unfolding zones_in_region_iff [OF keys names] by blast
  then obtain key where found: "find (\<lambda>item. HasPrefix item (region @ ''/'' @ zone @ ''/'')) (zones_in_region cls keys) = Some key"
    by (metis (mono_tags, lifting) find_None_iff not_Some_eq)
  then have "key \<in> set (zones_in_region cls keys)" and prefix: "HasPrefix key (region @ ''/'' @ zone @ ''/'')" by (auto dest: find_key)
  then obtain r z t where key: "key = selected_zone r z t" "plain_name r" "plain_name z" unfolding zones_in_region_keys [OF keys] by blast
  then have "key = selected_zone region zone t" using selected_zone_prefix(2) [OF key(2,3) names] prefix by simp
  then show ?selected using available storage found unfolding available_zones_member by blast
qed

lemma GetZones_iff:
  assumes "zone_keys (SelectedZones cls)" and region: "plain_name region"
  shows "zone \<in> set (GetZones cls region) \<longleftrightarrow> plain_name zone \<and> (\<exists>tid. selected_zone region zone tid \<in> set (SelectedZones cls))"
proof -
  have "(if \<not> HasPrefix (selected_zone r z t) (region @ ''/'') then None
         else case SplitN (selected_zone r z t) (CHR ''/'') 3 of [_, zone, _] \<Rightarrow> Some zone | _ \<Rightarrow> None) =
      (if r = region then Some z else None)" if "plain_name r" "plain_name z" for r z t
    using that region by (simp add: selected_zone_prefix(1) SplitN_selected_zone plain_name_def)
  then show ?thesis
    using assms(1) region unfolding GetZones_def map_filter_member zone_keys_def
    by (smt (verit, del_insts) option.inject option.distinct(1))
qed

lemma available_zones_keys:
  assumes "zone_keys keys"
  shows "set (available_zones cap cls (zones_in_region cls keys)) \<subseteq> set keys"
    and "zone_keys (available_zones cap cls (zones_in_region cls keys))"
proof -
  show keys: "set (available_zones cap cls (zones_in_region cls keys)) \<subseteq> set keys"
    unfolding subset_iff available_zones_member by (auto simp: zones_in_region_keys [OF assms] dest!: find_key)
  then show "zone_keys (available_zones cap cls (zones_in_region cls keys))"
    using assms unfolding zone_keys_def by blast
qed

lemma MetadataOptions_keeps:
  assumes "MetadataOptions_Reconcile api cl cls w = (res, err, cls')" and "condition_laws cl"
  shows "SelectedZones cls' = SelectedZones cls"
    and "IsTrue cl ConditionInstanceTemplateReady (class_Conditions cls') = IsTrue cl ConditionInstanceTemplateReady (class_Conditions cls)"
  using assms
  by (auto simp: MetadataOptions_Reconcile_def Let_def condition_laws_def ConditionInstanceTemplateReady_def
      ConditionInstanceMetadataOptionsReady_def split: if_splits option.splits)

text \<open>
  C11. The zones the status of a node class selects. For a class that names its boot storage, a zone is
  selected iff its region is known, is the region of the class if the class names one, the
  storage is in the zone, and the template of the class is installed there. A class
  that names no storage selects no zone at all and never gets ready, although its documentation says
  that the storage of the template is used then, and \<open>instanceCreate\<close> would use it. Every selected entry is
  one of the template, and the class is ready for its template iff there is one. The storages of the
  clusters have names.
\<close>

theorem class_selects_zones:
  assumes resolved: "resolveProxmoxTemplateFromNodeClass api cls w = Inr template"
    and status: "class_status api cl cap cls w = (cls', results, errs)"
    and laws: "condition_laws cl" and keys: "zone_keys (common_GetZones template)" and names: "plain_names cap"
    and named: "\<And>region. GetStorage cap region [] [] = None"
  shows "set (SelectedZones cls') \<subseteq> set (common_GetZones template) \<and>
    (IsTrue cl ConditionInstanceTemplateReady (class_Conditions cls') \<longleftrightarrow> SelectedZones cls' \<noteq> []) \<and>
    (bd_Storage (BootDevice cls) \<noteq> [] \<longrightarrow> (\<forall>region zone. plain_name region \<and> plain_name zone \<longrightarrow>
      (zone \<in> set (GetZones cls' region) \<longleftrightarrow>
         region \<in> set (Regions cap) \<and> class_Region cls \<in> {[], region} \<and>
         (\<exists>storage. GetStorage cap region (bd_Storage (BootDevice cls)) [] = Some storage \<and> zone \<in> set (sc_Zones storage)) \<and>
         (\<exists>tid. selected_zone region zone tid \<in> set (common_GetZones template))))) \<and>
    (bd_Storage (BootDevice cls) = [] \<longrightarrow> SelectedZones cls' = [])"
proof -
  let ?zones = "available_zones cap cls (zones_in_region cls (common_GetZones template))"
  obtain res1 cls1 where first: "class_InstanceTemplate_Reconcile api cl cap cls w = (res1, None, cls1)"
    and zones: "SelectedZones cls1 = ?zones"
    and ready: "IsTrue cl ConditionInstanceTemplateReady (class_Conditions cls1) \<longleftrightarrow> ?zones \<noteq> []"
    using laws by (auto simp: class_InstanceTemplate_Reconcile_def resolved Let_def condition_laws_def)
  obtain res2 err2 where "MetadataOptions_Reconcile api cl cls1 w = (res2, err2, cls')"
    using status by (auto simp: class_status_def first split: prod.splits)
  from MetadataOptions_keeps [OF this laws] zones ready have selected: "SelectedZones cls' = ?zones"
    and ready': "IsTrue cl ConditionInstanceTemplateReady (class_Conditions cls') \<longleftrightarrow> SelectedZones cls' \<noteq> []" by simp_all
  have "zone_keys (SelectedZones cls')" using available_zones_keys(2) [OF keys] by (simp add: selected)
  then have "zone \<in> set (GetZones cls' region) \<longleftrightarrow>
         region \<in> set (Regions cap) \<and> class_Region cls \<in> {[], region} \<and>
         (\<exists>storage. GetStorage cap region (bd_Storage (BootDevice cls)) [] = Some storage \<and> zone \<in> set (sc_Zones storage)) \<and>
         (\<exists>tid. selected_zone region zone tid \<in> set (common_GetZones template))"
    if "plain_name region" "plain_name zone" for region zone
    using GetZones_iff [of cls' region zone] available_zones_iff [OF keys names that] that by (simp add: selected)
  moreover have "?zones = []" if none: "bd_Storage (BootDevice cls) = []"
  proof -
    have "key \<notin> set ?zones" for key using named by (simp add: available_zones_member none)
    then show ?thesis by (metis list.set_intros(1) neq_Nil_conv)
  qed
  ultimately show ?thesis using ready' available_zones_keys(1) [OF keys] by (simp add: selected)
qed

definition example_conditions :: condition_lib where
  "example_conditions =
     \<lparr>SetTrue = (\<lambda>t cs. go_update cs t \<lparr>cond_Status = ConditionTrue, cond_Reason = t, cond_Message = []\<rparr>),
      SetFalse = (\<lambda>t reason message cs. go_update cs t \<lparr>cond_Status = ConditionFalse, cond_Reason = reason, cond_Message = message\<rparr>),
      SetUnknownWithReason = (\<lambda>t reason message cs.
        go_update cs t \<lparr>cond_Status = ConditionUnknown, cond_Reason = reason, cond_Message = message\<rparr>),
      IsTrue = (\<lambda>t cs. case map_of cs t of None \<Rightarrow> False | Some c \<Rightarrow> cond_Status c = ConditionTrue),
      result_Min = (\<lambda>rs. hd rs)\<rparr>"

lemma example_condition_laws: "condition_laws example_conditions"
  by (simp add: condition_laws_def example_conditions_def)

definition example_class_api :: "unit class_api" where
  "example_class_api = \<lparr>GetTemplate = (\<lambda>w n. Inr example_template), GetUnmanagedTemplate = (\<lambda>w n. Inl KubeNotFound),
     GetSecret = (\<lambda>w ref. None), PatchClass = (\<lambda>w old new. (None, w)), PatchClassStatus = (\<lambda>w old new. (None, w))\<rparr>"

definition example_local_class :: ProxmoxNodeClass where
  "example_local_class = example_class\<lparr>BootDevice := \<lparr>bd_Size = Some 30000000000, bd_Storage = ''a''\<rparr>, SelectedZones := []\<rparr>"

theorem class_selects_zones_witness:
  "\<exists>cls' results. class_status example_class_api example_conditions example_storages example_local_class () = (cls', results, []) \<and>
     ''node-1'' \<in> set (GetZones cls' ''r'') \<and> ''node-2'' \<notin> set (GetZones cls' ''r'')"
proof -
  have named: "GetStorage example_storages region [] [] = None" for region
    by (simp add: GetStorage_def example_storages_def zone_key_def split: if_splits)
  have storage: "bd_Storage (BootDevice example_local_class) \<noteq> []" by (simp add: example_local_class_def)
  have resolved: "resolveProxmoxTemplateFromNodeClass example_class_api example_local_class () = Inr (ManagedTemplate example_template)"
    by (simp add: resolveProxmoxTemplateFromNodeClass_def example_class_api_def example_local_class_def example_class_def)
  have "mo_Type (class_MetadataOptions example_local_class) \<noteq> ''cdrom''" by (simp add: example_local_class_def example_class_def)
  then obtain cls' results where status:
    "class_status example_class_api example_conditions example_storages example_local_class () = (cls', results, [])"
    by (simp add: class_status_def class_InstanceTemplate_Reconcile_def resolved MetadataOptions_Reconcile_def Let_def option_list_def)
  have keys: "zone_keys (common_GetZones (ManagedTemplate example_template))"
    unfolding zone_keys_def
    by (simp add: example_template_def) (rule exI [of _ "''r''"], rule exI [of _ "''node-1''"], auto simp: plain_name_def)
  have names: "plain_names example_storages"
    by (auto simp: plain_names_def Regions_def example_storages_def example_storage_def plain_name_def)
  have here: "GetStorage example_storages ''r'' ''a'' [] = Some (example_storage ''a'')"
    by (simp add: GetStorage_def example_storages_def zone_key_def)
  have member: "zone \<in> set (GetZones cls' ''r'') \<longleftrightarrow> ''r'' \<in> set (Regions example_storages) \<and>
      class_Region example_local_class \<in> {[], ''r''} \<and>
      (\<exists>storage. GetStorage example_storages ''r'' (bd_Storage (BootDevice example_local_class)) [] = Some storage \<and> zone \<in> set (sc_Zones storage)) \<and>
      (\<exists>tid. selected_zone ''r'' zone tid \<in> set (common_GetZones (ManagedTemplate example_template)))" if "plain_name zone" for zone
    using class_selects_zones [OF resolved status example_condition_laws keys names named] that storage by (simp add: plain_name_def)
  have "''node-1'' \<in> set (GetZones cls' ''r'')"
    by (subst member)
      (auto simp: plain_name_def here Regions_def example_storages_def example_local_class_def example_class_def example_storage_def example_template_def
        GetStorage_def zone_key_def)
  moreover have "''node-2'' \<notin> set (GetZones cls' ''r'')"
    by (subst member) (auto simp: plain_name_def here example_local_class_def example_storage_def)
  ultimately show ?thesis using status by blast
qed

end
