(* ===== verification/TemplateControllers.thy ===== *)
theory TemplateControllers
  imports Controllers
begin

text \<open>
  The controllers of managed templates
  (\<open>src/pkg/controllers/nodetemplateclass/{hash,inplaceupdate,status,termination}\<close>). They change the
  template through the template provider, whose \<open>Delete\<close> may wait for a zone lock for ever
  (\<open>Blocked\<close>), and write it back with a patch.
\<close>

section \<open>Operations\<close>

record 'v template_ctl =
  ctl_conditions :: condition_lib
  ctl_lib :: template_lib
  ctl_pool :: "'v template_pool"
  ctl_capacity :: cloudProvider
  PatchTemplate :: "'v \<Rightarrow> ProxmoxTemplate \<Rightarrow> ProxmoxTemplate \<Rightarrow> kube_error option \<times> 'v"
  PatchTemplateStatus :: "'v \<Rightarrow> ProxmoxTemplate \<Rightarrow> ProxmoxTemplate \<Rightarrow> kube_error option \<times> 'v"

definition AnnotationProxmoxTemplateInPlaceUpdateHash :: string where
  "AnnotationProxmoxTemplateInPlaceUpdateHash = ''karpenter.proxmox.sinextra.dev/proxmoxtemplateinplaceupdate-hash''"

definition TerminationFinalizer :: string where
  "TerminationFinalizer = ''karpenter.proxmox.sinextra.dev/termination''"

definition NodeTemplateClassResolutionReason :: string where
  "NodeTemplateClassResolutionReason = ''NodeTemplateClassResolutionError''"

definition templateRepeatPeriod :: int where
  "templateRepeatPeriod = 10"

definition templateScanPeriod :: int where
  "templateScanPeriod = 300"

definition templateUpdatePeriod :: int where
  "templateUpdatePeriod = 60"

definition template_hash_Reconcile :: "'v template_ctl \<Rightarrow> ProxmoxTemplate \<Rightarrow> 'v \<Rightarrow> (Result \<times> ctl_error list) \<times> 'v" where
  "template_hash_Reconcile c cls w =
     (if tc_Deleting cls \<or> st_ImageID cls = [] \<or> st_Zones cls = [] then ((no_requeue, []), w)
      else case patch_changed (PatchTemplate c) cls
                  (cls\<lparr>tc_Annotations := Assign (tc_Annotations cls) [(AnnotationProxmoxTemplateHash, template_Hash (ctl_lib c) cls),
                        (AnnotationProxmoxTemplateHashVersion, ProxmoxTemplateClassHashVersion)]\<rparr>) w of
             (Some e, w') \<Rightarrow> ((no_requeue, [CtlKube e]), w')
           | (None, w') \<Rightarrow> ((no_requeue, []), w'))"

definition template_inplace_Reconcile ::
  "'v template_ctl \<Rightarrow> ProxmoxTemplate \<Rightarrow> 'v templates \<Rightarrow> (Result \<times> ctl_error list) \<times> 'v templates" where
  "template_inplace_Reconcile c cls p =
     (if st_ImageID cls = [] \<or> st_Zones cls = [] then ((no_requeue, []), p)
      else if \<not> IsTrue (ctl_conditions c) ConditionTemplateReady (st_Conditions cls) then ((requeue_after templateUpdatePeriod, []), p)
      else if go_lookup [] (tc_Annotations cls) AnnotationProxmoxTemplateHash \<noteq> template_Hash (ctl_lib c) cls
      then ((requeue_after templateUpdatePeriod, []), p)
      else let inPlaceHash = template_InPlaceHash (ctl_lib c) cls
           in if go_lookup [] (tc_Annotations cls) AnnotationProxmoxTemplateInPlaceUpdateHash = inPlaceHash then ((no_requeue, []), p)
              else (case templates_Update (ctl_lib c) (ctl_pool c) cls p of (errs, p1) \<Rightarrow>
                      if errs \<noteq> [] then ((no_requeue, [CtlTemplate errs]), p1)
                      else (case patch_changed (PatchTemplate c) cls
                                   (cls\<lparr>tc_Annotations := Assign (tc_Annotations cls) [(AnnotationProxmoxTemplateInPlaceUpdateHash, inPlaceHash)]\<rparr>)
                                   (tpl_world p1) of
                              (Some e, w) \<Rightarrow> ((no_requeue, [CtlKube e]), p1\<lparr>tpl_world := w\<rparr>)
                            | (None, w) \<Rightarrow> ((no_requeue, []), p1\<lparr>tpl_world := w\<rparr>))))"

text \<open>
  \<open>Delete\<close> leaves an empty but not nil list of zones, so the test for nil after it fails; zones read
  from the API server are nil when there are none. \<open>None\<close> is the panic of an image name without a dot.
\<close>

definition install_template ::
  "'v template_ctl \<Rightarrow> bool \<Rightarrow> ProxmoxTemplate \<Rightarrow> 'v templates \<Rightarrow> ((Result \<times> ProxmoxTemplate) \<times> 'v templates) run" where
  "install_template c deleted cls p =
     (case templates_Create (ctl_lib c) (ctl_pool c) (ctl_capacity c) cls p of
        Blocked z \<Rightarrow> Blocked z
      | Returns (Inl e, p1) \<Rightarrow> Returns ((requeue_after templateRepeatPeriod, cls), p1)
      | Returns (Inr cls1, p1) \<Rightarrow>
          if st_ImageID cls1 = [] \<or> st_Zones cls1 = [] \<and> \<not> deleted
          then Returns ((requeue_after templateRepeatPeriod,
                 cls1\<lparr>st_Conditions := SetUnknownWithReason (ctl_conditions c) ConditionTemplateReady NodeTemplateClassResolutionReason
                        ''ImageID or InstalledZones is not set yet'' (st_Conditions cls1)\<rparr>), p1)
          else Returns ((requeue_after templateScanPeriod,
                 cls1\<lparr>st_Conditions := SetTrue (ctl_conditions c) ConditionTemplateReady (st_Conditions cls1)\<rparr>), p1))"

definition template_InstanceTemplate_Reconcile ::
  "'v template_ctl \<Rightarrow> ProxmoxTemplate \<Rightarrow> 'v templates \<Rightarrow> ((Result \<times> ProxmoxTemplate) \<times> 'v templates) run option" where
  "template_InstanceTemplate_Reconcile c cls p =
     (case GetImageID (ctl_lib c) cls of
        None \<Rightarrow> None
      | Some imageID \<Rightarrow>
          Some (if st_ImageID cls \<noteq> [] \<and> st_ImageID cls \<noteq> imageID
                then (case templates_Delete (ctl_lib c) (ctl_pool c) (ctl_capacity c) cls p of
                        Blocked z \<Rightarrow> Blocked z
                      | Returns ((Some e, cls1), p1) \<Rightarrow>
                          Returns ((requeue_after templateRepeatPeriod,
                            cls1\<lparr>st_Conditions := SetFalse (ctl_conditions c) ConditionTemplateReady NodeTemplateClassResolutionReason
                                   ''Image should be updated'' (st_Conditions cls1)\<rparr>), p1)
                      | Returns ((None, cls1), p1) \<Rightarrow> install_template c True (cls1\<lparr>st_ImageID := imageID\<rparr>) p1)
                else install_template c False cls p))"

definition template_status_Reconcile ::
  "'v template_ctl \<Rightarrow> ProxmoxTemplate \<Rightarrow> 'v templates \<Rightarrow> ((Result \<times> ctl_error list) \<times> 'v templates) run" where
  "template_status_Reconcile c cls p =
     (if tc_Deleting cls then Returns ((no_requeue, []), p)
      else if TerminationFinalizer \<notin> set (tc_Finalizers cls)
      then (case PatchTemplate c (tpl_world p) cls (cls\<lparr>tc_Finalizers := tc_Finalizers cls @ [TerminationFinalizer]\<rparr>) of
              (Some e, w) \<Rightarrow> Returns ((no_requeue, [CtlKube e]), p\<lparr>tpl_world := w\<rparr>)
            | (None, w) \<Rightarrow> Returns ((requeue_now, []), p\<lparr>tpl_world := w\<rparr>))
      else (case template_InstanceTemplate_Reconcile c cls p of
              None \<Rightarrow> Returns ((no_requeue, [CtlPanic]), p)
            | Some (Blocked z) \<Rightarrow> Blocked z
            | Some (Returns ((res, cls1), p1)) \<Rightarrow>
                (case finish_patch (ctl_conditions c) [res] []
                        (patch_changed (PatchTemplateStatus c) cls (cls1\<lparr>st_Resources := zone_count (st_Zones cls1)\<rparr>) (tpl_world p1)) of
                   (r, w) \<Rightarrow> Returns (r, p1\<lparr>tpl_world := w\<rparr>))))"

text \<open>The templates are removed; with none left the finalizer goes.\<close>

definition finalized ::
  "'v template_ctl \<Rightarrow> ProxmoxTemplate \<Rightarrow> 'v templates \<Rightarrow> (ProxmoxTemplate option \<times> 'v templates) run" where
  "finalized c cls p =
     (case (if st_Zones cls \<noteq> [] then templates_Delete (ctl_lib c) (ctl_pool c) (ctl_capacity c) cls p else Returns ((None, cls), p)) of
        Blocked z \<Rightarrow> Blocked z
      | Returns ((Some e, cls1), p1) \<Rightarrow> Returns (None, p1)
      | Returns ((None, cls1), p1) \<Rightarrow>
          Returns (Some (if st_Zones cls1 = [] then cls1\<lparr>tc_Finalizers := filter (\<lambda>f. f \<noteq> TerminationFinalizer) (tc_Finalizers cls1)\<rparr>
                         else cls1), p1))"

definition finalize :: "'v template_ctl \<Rightarrow> ProxmoxTemplate \<Rightarrow> 'v templates \<Rightarrow> ((Result \<times> ctl_error list) \<times> 'v templates) run" where
  "finalize c cls p =
     (if TerminationFinalizer \<notin> set (tc_Finalizers cls) then Returns ((no_requeue, []), p)
      else (case finalized c cls p of
              Blocked z \<Rightarrow> Blocked z
            | Returns (None, p1) \<Rightarrow> Returns ((requeue_after templateRepeatPeriod, []), p1)
            | Returns (Some cls1, p1) \<Rightarrow>
                (case patch_changed (PatchTemplate c) cls cls1 (tpl_world p1) of
                   (err, w) \<Rightarrow>
                     Returns ((case err of Some KubeConflict \<Rightarrow> (requeue_now, [])
                                         | Some KubeFailure \<Rightarrow> (no_requeue, [CtlKube KubeFailure])
                                         | _ \<Rightarrow> (no_requeue, [])), p1\<lparr>tpl_world := w\<rparr>))))"

definition termination_Reconcile :: "'v template_ctl \<Rightarrow> ProxmoxTemplate \<Rightarrow> 'v templates \<Rightarrow> ((Result \<times> ctl_error list) \<times> 'v templates) run" where
  "termination_Reconcile c cls p = (if tc_Deleting cls then finalize c cls p else Returns ((no_requeue, []), p))"

text \<open>The events that wake the controllers.\<close>

datatype 'o event = CreateEvent 'o | DeleteEvent 'o | UpdateEvent 'o 'o

fun templateChangedPredicate :: "template_lib \<Rightarrow> ProxmoxTemplate event \<Rightarrow> bool" where
  "templateChangedPredicate lib (CreateEvent new) = True"
| "templateChangedPredicate lib (DeleteEvent old) = True"
| "templateChangedPredicate lib (UpdateEvent old new) = (template_Hash lib old \<noteq> template_Hash lib new)"

fun template_inPlaceChangedPredicate :: "template_lib \<Rightarrow> ProxmoxTemplate event \<Rightarrow> bool" where
  "template_inPlaceChangedPredicate lib (CreateEvent new) = False"
| "template_inPlaceChangedPredicate lib (DeleteEvent old) = False"
| "template_inPlaceChangedPredicate lib (UpdateEvent old new) = (template_InPlaceHash lib old \<noteq> template_InPlaceHash lib new)"

section \<open>Termination\<close>

text \<open>
  A view of the world: the template VMs of the clusters and the templates stored by the API server.
  Relied on: deleting a VM that succeeds removes it, the calls of \<open>Delete\<close> create no VM and do not
  touch the stored templates, a patch that succeeds stores the new template, one that fails nothing.
\<close>

record 'v template_view =
  view_vms :: "'v \<Rightarrow> (string \<times> string \<times> int) set"
  view_stored :: "'v \<Rightarrow> string \<Rightarrow> ProxmoxTemplate option"

definition shrinks :: "'v template_view \<Rightarrow> 'v \<Rightarrow> 'v \<Rightarrow> bool" where
  "shrinks v w w' \<longleftrightarrow> view_vms v w' \<subseteq> view_vms v w \<and> view_stored v w' = view_stored v w"

definition delete_laws :: "'v template_view \<Rightarrow> 'v template_pool \<Rightarrow> bool" where
  "delete_laws v pool \<longleftrightarrow>
     (\<forall>region cl. tp_GetProxmoxCluster pool region = Some cl \<longrightarrow>
        (\<forall>w zone vmid. shrinks v w (snd (tpl_DeleteVMByID cl w zone vmid)) \<and>
           (fst (tpl_DeleteVMByID cl w zone vmid) = None \<longrightarrow> (region, zone, vmid) \<notin> view_vms v (snd (tpl_DeleteVMByID cl w zone vmid)))) \<and>
        (\<forall>w path. shrinks v w (snd (tpl_DeleteContent cl w path))) \<and> (\<forall>w upid. shrinks v w (snd (tpl_WaitFor cl w upid))))"

definition patch_laws :: "'v template_view \<Rightarrow> ('v \<Rightarrow> ProxmoxTemplate \<Rightarrow> ProxmoxTemplate \<Rightarrow> kube_error option \<times> 'v) \<Rightarrow> bool" where
  "patch_laws v patch \<longleftrightarrow>
     (\<forall>w old new. view_vms v (snd (patch w old new)) = view_vms v w \<and>
        view_stored v (snd (patch w old new)) =
          (if fst (patch w old new) = None then (view_stored v w)(tc_Name old \<mapsto> new) else view_stored v w))"

text \<open>
  The cache of the provider lists a template VM as available. \<open>deleteTemplate\<close> does nothing, and reports no
  error, for a VM that is not listed.
\<close>

definition vm_cached :: "'v template_pool \<Rightarrow> 'v templates \<Rightarrow> string \<times> string \<times> int \<Rightarrow> bool" where
  "vm_cached pool p = (\<lambda>(region, zone, vmid). vmid \<noteq> 0 \<and>
     templates_ListWithFilter pool p (\<lambda>info. ti_Region info = region \<and> ti_Zone info = zone \<and> TemplateID info = word_of_int vmid) \<noteq> [])"

lemma vm_cached_same: "instanceTemplate q = instanceTemplate p \<Longrightarrow> vm_cached pool q = vm_cached pool p"
  by (simp add: vm_cached_def templates_ListWithFilter_def)

lemma shrinks_refl [simp]: "shrinks v w w"
  by (simp add: shrinks_def)

lemma shrinks_trans: "shrinks v w w1 \<Longrightarrow> shrinks v w1 w2 \<Longrightarrow> shrinks v w w2"
  by (auto simp: shrinks_def)

lemma delete_lawsD:
  assumes "delete_laws v pool" and "tp_GetProxmoxCluster pool region = Some cl"
  shows "tpl_DeleteVMByID cl w zone vmid = (e, w') \<Longrightarrow> shrinks v w w' \<and> (e = None \<longrightarrow> (region, zone, vmid) \<notin> view_vms v w')"
    and "tpl_DeleteContent cl w path = (r, w') \<Longrightarrow> shrinks v w w'"
    and "tpl_WaitFor cl w upid = (ok, w') \<Longrightarrow> shrinks v w w'"
  using assms unfolding delete_laws_def by (metis fst_conv snd_conv)+

lemma deleteImage_shrinks:
  assumes "delete_laws v pool" and "deleteImage pool cls region zone storage p = (e, p')"
  shows "shrinks v (tpl_world p) (tpl_world p') \<and> instanceTemplate p' = instanceTemplate p"
proof (cases "tp_GetProxmoxCluster pool region")
  case (Some cl)
  note laws = delete_lawsD(2,3) [OF assms(1) Some]
  show ?thesis
    using assms(2) unfolding deleteImage_def Let_def Some
    by (auto split: option.splits if_splits prod.splits dest!: laws intro: shrinks_trans)
qed (use assms(2) in \<open>auto simp: deleteImage_def Let_def\<close>)

lemma delete_storages_shrinks:
  assumes "delete_laws v pool" and "delete_storages pool cap cls region zone ids p = Returns (e, p')"
  shows "shrinks v (tpl_world p) (tpl_world p') \<and> instanceTemplate p' = instanceTemplate p"
  using assms(2)
proof (induction ids arbitrary: p)
  case (Cons storageID ids)
  show ?case
  proof (cases "GetStorage cap region storageID [\<lambda>info. importContent \<in> set (Capabilities info) \<and> zone \<in> set (sc_Zones info)]")
    case (Some storage)
    with Cons.prems obtain held where "Lock zone (zoneLocks p) = Some held" by (auto split: option.splits)
    moreover obtain e1 p1 where image: "deleteImage pool cls region zone storage (p\<lparr>zoneLocks := held\<rparr>) = (e1, p1)" by fastforce
    ultimately have rest: "(case e1 of Some e2 \<Rightarrow> Returns (Some e2, p1) | None \<Rightarrow> delete_storages pool cap cls region zone ids p1) = Returns (e, p')"
      using Cons.prems Some by (auto split: option.splits)
    have "shrinks v (tpl_world p) (tpl_world p1) \<and> instanceTemplate p1 = instanceTemplate p"
      using deleteImage_shrinks [OF assms(1) image] by simp
    then show ?thesis using rest Cons.IH by (cases e1) (auto dest: shrinks_trans)
  qed (use Cons in auto)
qed simp

lemma deleteTemplate_shrinks:
  assumes "delete_laws v pool" and "deleteTemplate pool region zone vmid p = (e, p')"
  shows "shrinks v (tpl_world p) (tpl_world p') \<and> instanceTemplate p' = instanceTemplate p \<and>
    (vm_cached pool p (region, zone, vmid) \<longrightarrow> e = None \<longrightarrow> (region, zone, vmid) \<notin> view_vms v (tpl_world p'))"
proof (cases "vmid = 0 \<or> templates_ListWithFilter pool p (\<lambda>info. ti_Region info = region \<and> ti_Zone info = zone \<and>
    TemplateID info = word_of_int vmid) = []")
  case True
  then show ?thesis using assms(2) by (auto simp: deleteTemplate_def vm_cached_def)
next
  case False
  show ?thesis
  proof (cases "tp_GetProxmoxCluster pool region")
    case (Some cl)
    obtain e1 w where "tpl_DeleteVMByID cl (tpl_world p) zone vmid = (e1, w)" by fastforce
    with delete_lawsD(1) [OF assms(1) Some this] False Some assms(2) show ?thesis by (auto simp: deleteTemplate_def)
  qed (use False assms(2) in \<open>auto simp: deleteTemplate_def\<close>)
qed

definition int_range :: "int \<Rightarrow> bool" where
  "int_range i \<longleftrightarrow> - (2 ^ 63) \<le> i \<and> i < 2 ^ 63"

text \<open>The VM an entry of the status names is gone, if it is one of a set of VMs.\<close>

definition entry_gone :: "'v template_view \<Rightarrow> (string \<times> string \<times> int \<Rightarrow> bool) \<Rightarrow> 'v \<Rightarrow> string \<Rightarrow> bool" where
  "entry_gone v listed w key \<longleftrightarrow>
     (\<forall>region zone vmid. key = selected_zone region zone vmid \<and> plain_name region \<and> plain_name zone \<and> int_range vmid \<longrightarrow>
        listed (region, zone, vmid) \<longrightarrow> (region, zone, vmid) \<notin> view_vms v w)"

lemma entry_gone_shrinks: "entry_gone v listed w key \<Longrightarrow> shrinks v w w' \<Longrightarrow> entry_gone v listed w' key"
  unfolding entry_gone_def shrinks_def by blast

lemma entry_gone_parts:
  assumes "SplitN key (CHR ''/'') 3 = parts"
    and "length parts = 3 \<Longrightarrow> (\<exists>vmid. Atoi (parts ! 2) = Some vmid \<and>
      (listed (parts ! 0, parts ! 1, vmid) \<longrightarrow> (parts ! 0, parts ! 1, vmid) \<notin> view_vms v w))"
  shows "entry_gone v listed w key"
  unfolding entry_gone_def
proof (intro allI impI)
  fix region zone vmid
  assume key: "key = selected_zone region zone vmid \<and> plain_name region \<and> plain_name zone \<and> int_range vmid"
    and "listed (region, zone, vmid)"
  have parts: "parts = [region, zone, show_int vmid]" using assms(1) key by (simp add: SplitN_selected_zone plain_name_def)
  moreover have "Atoi (show_int vmid) = Some vmid" using key by (simp add: Atoi_show_int int_range_def)
  ultimately show "(region, zone, vmid) \<notin> view_vms v w" using assms(2) \<open>listed (region, zone, vmid)\<close> by auto
qed

text \<open>Removing one entry: what follows it, and the images that are removed before.\<close>

definition delete_rest ::
  "'w template_pool \<Rightarrow> cloudProvider \<Rightarrow> ProxmoxTemplate \<Rightarrow> string list \<Rightarrow> string list \<Rightarrow> 'w templates
   \<Rightarrow> ((template_error + string list) \<times> 'w templates) run" where
  "delete_rest pool cap cls keys removed q =
     (case delete_zones pool cap cls keys q of
        Blocked z \<Rightarrow> Blocked z
      | Returns (Inl e, q') \<Rightarrow> Returns (Inl e, q')
      | Returns (Inr rest, q') \<Rightarrow> Returns (Inr (removed @ rest), q'))"

definition delete_images ::
  "'w template_pool \<Rightarrow> cloudProvider \<Rightarrow> ProxmoxTemplate \<Rightarrow> string \<Rightarrow> string list \<Rightarrow> 'w templates
   \<Rightarrow> ((template_error + string list) \<times> 'w templates) run" where
  "delete_images pool cap cls key keys q =
     (let parts = SplitN key (CHR ''/'') 3
      in case delete_storages pool cap cls (parts ! 0) (parts ! 1) (tc_StorageIDs cls) q of
           Blocked z \<Rightarrow> Blocked z
         | Returns (Some e, q') \<Rightarrow> Returns (Inl e, q')
         | Returns (None, q') \<Rightarrow> delete_rest pool cap cls keys [key] q')"

lemma delete_zones_Cons:
  "delete_zones pool cap cls (key # keys) p =
     (let parts = SplitN key (CHR ''/'') 3
      in if length parts < 2 then delete_rest pool cap cls keys [key] p
         else if length parts = 3
         then (case Atoi (parts ! 2) of
                 None \<Rightarrow> delete_rest pool cap cls keys [] p
               | Some vmid \<Rightarrow>
                   (case deleteTemplate pool (parts ! 0) (parts ! 1) vmid p of
                      (Some e, p1) \<Rightarrow> Returns (Inl e, p1)
                    | (None, p1) \<Rightarrow> delete_images pool cap cls key keys p1))
         else delete_images pool cap cls key keys p)"
  unfolding delete_zones.simps delete_images_def delete_rest_def Let_def ..

text \<open>An entry fails, or it is done with and the other ones follow; it is removed only when its VM is gone.\<close>

definition zone_outcome ::
  "'v template_view \<Rightarrow> 'v template_pool \<Rightarrow> cloudProvider \<Rightarrow> ProxmoxTemplate \<Rightarrow> string \<Rightarrow> string list
   \<Rightarrow> 'v templates \<Rightarrow> template_error + string list \<Rightarrow> 'v templates \<Rightarrow> bool" where
  "zone_outcome v pool cap cls key keys p r p' \<longleftrightarrow>
     (\<exists>e. r = Inl e) \<and> shrinks v (tpl_world p) (tpl_world p') \<and> instanceTemplate p' = instanceTemplate p \<or>
     (\<exists>q removed r'. shrinks v (tpl_world p) (tpl_world q) \<and> instanceTemplate q = instanceTemplate p \<and>
        delete_zones pool cap cls keys q = Returns (r', p') \<and> r = map_sum id ((@) removed) r' \<and> set removed \<subseteq> {key} \<and>
        (removed \<noteq> [] \<longrightarrow> entry_gone v (vm_cached pool p) (tpl_world q) key))"

lemma zone_outcome_fails:
  "shrinks v (tpl_world p) (tpl_world p') \<Longrightarrow> instanceTemplate p' = instanceTemplate p \<Longrightarrow> zone_outcome v pool cap cls key keys p (Inl e) p'"
  by (simp add: zone_outcome_def)

lemma delete_rest_outcome:
  assumes "delete_rest pool cap cls keys removed q = Returns (r, p')" and "shrinks v (tpl_world p) (tpl_world q)"
    and "instanceTemplate q = instanceTemplate p" and "set removed \<subseteq> {key}"
    and "removed \<noteq> [] \<Longrightarrow> entry_gone v (vm_cached pool p) (tpl_world q) key"
  shows "zone_outcome v pool cap cls key keys p r p'"
proof -
  obtain r' where "delete_zones pool cap cls keys q = Returns (r', p')" "r = map_sum id ((@) removed) r'"
    using assms(1) by (auto simp: delete_rest_def split: run.splits prod.splits sum.splits)
  with assms(2-5) show ?thesis unfolding zone_outcome_def by blast
qed

lemma delete_images_outcome:
  assumes laws: "delete_laws v pool" and run: "delete_images pool cap cls key keys p1 = Returns (r, p')"
    and start: "shrinks v (tpl_world p) (tpl_world p1)" "instanceTemplate p1 = instanceTemplate p"
      "entry_gone v (vm_cached pool p) (tpl_world p1) key"
  shows "zone_outcome v pool cap cls key keys p r p'"
proof -
  define parts where "parts = SplitN key (CHR ''/'') 3"
  obtain e q where del: "delete_storages pool cap cls (parts ! 0) (parts ! 1) (tc_StorageIDs cls) p1 = Returns (e, q)"
    using run by (auto simp: delete_images_def Let_def parts_def split: run.splits)
  have q: "shrinks v (tpl_world p1) (tpl_world q)" "instanceTemplate q = instanceTemplate p1"
    using delete_storages_shrinks [OF laws del] by simp_all
  have "shrinks v (tpl_world p) (tpl_world q)" using start(1) q(1) by (rule shrinks_trans)
  show ?thesis
  proof (cases e)
    case (Some e')
    with run del have "r = Inl e'" "p' = q" by (simp_all add: delete_images_def flip: parts_def)
    with \<open>shrinks v (tpl_world p) (tpl_world q)\<close> q start show ?thesis by (simp add: zone_outcome_fails)
  next
    case None
    with run del have "delete_rest pool cap cls keys [key] q = Returns (r, p')" by (simp add: delete_images_def flip: parts_def)
    then show ?thesis
      by (rule delete_rest_outcome) (use \<open>shrinks v (tpl_world p) (tpl_world q)\<close> q start entry_gone_shrinks in auto)
  qed
qed

lemma delete_zone_outcome:
  assumes laws: "delete_laws v pool" and run: "delete_zones pool cap cls (key # keys) p = Returns (r, p')"
  shows "zone_outcome v pool cap cls key keys p r p'"
proof -
  define parts where "parts = SplitN key (CHR ''/'') 3"
  note step = run [unfolded delete_zones_Cons Let_def, folded parts_def]
  consider (short) "length parts < 2" | (bad) "length parts = 3" "Atoi (parts ! 2) = None"
    | (full) vmid where "length parts = 3" "Atoi (parts ! 2) = Some vmid" | (two) "\<not> length parts < 2" "length parts \<noteq> 3" by fastforce
  then show ?thesis
  proof cases
    case short
    with step have "delete_rest pool cap cls keys [key] p = Returns (r, p')" by simp
    then show ?thesis by (rule delete_rest_outcome) (use short in \<open>auto intro!: entry_gone_parts simp: parts_def\<close>)
  next
    case bad
    with step have "delete_rest pool cap cls keys [] p = Returns (r, p')" by simp
    then show ?thesis by (rule delete_rest_outcome) auto
  next
    case full
    obtain e p1 where del: "deleteTemplate pool (parts ! 0) (parts ! 1) vmid p = (e, p1)" by fastforce
    note p1 = deleteTemplate_shrinks [OF laws del]
    show ?thesis
    proof (cases e)
      case (Some e')
      with step full del have "r = Inl e'" "p' = p1" by simp_all
      with p1 show ?thesis by (simp add: zone_outcome_fails)
    next
      case None
      with step full del have "delete_images pool cap cls key keys p1 = Returns (r, p')" by simp
      moreover have "entry_gone v (vm_cached pool p) (tpl_world p1) key"
        using p1 None full by (intro entry_gone_parts [of _ parts]) (auto simp: parts_def)
      ultimately show ?thesis using p1 by (intro delete_images_outcome [OF laws]) simp_all
    qed
  next
    case two
    with step have "delete_images pool cap cls key keys p = Returns (r, p')" by simp
    then show ?thesis
      by (rule delete_images_outcome [OF laws]) (use two in \<open>auto intro!: entry_gone_parts simp flip: parts_def\<close>)
  qed
qed

lemma delete_zone_step:
  assumes "delete_laws v pool" and "delete_zones pool cap cls (key # keys) p = Returns (r, p')"
  obtains (fails) e where "r = Inl e" "shrinks v (tpl_world p) (tpl_world p')" "instanceTemplate p' = instanceTemplate p"
  | (continues) q removed r' where "shrinks v (tpl_world p) (tpl_world q)" "instanceTemplate q = instanceTemplate p"
      "delete_zones pool cap cls keys q = Returns (r', p')" "r = map_sum id ((@) removed) r'" "set removed \<subseteq> {key}"
      "removed \<noteq> [] \<Longrightarrow> entry_gone v (vm_cached pool p) (tpl_world q) key"
  using delete_zone_outcome [OF assms] unfolding zone_outcome_def by blast

lemma delete_zones_gone:
  assumes laws: "delete_laws v pool" and "delete_zones pool cap cls keys p = Returns (r, p')"
  shows "shrinks v (tpl_world p) (tpl_world p') \<and> instanceTemplate p' = instanceTemplate p \<and>
    (\<forall>removed. r = Inr removed \<longrightarrow> (\<forall>key \<in> set removed. entry_gone v (vm_cached pool p) (tpl_world p') key))"
  using assms(2)
proof (induction keys arbitrary: p r)
  case (Cons key keys)
  from laws Cons.prems show ?case
  proof (cases rule: delete_zone_step)
    case (continues q removed r')
    note ih = Cons.IH [OF continues(3)]
    have same: "vm_cached pool q = vm_cached pool p" using continues(2) by (rule vm_cached_same)
    have "entry_gone v (vm_cached pool p) (tpl_world p') x" if "x \<in> set removed" for x
    proof -
      have "x = key" "removed \<noteq> []" using that continues(5) by auto
      with continues(6) ih show ?thesis by (blast intro: entry_gone_shrinks)
    qed
    then show ?thesis
      using ih continues(1,2,4,5) unfolding same by (cases r') (auto intro: shrinks_trans split: if_splits)
  qed auto
qed simp

lemma templates_Delete_gone:
  assumes laws: "delete_laws v pool" and run: "templates_Delete lib pool cap cls p = Returns ((e, cls'), p')"
  shows "shrinks v (tpl_world p) (tpl_world p')"
    and "e = None \<Longrightarrow> key \<in> set (st_Zones cls) \<Longrightarrow> entry_gone v (vm_cached pool p) (tpl_world p') key"
proof -
  obtain r p1 where del: "delete_zones pool cap cls (st_Zones cls) p = Returns (r, p1)"
    using run by (auto simp: templates_Delete_def split: run.splits)
  note gone = delete_zones_gone [OF laws del]
  have world: "tpl_world p' = tpl_world p1"
  proof -
    have "tpl_world (sync_templates lib pool rs q) = tpl_world q" for rs q
      by (induction lib pool rs q rule: sync_templates.induct) (auto split: option.split)
    then show ?thesis
      using run by (auto simp: templates_Delete_def del Let_def SyncInstanceTemplates_def split: sum.splits if_splits)
  qed
  with gone show "shrinks v (tpl_world p) (tpl_world p')" by simp
  assume "e = None" and key: "key \<in> set (st_Zones cls)"
  with run obtain removed where "r = Inr removed" "set (st_Zones cls) \<subseteq> set removed"
    by (auto simp: templates_Delete_def del Let_def filter_empty_conv split: sum.splits if_splits)
  with gone key world show "entry_gone v (vm_cached pool p) (tpl_world p') key" by auto
qed

lemma patch_changed_view:
  assumes "patch_laws v patch" and "patch_changed patch old new w = (err, w')"
  shows "view_vms v w' = view_vms v w"
    and "view_stored v w' = view_stored v w \<or> view_stored v w' = (view_stored v w)(tc_Name old \<mapsto> new)"
proof (atomize (full), cases "old = new")
  case False
  then have "patch w old new = (err, w')" using assms(2) by (simp add: patch_changed_def)
  moreover have "view_vms v (snd (patch w old new)) = view_vms v w \<and>
        view_stored v (snd (patch w old new)) =
          (if fst (patch w old new) = None then (view_stored v w)(tc_Name old \<mapsto> new) else view_stored v w)"
    using assms(1) unfolding patch_laws_def by blast
  ultimately show "view_vms v w' = view_vms v w \<and>
      (view_stored v w' = view_stored v w \<or> view_stored v w' = (view_stored v w)(tc_Name old \<mapsto> new))" by auto
qed (use assms(2) in \<open>simp add: patch_changed_def\<close>)

text \<open>
  C10. A template that is being deleted keeps its finalizer as long as one of the template VMs exists that its
  status names and the cache of the provider lists as available: when the termination controller returns,
  the template that is stored has the finalizer, or every such VM is gone from the clusters.
  A VM the cache does not list, after a synchronisation that failed say, is not deleted and does not
  keep the finalizer.
\<close>

theorem finalizer_waits_for_templates:
  assumes run: "termination_Reconcile c cls p = Returns (r, p')"
    and laws: "delete_laws v (ctl_pool c)" "patch_laws v (PatchTemplate c)"
    and stored: "view_stored v (tpl_world p) (tc_Name cls) = Some cls" and finalizer: "TerminationFinalizer \<in> set (tc_Finalizers cls)"
  shows "\<exists>cls'. view_stored v (tpl_world p') (tc_Name cls) = Some cls' \<and>
    (TerminationFinalizer \<in> set (tc_Finalizers cls') \<or> (\<forall>key \<in> set (st_Zones cls). entry_gone v (vm_cached (ctl_pool c) p) (tpl_world p') key))"
proof (cases "tc_Deleting cls")
  case False
  with run stored finalizer show ?thesis by (simp add: termination_Reconcile_def)
next
  case True
  with run finalizer have fin: "finalize c cls p = Returns (r, p')" by (simp add: termination_Reconcile_def)
  then obtain new p1 where final: "finalized c cls p = Returns (new, p1)"
    using finalizer by (auto simp: finalize_def split: run.splits)
  then have "shrinks v (tpl_world p) (tpl_world p1)"
    using templates_Delete_gone(1) [OF laws(1)] by (auto simp: finalized_def split: if_splits run.splits prod.splits option.splits)
  then have kept: "view_stored v (tpl_world p1) (tc_Name cls) = Some cls" using stored by (simp add: shrinks_def)
  show ?thesis
  proof (cases new)
    case None
    with fin final finalizer have "p' = p1" by (simp add: finalize_def)
    with kept finalizer show ?thesis by blast
  next
    case (Some cls1)
    have gone: "\<forall>key \<in> set (st_Zones cls). entry_gone v (vm_cached (ctl_pool c) p) (tpl_world p1) key"
      using final Some templates_Delete_gone(2) [OF laws(1)]
      by (auto simp: finalized_def split: if_splits run.splits prod.splits option.splits)
    obtain err w where patch: "patch_changed (PatchTemplate c) cls cls1 (tpl_world p1) = (err, w)" by fastforce
    then have p': "tpl_world p' = w" using fin final Some finalizer by (auto simp: finalize_def)
    have "view_vms v w = view_vms v (tpl_world p1)" and "\<exists>cls'. view_stored v w (tc_Name cls) = Some cls'"
      using patch_changed_view [OF laws(2) patch] kept by auto
    then show ?thesis using gone p' by (auto simp: entry_gone_def)
  qed
qed

section \<open>Status\<close>

lemma templates_Create_ok:
  assumes "GetImageID lib cls = Some imageID" and "st_ImageID cls \<in> {[], imageID}"
    and "templates_Create lib pool cap cls p = Returns (r, p')"
  obtains installed where "r = Inr (if installed = [] then cls else cls\<lparr>st_ImageID := imageID, st_Zones := installed\<rparr>)"
  using assms by (auto simp: templates_Create_def split: run.splits if_splits)

lemma GetImageID_status [simp]:
  "GetImageID lib (cls\<lparr>st_ImageID := i\<rparr>) = GetImageID lib cls" "GetImageID lib (cls\<lparr>st_Zones := zs\<rparr>) = GetImageID lib cls"
  by (simp_all add: GetImageID_def split: list.split)

lemma GetImageID_nonempty: "GetImageID lib cls = Some imageID \<Longrightarrow> imageID \<noteq> []"
  by (auto simp: GetImageID_def split: list.splits)

lemma templates_Delete_fields:
  assumes "templates_Delete lib pool cap cls p = Returns ((e, cls'), p')"
  obtains zones where "cls' = cls\<lparr>st_Zones := zones\<rparr>" "e = None \<Longrightarrow> zones = []"
proof -
  obtain r p1 where "delete_zones pool cap cls (st_Zones cls) p = Returns (r, p1)"
    using assms by (auto simp: templates_Delete_def split: run.splits)
  with assms show thesis
    by (cases r) (auto simp: templates_Delete_def Let_def split: if_splits intro: that [of "st_Zones cls"] that)
qed

lemma install_template_ready:
  assumes laws: "condition_laws (ctl_conditions c)" and image: "GetImageID (ctl_lib c) cls = Some imageID" "st_ImageID cls \<in> {[], imageID}"
    and run: "install_template c deleted cls p = Returns ((res, cls'), p')"
  shows "IsTrue (ctl_conditions c) ConditionTemplateReady (st_Conditions cls') \<longleftrightarrow>
    st_ImageID cls' = imageID \<and> (st_Zones cls' \<noteq> [] \<or> deleted)"
proof -
  obtain r p1 where create: "templates_Create (ctl_lib c) (ctl_pool c) (ctl_capacity c) cls p = Returns (r, p1)"
    using run by (auto simp: install_template_def split: run.splits)
  obtain installed where r: "r = Inr (if installed = [] then cls else cls\<lparr>st_ImageID := imageID, st_Zones := installed\<rparr>)"
    using image create by (rule templates_Create_ok)
  show ?thesis
    using run laws image(2) GetImageID_nonempty [OF image(1)]
    by (auto simp: install_template_def create r condition_laws_def split: if_splits)
qed

text \<open>
  C27. A template is ready exactly when its status names the image that is wanted now, and zones it is
  installed in. The second holds with one exception: after the image has been replaced, a template
  whose new image could not be installed anywhere is ready as well, since the list of zones that
  \<open>Delete\<close> leaves is empty but not nil.
\<close>

theorem template_ready_iff:
  assumes image: "GetImageID (ctl_lib c) cls = Some imageID"
    and run: "template_InstanceTemplate_Reconcile c cls p = Some (Returns ((res, cls'), p'))"
    and laws: "condition_laws (ctl_conditions c)"
  shows "IsTrue (ctl_conditions c) ConditionTemplateReady (st_Conditions cls') \<longleftrightarrow>
    st_ImageID cls' = imageID \<and> (st_Zones cls' \<noteq> [] \<or> st_ImageID cls \<notin> {[], imageID})"
proof (cases "st_ImageID cls \<in> {[], imageID}")
  case True
  then have "install_template c False cls p = Returns ((res, cls'), p')"
    using run image by (auto simp: template_InstanceTemplate_Reconcile_def)
  from install_template_ready [OF laws image True this] True show ?thesis by simp
next
  case False
  then obtain e cls1 p1 where del: "templates_Delete (ctl_lib c) (ctl_pool c) (ctl_capacity c) cls p = Returns ((e, cls1), p1)"
    using run image by (auto simp: template_InstanceTemplate_Reconcile_def split: run.splits)
  obtain zones where cls1: "cls1 = cls\<lparr>st_Zones := zones\<rparr>" using del by (rule templates_Delete_fields)
  show ?thesis
  proof (cases e)
    case None
    with run image False del have "install_template c True (cls1\<lparr>st_ImageID := imageID\<rparr>) p1 = Returns ((res, cls'), p')"
      by (simp add: template_InstanceTemplate_Reconcile_def)
    from install_template_ready [OF laws _ _ this, of imageID] image cls1 False show ?thesis by simp
  next
    case (Some e1)
    then show ?thesis
      using run image False del laws
      by (auto simp: template_InstanceTemplate_Reconcile_def cls1 condition_laws_def)
  qed
qed

definition example_ctl :: "unit template_ctl" where
  "example_ctl = \<lparr>ctl_conditions = example_conditions, ctl_lib = example_template_lib, ctl_pool = example_template_pool,
     ctl_capacity = example_storages\<lparr>storageInfo := []\<rparr>, PatchTemplate = (\<lambda>w old new. (None, w)), PatchTemplateStatus = (\<lambda>w old new. (None, w))\<rparr>"

theorem template_ready_iff_witness:
  "\<exists>res cls' p'. template_InstanceTemplate_Reconcile example_ctl (example_template\<lparr>st_ImageID := ''old.raw'', st_Zones := []\<rparr>) example_templates =
       Some (Returns ((res, cls'), p')) \<and>
     IsTrue example_conditions ConditionTemplateReady (st_Conditions cls') \<and> st_Zones cls' = []"
proof -
  let ?cls = "example_template\<lparr>st_ImageID := ''old.raw'', st_Zones := []\<rparr>"
  have image: "GetImageID (ctl_lib example_ctl) ?cls = Some ''i-4.raw''"
    by (simp add: GetImageID_def example_ctl_def example_template_def example_template_lib_def numeral_2_eq_2)
  obtain q where del: "templates_Delete (ctl_lib example_ctl) (ctl_pool example_ctl) (ctl_capacity example_ctl) ?cls example_templates =
      Returns ((None, ?cls), q)"
    by (simp add: templates_Delete_def Let_def)
  have "first_storage (ctl_capacity example_ctl) region ids flt = None" for region ids flt
    by (induction ids) (simp_all add: first_storage_def GetStorage_def example_ctl_def map_filter_simps)
  then have "create_regions (ctl_lib example_ctl) (ctl_pool example_ctl) (ctl_capacity example_ctl) cls imageID regions q = Returns ([], q)"
    for cls imageID regions by (induction regions) simp_all
  then have "templates_Create (ctl_lib example_ctl) (ctl_pool example_ctl) (ctl_capacity example_ctl) (?cls\<lparr>st_ImageID := ''i-4.raw''\<rparr>) q =
      Returns (Inr (?cls\<lparr>st_ImageID := ''i-4.raw''\<rparr>), q)"
    using image by (simp add: templates_Create_def)
  then have "\<exists>res cls' p'. template_InstanceTemplate_Reconcile example_ctl ?cls example_templates = Some (Returns ((res, cls'), p')) \<and>
      st_ImageID cls' = ''i-4.raw'' \<and> st_Zones cls' = []"
    using image del by (simp add: template_InstanceTemplate_Reconcile_def install_template_def)
  then obtain res cls' p' where run: "template_InstanceTemplate_Reconcile example_ctl ?cls example_templates = Some (Returns ((res, cls'), p'))"
    and cls': "st_ImageID cls' = ''i-4.raw''" "st_Zones cls' = []" by blast
  have "IsTrue (ctl_conditions example_ctl) ConditionTemplateReady (st_Conditions cls')"
    using template_ready_iff [OF image run] cls' example_condition_laws by (simp add: example_ctl_def)
  then show ?thesis using run cls' by (auto simp: example_ctl_def)
qed

text \<open>A world of VMs and stored templates, with a cluster that deletes VMs.\<close>

type_synonym example_world = "(string \<times> string \<times> int) set \<times> (string \<Rightarrow> ProxmoxTemplate option)"

definition example_delete_api :: "example_world template_api" where
  "example_delete_api =
     \<lparr>tpl_GetVMTemplates = (\<lambda>w. Some []), tpl_GetVMTemplateConfig = (\<lambda>w i. None), tpl_GetVMTemplateByID = (\<lambda>w i. None),
      tpl_GetStorageContent = (\<lambda>w zone storage. Some []), tpl_StorageDownloadURL = (\<lambda>w opts. (Some [], w)),
      tpl_WaitFor = (\<lambda>w upid. ((True, False), w)), tpl_DeleteContent = (\<lambda>w path. (Some [], w)),
      tpl_GetNextID = (\<lambda>w i. Some i), tpl_CreateVM = (\<lambda>w zone vm. (True, w)),
      tpl_UpdateVMByID = (\<lambda>w zone vmid vm. (True, w)),
      tpl_DeleteVMByID = (\<lambda>w zone vmid. (None, (fst w - {(''r'', zone, vmid)}, snd w)))\<rparr>"

definition example_delete_ctl :: "example_world template_ctl" where
  "example_delete_ctl = \<lparr>ctl_conditions = example_conditions, ctl_lib = example_template_lib,
     ctl_pool = \<lparr>tp_GetRegions = [''r''], tp_GetProxmoxCluster = (\<lambda>region. if region = ''r'' then Some example_delete_api else None)\<rparr>,
     ctl_capacity = NewCapacityProvider,
     PatchTemplate = (\<lambda>w old new. (None, (fst w, (snd w)(tc_Name old \<mapsto> new)))), PatchTemplateStatus = (\<lambda>w old new. (None, w))\<rparr>"

definition example_deleted :: ProxmoxTemplate where
  "example_deleted = example_template\<lparr>tc_Deleting := True, tc_Finalizers := [TerminationFinalizer]\<rparr>"

definition example_delete_state :: "example_world templates" where
  "example_delete_state = \<lparr>instanceTemplate = [(''r'', [example_template_info])], zoneLocks = {},
     tpl_world = ({(''r'', ''node-1'', 1000)}, [''base'' \<mapsto> example_deleted])\<rparr>"

theorem finalizer_waits_for_templates_witness:
  "\<exists>r p' cls'. termination_Reconcile example_delete_ctl example_deleted example_delete_state = Returns (r, p') \<and>
     snd (tpl_world p') ''base'' = Some cls' \<and>
     (TerminationFinalizer \<in> set (tc_Finalizers cls') \<or> (''r'', ''node-1'', 1000) \<notin> fst (tpl_world p'))"
proof -
  let ?v = "\<lparr>view_vms = fst, view_stored = snd\<rparr> :: example_world template_view"
  have zones: "st_Zones example_deleted = [selected_zone ''r'' ''node-1'' 1000]" by (simp add: example_deleted_def example_template_def)
  have split: "SplitN (selected_zone ''r'' ''node-1'' 1000) (CHR ''/'') 3 = [''r'', ''node-1'', show_int 1000]"
    by (rule SplitN_selected_zone) simp_all
  have storages: "delete_storages pool NewCapacityProvider cls region zone ids q = Returns (None, q)" for pool cls region zone ids and q :: "example_world templates"
    by (induction ids) (simp_all add: GetStorage_def NewCapacityProvider_def)
  obtain e q where del: "deleteTemplate (ctl_pool example_delete_ctl) ''r'' ''node-1'' 1000 example_delete_state = (e, q)" by fastforce
  have "\<exists>r. delete_zones (ctl_pool example_delete_ctl) NewCapacityProvider example_deleted [selected_zone ''r'' ''node-1'' 1000]
      example_delete_state = Returns (r, q)"
    using del storages by (cases e) (simp_all add: split Let_def Atoi_show_int)
  then obtain r0 where zones_run: "delete_zones (ctl_pool example_delete_ctl) NewCapacityProvider example_deleted [selected_zone ''r'' ''node-1'' 1000]
      example_delete_state = Returns (r0, q)" by blast
  have cap: "ctl_capacity example_delete_ctl = NewCapacityProvider" by (simp add: example_delete_ctl_def)
  have "\<exists>e1 cls1 p1. templates_Delete lib (ctl_pool example_delete_ctl) NewCapacityProvider example_deleted example_delete_state =
      Returns ((e1, cls1), p1)" for lib
    unfolding templates_Delete_def zones zones_run by (cases r0) (simp_all add: Let_def)
  then obtain e1 cls1 p1 where "templates_Delete (ctl_lib example_delete_ctl) (ctl_pool example_delete_ctl) NewCapacityProvider example_deleted
      example_delete_state = Returns ((e1, cls1), p1)" by blast
  then have "\<exists>x p1. finalized example_delete_ctl example_deleted example_delete_state = Returns (x, p1)"
    unfolding finalized_def cap by (cases e1) (simp_all add: zones)
  then obtain r p' where run: "termination_Reconcile example_delete_ctl example_deleted example_delete_state = Returns (r, p')"
    by (force simp: termination_Reconcile_def finalize_def example_deleted_def split: option.splits prod.splits)
  have "\<exists>cls'. view_stored ?v (tpl_world p') (tc_Name example_deleted) = Some cls' \<and>
    (TerminationFinalizer \<in> set (tc_Finalizers cls') \<or> (\<forall>key \<in> set (st_Zones example_deleted).
       entry_gone ?v (vm_cached (ctl_pool example_delete_ctl) example_delete_state) (tpl_world p') key))"
  proof (rule finalizer_waits_for_templates [OF run])
    show "delete_laws ?v (ctl_pool example_delete_ctl)"
      by (auto simp: delete_laws_def example_delete_ctl_def example_delete_api_def shrinks_def split: if_splits)
    show "patch_laws ?v (PatchTemplate example_delete_ctl)" by (simp add: patch_laws_def example_delete_ctl_def)
  qed (simp_all add: example_delete_state_def example_deleted_def example_template_def)
  moreover have "vm_cached (ctl_pool example_delete_ctl) example_delete_state (''r'', ''node-1'', 1000)"
    by (simp add: vm_cached_def example_delete_state_def example_delete_ctl_def templates_ListWithFilter_def example_template_info_def go_lookup_def)
  ultimately have "\<exists>cls'. snd (tpl_world p') ''base'' = Some cls' \<and>
     (TerminationFinalizer \<in> set (tc_Finalizers cls') \<or> (''r'', ''node-1'', 1000) \<notin> fst (tpl_world p'))"
    using zones by (auto simp: entry_gone_def plain_name_def int_range_def example_deleted_def example_template_def)
  then show ?thesis using run by blast
qed

text \<open>With an empty cache the finalizer goes at once, and the VM stays.\<close>

lemma finalizer_ignores_uncached:
  fixes p :: "example_world templates"
  defines "p \<equiv> example_delete_state\<lparr>instanceTemplate := []\<rparr>"
  shows "\<exists>r p' cls'. termination_Reconcile example_delete_ctl example_deleted p = Returns (r, p') \<and> snd (tpl_world p') ''base'' = Some cls' \<and>
     TerminationFinalizer \<notin> set (tc_Finalizers cls') \<and> (''r'', ''node-1'', 1000) \<in> fst (tpl_world p')"
proof -
  have zones: "st_Zones example_deleted = [selected_zone ''r'' ''node-1'' 1000]" by (simp add: example_deleted_def example_template_def)
  have split: "SplitN (selected_zone ''r'' ''node-1'' 1000) (CHR ''/'') 3 = [''r'', ''node-1'', show_int 1000]"
    by (rule SplitN_selected_zone) simp_all
  have storages: "delete_storages pool NewCapacityProvider cls region zone ids q = Returns (None, q)" for pool cls region zone ids and q :: "example_world templates"
    by (induction ids) (simp_all add: GetStorage_def NewCapacityProvider_def)
  have "deleteTemplate (ctl_pool example_delete_ctl) ''r'' ''node-1'' 1000 p = (None, p)"
    by (simp add: deleteTemplate_def templates_ListWithFilter_def example_delete_ctl_def p_def go_lookup_def)
  then have "delete_zones (ctl_pool example_delete_ctl) NewCapacityProvider example_deleted [selected_zone ''r'' ''node-1'' 1000] p =
      Returns (Inr [selected_zone ''r'' ''node-1'' 1000], p)"
    using storages by (simp add: split Let_def Atoi_show_int)
  then have "templates_Delete (ctl_lib example_delete_ctl) (ctl_pool example_delete_ctl) (ctl_capacity example_delete_ctl) example_deleted p =
      Returns ((None, example_deleted\<lparr>st_Zones := []\<rparr>), p\<lparr>instanceTemplate := [(''r'', [])]\<rparr>)"
    unfolding templates_Delete_def zones
    by (simp add: example_delete_ctl_def example_delete_api_def SyncInstanceTemplates_def p_def example_delete_state_def)
  then have final: "finalized example_delete_ctl example_deleted p =
      Returns (Some (example_deleted\<lparr>st_Zones := [], tc_Finalizers := []\<rparr>), p\<lparr>instanceTemplate := [(''r'', [])]\<rparr>)"
    by (simp add: finalized_def zones) (simp add: example_deleted_def)
  let ?new = "example_deleted\<lparr>st_Zones := [], tc_Finalizers := []\<rparr>"
  have "?new \<noteq> example_deleted" by (auto simp: example_deleted_def example_template_def dest: arg_cong [of _ _ tc_Finalizers])
  then have "patch_changed (PatchTemplate example_delete_ctl) example_deleted ?new w = (None, (fst w, (snd w)(''base'' \<mapsto> ?new)))" for w
    by (simp add: patch_changed_def example_delete_ctl_def) (simp add: example_deleted_def example_template_def)
  moreover have "tc_Deleting example_deleted" "TerminationFinalizer \<in> set (tc_Finalizers example_deleted)" "fst (tpl_world p) = {(''r'', ''node-1'', 1000)}"
    by (simp_all add: example_deleted_def p_def example_delete_state_def)
  ultimately show ?thesis
    using final by (simp add: termination_Reconcile_def finalize_def)
qed

section \<open>The entries of the status\<close>

lemma zone_keys_simps [simp]:
  "zone_keys []" "zone_keys (xs @ ys) \<longleftrightarrow> zone_keys xs \<and> zone_keys ys"
  by (auto simp: zone_keys_def)

lemma zone_keys_single [intro]: "plain_name region \<Longrightarrow> plain_name zone \<Longrightarrow> zone_keys [selected_zone region zone vmid]"
  by (auto simp: zone_keys_def)

lemma zone_keys_filter: "zone_keys xs \<Longrightarrow> zone_keys (filter P xs)"
  by (auto simp: zone_keys_def)

lemma create_zones_keys:
  assumes "plain_name region" and "\<forall>zone \<in> set zones. plain_name zone"
    and "create_zones lib pool cls imageID region si st zones p = Returns (installed, p')"
  shows "zone_keys installed"
  using assms(2,3)
proof (induction zones arbitrary: p installed)
  case (Cons zone zones)
  obtain held where "Lock zone (zoneLocks p) = Some held" using Cons.prems(2) by (auto split: option.splits)
  then obtain first p1 rest where "create_zones lib pool cls imageID region si st zones p1 = Returns (rest, p')"
    and installed: "installed = first @ rest" and first: "first = [] \<or> (\<exists>vmid. first = [selected_zone region zone vmid])"
    using Cons.prems(2) by (auto simp: selected_zone_def Let_def split: prod.splits option.splits sum.splits run.splits if_splits)
  then show ?case using Cons.IH Cons.prems(1) assms(1) by (auto intro: zone_keys_single)
qed simp

lemma first_storage_plain:
  assumes "plain_names cap" and "first_storage cap region ids (has_content c) = Some info"
  shows "\<forall>zone \<in> set (sc_Zones info). plain_name zone" and "sc_Zones info \<noteq> []"
proof -
  obtain storageID where found: "GetStorage cap region storageID [has_content c] = Some info"
    using assms(2) map_filter_member [of info "\<lambda>storageID. GetStorage cap region storageID [has_content c]" ids]
    by (auto simp: first_storage_def split: list.splits)
  then have "(zone_key region storageID, info) \<in> set (storageInfo cap)" and "has_content c info"
    by (auto simp: GetStorage_def dest: map_of_SomeD split: option.splits if_splits)
  then show "\<forall>zone \<in> set (sc_Zones info). plain_name zone" "sc_Zones info \<noteq> []"
    using assms(1) by (force simp: plain_names_def has_content_def)+
qed

lemma create_regions_keys:
  assumes "plain_names cap" and "\<forall>region \<in> set regions. plain_name region"
    and "create_regions lib pool cap cls imageID regions p = Returns (installed, p')"
  shows "zone_keys installed"
  using assms(2,3)
proof (induction regions arbitrary: p installed)
  case (Cons region regions)
  show ?case
  proof (cases "first_storage cap region (tc_StorageIDs cls) (has_content importContent) = None \<or>
      first_storage cap region (tc_StorageIDs cls) (has_content ''images'') = None")
    case True
    then show ?thesis using Cons by (auto split: option.splits)
  next
    case False
    then obtain si st where storage: "first_storage cap region (tc_StorageIDs cls) (has_content importContent) = Some si"
      "first_storage cap region (tc_StorageIDs cls) (has_content ''images'') = Some st" by auto
    define zones where "zones = (if Shared st then [hd (sc_Zones st)] else Intersect (sc_Zones si) (sc_Zones st))"
    have "\<forall>zone \<in> set zones. plain_name zone"
      using first_storage_plain [OF assms(1) storage(2)] by (auto simp: zones_def Intersect_def)
    moreover obtain first p1 rest p2 where "create_zones lib pool cls imageID region si st zones p = Returns (first, p1)"
      "create_regions lib pool cap cls imageID regions p2 = Returns (rest, p')" "installed = first @ rest"
      using Cons.prems(2) by (auto simp: storage simp flip: zones_def split: run.splits prod.splits)
    ultimately show ?thesis using create_zones_keys Cons by auto
  qed
qed simp

lemma install_template_keys:
  assumes "plain_names (ctl_capacity c)" and "\<forall>region \<in> set (tc_Region cls # tp_GetRegions (ctl_pool c)). plain_name region"
    and "zone_keys (st_Zones cls)" and run: "install_template c deleted cls p = Returns ((res, cls'), p')"
  shows "zone_keys (st_Zones cls')"
proof -
  obtain r p1 where create: "templates_Create (ctl_lib c) (ctl_pool c) (ctl_capacity c) cls p = Returns (r, p1)"
    using run by (auto simp: install_template_def split: run.splits)
  have "zone_keys (st_Zones cls1)" if r: "r = Inr cls1" for cls1
  proof -
    define regions where "regions = (if tc_Region cls \<noteq> [] then [tc_Region cls] else tp_GetRegions (ctl_pool c))"
    obtain imageID installed q where made: "create_regions (ctl_lib c) (ctl_pool c) (ctl_capacity c) cls imageID regions p = Returns (installed, q)"
      and cls1: "cls1 = (if installed = [] then cls else cls\<lparr>st_ImageID := imageID, st_Zones := installed\<rparr>)"
      using create r unfolding templates_Create_def regions_def [symmetric] by (auto split: option.splits if_splits run.splits)
    have "\<forall>region \<in> set regions. plain_name region" using assms(2) by (simp add: regions_def)
    then have "zone_keys installed" using made by (rule create_regions_keys [OF assms(1)])
    with cls1 assms(3) show ?thesis by simp
  qed
  then show ?thesis using run create assms(3) by (cases r) (auto simp: install_template_def split: if_splits)
qed

text \<open>
  C28. Every entry of the status of a template has the form \<open>region/zone/id\<close> that the readers of the
  status rely on, and a sync of the status keeps it so: with names of regions and zones without
  slashes, installing, replacing and removing templates write no other entries.
\<close>

theorem template_status_entries:
  assumes names: "plain_names (ctl_capacity c)" "\<forall>region \<in> set (tc_Region cls # tp_GetRegions (ctl_pool c)). plain_name region"
    and keys: "zone_keys (st_Zones cls)"
    and run: "template_InstanceTemplate_Reconcile c cls p = Some (Returns ((res, cls'), p'))"
  shows "zone_keys (st_Zones cls')"
proof -
  obtain imageID where image: "GetImageID (ctl_lib c) cls = Some imageID"
    using run by (auto simp: template_InstanceTemplate_Reconcile_def split: option.splits)
  show ?thesis
  proof (cases "st_ImageID cls \<in> {[], imageID}")
    case True
    then have "install_template c False cls p = Returns ((res, cls'), p')"
      using run image by (auto simp: template_InstanceTemplate_Reconcile_def)
    then show ?thesis by (rule install_template_keys [OF names keys])
  next
    case False
    then obtain e cls1 p1 where del: "templates_Delete (ctl_lib c) (ctl_pool c) (ctl_capacity c) cls p = Returns ((e, cls1), p1)"
      using run image by (auto simp: template_InstanceTemplate_Reconcile_def split: run.splits)
    then have "zone_keys (st_Zones cls1)" and "tc_Region cls1 = tc_Region cls"
      using keys by (auto simp: templates_Delete_def Let_def zone_keys_filter split: run.splits sum.splits if_splits)
    then show ?thesis
      using run image False del names install_template_keys [OF names(1), of "cls1\<lparr>st_ImageID := imageID\<rparr>" True p1 res cls' p']
      by (cases e) (auto simp: template_InstanceTemplate_Reconcile_def)
  qed
qed

theorem template_status_entries_witness:
  "\<exists>res cls' p'. template_InstanceTemplate_Reconcile (example_ctl\<lparr>ctl_capacity := example_storages\<rparr>) example_template example_templates =
     Some (Returns ((res, cls'), p')) \<and> zone_keys (st_Zones cls')"
proof -
  let ?c = "example_ctl\<lparr>ctl_capacity := example_storages\<rparr>"
  have image: "GetImageID (ctl_lib ?c) example_template = Some ''i-4.raw''"
    by (simp add: GetImageID_def example_ctl_def example_template_def example_template_lib_def numeral_2_eq_2)
  have "zoneLocks example_templates = {}" by (simp add: example_templates_def)
  from create_regions_returns [OF this] obtain installed p1 where
    "create_regions (ctl_lib ?c) (ctl_pool ?c) (ctl_capacity ?c) example_template ''i-4.raw'' [''r''] example_templates = Returns (installed, p1)"
    by blast
  moreover have "tc_Region example_template = ''r''" "st_ImageID example_template = ''i-4.raw''" by (simp_all add: example_template_def)
  ultimately have "\<exists>r p1. templates_Create (ctl_lib ?c) (ctl_pool ?c) (ctl_capacity ?c) example_template example_templates = Returns (r, p1)"
    using image by (simp add: templates_Create_def)
  then obtain r p1 where "templates_Create (ctl_lib ?c) (ctl_pool ?c) (ctl_capacity ?c) example_template example_templates = Returns (r, p1)"
    by blast
  then have "\<exists>res cls' p'. install_template ?c False example_template example_templates = Returns ((res, cls'), p')"
    by (cases r) (auto simp: install_template_def)
  then obtain res cls' p' where run: "template_InstanceTemplate_Reconcile ?c example_template example_templates = Some (Returns ((res, cls'), p'))"
    using image by (auto simp: template_InstanceTemplate_Reconcile_def example_template_def)
  have "zone_keys (st_Zones cls')"
  proof (rule template_status_entries [OF _ _ _ run])
    show "plain_names (ctl_capacity ?c)"
      by (auto simp: plain_names_def Regions_def example_storages_def example_storage_def plain_name_def)
    show "zone_keys (st_Zones example_template)" by (auto simp: example_template_def plain_name_def)
  qed (auto simp: example_ctl_def example_template_def example_template_pool_def plain_name_def)
  then show ?thesis using run by blast
qed

end
