(* ===== verification/ClaimControllers.thy ===== *)
theory ClaimControllers
  imports TemplateControllers
begin

text \<open>
  The controllers of node claims (\<open>src/pkg/controllers/nodeclaim/{inplaceupdate,lifecycle}\<close>): changes
  of a class that a running VM can follow, and cleaning up after a node has joined the cluster.
\<close>

section \<open>Operations\<close>

record ('w, 'r) claim_ctl =
  cc_env :: "'w instance_env"
  cc_conditions :: condition_lib
  cc_hash :: class_lib
  cc_GetNodeClass :: "'w \<Rightarrow> string \<Rightarrow> kube_error + ProxmoxNodeClass"
  PatchClaim :: "'w \<Rightarrow> 'r NodeClaim \<Rightarrow> 'r NodeClaim \<Rightarrow> kube_error option \<times> 'w"

definition claim_templateRepeatPeriod :: int where
  "claim_templateRepeatPeriod = 10"

definition step_result :: "instance_error option \<Rightarrow> Result \<times> ctl_error list" where
  "step_result err = (case err of None \<Rightarrow> (no_requeue, []) | Some e \<Rightarrow> (requeue_after claim_templateRepeatPeriod, [CtlInstance e]))"

definition InstanceTag_Reconcile ::
  "'w instance_env \<Rightarrow> 'r NodeClaim \<Rightarrow> ProxmoxNodeClass \<Rightarrow> 'w instances \<Rightarrow> (Result \<times> ctl_error list) \<times> 'w instances" where
  "InstanceTag_Reconcile env claim cls s = map_prod step_result id (UpdateTags env claim cls s)"

definition InstanceSecurityGroups_Reconcile ::
  "'w instance_env \<Rightarrow> 'r NodeClaim \<Rightarrow> ProxmoxNodeClass \<Rightarrow> 'w instances \<Rightarrow> (Result \<times> ctl_error list) \<times> 'w instances" where
  "InstanceSecurityGroups_Reconcile env claim cls s = map_prod step_result id (UpdateFirewallRules env claim cls s)"

definition InstancePool_Reconcile ::
  "'w instance_env \<Rightarrow> 'r NodeClaim \<Rightarrow> ProxmoxNodeClass \<Rightarrow> 'w instances \<Rightarrow> (Result \<times> ctl_error list) \<times> 'w instances" where
  "InstancePool_Reconcile env claim cls s = map_prod step_result id (UpdatePoolMembership env claim cls s)"

text \<open>The three reconcilers in their order; every one runs, whatever the others return.\<close>

definition inplace_steps ::
  "'w instance_env \<Rightarrow> 'r NodeClaim \<Rightarrow> ProxmoxNodeClass \<Rightarrow> 'w instances \<Rightarrow> (Result list \<times> ctl_error list) \<times> 'w instances" where
  "inplace_steps env claim cls s =
     (case InstanceTag_Reconcile env claim cls s of ((r1, e1), s1) \<Rightarrow>
        case InstanceSecurityGroups_Reconcile env claim cls s1 of ((r2, e2), s2) \<Rightarrow>
          case InstancePool_Reconcile env claim cls s2 of ((r3, e3), s3) \<Rightarrow> (([r1, r2, r3], e1 @ e2 @ e3), s3))"

definition inplace_annotations :: "class_lib \<Rightarrow> ProxmoxNodeClass \<Rightarrow> (string, string) go_map" where
  "inplace_annotations lib cls =
     [(AnnotationProxmoxNodeInPlaceUpdateHash, class_InPlaceHash lib cls), (AnnotationProxmoxNodeClassPool, class_ResourcePool cls)]"

definition inplace_Reconcile :: "('w, 'r) claim_ctl \<Rightarrow> 'r NodeClaim \<Rightarrow> 'w instances \<Rightarrow> (Result \<times> ctl_error list) \<times> 'w instances" where
  "inplace_Reconcile c claim s =
     (if claim_Deleting claim \<or> claim_ProviderID claim = [] then ((no_requeue, []), s)
      else (case resolveNodeClassFromNodeClaim (cc_GetNodeClass c) claim (in_world s) of
              Inl e \<Rightarrow> ((no_requeue, [CtlClass e]), s)
            | Inr cls \<Rightarrow>
                if go_lookup [] (claim_Annotations claim) AnnotationProxmoxNodeInPlaceUpdateHash = class_InPlaceHash (cc_hash c) cls
                then ((no_requeue, []), s)
                else (case inplace_steps (cc_env c) claim cls s of ((results, errs), s1) \<Rightarrow>
                        let claim' = (if errs = []
                              then claim\<lparr>claim_Annotations := Assign (claim_Annotations claim) (inplace_annotations (cc_hash c) cls)\<rparr>
                              else claim)
                        in case finish_patch (cc_conditions c) results errs (patch_changed (PatchClaim c) claim claim' (in_world s1)) of
                             (r, w) \<Rightarrow> (r, s1\<lparr>in_world := w\<rparr>))))"

fun inPlaceChangedPredicate :: "class_lib \<Rightarrow> ProxmoxNodeClass event \<Rightarrow> bool" where
  "inPlaceChangedPredicate lib (CreateEvent new) = True"
| "inPlaceChangedPredicate lib (DeleteEvent old) = False"
| "inPlaceChangedPredicate lib (UpdateEvent old new) = (class_InPlaceHash lib old \<noteq> class_InPlaceHash lib new)"

definition AnnotationProxmoxCloudInitStatus :: string where
  "AnnotationProxmoxCloudInitStatus = ''karpenter.proxmox.sinextra.dev/proxmoxcloudinit-status''"

definition InstanceRegistered_Reconcile ::
  "('w, 'r) claim_ctl \<Rightarrow> 'r NodeClaim \<Rightarrow> 'w instances \<Rightarrow> (Result \<times> ctl_error list \<times> 'r NodeClaim) \<times> 'w instances" where
  "InstanceRegistered_Reconcile c claim s =
     (if \<not> claim_Initialized claim \<or> \<not> HasPrefix (claim_ProviderID claim) ProxmoxProviderPrefix \<or>
         map_of (claim_Annotations claim) AnnotationProxmoxCloudInitStatus \<noteq> None
      then ((no_requeue, [], claim), s)
      else (case resolveNodeClassFromNodeClaim (cc_GetNodeClass c) claim (in_world s) of
              Inl e \<Rightarrow> ((no_requeue, [CtlClass e], claim), s)
            | Inr cls \<Rightarrow>
                (case (if mo_Type (class_MetadataOptions cls) = ''cdrom'' then DetachCloudInit (cc_env c) claim s else (None, s)) of
                   (Some e, s1) \<Rightarrow> ((requeue_after 5, [CtlInstance e], claim), s1)
                 | (None, s1) \<Rightarrow>
                     (let tokenID = go_lookup [] (claim_Annotations claim) AnnotationProxmoxCloudInitToken
                      in case (if tokenID \<noteq> [] then DeleteToken (ie_kube (cc_env c)) tokenID (in_world s1) else (None, in_world s1)) of
                           (Some e, w) \<Rightarrow> ((requeue_after 5, [CtlToken e], claim), s1\<lparr>in_world := w\<rparr>)
                         | (None, w) \<Rightarrow>
                             ((no_requeue, [],
                               claim\<lparr>claim_Annotations := Assign (claim_Annotations claim) [(AnnotationProxmoxCloudInitStatus, ''Initialized'')]\<rparr>),
                              s1\<lparr>in_world := w\<rparr>)))))"

definition lifecycle_Reconcile :: "('w, 'r) claim_ctl \<Rightarrow> 'r NodeClaim \<Rightarrow> 'w instances \<Rightarrow> (Result \<times> ctl_error list) \<times> 'w instances" where
  "lifecycle_Reconcile c claim s =
     (if claim_Deleting claim then ((no_requeue, []), s)
      else (case InstanceRegistered_Reconcile c claim s of ((res, errs, claim'), s1) \<Rightarrow>
              case finish_patch (cc_conditions c) [res] errs (patch_changed (PatchClaim c) claim claim' (in_world s1)) of
                (r, w) \<Rightarrow> (r, s1\<lparr>in_world := w\<rparr>)))"

section \<open>Updates in place\<close>

text \<open>
  A view of the claims the API server stores. Relied on: a patch that succeeds stores the new claim,
  one that fails nothing, it reports a missing claim only if there is none, and the calls to Proxmox
  do not touch the claims.
\<close>

definition claim_patch_laws ::
  "('w \<Rightarrow> string \<Rightarrow> 'r NodeClaim option) \<Rightarrow> ('w \<Rightarrow> 'r NodeClaim \<Rightarrow> 'r NodeClaim \<Rightarrow> kube_error option \<times> 'w) \<Rightarrow> bool" where
  "claim_patch_laws claims patch \<longleftrightarrow>
     (\<forall>w old new err w'. patch w old new = (err, w') \<longrightarrow>
        claims w' = (if err = None then (claims w)(claim_Name old \<mapsto> new) else claims w) \<and>
        (err = Some KubeNotFound \<longrightarrow> claims w (claim_Name old) = None))"

definition proxmox_keeps :: "('w \<Rightarrow> 'v) \<Rightarrow> 'w instance_env \<Rightarrow> bool" where
  "proxmox_keeps view env \<longleftrightarrow>
     (\<forall>region px. ie_cluster env region = Some px \<longrightarrow>
        (\<forall>w vmid opts. view (snd (px_SetConfig px w vmid opts)) = view w) \<and>
        (\<forall>w vmid zone rules. view (snd (px_UpdateVMFirewallRules px w vmid zone rules)) = view w) \<and>
        (\<forall>w pool del vms. view (snd (px_PoolUpdate px w pool del vms)) = view w) \<and>
        (\<forall>w device vmid. view (snd (px_UnmountCloudInitISO px w device vmid)) = view w) \<and>
        (\<forall>w zone vmid tag. view (px_RemoveTag px w zone vmid tag) = view w))"

lemma proxmox_keepsD:
  assumes "proxmox_keeps view env" and "ie_cluster env region = Some px"
  shows "view (snd (px_SetConfig px w vmid opts)) = view w"
    and "px_UpdateVMFirewallRules px w vmid zone rules = (ok, w') \<Longrightarrow> view w' = view w"
    and "px_PoolUpdate px w pool del vms = (ok, w') \<Longrightarrow> view w' = view w"
    and "px_UnmountCloudInitISO px w device vmid = (ok, w') \<Longrightarrow> view w' = view w"
    and "view (px_RemoveTag px w zone vmid tag) = view w"
  using assms unfolding proxmox_keeps_def by (metis snd_conv)+

lemma with_cluster_keeps:
  assumes "\<And>region px vmid zone s r s'. ie_cluster env region = Some px \<Longrightarrow> act px vmid zone s = (r, s') \<Longrightarrow> view (in_world s') = view (in_world s)"
    and "with_cluster env claim act s = (r, s')"
  shows "view (in_world s') = view (in_world s)"
  using assms(2) by (auto simp: with_cluster_def dest: assms(1) split: sum.splits option.splits)

lemma pool_keeps:
  assumes "proxmox_keeps view env" and "ie_cluster env region = Some px"
  shows "leave_pool px vmid pool s = (r, s') \<Longrightarrow> view (in_world s') = view (in_world s)"
    and "join_pool px vmid pool s = (r, s') \<Longrightarrow> view (in_world s') = view (in_world s)"
  by (auto simp: leave_pool_def join_pool_def dest: proxmox_keepsD(3) [OF assms] split: option.splits if_splits prod.splits)

lemma updates_keep:
  assumes keeps: "proxmox_keeps view env"
  shows "UpdateTags env claim cls s = (r, s') \<Longrightarrow> view (in_world s') = view (in_world s)"
    and "UpdateFirewallRules env claim cls s = (r, s') \<Longrightarrow> view (in_world s') = view (in_world s)"
    and "UpdatePoolMembership env claim cls s = (r, s') \<Longrightarrow> view (in_world s') = view (in_world s)"
proof -
  show "UpdateTags env claim cls s = (r, s') \<Longrightarrow> view (in_world s') = view (in_world s)"
    unfolding UpdateTags_def
    by (erule with_cluster_keeps [rotated])
      (auto simp: Let_def proxmox_keepsD(1) [OF keeps] split: if_splits option.splits)
  show "UpdateFirewallRules env claim cls s = (r, s') \<Longrightarrow> view (in_world s') = view (in_world s)"
    unfolding UpdateFirewallRules_def
    by (erule with_cluster_keeps [rotated]) (auto dest: proxmox_keepsD(2) [OF keeps] split: prod.splits)
  show "UpdatePoolMembership env claim cls s = (r, s') \<Longrightarrow> view (in_world s') = view (in_world s)"
    unfolding UpdatePoolMembership_def
    by (erule with_cluster_keeps [rotated])
      (auto simp: Let_def dest: pool_keeps [OF keeps] split: if_splits option.splits prod.splits,
        metis pool_keeps(1) [OF keeps] pool_keeps(2) [OF keeps])
qed

lemma step_result_cases: "snd (step_result err) = [] \<longleftrightarrow> err = None" "step_result None = (no_requeue, [])"
  by (auto simp: step_result_def split: option.splits)

lemma inplace_steps_cases:
  assumes "inplace_steps env claim cls s = ((results, errs), s')"
  obtains e1 s1 e2 s2 e3 where "UpdateTags env claim cls s = (e1, s1)" "UpdateFirewallRules env claim cls s1 = (e2, s2)"
    "UpdatePoolMembership env claim cls s2 = (e3, s')" "errs = [] \<longleftrightarrow> e1 = None \<and> e2 = None \<and> e3 = None"
    "errs = [] \<longrightarrow> results = [no_requeue, no_requeue, no_requeue]"
proof -
  obtain e1 s1 e2 s2 e3 s3 where u: "UpdateTags env claim cls s = (e1, s1)" "UpdateFirewallRules env claim cls s1 = (e2, s2)"
    "UpdatePoolMembership env claim cls s2 = (e3, s3)" by (metis prod.collapse)
  with assms have "s3 = s'" "results = [fst (step_result e1), fst (step_result e2), fst (step_result e3)]"
    "errs = snd (step_result e1) @ snd (step_result e2) @ snd (step_result e3)"
    by (auto simp: inplace_steps_def InstanceTag_Reconcile_def InstanceSecurityGroups_Reconcile_def InstancePool_Reconcile_def split: prod.splits)
  with u show thesis by (intro that) (auto simp: step_result_cases)
qed

lemma inplace_keys [simp]: "AnnotationProxmoxNodeInPlaceUpdateHash \<noteq> AnnotationProxmoxNodeClassPool"
  by (simp add: annotation_keys)

lemma inplace_settled:
  fixes lib :: class_lib
  defines "settled \<equiv> \<lambda>claim cls. claim\<lparr>claim_Annotations := Assign (claim_Annotations claim) (inplace_annotations lib cls)\<rparr>"
  shows "go_lookup [] (claim_Annotations (settled claim cls)) AnnotationProxmoxNodeInPlaceUpdateHash = class_InPlaceHash lib cls"
    and "go_lookup [] (claim_Annotations (settled claim cls)) AnnotationProxmoxNodeClassPool = class_ResourcePool cls"
  by (simp_all add: settled_def inplace_annotations_def go_lookup_update)

lemma finish_patch_cases:
  assumes "finish_patch cl results errs (err, w) = ((res, errs'), w')"
  shows "w' = w" and "errs' = [] \<and> res = no_requeue \<Longrightarrow> errs = [] \<and> err \<notin> {Some KubeConflict, Some KubeFailure}"
    and "errs = [] \<Longrightarrow> result_Min cl results = no_requeue \<Longrightarrow> err \<in> {None, Some KubeNotFound} \<Longrightarrow> errs' = [] \<and> res = no_requeue"
  using assms by (auto simp: finish_patch_def no_requeue_def requeue_now_def Let_def split: if_splits option.splits kube_error.splits)

text \<open>
  The calls that bring a VM in line with its class, as the cluster sees them. The tags are sent when they
  differ, whatever the cluster answers; the firewall rules and every change of a pool are accepted.
\<close>

definition wanted_tags :: "'w instance_env \<Rightarrow> ProxmoxNodeClass \<Rightarrow> string list \<Rightarrow> string list" where
  "wanted_tags env cls tags =
     sort_slice string_less (uniq (class_Tags cls)) @ (if ie_cloudinit_tag env \<in> set tags then [ie_cloudinit_tag env] else [])"

definition tags_sent :: "'w instance_env \<Rightarrow> ProxmoxNodeClass \<Rightarrow> 'w instance_api \<Rightarrow> int \<Rightarrow> string \<Rightarrow> 'w \<Rightarrow> 'w \<Rightarrow> bool" where
  "tags_sent env cls px vmid zone w w' \<longleftrightarrow>
     (\<exists>vm. px_VirtualMachine px w zone vmid = Some vm \<and>
        (let tags = Split (vi_Tags vm) (CHR '';''); wanted = wanted_tags env cls tags
         in w' = (if tags = wanted then w else snd (px_SetConfig px w vmid [(''tags'', Join wanted '';'')]))))"

definition member_moved :: "'w instance_api \<Rightarrow> int \<Rightarrow> string \<Rightarrow> bool \<Rightarrow> 'w \<Rightarrow> 'w \<Rightarrow> bool" where
  "member_moved px vmid pool del w w' \<longleftrightarrow>
     (\<exists>members. px_PoolMembers px w pool = Some members \<and>
        (if (word_of_int vmid \<in> set members) = del then px_PoolUpdate px w pool del (show_int vmid) = (True, w') else w' = w))"

definition pool_moved :: "'w instance_api \<Rightarrow> int \<Rightarrow> string \<Rightarrow> string \<Rightarrow> 'w \<Rightarrow> 'w \<Rightarrow> bool" where
  "pool_moved px vmid old new w w' \<longleftrightarrow>
     (\<exists>w1. (if new \<noteq> old \<and> old \<noteq> [] then member_moved px vmid old True w w1 else w1 = w) \<and>
        (if new = [] then w' = w1 else member_moved px vmid new False w1 w'))"

definition vm_updated :: "'w instance_env \<Rightarrow> 'r NodeClaim \<Rightarrow> ProxmoxNodeClass \<Rightarrow> 'w \<Rightarrow> 'w \<Rightarrow> bool" where
  "vm_updated env claim cls w w' \<longleftrightarrow>
     (\<exists>vmid region px w1 w2. ParseProviderID (claim_ProviderID claim) = Inr (vmid, region) \<and>
        ie_cluster env (claim_region claim region) = Some px \<and>
        (let zone = go_lookup [] (claim_Labels claim) LabelTopologyZone
         in tags_sent env cls px vmid zone w w1 \<and>
            px_UpdateVMFirewallRules px w1 vmid zone (firewall_rules (SecurityGroups cls)) = (True, w2) \<and>
            pool_moved px vmid (go_lookup [] (claim_Annotations claim) AnnotationProxmoxNodeClassPool) (class_ResourcePool cls) w2 w'))"

lemma with_cluster_done:
  assumes "with_cluster env claim act s = (None, s')"
  obtains vmid region px where "ParseProviderID (claim_ProviderID claim) = Inr (vmid, region)"
    "ie_cluster env (claim_region claim region) = Some px" "act px vmid (go_lookup [] (claim_Labels claim) LabelTopologyZone) s = (None, s')"
  using assms by (auto simp: with_cluster_def split: sum.splits option.splits)

lemma pool_calls:
  "leave_pool px vmid pool s = (None, s') \<Longrightarrow> member_moved px vmid pool True (in_world s) (in_world s')"
  "join_pool px vmid pool s = (None, s') \<Longrightarrow> member_moved px vmid pool False (in_world s) (in_world s')"
  by (auto simp: leave_pool_def join_pool_def member_moved_def split: option.splits if_splits prod.splits)

lemma updates_sent:
  assumes tags: "UpdateTags env claim cls s = (None, s1)" and rules: "UpdateFirewallRules env claim cls s1 = (None, s2)"
    and pool: "UpdatePoolMembership env claim cls s2 = (None, s3)"
  shows "vm_updated env claim cls (in_world s) (in_world s3)"
proof -
  let ?zone = "go_lookup [] (claim_Labels claim) LabelTopologyZone"
  from tags obtain vmid region px where px: "ParseProviderID (claim_ProviderID claim) = Inr (vmid, region)"
    "ie_cluster env (claim_region claim region) = Some px" and sent: "tags_sent env cls px vmid ?zone (in_world s) (in_world s1)"
    unfolding UpdateTags_def
    by (elim with_cluster_done) (auto simp: tags_sent_def wanted_tags_def Let_def split: if_splits option.splits)
  have "px_UpdateVMFirewallRules px (in_world s1) vmid ?zone (firewall_rules (SecurityGroups cls)) = (True, in_world s2)"
    using rules px unfolding UpdateFirewallRules_def by (elim with_cluster_done) (auto split: prod.splits if_splits)
  moreover have "pool_moved px vmid (go_lookup [] (claim_Annotations claim) AnnotationProxmoxNodeClassPool) (class_ResourcePool cls)
      (in_world s2) (in_world s3)"
    using pool px unfolding UpdatePoolMembership_def Let_def
    by (elim with_cluster_done) (auto simp: pool_moved_def dest: pool_calls split: if_splits prod.splits option.splits)
  ultimately show ?thesis using px sent unfolding vm_updated_def Let_def by blast
qed

text \<open>A run of the reconciler that has something to do: its updates, the patch and the result.\<close>

lemma inplace_run:
  fixes c :: "('w, 'r) claim_ctl" and claim :: "'r NodeClaim" and cls
  defines "marked \<equiv> claim\<lparr>claim_Annotations := Assign (claim_Annotations claim) (inplace_annotations (cc_hash c) cls)\<rparr>"
  assumes run: "inplace_Reconcile c claim s = ((res, errs), s')"
    and cls: "resolveNodeClassFromNodeClaim (cc_GetNodeClass c) claim (in_world s) = Inr cls"
    and todo: "\<not> claim_Deleting claim" "claim_ProviderID claim \<noteq> []"
      "go_lookup [] (claim_Annotations claim) AnnotationProxmoxNodeInPlaceUpdateHash \<noteq> class_InPlaceHash (cc_hash c) cls"
    and keeps: "proxmox_keeps claims (cc_env c)"
  obtains results errs1 w1 err where "claims w1 = claims (in_world s)"
    "finish_patch (cc_conditions c) results errs1 (err, in_world s') = ((res, errs), in_world s')"
    "if errs1 = [] then results = [no_requeue, no_requeue, no_requeue] \<and> vm_updated (cc_env c) claim cls (in_world s) w1 \<and>
       PatchClaim c w1 claim marked = (err, in_world s') else in_world s' = w1"
proof -
  obtain results errs1 s1 where steps: "inplace_steps (cc_env c) claim cls s = ((results, errs1), s1)" by (metis prod.collapse)
  define claim1 where "claim1 = (if errs1 = [] then marked else claim)"
  obtain err w where patch: "patch_changed (PatchClaim c) claim claim1 (in_world s1) = (err, w)" by fastforce
  have finished: "finish_patch (cc_conditions c) results errs1 (err, w) = ((res, errs), in_world s')"
    using run todo cls steps patch [unfolded claim1_def marked_def] by (auto simp: inplace_Reconcile_def Let_def split: prod.splits)
  then have w: "w = in_world s'" using finish_patch_cases(1) by metis
  from steps obtain e1 t1 e2 t2 e3 where updates: "UpdateTags (cc_env c) claim cls s = (e1, t1)"
    "UpdateFirewallRules (cc_env c) claim cls t1 = (e2, t2)" "UpdatePoolMembership (cc_env c) claim cls t2 = (e3, s1)"
    "errs1 = [] \<longleftrightarrow> e1 = None \<and> e2 = None \<and> e3 = None" "errs1 = [] \<longrightarrow> results = [no_requeue, no_requeue, no_requeue]"
    by (rule inplace_steps_cases)
  have kept: "claims (in_world s1) = claims (in_world s)" using updates(1-3) updates_keep [OF keeps] by metis
  have "claim \<noteq> marked" using todo(3) inplace_settled(1) [of claim "cc_hash c" cls] unfolding marked_def by metis
  then have "if errs1 = [] then results = [no_requeue, no_requeue, no_requeue] \<and> vm_updated (cc_env c) claim cls (in_world s) (in_world s1) \<and>
       PatchClaim c (in_world s1) claim marked = (err, in_world s') else in_world s' = in_world s1"
    using patch updates updates_sent w by (auto simp: claim1_def patch_changed_def)
  with that [of "in_world s1" results errs1 err] kept finished w show thesis by simp
qed

text \<open>
  C9. A change of the tags, security groups or pool of a class is recorded on a claim only after it has
  been sent to the cluster of its VM. When the reconciler returns without error or retry, it has, in this order,
  sent the tags if they differ, replaced the firewall rules, and moved the VM from its old pool to
  the one of the class; the cluster has accepted the rules and the moves, but its answer to the tags is not
  looked at. The stored claim then carries the pool and the hash of the class, and reconciling it again
  does nothing. Otherwise the stored claim is unchanged, so that its hash still differs and the update is tried
  again.
\<close>

theorem inplace_update_settles:
  assumes run: "inplace_Reconcile c claim s = ((res, errs), s')"
    and cls: "resolveNodeClassFromNodeClaim (cc_GetNodeClass c) claim (in_world s) = Inr cls"
    and todo: "\<not> claim_Deleting claim" "claim_ProviderID claim \<noteq> []"
      "go_lookup [] (claim_Annotations claim) AnnotationProxmoxNodeInPlaceUpdateHash \<noteq> class_InPlaceHash (cc_hash c) cls"
    and laws: "claim_patch_laws claims (PatchClaim c)" "proxmox_keeps claims (cc_env c)"
      "result_Min (cc_conditions c) [no_requeue, no_requeue, no_requeue] = no_requeue"
    and stored: "claims (in_world s) (claim_Name claim) = Some claim"
  shows "\<exists>claim'. claims (in_world s') (claim_Name claim) = Some claim' \<and>
    (if errs = [] \<and> res = no_requeue
     then (\<exists>w. vm_updated (cc_env c) claim cls (in_world s) w \<and> PatchClaim c w claim claim' = (None, in_world s')) \<and>
          go_lookup [] (claim_Annotations claim') AnnotationProxmoxNodeClassPool = class_ResourcePool cls \<and>
          (\<forall>t. resolveNodeClassFromNodeClaim (cc_GetNodeClass c) claim' (in_world t) = Inr cls \<longrightarrow>
             inplace_Reconcile c claim' t = ((no_requeue, []), t))
     else claim' = claim)"
proof -
  let ?new = "claim\<lparr>claim_Annotations := Assign (claim_Annotations claim) (inplace_annotations (cc_hash c) cls)\<rparr>"
  from run cls todo laws(2) obtain results errs1 w1 err where kept: "claims w1 = claims (in_world s)"
    and finished: "finish_patch (cc_conditions c) results errs1 (err, in_world s') = ((res, errs), in_world s')"
    and sent: "if errs1 = [] then results = [no_requeue, no_requeue, no_requeue] \<and> vm_updated (cc_env c) claim cls (in_world s) w1 \<and>
       PatchClaim c w1 claim ?new = (err, in_world s') else in_world s' = w1"
    by (rule inplace_run)
  show ?thesis
  proof (cases "errs1 = []")
    case False
    then show ?thesis using sent finish_patch_cases(2) [OF finished] kept stored by auto
  next
    case True
    then have patched: "PatchClaim c w1 claim ?new = (err, in_world s')" using sent by simp
    then have view: "claims (in_world s') = (if err = None then (claims w1)(claim_Name claim \<mapsto> ?new) else claims w1)"
      "err \<noteq> Some KubeNotFound" using laws(1) kept stored unfolding claim_patch_laws_def by fastforce+
    show ?thesis
    proof (cases err)
      case None
      have "inplace_Reconcile c ?new t = ((no_requeue, []), t)"
        if "resolveNodeClassFromNodeClaim (cc_GetNodeClass c) ?new (in_world t) = Inr cls" for t
        using that todo(1,2) inplace_settled(1) [of claim "cc_hash c" cls] by (simp add: inplace_Reconcile_def)
      moreover have "errs = [] \<and> res = no_requeue" using finish_patch_cases(3) [OF finished True] sent True laws(3) None by simp
      ultimately show ?thesis
        using view None True sent patched inplace_settled(2) [of claim "cc_hash c" cls] by (intro exI [of _ ?new]) auto
    next
      case (Some e)
      then have "\<not> (errs = [] \<and> res = no_requeue)" using finish_patch_cases(2) [OF finished] view(2) by (cases e) auto
      then show ?thesis using view Some kept stored by auto
    qed
  qed
qed

section \<open>Nodes that have joined\<close>

lemma detach_keeps:
  assumes keeps: "proxmox_keeps view env"
  shows "DetachCloudInit env claim s = (r, s') \<Longrightarrow> view (in_world s') = view (in_world s)"
  by (auto simp: DetachCloudInit_def detachCloudInitISO_def Let_def proxmox_keepsD(5) [OF keeps]
      dest: proxmox_keepsD(4) [OF keeps] split: sum.splits option.splits prod.splits if_splits bool.splits)

lemma registered_cases:
  assumes run: "InstanceRegistered_Reconcile c claim s = ((res, errs, claim1), s1)"
    and keeps: "proxmox_keeps claims (cc_env c)" "\<And>w ns n. claims (snd (DeleteSecret (ie_kube (cc_env c)) w ns n)) = claims w"
  defines "tokenID \<equiv> go_lookup [] (claim_Annotations claim) AnnotationProxmoxCloudInitToken"
  obtains (same) "claim1 = claim" "claims (in_world s1) = claims (in_world s)"
  | (marked) q where "claim1 = claim\<lparr>claim_Annotations := Assign (claim_Annotations claim) [(AnnotationProxmoxCloudInitStatus, ''Initialized'')]\<rparr>"
      "claims (in_world s1) = claims (in_world s)" "q = s \<or> DetachCloudInit (cc_env c) claim s = (None, q)"
      "tokenID \<noteq> [] \<Longrightarrow> DeleteToken (ie_kube (cc_env c)) tokenID (in_world q) = (None, in_world s1)"
proof (cases "\<not> claim_Initialized claim \<or> \<not> HasPrefix (claim_ProviderID claim) ProxmoxProviderPrefix \<or>
    map_of (claim_Annotations claim) AnnotationProxmoxCloudInitStatus \<noteq> None \<or>
    isl (resolveNodeClassFromNodeClaim (cc_GetNodeClass c) claim (in_world s))")
  case True
  then show thesis using run same by (auto simp: InstanceRegistered_Reconcile_def isl_def split: if_splits)
next
  case False
  then obtain cls where cls: "resolveNodeClassFromNodeClaim (cc_GetNodeClass c) claim (in_world s) = Inr cls"
    by (auto simp: isl_def) (metis sum.exhaust)
  define d where "d = (if mo_Type (class_MetadataOptions cls) = ''cdrom'' then DetachCloudInit (cc_env c) claim s else (None, s))"
  obtain e1 q where d': "d = (e1, q)" by fastforce
  obtain e2 w where t: "(if tokenID \<noteq> [] then DeleteToken (ie_kube (cc_env c)) tokenID (in_world q) else (None, in_world q)) = (e2, w)"
    by fastforce
  have "claims (in_world q) = claims (in_world s)" using detach_keeps [OF keeps(1)] d' by (auto simp: d_def split: if_splits)
  moreover have "claims w = claims (in_world q)"
    using t by (auto simp: DeleteToken_def split: if_splits prod.splits option.splits kube_error.splits) (metis keeps(2) snd_conv)+
  ultimately have claims: "claims (in_world q) = claims (in_world s)" "claims w = claims (in_world s)" by simp_all
  have result: "((res, errs, claim1), s1) =
     (case e1 of Some e \<Rightarrow> ((requeue_after 5, [CtlInstance e], claim), q)
      | None \<Rightarrow> (case e2 of Some e \<Rightarrow> ((requeue_after 5, [CtlToken e], claim), q\<lparr>in_world := w\<rparr>)
          | None \<Rightarrow> ((no_requeue, [], claim\<lparr>claim_Annotations :=
               Assign (claim_Annotations claim) [(AnnotationProxmoxCloudInitStatus, ''Initialized'')]\<rparr>), q\<lparr>in_world := w\<rparr>)))"
    using run False cls t unfolding InstanceRegistered_Reconcile_def d_def [symmetric] d' tokenID_def [symmetric] Let_def
    by (simp add: cls d' [unfolded d_def] t flip: tokenID_def split: option.splits)
  show thesis
  proof (cases "e1 = None \<and> e2 = None")
    case True
    then show thesis using result t claims d' by (intro marked [of q]) (auto simp: d_def split: if_splits)
  qed (use result claims in \<open>auto intro: same split: option.splits\<close>)
qed

text \<open>
  C25. When the lifecycle controller has handled a claim whose node has joined the cluster, the
  bootstrap token of the claim no longer exists: if the claim was not marked as done before and is
  stored with the mark afterwards, the secret of the token named in its annotations is gone, and no
  other secret was touched. A claim that has the mark is left alone from then on.
\<close>

theorem joined_node_loses_token:
  assumes run: "lifecycle_Reconcile c claim s = ((res, errs), s')"
    and laws: "secret_laws (ie_kube (cc_env c)) secrets" "proxmox_keeps secrets (cc_env c)" "proxmox_keeps claims (cc_env c)"
      "claim_patch_laws claims (PatchClaim c)" "\<And>w old new. secrets (snd (PatchClaim c w old new)) = secrets w"
      "\<And>w ns n. claims (snd (DeleteSecret (ie_kube (cc_env c)) w ns n)) = claims w"
    and stored: "claims (in_world s) (claim_Name claim) = Some claim"
      "map_of (claim_Annotations claim) AnnotationProxmoxCloudInitStatus = None"
    and marked: "claims (in_world s') (claim_Name claim) = Some claim'"
      "map_of (claim_Annotations claim') AnnotationProxmoxCloudInitStatus \<noteq> None"
    and token: "tokenID = go_lookup [] (claim_Annotations claim) AnnotationProxmoxCloudInitToken" "tokenID \<noteq> []"
  shows "secrets (in_world s') = (secrets (in_world s))((NamespaceSystem, BootstrapTokenSecretPrefix @ tokenID) := None) \<and>
    lifecycle_Reconcile c claim' t = ((result_Min (cc_conditions c) [no_requeue], []), t)"
proof -
  have alive: "\<not> claim_Deleting claim"
    using run stored marked by (auto simp: lifecycle_Reconcile_def)
  obtain r1 errs1 claim1 s1 where reg: "InstanceRegistered_Reconcile c claim s = ((r1, errs1, claim1), s1)" by (metis prod.collapse)
  obtain err w where patch: "patch_changed (PatchClaim c) claim claim1 (in_world s1) = (err, w)" by fastforce
  have "finish_patch (cc_conditions c) [r1] errs1 (err, w) = ((res, errs), in_world s')"
    using run alive reg patch by (auto simp: lifecycle_Reconcile_def split: prod.splits)
  then have s': "in_world s' = w" by (rule finish_patch_cases(1))
  from reg laws(3,6) show ?thesis
  proof (cases rule: registered_cases)
    case same
    then have "w = in_world s1" using patch by (simp add: patch_changed_def)
    with same s' stored marked show ?thesis by simp
  next
    case (marked q)
    let ?new = "claim\<lparr>claim_Annotations := Assign (claim_Annotations claim) [(AnnotationProxmoxCloudInitStatus, ''Initialized'')]\<rparr>"
    have "claim \<noteq> ?new"
    proof
      assume "claim = ?new"
      then have "map_of (claim_Annotations claim) = map_of (claim_Annotations ?new)" by (rule arg_cong)
      moreover have "map_of (claim_Annotations ?new) AnnotationProxmoxCloudInitStatus = Some ''Initialized''" by simp
      ultimately show False using stored(2) by simp
    qed
    then have patched: "PatchClaim c (in_world s1) claim ?new = (err, w)" using patch marked(1) by (simp add: patch_changed_def)
    then have "secrets w = secrets (in_world s1)" using laws(5) by (metis snd_conv)
    moreover have "secrets (in_world s1) = (secrets (in_world q))((NamespaceSystem, BootstrapTokenSecretPrefix @ tokenID) := None)"
      using DeleteToken_view(2) [OF laws(1)] marked(4) token by blast
    moreover have "secrets (in_world q) = secrets (in_world s)" using marked(3) detach_keeps [OF laws(2)] by auto
    ultimately have gone: "secrets (in_world s') = (secrets (in_world s))((NamespaceSystem, BootstrapTokenSecretPrefix @ tokenID) := None)"
      using s' by simp
    have "claims w = (if err = None then (claims (in_world s1))(claim_Name claim \<mapsto> ?new) else claims (in_world s1))"
      using laws(4) patched unfolding claim_patch_laws_def by blast
    then have "claim' = ?new" using marked(2) stored assms(10,11) s' by (auto split: if_splits)
    then have "lifecycle_Reconcile c claim' t = ((result_Min (cc_conditions c) [no_requeue], []), t)"
      using alive by (simp add: lifecycle_Reconcile_def InstanceRegistered_Reconcile_def patch_changed_def finish_patch_def)
    with gone show ?thesis ..
  qed
qed

section \<open>An example\<close>

text \<open>A server that stores claims and secrets; the calls to Proxmox succeed.\<close>

type_synonym example_reqs_type = "(string \<times> selector_op \<times> string list) list"
type_synonym claim_world = "(string \<Rightarrow> example_reqs_type NodeClaim option) \<times> Secret list"

definition example_claim_kube :: "claim_world kube_api" where
  "example_claim_kube = example_kube
     \<lparr>CreateSecret := (\<lambda>w s. map_prod id (Pair (fst w)) (CreateSecret list_api (snd w) s)),
      DeleteSecret := (\<lambda>w ns n. map_prod id (Pair (fst w)) (DeleteSecret list_api (snd w) ns n)),
      ListSecrets := (\<lambda>w. ListSecrets list_api (snd w))\<rparr>"

definition example_claim_ctl :: "(claim_world, example_reqs_type) claim_ctl" where
  "example_claim_ctl = \<lparr>cc_env = (example_ienv ''dhcp'' True True 1)\<lparr>ie_kube := example_claim_kube\<rparr>, cc_conditions = example_conditions,
     cc_hash = \<lparr>hash_class_spec = (\<lambda>cls. ''1''), hash_inplace_fields = (\<lambda>f. ''2'')\<rparr>,
     cc_GetNodeClass = (\<lambda>w n. Inr (example_class\<lparr>class_ResourcePool := ''p''\<rparr>)),
     PatchClaim = (\<lambda>w old new. if fst w (claim_Name old) = None then (Some KubeNotFound, w)
       else (None, ((fst w)(claim_Name old \<mapsto> new), snd w)))\<rparr>"

definition example_joined :: "example_reqs_type NodeClaim" where
  "example_joined = example_claim\<lparr>claim_Annotations := [(AnnotationProxmoxCloudInitToken, ''abcdef'')], claim_Initialized := True\<rparr>"

definition example_claim_state :: "claim_world instances" where
  "example_claim_state = \<lparr>in_capacity = NewCapacityProvider, in_ipam = NewIpamProvider, in_annotations = [],
     in_world = ([''claim-1'' \<mapsto> example_joined], [token_secret ''abcdef'' ''0123456789abcdef'' ''3600''])\<rparr>"

lemma example_claim_laws:
  "claim_patch_laws fst (PatchClaim example_claim_ctl)" "proxmox_keeps view (cc_env example_claim_ctl)"
  by (auto simp: claim_patch_laws_def proxmox_keeps_def example_claim_ctl_def example_ienv_def example_px_def split: if_splits)

lemma example_claim_kube_simps [simp]:
  "CreateSecret example_claim_kube w x = map_prod id (Pair (fst w)) (CreateSecret list_api (snd w) x)"
  "DeleteSecret example_claim_kube w ns n = map_prod id (Pair (fst w)) (DeleteSecret list_api (snd w) ns n)"
  "ListSecrets example_claim_kube w = ListSecrets list_api (snd w)" "time_Now example_claim_kube w = 0"
  "ie_kube (cc_env example_claim_ctl) = example_claim_kube"
  by (simp_all add: example_claim_kube_def example_kube_def example_claim_ctl_def)

lemma example_secret_laws: "secret_laws (ie_kube (cc_env example_claim_ctl)) (\<lambda>w. list_view (snd w))"
  unfolding secret_laws_def
proof (intro conjI allI impI)
  note laws = secret_lawsD [OF list_api_laws]
  show "key = (sec_Namespace s, sec_Name s)" if "list_view (snd w) key = Some s" for w :: claim_world and key s
    using laws(1) [OF that] .
  fix w :: claim_world and w' ns n k v e x secrets
  {
    assume "CreateSecret (ie_kube (cc_env example_claim_ctl)) w x = (None, w')"
    then have "CreateSecret list_api (snd w) x = (None, snd w')" by (cases "CreateSecret list_api (snd w) x") auto
    from laws(2) [OF this] show "list_view (snd w) (sec_Namespace x, sec_Name x) = None"
      "list_view (snd w') = (list_view (snd w))((sec_Namespace x, sec_Name x) \<mapsto> x)" by simp_all
  }
  {
    assume "DeleteSecret (ie_kube (cc_env example_claim_ctl)) w ns n = (e, w')"
    then have "DeleteSecret list_api (snd w) ns n = (e, snd w')" by (cases "DeleteSecret list_api (snd w) ns n") auto
    note d = laws(3) [OF this]
    from d show "list_view (snd w') = (if e = None then (list_view (snd w))((ns, n) := None) else list_view (snd w))" by simp
    from d show "e = Some KubeNotFound \<Longrightarrow> list_view (snd w) (ns, n) = None" by simp
    show "time_Now (ie_kube (cc_env example_claim_ctl)) w \<le> time_Now (ie_kube (cc_env example_claim_ctl)) w'" by simp
  }
  assume "ListSecrets (ie_kube (cc_env example_claim_ctl)) w ns k v = Some secrets"
  then show "set secrets = {s. list_view (snd w) (ns, sec_Name s) = Some s \<and> map_of (sec_Labels s) k = Some v}"
    using laws(4) by simp
qed

lemma example_provider: "ParseProviderID (claim_ProviderID example_joined) = Inr (100, ''r'')"
  unfolding example_joined_def example_claim_def by code_simp

lemma example_with_cluster:
  "\<exists>zone. with_cluster (cc_env example_claim_ctl) example_joined act s = act (example_px ''dhcp'' True True 1) 100 zone s"
proof -
  have "ie_cluster (cc_env example_claim_ctl) ''r'' = Some (example_px ''dhcp'' True True 1)"
    by (simp add: example_claim_ctl_def example_ienv_def)
  then show ?thesis by (auto simp: with_cluster_def example_provider claim_region_def)
qed

lemma example_updates:
  "\<exists>s1. UpdateTags (cc_env example_claim_ctl) example_joined cls s = (None, s1)"
  "\<exists>s1. UpdateFirewallRules (cc_env example_claim_ctl) example_joined cls s = (None, s1)"
  "\<exists>s1. UpdatePoolMembership (cc_env example_claim_ctl) example_joined cls s = (None, s1)"
proof -
  show "\<exists>s1. UpdateTags (cc_env example_claim_ctl) example_joined cls s = (None, s1)"
    unfolding UpdateTags_def
    using example_with_cluster [of "\<lambda>px vmid zone s. if \<not> px_Node px (in_world s) zone then (Some NoNode, s)
       else (case px_VirtualMachine px (in_world s) zone vmid of
               None \<Rightarrow> (Some NoVM, s)
             | Some vm \<Rightarrow>
                 let tags = sort_slice string_less (uniq (class_Tags cls)) @
                       (if ie_cloudinit_tag (cc_env example_claim_ctl) \<in> set (Split (vi_Tags vm) (CHR '';''))
                        then [ie_cloudinit_tag (cc_env example_claim_ctl)] else [])
                 in (None, if Split (vi_Tags vm) (CHR '';'') = tags then s
                           else s\<lparr>in_world := snd (px_SetConfig px (in_world s) vmid [(''tags'', Join tags '';'')])\<rparr>))" s]
    by (auto simp: Let_def example_px_def)
  show "\<exists>s1. UpdateFirewallRules (cc_env example_claim_ctl) example_joined cls s = (None, s1)"
    unfolding UpdateFirewallRules_def
    using example_with_cluster [of "\<lambda>px vmid zone s. case px_UpdateVMFirewallRules px (in_world s) vmid zone (firewall_rules (SecurityGroups cls)) of
         (ok, w) \<Rightarrow> (if ok then None else Some FirewallFailed, s\<lparr>in_world := w\<rparr>)" s]
    by (auto simp: example_px_def)
  have "go_lookup [] (claim_Annotations example_joined) AnnotationProxmoxNodeClassPool = []"
    by (simp add: example_joined_def go_lookup_def AnnotationProxmoxCloudInitToken_def AnnotationProxmoxNodeClassPool_def)
  then show "\<exists>s1. UpdatePoolMembership (cc_env example_claim_ctl) example_joined cls s = (None, s1)"
    unfolding UpdatePoolMembership_def Let_def
    using example_with_cluster [of "\<lambda>px vmid zone s. if class_ResourcePool cls = [] then (None, s) else join_pool px vmid (class_ResourcePool cls) s" s]
    by (auto simp: join_pool_def example_px_def)
qed

lemma example_resolved:
  "resolveNodeClassFromNodeClaim (cc_GetNodeClass example_claim_ctl) example_joined w = Inr (example_class\<lparr>class_ResourcePool := ''p''\<rparr>)"
  by (simp add: resolveNodeClassFromNodeClaim_def example_joined_def example_claim_def example_claim_ctl_def)

lemma example_result_Min: "result_Min (cc_conditions example_claim_ctl) (r # rs) = r"
  by (simp add: example_claim_ctl_def example_conditions_def)

lemma example_patch:
  "fst w (claim_Name old) = Some old \<Longrightarrow>
   \<exists>w'. patch_changed (PatchClaim example_claim_ctl) old new w = (None, w') \<and> fst w' (claim_Name old) = Some new"
  by (cases w) (auto simp: patch_changed_def example_claim_ctl_def split: if_splits)

theorem inplace_update_settles_witness:
  "\<exists>res errs s' claim'. inplace_Reconcile example_claim_ctl example_joined example_claim_state = ((res, errs), s') \<and>
     fst (in_world s') ''claim-1'' = Some claim' \<and> errs = [] \<and> res = no_requeue \<and>
     go_lookup [] (claim_Annotations claim') AnnotationProxmoxNodeClassPool = ''p''"
proof -
  let ?cls = "example_class\<lparr>class_ResourcePool := ''p''\<rparr>"
  obtain res errs s' where run: "inplace_Reconcile example_claim_ctl example_joined example_claim_state = ((res, errs), s')"
    by (metis prod.collapse)
  have todo: "\<not> claim_Deleting example_joined" "claim_ProviderID example_joined \<noteq> []"
    "go_lookup [] (claim_Annotations example_joined) AnnotationProxmoxNodeInPlaceUpdateHash \<noteq> class_InPlaceHash (cc_hash example_claim_ctl) ?cls"
    by (simp_all add: example_joined_def example_claim_def GetProviderID_def go_lookup_def annotation_keys AnnotationProxmoxCloudInitToken_def
        class_InPlaceHash_def example_claim_ctl_def)
  have stored: "fst (in_world example_claim_state) (claim_Name example_joined) = Some example_joined" "claim_Name example_joined = ''claim-1''"
    by (simp_all add: example_claim_state_def example_joined_def example_claim_def)
  obtain s1 s2 s3 where updates: "UpdateTags (cc_env example_claim_ctl) example_joined ?cls example_claim_state = (None, s1)"
    "UpdateFirewallRules (cc_env example_claim_ctl) example_joined ?cls s1 = (None, s2)"
    "UpdatePoolMembership (cc_env example_claim_ctl) example_joined ?cls s2 = (None, s3)" using example_updates by metis
  then have steps: "inplace_steps (cc_env example_claim_ctl) example_joined ?cls example_claim_state =
      (([no_requeue, no_requeue, no_requeue], []), s3)"
    by (simp add: inplace_steps_def InstanceTag_Reconcile_def InstanceSecurityGroups_Reconcile_def InstancePool_Reconcile_def step_result_cases(2))
  let ?new = "example_joined\<lparr>claim_Annotations := Assign (claim_Annotations example_joined) (inplace_annotations (cc_hash example_claim_ctl) ?cls)\<rparr>"
  have "fst (in_world s3) = fst (in_world example_claim_state)"
    using updates updates_keep [OF example_claim_laws(2)] by metis
  then obtain w where patched: "patch_changed (PatchClaim example_claim_ctl) example_joined ?new (in_world s3) = (None, w)"
    using stored example_patch [of "in_world s3" example_joined ?new] by auto
  have "inplace_Reconcile example_claim_ctl example_joined example_claim_state = ((no_requeue, []), s3\<lparr>in_world := w\<rparr>)"
    using todo steps patched by (simp add: inplace_Reconcile_def example_resolved finish_patch_def example_result_Min)
  with run have ok: "errs = [] \<and> res = no_requeue" by simp
  have "\<exists>claim'. fst (in_world s') (claim_Name example_joined) = Some claim' \<and>
    (if errs = [] \<and> res = no_requeue
     then (\<exists>w. vm_updated (cc_env example_claim_ctl) example_joined ?cls (in_world example_claim_state) w \<and>
             PatchClaim example_claim_ctl w example_joined claim' = (None, in_world s')) \<and>
          go_lookup [] (claim_Annotations claim') AnnotationProxmoxNodeClassPool = class_ResourcePool ?cls \<and>
          (\<forall>t. resolveNodeClassFromNodeClaim (cc_GetNodeClass example_claim_ctl) claim' (in_world t) = Inr ?cls \<longrightarrow>
             inplace_Reconcile example_claim_ctl claim' t = ((no_requeue, []), t))
     else claim' = example_joined)"
    by (rule inplace_update_settles [OF run example_resolved todo example_claim_laws example_result_Min stored(1)])
  with ok run stored(2) show ?thesis by auto
qed

theorem joined_node_loses_token_witness:
  "\<exists>res errs s'. lifecycle_Reconcile example_claim_ctl example_joined example_claim_state = ((res, errs), s') \<and>
     list_view (snd (in_world example_claim_state)) (NamespaceSystem, ''bootstrap-token-abcdef'') \<noteq> None \<and>
     list_view (snd (in_world s')) (NamespaceSystem, ''bootstrap-token-abcdef'') = None"
proof -
  obtain res errs s' where run: "lifecycle_Reconcile example_claim_ctl example_joined example_claim_state = ((res, errs), s')"
    by (metis prod.collapse)
  have stored: "fst (in_world example_claim_state) (claim_Name example_joined) = Some example_joined"
    "map_of (claim_Annotations example_joined) AnnotationProxmoxCloudInitStatus = None"
    by (simp_all add: example_claim_state_def example_joined_def example_claim_def AnnotationProxmoxCloudInitToken_def
        AnnotationProxmoxCloudInitStatus_def)
  have token: "''abcdef'' = go_lookup [] (claim_Annotations example_joined) AnnotationProxmoxCloudInitToken"
    by (simp add: example_joined_def go_lookup_def)
  let ?new = "example_joined\<lparr>claim_Annotations := Assign (claim_Annotations example_joined) [(AnnotationProxmoxCloudInitStatus, ''Initialized'')]\<rparr>"
  have live: "\<not> claim_Deleting example_joined" by (simp add: example_joined_def example_claim_def)
  have "HasPrefix (claim_ProviderID example_joined) ProxmoxProviderPrefix" "claim_Initialized example_joined"
    by (simp_all add: example_joined_def example_claim_def ProxmoxProviderPrefix_def HasPrefix_def GetProviderID_def ProviderName_def)
  moreover have "fst (DeleteToken example_claim_kube ''abcdef'' w) = None \<and> fst (snd (DeleteToken example_claim_kube ''abcdef'' w)) = fst w" for w
    by (simp add: DeleteToken_def list_api_def)
  moreover obtain w where "DeleteToken example_claim_kube ''abcdef'' (in_world example_claim_state) = (None, w)" "fst w = fst (in_world example_claim_state)"
    using calculation(3) [of "in_world example_claim_state"] by (metis prod.collapse)
  ultimately have reg: "InstanceRegistered_Reconcile example_claim_ctl example_joined example_claim_state =
      ((no_requeue, [], ?new), example_claim_state\<lparr>in_world := w\<rparr>)" and w: "fst w = fst (in_world example_claim_state)"
    using stored token [symmetric] by (simp_all add: InstanceRegistered_Reconcile_def example_resolved) (simp_all add: example_class_def)
  obtain w' where "patch_changed (PatchClaim example_claim_ctl) example_joined ?new w = (None, w')" "fst w' (claim_Name example_joined) = Some ?new"
    using example_patch [of w example_joined ?new] w stored by auto
  with run reg live have "fst (in_world s') (claim_Name example_joined) = Some ?new"
    by (auto simp: lifecycle_Reconcile_def finish_patch_def Let_def split: if_splits)
  then have "list_view (snd (in_world s')) = (list_view (snd (in_world example_claim_state)))
      ((NamespaceSystem, BootstrapTokenSecretPrefix @ ''abcdef'') := None)"
    using joined_node_loses_token [OF run example_secret_laws example_claim_laws(2,2,1) _ _ stored _ _ token, of ?new]
    by (auto simp: example_claim_ctl_def)
  moreover have "list_view (snd (in_world example_claim_state)) (NamespaceSystem, ''bootstrap-token-abcdef'') \<noteq> None"
    by (simp add: example_claim_state_def list_view_def token_secret_def BootstrapTokenSecretPrefix_def)
  ultimately show ?thesis using run by (auto simp: BootstrapTokenSecretPrefix_def)
qed

end
