(* ===== verification/ProviderControllers.thy ===== *)
theory ProviderControllers
  imports ClaimControllers NodeIpam
begin

text \<open>
  The controllers that keep the providers up to date
  (\<open>src/pkg/controllers/providers/cloudcapacity/{node,nodeload}\<close>, \<open>src/pkg/controllers/node/ipam\<close>).

  The capacity controllers run their two jobs at the same time. Every job holds the lock of the data
  it changes, so a run has the effect of the jobs in one of the two orders; the first argument
  chooses it. The jobs of the code report no errors.
\<close>

section \<open>Operations\<close>

definition scanPeriod :: int where
  "scanPeriod = 900"

definition load_scanPeriod :: int where
  "load_scanPeriod = 60"

definition in_order :: "bool \<Rightarrow> ('s \<Rightarrow> 's) \<Rightarrow> ('s \<Rightarrow> 's) \<Rightarrow> 's \<Rightarrow> 's" where
  "in_order swapped f g s = (if swapped then f (g s) else g (f s))"

definition capacity_node_Reconcile :: "bool \<Rightarrow> environment \<Rightarrow> proxmoxPool \<Rightarrow> cloudProvider \<Rightarrow> Result \<times> cloudProvider" where
  "capacity_node_Reconcile swapped env pool p =
     (requeue_after scanPeriod, in_order swapped (SyncNodeCapacity env pool) (SyncNodeStorageCapacity pool) p)"

definition capacity_load_Reconcile ::
  "bool \<Rightarrow> 'r scheduling \<Rightarrow> proxmoxPool \<Rightarrow> cloudProvider \<times> 'r InstanceTypeStatic list \<Rightarrow> Result \<times> cloudProvider \<times> 'r InstanceTypeStatic list" where
  "capacity_load_Reconcile swapped sch pool s =
     (requeue_after load_scanPeriod,
      in_order swapped (\<lambda>(p, info). (UpdateNodeLoad pool p, info)) (\<lambda>(p, info). (p, UpdateInstanceTypeOfferings sch p info)) s)"

definition ipam_Reconcile :: "net_lib \<Rightarrow> node_address list \<Rightarrow> nodeIpam \<Rightarrow> (Result \<times> ipam_error option) \<times> nodeIpam" where
  "ipam_Reconcile lib addrs p =
     (case OccupyNodeIPs lib p addrs of
        (Inl e, p') \<Rightarrow> ((requeue_after templateRepeatPeriod, if e = ErrNoSubnetFound then None else Some e), p')
      | (Inr _, p') \<Rightarrow> ((no_requeue, None), p'))"

fun ipChangedPredicate :: "node_address list event \<Rightarrow> bool" where
  "ipChangedPredicate (CreateEvent new) = True"
| "ipChangedPredicate (DeleteEvent old) = False"
| "ipChangedPredicate (UpdateEvent old new) = (old \<noteq> new)"

section \<open>The order of the jobs\<close>

text \<open>Capacities with the same resource managers, whatever the loads of the hosts are.\<close>

definition same_managers :: "(string, NodeCapacityInfo) go_map \<Rightarrow> (string, NodeCapacityInfo) go_map \<Rightarrow> bool" where
  "same_managers caps caps' \<longleftrightarrow> (\<forall>key. map_option nc_ResourceManager (map_of caps' key) = map_option nc_ResourceManager (map_of caps key))"

lemma same_managers_refl: "same_managers caps caps"
  by (simp add: same_managers_def)

lemma same_managers_trans: "same_managers a b \<Longrightarrow> same_managers b c \<Longrightarrow> same_managers a c"
  by (simp add: same_managers_def)

lemma update_loads_same: "same_managers caps (update_loads region ns caps)"
proof (induction ns arbitrary: caps)
  case (Cons item ns)
  let ?step = "case map_of caps (zone_key region (cr_Node item)) of None \<Rightarrow> caps
     | Some info \<Rightarrow> go_update caps (zone_key region (cr_Node item)) (info\<lparr>CPULoad := percent (cr_CPU item)\<rparr>)"
  have "same_managers caps ?step"
    by (cases "map_of caps (zone_key region (cr_Node item))") (simp_all add: same_managers_def)
  moreover have "update_loads region (item # ns) caps = update_loads region ns ?step" unfolding update_loads_def foldl.simps ..
  ultimately show ?case using Cons.IH [of ?step] by (auto intro: same_managers_trans)
qed (simp add: update_loads_def same_managers_refl)

lemma UpdateNodeLoad_same: "same_managers (capacityInfo p) (capacityInfo (UpdateNodeLoad pool p))"
proof -
  have "same_managers caps (foldl (\<lambda>caps (region, zones).
         case pool_GetProxmoxCluster pool region of
           None \<Rightarrow> caps
         | Some cl \<Rightarrow>
             (case api_GetNodeListByFilter cl is_online of
                None \<Rightarrow> caps
              | Some ns \<Rightarrow> update_loads region ns caps)) caps zs)" for caps zs
  proof (induction zs arbitrary: caps)
    case (Cons z zs)
    then show ?case
      by (cases z) (auto intro: same_managers_trans update_loads_same split: option.splits)
  qed (simp add: same_managers_refl)
  then show ?thesis by (simp add: UpdateNodeLoad_def)
qed

lemma FitInZone_same:
  assumes "same_managers (capacityInfo p) (capacityInfo p')"
  shows "FitInZone p' region zone req = FitInZone p region zone req"
proof -
  have "map_option nc_ResourceManager (map_of (capacityInfo p') (zone_key region zone)) =
      map_option nc_ResourceManager (map_of (capacityInfo p) (zone_key region zone))" using assms by (simp add: same_managers_def)
  then show ?thesis by (auto simp: FitInZone_def split: option.splits)
qed

text \<open>
  C31. The periodic updates do not depend on how their jobs are scheduled: syncing hosts and
  storages, and updating loads and the offerings of the instance types, gives the same capacities,
  storages, networks and offerings whichever job comes first. In particular an offering does not
  depend on the load of the host it is for. The two jobs are steps, one after the other.
\<close>

theorem capacity_jobs_commute:
  "capacity_node_Reconcile True env pool p = capacity_node_Reconcile False env pool p \<and>
   capacity_load_Reconcile True sch pool (p, info) = capacity_load_Reconcile False sch pool (p, info)"
proof -
  let ?p = "UpdateNodeLoad pool p"
  have "Regions ?p = Regions p" "Zones ?p region = Zones p region" for region
    by (simp_all add: Regions_def Zones_def UpdateNodeLoad_def)
  moreover have "FitInZone ?p region zone req = FitInZone p region zone req" for region zone req
    by (rule FitInZone_same [OF UpdateNodeLoad_same])
  ultimately have "UpdateInstanceTypeOfferings sch ?p info = UpdateInstanceTypeOfferings sch p info"
    by (simp add: UpdateInstanceTypeOfferings_def createOfferings_def make_offering_def)
  then show ?thesis
    by (simp add: capacity_node_Reconcile_def capacity_load_Reconcile_def in_order_def SyncNodeCapacity_def SyncNodeStorageCapacity_def
        split: prod.split)
qed

end
