(* ===== verification/CapacityVM.thy ===== *)
theory CapacityVM
  imports ResourceManager
begin

text \<open>
  The VM by which the scheduler on a Proxmox host tells the controller the topology of the host
  (\<open>src/cmd/proxmox-scheduler/proxmox.go\<close>): a stopped VM with the name \<open>node-capacity\<close>, pinned to the
  CPUs of the host, with one NUMA line for every NUMA node. The controller reads it in
  \<open>nodeSettingsFromVM\<close>. The texts of CPU sets and NUMA lines are those of \<open>VMConfig\<close>; the calls of
  the local Proxmox client are parameters.
\<close>

section \<open>Operations\<close>

definition node_memory :: "uint64 \<Rightarrow> uint64" where
  "node_memory memory =
     (let memoryInNode = memory div (1024 * 1024 * 1024)
      in (if memoryInNode > 1 then memoryInNode - 1 else memoryInNode) * 1024)"

definition numa_arg :: "int \<Rightarrow> int \<Rightarrow> int \<Rightarrow> uint64 \<Rightarrow> string" where
  "numa_arg cpush n nodeID memory =
     ''cpus='' @ show_int cpush @ ''-'' @ show_int (cpush + n - 1) @ '',hostnodes='' @ show_int nodeID @
     '',memory='' @ show_int (uint memory)"

record vm_layout =
  vl_Affinity :: "string list"
  vl_Memory :: uint64
  vl_Options :: "(string, option_value) go_map"

fun numa_options ::
  "(CPUSet \<Rightarrow> string) \<Rightarrow> CPUDetails \<Rightarrow> cadvisor_Node list \<Rightarrow> int \<Rightarrow> int \<Rightarrow> vm_layout \<Rightarrow> vm_layout" where
  "numa_options render d [] cpush idx l = l"
| "numa_options render d (node # nodes) cpush idx l =
     (let cpus = CPUsInNUMANodes d [cn_Id node]
      in if Size cpus = 0 then numa_options render d nodes cpush idx l
         else let memory = node_memory (cn_Memory node)
              in numa_options render d nodes (cpush + Size cpus) (idx + 1)
                   \<lparr>vl_Affinity = vl_Affinity l @ [render cpus], vl_Memory = vl_Memory l + memory,
                    vl_Options = go_update (vl_Options l) (''numa'' @ show_int idx)
                      (TextValue (numa_arg cpush (Size cpus) (cn_Id node) memory))\<rparr>)"

definition buildVMOptions :: "(CPUSet \<Rightarrow> string) \<Rightarrow> cadvisor_MachineInfo \<Rightarrow> Topology \<Rightarrow> (string, option_value) go_map" where
  "buildVMOptions render info tp =
     (let options = [(''name'', TextValue ''node-capacity''), (''description'', TextValue ''Karpenter discovery service''),
            (''cores'', IntValue (mi_NumCores info)), (''sockets'', IntValue 1), (''cpu'', TextValue ''host''), (''numa'', IntValue 1),
            (''ostype'', TextValue ''l26''), (''tags'', TextValue ''karpenter'')];
          total = mi_MemoryCapacity info div (1024 * 1024)
      in if mi_Topology info = [] then go_update options ''memory'' (MemValue total)
         else let l = numa_options render (Details (CPUTopo tp)) (mi_Topology info) 0 0
                    \<lparr>vl_Affinity = [], vl_Memory = 0, vl_Options = options\<rparr>
              in go_update (go_update (vl_Options l) ''affinity'' (TextValue (Join (vl_Affinity l) '','')))
                   ''memory'' (MemValue (vl_Memory l)))"

record 'w local_api =
  local_ready :: "'w \<Rightarrow> bool"
  local_GetVMConfig :: "'w \<Rightarrow> api_error + int"
  local_NextID :: "'w \<Rightarrow> int option"
  local_UpdateVM :: "'w \<Rightarrow> int \<Rightarrow> (string, option_value) go_map \<Rightarrow> bool \<times> 'w"
  local_CreateVM :: "'w \<Rightarrow> int \<Rightarrow> (string, option_value) go_map \<Rightarrow> bool \<times> 'w"

datatype discovery_vm_error = NoQuorum | VMCheckFailed | VMUpdateFailed int | NoVMID | VMCreateFailed

text \<open>
  \<open>local_ready\<close> is the outcome of polling for the quorum of the cluster, \<open>local_GetVMConfig\<close> finds
  the VM with the name and the tag of the discovery service.
\<close>

definition createProxmoxTopologyDiscoveryVM ::
  "'w local_api \<Rightarrow> (CPUSet \<Rightarrow> string) \<Rightarrow> cadvisor_MachineInfo \<Rightarrow> Topology \<Rightarrow> 'w \<Rightarrow> discovery_vm_error option \<times> 'w" where
  "createProxmoxTopologyDiscoveryVM api render info tp w =
     (if \<not> local_ready api w then (Some NoQuorum, w)
      else let options = buildVMOptions render info tp
           in (case local_GetVMConfig api w of
                 Inl ApiFailure \<Rightarrow> (Some VMCheckFailed, w)
               | Inr vmID \<Rightarrow>
                   (case local_UpdateVM api w vmID options of (ok, w') \<Rightarrow> (if ok then None else Some (VMUpdateFailed vmID), w'))
               | Inl VirtualMachineNotFound \<Rightarrow>
                   (case local_NextID api w of
                      None \<Rightarrow> (Some NoVMID, w)
                    | Some vmID \<Rightarrow>
                        if vmID = 0 then (Some NoVMID, w)
                        else (case local_CreateVM api w vmID options of (ok, w') \<Rightarrow> (if ok then None else Some VMCreateFailed, w')))))"

section \<open>The controller reads what the scheduler wrote\<close>

text \<open>
  What is relied on of the texts: a CPU set reads back as itself, its text is a list of ranges in
  ascending order separated by commas, and a NUMA line reads back as its values.
\<close>

definition cpuset_text_laws :: "environment \<Rightarrow> bool" where
  "cpuset_text_laws env \<longleftrightarrow>
     env_parse env [] = Some {} \<and>
     (\<forall>cpus. finite cpus \<and> cpus \<subseteq> {0..<2 ^ 31} \<longrightarrow> env_parse env (env_render env cpus) = Some cpus \<and>
        (\<exists>parts. map (env_parse env) (Split (env_render env cpus) (CHR '','')) = map Some parts \<and> concat (map List parts) = List cpus)) \<and>
     (\<forall>a b. 0 \<le> a \<and> a \<le> b \<and> b < 2 ^ 31 \<longrightarrow> env_parse env (show_int a @ ''-'' @ show_int b) = Some {a..b}) \<and>
     (\<forall>a. 0 \<le> a \<and> a < 2 ^ 31 \<longrightarrow> env_parse env (show_int a) = Some {a}) \<and>
     (\<forall>s t A B. s \<noteq> [] \<and> t \<noteq> [] \<and> env_parse env s = Some A \<and> env_parse env t = Some B \<longrightarrow> env_parse env (s @ '','' @ t) = Some (A \<union> B))"

definition numa_line_laws :: "environment \<Rightarrow> bool" where
  "numa_line_laws env \<longleftrightarrow>
     (\<forall>a b nodeID memory. 0 \<le> a \<and> a \<le> b \<and> 0 \<le> nodeID \<and> 0 \<le> memory \<and> memory < 2 ^ 63 \<longrightarrow>
        env_unmarshal env (Join [''cpus='' @ show_int a @ ''-'' @ show_int b, ''hostnodes='' @ show_int nodeID, ''memory='' @ show_int memory] '','') =
          Some \<lparr>vn_Memory = Some memory, CPUIDs = [show_int a @ ''-'' @ show_int b], HostNodeNames = [show_int nodeID], vn_Policy = []\<rparr>)"

lemma Split_app: "Split (s @ sep # t) sep = Split s sep @ Split t sep"
proof (induction s)
  case (Cons c s)
  then show ?case by (cases "Split s sep") simp_all
qed simp

lemma Split_Join_all: "ws \<noteq> [] \<Longrightarrow> Split (Join ws [sep]) sep = concat (map (\<lambda>w. Split w sep) ws)"
  by (induction ws "[sep]" rule: Join.induct) (simp_all add: Split_app)

lemma affinity_cpus_append:
  assumes "map parse parts = map Some sets" and "affinity_cpus parse rest = Inr cpus"
  shows "affinity_cpus parse (parts @ rest) = Inr (concat (map List sets) @ cpus)"
  using assms(1)
proof (induction parts arbitrary: sets)
  case (Cons part parts)
  then obtain S sets' where "sets = S # sets'" "parse part = Some S" "map parse parts = map Some sets'" by (cases sets) auto
  with Cons.IH show ?case by simp
qed (use assms(2) in simp)

text \<open>The CPUs of the affinity, in the order of the NUMA nodes.\<close>

lemma affinity_cpus_render:
  assumes laws: "cpuset_text_laws env" and "\<forall>cpus \<in> set sets. finite cpus \<and> cpus \<subseteq> {0..<2 ^ 31}"
  shows "affinity_cpus (env_parse env) (concat (map (\<lambda>w. Split w (CHR '','')) (map (env_render env) sets))) = Inr (concat (map List sets))"
  using assms(2)
proof (induction sets)
  case (Cons cpus sets)
  then obtain parts where parts: "map (env_parse env) (Split (env_render env cpus) (CHR '','')) = map Some parts"
    "concat (map List parts) = List cpus"
    using laws unfolding cpuset_text_laws_def by (metis list.set_intros(1))
  from affinity_cpus_append [OF parts(1)] Cons parts(2) show ?case by simp
qed simp

definition node_ok :: "CPUDetails \<Rightarrow> cadvisor_Node \<Rightarrow> bool" where
  "node_ok d node \<longleftrightarrow> 0 \<le> cn_Id node \<and> cn_Id node < 2 ^ 31 \<and> 2 ^ 30 \<le> cn_Memory node \<and>
     CPUsInNUMANodes d [cn_Id node] \<noteq> {} \<and> CPUsInNUMANodes d [cn_Id node] \<subseteq> {0..<2 ^ 31}"

definition host_nodes :: "CPUDetails \<Rightarrow> cadvisor_Node list \<Rightarrow> cadvisor_Node list" where
  "host_nodes d nodes = filter (\<lambda>node. CPUsInNUMANodes d [cn_Id node] \<noteq> {}) nodes"

text \<open>The lines of the VM, from the CPU \<open>cpush\<close> of the guest on.\<close>

fun node_lines :: "CPUDetails \<Rightarrow> cadvisor_Node list \<Rightarrow> int \<Rightarrow> int \<Rightarrow> (string \<times> string) list" where
  "node_lines d [] cpush idx = []"
| "node_lines d (node # nodes) cpush idx =
     (let n = Size (CPUsInNUMANodes d [cn_Id node])
      in (''numa'' @ show_int idx, numa_arg cpush n (cn_Id node) (node_memory (cn_Memory node))) # node_lines d nodes (cpush + n) (idx + 1))"

abbreviation numa_key :: "int \<Rightarrow> string" where
  "numa_key idx \<equiv> ''numa'' @ show_int idx"

lemma host_nodes_simps [simp]:
  "host_nodes d [] = []"
  "host_nodes d (node # nodes) = (if CPUsInNUMANodes d [cn_Id node] = {} then host_nodes d nodes else node # host_nodes d nodes)"
  by (simp_all add: host_nodes_def)

lemma finite_CPUsInNUMANodes [simp]: "finite (CPUsInNUMANodes d ids)"
  by (simp add: CPUsInNUMANodes_def)

lemma numa_options_layout:
  assumes "\<forall>j \<ge> idx. numa_key j \<notin> fst ` set (vl_Options l)"
  shows "vl_Affinity (numa_options render d nodes cpush idx l) =
      vl_Affinity l @ map (\<lambda>node. render (CPUsInNUMANodes d [cn_Id node])) (host_nodes d nodes) \<and>
    vl_Options (numa_options render d nodes cpush idx l) =
      vl_Options l @ map (\<lambda>(k, t). (k, TextValue t)) (node_lines d (host_nodes d nodes) cpush idx)"
  using assms
proof (induction nodes arbitrary: cpush idx l)
  case (Cons node nodes)
  let ?cpus = "CPUsInNUMANodes d [cn_Id node]"
  show ?case
  proof (cases "?cpus = {}")
    case False
    define l' where "l' = \<lparr>vl_Affinity = vl_Affinity l @ [render ?cpus], vl_Memory = vl_Memory l + node_memory (cn_Memory node),
      vl_Options = vl_Options l @ [(numa_key idx, TextValue (numa_arg cpush (Size ?cpus) (cn_Id node) (node_memory (cn_Memory node))))]\<rparr>"
    have "go_update (vl_Options l) (numa_key idx) v = vl_Options l @ [(numa_key idx, v)]" for v
      using Cons.prems by (intro go_update_fresh) simp
    then have step: "numa_options render d (node # nodes) cpush idx l = numa_options render d nodes (cpush + Size ?cpus) (idx + 1) l'"
      using False by (simp add: Size_def l'_def Let_def)
    have "\<forall>j \<ge> idx + 1. numa_key j \<notin> fst ` set (vl_Options l')"
      using Cons.prems by (auto simp: l'_def dest: show_int_inj)
    from Cons.IH [OF this, of "cpush + Size ?cpus"] False show ?thesis
      unfolding step by (simp add: l'_def Let_def)
  qed (use Cons in \<open>simp add: Size_def\<close>)
qed simp

text \<open>The configuration Proxmox stores for the options, as \<open>GetResourceFromVM\<close> gets it.\<close>

definition merged_numas :: "(string, option_value) go_map \<Rightarrow> (string, string) go_map" where
  "merged_numas opts = List.map_filter (\<lambda>(k, v). case v of
      TextValue t \<Rightarrow> if HasPrefix k ''numa'' \<and> k \<noteq> ''numa'' then Some (k, t) else None | _ \<Rightarrow> None) opts"

definition stored_config :: "(string, option_value) go_map \<Rightarrow> VirtualMachineConfig" where
  "stored_config opts =
     \<lparr>cfg_Affinity = (case map_of opts ''affinity'' of Some (TextValue t) \<Rightarrow> t | _ \<Rightarrow> []),
      cfg_Numa = (case map_of opts ''numa'' of Some (IntValue i) \<Rightarrow> i | _ \<Rightarrow> 0), cfg_MergedNumas = merged_numas opts\<rparr>"

lemma merged_numas_append: "merged_numas (xs @ ys) = merged_numas xs @ merged_numas ys"
  by (simp add: merged_numas_def List.map_filter_def)

lemma node_lines_keys: "(k, t) \<in> set (node_lines d nodes cpush idx) \<Longrightarrow> \<exists>j. k = numa_key j"
  by (induction d nodes cpush idx rule: node_lines.induct) (auto simp: Let_def)

lemma merged_numas_lines: "merged_numas (map (\<lambda>(k, t). (k, TextValue t)) (node_lines d nodes cpush idx)) = node_lines d nodes cpush idx"
proof -
  have "merged_numas (map (\<lambda>(k, t). (k, TextValue t)) lines) = lines" if "\<forall>(k, t) \<in> set lines. \<exists>j. k = numa_key j" for lines
    using that by (induction lines) (auto simp: merged_numas_def map_filter_simps HasPrefix_def)
  then show ?thesis using node_lines_keys by blast
qed

lemma stored_options:
  fixes tp :: Topology
  assumes "mi_Topology info \<noteq> []"
  defines "nodes \<equiv> host_nodes (Details (CPUTopo tp)) (mi_Topology info)"
  shows "stored_config (buildVMOptions render info tp) =
    \<lparr>cfg_Affinity = Join (map (\<lambda>node. render (CPUsInNUMANodes (Details (CPUTopo tp)) [cn_Id node])) nodes) '','',
     cfg_Numa = 1, cfg_MergedNumas = node_lines (Details (CPUTopo tp)) nodes 0 0\<rparr>"
proof -
  let ?base = "[(''name'', TextValue ''node-capacity''), (''description'', TextValue ''Karpenter discovery service''),
            (''cores'', IntValue (mi_NumCores info)), (''sockets'', IntValue 1), (''cpu'', TextValue ''host''), (''numa'', IntValue 1),
            (''ostype'', TextValue ''l26''), (''tags'', TextValue ''karpenter'')]"
  let ?d = "Details (CPUTopo tp)"
  define l where "l = numa_options render ?d (mi_Topology info) 0 0 \<lparr>vl_Affinity = [], vl_Memory = 0, vl_Options = ?base\<rparr>"
  have fresh: "\<forall>j \<ge> 0. numa_key j \<notin> fst ` set (vl_Options \<lparr>vl_Affinity = [], vl_Memory = 0, vl_Options = ?base\<rparr>)"
    by (simp add: show_int_def)
  note layout = numa_options_layout [OF fresh, of render ?d "mi_Topology info" 0, folded l_def nodes_def]
  have opts: "buildVMOptions render info tp =
      go_update (go_update (vl_Options l) ''affinity'' (TextValue (Join (vl_Affinity l) '',''))) ''memory'' (MemValue (vl_Memory l))"
    using assms(1) by (simp add: buildVMOptions_def Let_def l_def)
  have lines: "k \<noteq> ''affinity''" "k \<noteq> ''memory''" "k \<noteq> ''numa''" if "(k, t) \<in> set (node_lines ?d nodes 0 0)" for k t
    using node_lines_keys [OF that] by auto
  have "''affinity'' \<notin> fst ` set (vl_Options l)" "''memory'' \<notin> fst ` set (vl_Options l)"
    using lines by (force simp: layout)+
  then have flat: "buildVMOptions render info tp =
      vl_Options l @ [(''affinity'', TextValue (Join (vl_Affinity l) '','')), (''memory'', MemValue (vl_Memory l))]"
    unfolding opts by (simp add: go_update_fresh keys_go_update)
  have "map_of (buildVMOptions render info tp) ''numa'' = Some (IntValue 1)" by (simp add: flat layout)
  moreover have "merged_numas (buildVMOptions render info tp) = node_lines ?d nodes 0 0"
    unfolding flat layout [THEN conjunct2] merged_numas_append merged_numas_lines vm_layout.simps
    by (simp add: merged_numas_def map_filter_simps HasPrefix_def)
  ultimately show ?thesis
    by (simp add: stored_config_def opts layout)
qed

text \<open>What the reader makes of the lines, and of the CPUs they are pinned to.\<close>

fun node_states :: "(CPUSet \<Rightarrow> string) \<Rightarrow> CPUDetails \<Rightarrow> cadvisor_Node list \<Rightarrow> int \<Rightarrow> (int, NUMANodeState) go_map" where
  "node_states render d [] cpush = []"
| "node_states render d (node # nodes) cpush =
     (let n = Size (CPUsInNUMANodes d [cn_Id node])
      in (cn_Id node, \<lparr>ns_CPUs = render {cpush..cpush + n - 1}, ns_Memory = node_memory (cn_Memory node), ns_Policy = []\<rparr>) #
         node_states render d nodes (cpush + n))"

definition guest_CPUs :: "CPUDetails \<Rightarrow> cadvisor_Node list \<Rightarrow> int" where
  "guest_CPUs d nodes = sum_list (map (\<lambda>node. Size (CPUsInNUMANodes d [cn_Id node])) nodes)"

lemma node_memory_pos:
  assumes "2 ^ 30 \<le> m"
  shows "0 < uint (node_memory m)" and "uint (node_memory m) < 2 ^ 63"
proof -
  define q where "q = m div (1024 * 1024 * 1024)"
  have "unat q = unat m div 1073741824" by (simp add: q_def unat_div)
  moreover have "1073741824 \<le> unat m" using assms by (simp add: word_le_nat_alt)
  moreover have "unat m < 18446744073709551616" using unsigned_less [of m] by simp
  ultimately have q: "1 \<le> unat q" "unat q < 17179869184" by simp_all
  define r where "r = (if q > 1 then q - 1 else q)"
  have r: "1 \<le> unat r" "unat r < 17179869184"
    using q by (auto simp: r_def word_less_nat_alt unat_sub_if_size word_size)
  then have "unat (r * 1024) = unat r * 1024" by (simp add: unat_mult_lem [THEN iffD1])
  moreover have "node_memory m = r * 1024" by (simp only: node_memory_def Let_def q_def r_def)
  ultimately have "0 < unat (node_memory m)" "unat (node_memory m) < 9223372036854775808" using r by simp_all
  then have "0 < int (unat (node_memory m))" "int (unat (node_memory m)) < 9223372036854775808" by linarith+
  then show "0 < uint (node_memory m)" "uint (node_memory m) < 2 ^ 63" by simp_all
qed

lemma read_node_line:
  assumes laws: "cpuset_text_laws env" "numa_line_laws env" and node: "0 \<le> cn_Id node" "cn_Id node < 2 ^ 31" "2 ^ 30 \<le> cn_Memory node"
    and range: "0 \<le> cpush" "0 < n" "cpush + n \<le> 2 ^ 31" and new: "cn_Id node \<notin> fst ` set m"
  shows "read_numa_line (env_parse env) (env_render env) (env_unmarshal env) (numa_arg cpush n (cn_Id node) (node_memory (cn_Memory node))) m =
    Inr (m @ [(cn_Id node, \<lparr>ns_CPUs = env_render env {cpush..cpush + n - 1}, ns_Memory = node_memory (cn_Memory node), ns_Policy = []\<rparr>)])"
proof -
  have line: "env_unmarshal env (numa_arg cpush n (cn_Id node) (node_memory (cn_Memory node))) =
      Some \<lparr>vn_Memory = Some (uint (node_memory (cn_Memory node))), CPUIDs = [show_int cpush @ ''-'' @ show_int (cpush + n - 1)],
            HostNodeNames = [show_int (cn_Id node)], vn_Policy = []\<rparr>"
  proof -
    let ?m = "uint (node_memory (cn_Memory node))"
    have m: "0 \<le> ?m" "?m < 2 ^ 63" using node_memory_pos(2) [OF node(3)] by simp_all
    have "numa_arg cpush n (cn_Id node) (node_memory (cn_Memory node)) =
        Join [''cpus='' @ show_int cpush @ ''-'' @ show_int (cpush + n - 1), ''hostnodes='' @ show_int (cn_Id node), ''memory='' @ show_int ?m] '',''"
      by (simp add: numa_arg_def)
    moreover have "cpush \<le> cpush + n - 1" using range by simp
    ultimately show ?thesis using laws(2) node(1) range(1) m unfolding numa_line_laws_def by metis
  qed
  have cpus: "env_parse env (show_int cpush @ CHR ''-'' # show_int (cpush + n - 1)) = Some {cpush..cpush + n - 1}"
    and host: "env_parse env (show_int (cn_Id node)) = Some {cn_Id node}" and empty: "env_parse env [] = Some {}"
    using laws(1) node range unfolding cpuset_text_laws_def by auto
  have "map_of m (cn_Id node) = None" using new by (simp add: map_of_eq_None_iff)
  then have "go_lookup zero_node m (cn_Id node) = zero_node" by (simp add: go_lookup_def)
  moreover have "List {cn_Id node} = [cn_Id node]" "set (List {cpush..cpush + n - 1}) = {cpush..cpush + n - 1}"
    "length (List {cpush..cpush + n - 1}) = nat n" "Size {cpush..cpush + n - 1} = n" "Size {cn_Id node} = 1"
    using range by (simp_all add: List_def Size_def)
  ultimately show ?thesis
    using node_memory_pos(1) [OF node(3)] new
    by (simp add: read_numa_line_def line cpus host empty zero_node_def go_update_fresh go_div_def)
qed

lemma Size_nonempty: "CPUsInNUMANodes d ids \<noteq> {} \<Longrightarrow> 0 < Size (CPUsInNUMANodes d ids)"
  by (simp add: Size_def card_gt_0_iff)

lemma guest_CPUs_simps [simp]:
  "guest_CPUs d [] = 0" "guest_CPUs d (node # nodes) = Size (CPUsInNUMANodes d [cn_Id node]) + guest_CPUs d nodes"
  by (simp_all add: guest_CPUs_def)

lemma guest_CPUs_nonneg [simp]: "0 \<le> guest_CPUs d nodes"
  by (induction nodes) auto

lemma read_node_lines:
  assumes laws: "cpuset_text_laws env" "numa_line_laws env" and "\<forall>node \<in> set nodes. node_ok d node" and "distinct (map cn_Id nodes)"
    and "0 \<le> cpush" and "cpush + guest_CPUs d nodes \<le> 2 ^ 31" and "\<forall>node \<in> set nodes. cn_Id node \<notin> fst ` set m"
  shows "read_numa_lines (env_parse env) (env_render env) (env_unmarshal env) (node_lines d nodes cpush idx) m =
    Inr (m @ node_states (env_render env) d nodes cpush)"
  using assms(3-)
proof (induction nodes arbitrary: cpush idx m)
  case (Cons node nodes)
  let ?n = "Size (CPUsInNUMANodes d [cn_Id node])"
  have n: "0 < ?n" using Cons.prems(1) Size_nonempty by (simp add: node_ok_def)
  have "cpush + ?n \<le> 2 ^ 31" using Cons.prems(4) guest_CPUs_nonneg [of d nodes] by (simp del: guest_CPUs_nonneg)
  from read_node_line [OF laws _ _ _ Cons.prems(3) n this, of node m] Cons.prems(1,5)
  have line: "read_numa_line (env_parse env) (env_render env) (env_unmarshal env) (numa_arg cpush ?n (cn_Id node) (node_memory (cn_Memory node))) m =
    Inr (m @ [(cn_Id node, \<lparr>ns_CPUs = env_render env {cpush..cpush + ?n - 1}, ns_Memory = node_memory (cn_Memory node), ns_Policy = []\<rparr>)])"
    by (simp add: node_ok_def)
  have ids: "\<forall>x \<in> set nodes. cn_Id x \<noteq> cn_Id node" using Cons.prems(2) by (simp add: image_iff) metis
  have "read_numa_lines (env_parse env) (env_render env) (env_unmarshal env) (node_lines d nodes (cpush + ?n) (idx + 1)) (m @ [(cn_Id node, x)]) =
      Inr ((m @ [(cn_Id node, x)]) @ node_states (env_render env) d nodes (cpush + ?n))" for x
    by (rule Cons.IH) (use Cons.prems n ids in auto)
  then show ?case using line by (simp add: Let_def)
qed simp

lemma pinned_segment:
  assumes "\<forall>c \<in> set cs. 0 \<le> c \<and> c < int (length cpuList)"
  shows "pinned_cpus nodeID cpuList cs = Inr ((\<lambda>c. cpuList ! nat c) ` set cs)"
  using assms by (induction cs) auto

lemma nth_segment: "length xs = k \<Longrightarrow> (\<lambda>c. (xs @ ys @ zs) ! nat c) ` {int k..int k + int (length ys) - 1} = set ys"
proof -
  assume k: "length xs = k"
  have "{int k..int k + int (length ys) - 1} = (\<lambda>i. int (k + i)) ` {..<length ys}"
  proof (intro equalityI subsetI)
    fix c assume "c \<in> {int k..int k + int (length ys) - 1}"
    then have "c = int (k + nat (c - int k))" "nat (c - int k) < length ys" by auto
    then show "c \<in> (\<lambda>i. int (k + i)) ` {..<length ys}" by blast
  qed auto
  then have "(\<lambda>c. (xs @ ys @ zs) ! nat c) ` {int k..int k + int (length ys) - 1} = (\<lambda>i. (xs @ ys @ zs) ! (k + i)) ` {..<length ys}"
    by (simp add: image_image nat_int_add)
  also have "\<dots> = (\<lambda>i. ys ! i) ` {..<length ys}" using k by (intro image_cong) (simp_all add: nth_append)
  also have "\<dots> = set ys" by (auto simp: set_conv_nth)
  finally show ?thesis .
qed

definition numa_setting :: "environment \<Rightarrow> CPUDetails \<Rightarrow> cadvisor_Node \<Rightarrow> NUMAInfo" where
  "numa_setting env d node =
     \<lparr>ni_CPUs = env_render env (CPUsInNUMANodes d [cn_Id node]), MemSize = node_memory (cn_Memory node) * 1024 * 1024\<rparr>"

lemma override_nodes:
  assumes laws: "cpuset_text_laws env" and "\<forall>node \<in> set nodes. node_ok d node" and "distinct (map cn_Id nodes)"
    and "int (length xs) + guest_CPUs d nodes \<le> 2 ^ 31"
  shows "\<exists>m'. override_numa (env_parse env) (env_render env) (xs @ concat (map (\<lambda>node. List (CPUsInNUMANodes d [cn_Id node])) nodes))
      (node_states (env_render env) d nodes (int (length xs))) m = Inr m' \<and>
    (\<forall>node \<in> set nodes. map_of m' (cn_Id node) = Some (numa_setting env d node)) \<and>
    (\<forall>i. i \<notin> cn_Id ` set nodes \<longrightarrow> map_of m' i = map_of m i)"
  using assms(2-)
proof (induction nodes arbitrary: xs m)
  case (Cons node nodes)
  let ?cpus = "CPUsInNUMANodes d [cn_Id node]" and ?k = "int (length xs)"
  let ?rest = "concat (map (\<lambda>node. List (CPUsInNUMANodes d [cn_Id node])) nodes)"
  have n: "0 < Size ?cpus" using Cons.prems(1) Size_nonempty by (simp add: node_ok_def)
  have len: "int (length (List ?cpus)) = Size ?cpus" "set (List ?cpus) = ?cpus" by (simp_all add: List_def Size_def)
  have "?k + Size ?cpus \<le> 2 ^ 31" using Cons.prems(3) guest_CPUs_nonneg [of d nodes] by (simp del: guest_CPUs_nonneg)
  then have "{?k..?k + Size ?cpus - 1} \<subseteq> {0..<2 ^ 31}" by auto
  then have parse: "env_parse env (env_render env {?k..?k + Size ?cpus - 1}) = Some {?k..?k + Size ?cpus - 1}"
    using laws unfolding cpuset_text_laws_def by blast
  have "pinned_cpus (cn_Id node) (xs @ List ?cpus @ ?rest) (List {?k..?k + Size ?cpus - 1}) = Inr ?cpus"
    using nth_segment [of xs "length xs" "List ?cpus" ?rest] len
    by (subst pinned_segment) (auto simp: List_def)
  moreover have "\<exists>m'. override_numa (env_parse env) (env_render env) ((xs @ List ?cpus) @ ?rest)
      (node_states (env_render env) d nodes (int (length (xs @ List ?cpus)))) (go_update m (cn_Id node) (numa_setting env d node)) = Inr m' \<and>
    (\<forall>node \<in> set nodes. map_of m' (cn_Id node) = Some (numa_setting env d node)) \<and>
    (\<forall>i. i \<notin> cn_Id ` set nodes \<longrightarrow> map_of m' i = map_of (go_update m (cn_Id node) (numa_setting env d node)) i)"
    by (rule Cons.IH) (use Cons.prems len in auto)
  then obtain m' where "override_numa (env_parse env) (env_render env) ((xs @ List ?cpus) @ ?rest)
      (node_states (env_render env) d nodes (int (length (xs @ List ?cpus)))) (go_update m (cn_Id node) (numa_setting env d node)) = Inr m'"
    "\<forall>node \<in> set nodes. map_of m' (cn_Id node) = Some (numa_setting env d node)"
    "\<forall>i. i \<notin> cn_Id ` set nodes \<longrightarrow> map_of m' i = map_of (go_update m (cn_Id node) (numa_setting env d node)) i"
    by blast
  ultimately show ?case
    using Cons.prems(2) len parse by (intro exI [of _ m']) (auto simp: Let_def numa_setting_def add.commute)
qed simp

lemma affinity_parse:
  assumes laws: "cpuset_text_laws env" and "\<forall>cpus \<in> set sets. finite cpus \<and> cpus \<noteq> {} \<and> cpus \<subseteq> {0..<2 ^ 31}"
  shows "\<exists>A. env_parse env (Join (map (env_render env) sets) '','') = Some A"
proof -
  have shown: "env_parse env (env_render env cpus) = Some cpus" "env_render env cpus \<noteq> []" if "cpus \<in> set sets" for cpus
    using laws assms(2) that unfolding cpuset_text_laws_def by (metis option.inject)+
  have joined: "w \<noteq> [] \<Longrightarrow> Join (w # ws) sep \<noteq> []" for w :: string and ws sep by (cases ws) simp_all
  show ?thesis
    using shown
  proof (induction sets)
    case (Cons cpus sets)
    then obtain A where A: "env_parse env (Join (map (env_render env) sets) '','') = Some A" by auto
    show ?case
    proof (cases sets)
      case (Cons c cs)
      have "Join (map (env_render env) sets) '','' \<noteq> []" using Cons.prems(2) [of c] Cons joined by simp
      moreover have "env_parse env (env_render env cpus) = Some cpus" "env_render env cpus \<noteq> []" using Cons.prems by simp_all
      ultimately have "env_parse env (env_render env cpus @ '','' @ Join (map (env_render env) sets) '','') = Some (cpus \<union> A)"
        using A laws unfolding cpuset_text_laws_def by blast
      then show ?thesis using Cons by simp
    qed (use Cons.prems in simp)
  qed (use laws in \<open>simp add: cpuset_text_laws_def\<close>)
qed

text \<open>
  C6. The controller reads from the discovery VM what the scheduler has written into it: for every
  NUMA node of the host that has CPUs, the settings name exactly the CPUs of that node, although the
  lines of the VM number the CPUs of the guest and the affinity lists those of the host, and the
  memory of the node in whole GiB, less the one that is kept back. Other settings stay as they were.
\<close>

theorem capacity_vm_roundtrip:
  fixes tp :: Topology
  defines "d \<equiv> Details (CPUTopo tp)"
  assumes laws: "cpuset_text_laws env" "numa_line_laws env"
    and vm: "px_Config vm = Some (stored_config (buildVMOptions (env_render env) info tp))"
    and host: "mi_Topology info \<noteq> []" "distinct (map cn_Id (mi_Topology info))"
      "\<forall>node \<in> set (host_nodes d (mi_Topology info)). node_ok d node" "guest_CPUs d (host_nodes d (mi_Topology info)) \<le> 2 ^ 31"
  shows "\<exists>numas. nodeSettingsFromVM env vm st = Inr (st\<lparr>NUMANodesSetting := numas\<rparr>) \<and>
    (\<forall>node \<in> set (host_nodes d (mi_Topology info)). map_of numas (cn_Id node) =
       Some \<lparr>ni_CPUs = env_render env (CPUsInNUMANodes d [cn_Id node]), MemSize = node_memory (cn_Memory node) * 1024 * 1024\<rparr>) \<and>
    (\<forall>i. i \<notin> cn_Id ` set (host_nodes d (mi_Topology info)) \<longrightarrow> map_of numas i = map_of (NUMANodesSetting st) i)"
proof -
  define nodes where "nodes = host_nodes d (mi_Topology info)"
  define sets where "sets = map (\<lambda>node. CPUsInNUMANodes d [cn_Id node]) nodes"
  have ok: "\<forall>node \<in> set nodes. node_ok d node" and ids: "distinct (map cn_Id nodes)"
    using host(2,3) by (simp_all add: nodes_def host_nodes_def distinct_map_filter)
  have sets: "\<forall>cpus \<in> set sets. finite cpus \<and> cpus \<noteq> {} \<and> cpus \<subseteq> {0..<2 ^ 31}"
    using ok by (auto simp: sets_def node_ok_def)
  have cfg: "stored_config (buildVMOptions (env_render env) info tp) =
      \<lparr>cfg_Affinity = Join (map (env_render env) sets) '','', cfg_Numa = 1, cfg_MergedNumas = node_lines d nodes 0 0\<rparr>"
    using stored_options [OF host(1), of "env_render env" tp] by (simp add: d_def nodes_def sets_def comp_def)
  obtain A where A: "env_parse env (Join (map (env_render env) sets) '','') = Some A" using affinity_parse [OF laws(1) sets] by blast
  have lines: "read_numa_lines (env_parse env) (env_render env) (env_unmarshal env) (node_lines d nodes 0 0) [] =
      Inr (node_states (env_render env) d nodes 0)"
    using read_node_lines [OF laws ok ids, of 0 "[]" 0] host(4) by (simp add: nodes_def)
  have split: "affinity_cpus (env_parse env) (Split (Join (map (env_render env) sets) '','') (CHR '','')) = Inr (concat (map List sets))"
  proof (cases "sets = []")
    case True
    then show ?thesis using laws(1) by (simp add: cpuset_text_laws_def List_def)
  next
    case False
    then show ?thesis using affinity_cpus_render [OF laws(1), of sets] sets by (simp add: Split_Join_all comp_def)
  qed
  obtain m where m: "override_numa (env_parse env) (env_render env) (concat (map List sets)) (node_states (env_render env) d nodes 0) (NUMANodesSetting st) = Inr m"
    "\<forall>node \<in> set nodes. map_of m (cn_Id node) = Some (numa_setting env d node)" "\<forall>i. i \<notin> cn_Id ` set nodes \<longrightarrow> map_of m i = map_of (NUMANodesSetting st) i"
    using override_nodes [OF laws(1) ok ids, of "[]" "NUMANodesSetting st"] host(4) by (auto simp: nodes_def sets_def comp_def)
  have aff: "(if Join (map (env_render env) sets) '','' = [] then Some {} else env_parse env (Join (map (env_render env) sets) '','')) = Some A"
    using A laws(1) by (auto simp: cpuset_text_laws_def)
  have res: "GetResourceFromVM (env_parse env) (env_render env) (env_unmarshal env) (Some vm) =
      Inr \<lparr>vm_ID = px_VMID vm, vm_CPUs = px_CPUs vm, Affinity = Join (map (env_render env) sets) '','', Memory = px_MaxMem vm,
           DiskGBytes = 0, StorageID = [], vm_CPUSet = A, vm_NUMANodes = node_states (env_render env) d nodes 0\<rparr>"
    using aff lines by (cases "Join (map (env_render env) sets) '','' = []") (simp_all add: GetResourceFromVM_def vm cfg Let_def)
  have "A = {}" if "m = []"
  proof -
    have "nodes = []" using m(2) that by (cases nodes) auto
    then show ?thesis using A laws(1) by (simp add: sets_def cpuset_text_laws_def)
  qed
  then have "nodeSettingsFromVM env vm st = Inr (st\<lparr>NUMANodesSetting := m\<rparr>)"
    using split m(1) by (auto simp: nodeSettingsFromVM_def res IsEmpty_def)
  then show ?thesis using m(2,3) unfolding nodes_def numa_setting_def by blast
qed

section \<open>An example\<close>

text \<open>Texts of CPU sets and NUMA lines that satisfy the laws: a set is the list of its CPUs.\<close>

definition range_of :: "string \<Rightarrow> CPUSet option" where
  "range_of s = (case Split s (CHR ''-'') of
      [a] \<Rightarrow> map_option (\<lambda>i. {i}) (Atoi a)
    | [a, b] \<Rightarrow> (case (Atoi a, Atoi b) of (Some i, Some j) \<Rightarrow> Some {i..j} | _ \<Rightarrow> None)
    | _ \<Rightarrow> None)"

definition list_parse :: "string \<Rightarrow> CPUSet option" where
  "list_parse s = (if s = [] then Some {} else map_option (\<lambda>As. \<Union> (set As)) (those (map range_of (Split s (CHR '','')))))"

definition list_render :: "CPUSet \<Rightarrow> string" where
  "list_render cpus = Join (map show_int (List cpus)) '',''"

definition line_unmarshal :: "string \<Rightarrow> VMNUMA option" where
  "line_unmarshal s = (case Split s (CHR '','') of
      [c, h, m] \<Rightarrow>
        map_option (\<lambda>i. \<lparr>vn_Memory = Some i, CPUIDs = [drop (length ''cpus='') c], HostNodeNames = [drop (length ''hostnodes='') h], vn_Policy = []\<rparr>)
          (Atoi (drop (length ''memory='') m))
    | _ \<Rightarrow> None)"

definition text_env :: environment where
  "text_env = \<lparr>env_options = None, env_settings_file = (\<lambda>n. None), env_parse = list_parse, env_render = list_render, env_unmarshal = line_unmarshal\<rparr>"

lemma show_int_minus: "0 \<le> i \<Longrightarrow> CHR ''-'' \<notin> set (show_int i)"
  by (simp add: show_int_def show_nat_plain)

lemma range_of_int: "0 \<le> i \<Longrightarrow> i < 2 ^ 63 \<Longrightarrow> range_of (show_int i) = Some {i}"
  by (simp add: range_of_def Split_word show_int_minus Atoi_show_int)

lemma range_of_range:
  assumes "0 \<le> a" "a \<le> b" "b < 2 ^ 63"
  shows "range_of (show_int a @ ''-'' @ show_int b) = Some {a..b}"
  using assms by (simp add: range_of_def Split_append Split_word show_int_minus Atoi_show_int)

lemma list_parse_single:
  assumes "s \<noteq> []" "CHR '','' \<notin> set s" "range_of s = Some A"
  shows "list_parse s = Some A"
  using assms by (simp add: list_parse_def Split_word)

lemma those_Some: "(\<And>x. x \<in> set xs \<Longrightarrow> f x = Some (g x)) \<Longrightarrow> those (map f xs) = Some (map g xs)"
  by (induction xs) auto

lemma those_append: "those (xs @ ys) = (case those xs of None \<Rightarrow> None | Some a \<Rightarrow> map_option ((@) a) (those ys))"
  by (induction xs; cases "those ys") (auto split: option.splits)

lemma text_env_cpusets: "cpuset_text_laws text_env"
  unfolding cpuset_text_laws_def
proof (intro conjI allI impI)
  fix cpus :: CPUSet assume cpus: "finite cpus \<and> cpus \<subseteq> {0..<2 ^ 31}"
  have single: "list_parse (show_int i) = Some {i}" if "i \<in> cpus" for i
    using cpus that by (intro list_parse_single range_of_int) (auto simp: show_int_plain)
  have split: "Split (list_render cpus) (CHR '','') = map show_int (List cpus)" if "cpus \<noteq> {}"
    using cpus that unfolding list_render_def by (intro Split_Join) (auto simp: List_def show_int_plain)
  have members: "set (List cpus) = cpus" using cpus by (simp add: List_def)
  show "env_parse text_env (env_render text_env cpus) = Some cpus"
  proof (cases "cpus = {}")
    case False
    have "those (map range_of (map show_int (List cpus))) = Some (map (\<lambda>i. {i}) (List cpus))"
      unfolding map_map using cpus members by (intro those_Some) (auto simp: range_of_int)
    moreover have "list_render cpus \<noteq> []" using split [OF False] False members by (cases "list_render cpus") (auto, metis empty_set show_int_not_empty list.inject)
    ultimately show ?thesis using split [OF False] members by (simp add: text_env_def list_parse_def)
  qed (simp add: text_env_def list_parse_def list_render_def List_def)
  show "\<exists>parts. map (env_parse text_env) (Split (env_render text_env cpus) (CHR '','')) = map Some parts \<and> concat (map List parts) = List cpus"
  proof (cases "cpus = {}")
    case False
    then show ?thesis
      using split single members by (intro exI [of _ "map (\<lambda>i. {i}) (List cpus)"]) (simp add: text_env_def List_def comp_def)
  next
    case True
    then show ?thesis by (intro exI [of _ "[{}]"]) (simp add: text_env_def list_parse_def list_render_def List_def)
  qed
next
  fix s t :: string and A B assume st: "s \<noteq> [] \<and> t \<noteq> [] \<and> env_parse text_env s = Some A \<and> env_parse text_env t = Some B"
  then show "env_parse text_env (s @ '','' @ t) = Some (A \<union> B)"
    by (auto simp: text_env_def list_parse_def Split_app those_append)
next
  fix a b :: int assume "0 \<le> a \<and> a \<le> b \<and> b < 2 ^ 31"
  then have "range_of (show_int a @ ''-'' @ show_int b) = Some {a..b}" by (intro range_of_range) auto
  then show "env_parse text_env (show_int a @ ''-'' @ show_int b) = Some {a..b}"
    unfolding text_env_def environment.simps by (intro list_parse_single) (auto simp: show_int_plain)
next
  fix a :: int assume "0 \<le> a \<and> a < 2 ^ 31"
  then have "range_of (show_int a) = Some {a}" by (intro range_of_int) auto
  then show "env_parse text_env (show_int a) = Some {a}"
    unfolding text_env_def environment.simps by (intro list_parse_single) (auto simp: show_int_plain)
qed (simp add: text_env_def list_parse_def)

lemma text_env_numa_lines: "numa_line_laws text_env"
  unfolding numa_line_laws_def
proof (intro allI impI)
  fix a b nodeID memory :: int
  assume range: "0 \<le> a \<and> a \<le> b \<and> 0 \<le> nodeID \<and> 0 \<le> memory \<and> memory < 2 ^ 63"
  let ?words = "[''cpus='' @ show_int a @ ''-'' @ show_int b, ''hostnodes='' @ show_int nodeID, ''memory='' @ show_int memory]"
  have "Split (Join ?words '','') (CHR '','') = ?words" by (rule Split_Join) (auto simp: show_int_plain)
  moreover have "Atoi (show_int memory) = Some memory" using range by (intro Atoi_show_int) linarith+
  ultimately show "env_unmarshal text_env (Join ?words '','') =
      Some \<lparr>vn_Memory = Some memory, CPUIDs = [show_int a @ ''-'' @ show_int b], HostNodeNames = [show_int nodeID], vn_Policy = []\<rparr>"
    by (simp add: text_env_def line_unmarshal_def)
qed

definition example_machine :: cadvisor_MachineInfo where
  "example_machine =
     \<lparr>mi_NumCores = 4, mi_NumSockets = 1, mi_MemoryCapacity = 8589934592,
      mi_Topology = [\<lparr>cn_Id = 0, cn_Memory = 4294967296, cn_Cores = []\<rparr>, \<lparr>cn_Id = 1, cn_Memory = 4294967296, cn_Cores = []\<rparr>]\<rparr>"

definition example_discovery_vm :: VirtualMachine where
  "example_discovery_vm =
     \<lparr>px_VMID = 100, px_CPUs = 4, px_MaxMem = 6442450944,
      px_Config = Some (stored_config (buildVMOptions (env_render text_env) example_machine example_numa_host))\<rparr>"

definition no_settings :: NodeSettings where
  "no_settings =
     \<lparr>NumCoresSetting = 0, NumSocketsSetting = 0, NumThreads = 0, NumUncoreCaches = 0, NUMANodesSetting = [], ReservedCPUs = [],
      ReservedMemory = 0\<rparr>"

lemma example_machine_cpus:
  "CPUsInNUMANodes (Details (CPUTopo example_numa_host)) [0] = {0, 2, 4, 6, 8, 10}"
  "CPUsInNUMANodes (Details (CPUTopo example_numa_host)) [1] = {1, 3, 5, 7, 9, 11}"
  by code_simp+

lemma example_machine_nodes:
  "mi_Topology example_machine \<noteq> []" "distinct (map cn_Id (mi_Topology example_machine))"
  "host_nodes (Details (CPUTopo example_numa_host)) (mi_Topology example_machine) = mi_Topology example_machine"
  "\<forall>node \<in> set (mi_Topology example_machine). node_ok (Details (CPUTopo example_numa_host)) node"
  "guest_CPUs (Details (CPUTopo example_numa_host)) (mi_Topology example_machine) \<le> 2 ^ 31"
  by (simp_all add: example_machine_def example_machine_cpus node_ok_def Size_def)

lemma example_discovery_vm_config:
  "px_Config example_discovery_vm = Some (stored_config (buildVMOptions (env_render text_env) example_machine example_numa_host))"
  by (simp add: example_discovery_vm_def)

theorem capacity_vm_roundtrip_witness:
  "\<exists>numas. nodeSettingsFromVM text_env example_discovery_vm no_settings = Inr (no_settings\<lparr>NUMANodesSetting := numas\<rparr>) \<and>
    (\<forall>node \<in> set (mi_Topology example_machine). map_of numas (cn_Id node) =
       Some \<lparr>ni_CPUs = env_render text_env (CPUsInNUMANodes (Details (CPUTopo example_numa_host)) [cn_Id node]),
             MemSize = node_memory (cn_Memory node) * 1024 * 1024\<rparr>)"
  using capacity_vm_roundtrip [OF text_env_cpusets text_env_numa_lines example_discovery_vm_config example_machine_nodes(1,2), of no_settings]
    example_machine_nodes(4,5)
  unfolding example_machine_nodes(3) by blast

end
