(* ===== verification/CloudConfig.thy ===== *)
theory CloudConfig
  imports SysNode
begin

text \<open>
  The cloud configuration of \<open>pkg/providers/config/config.go\<close>, the pool of Proxmox clients of
  \<open>pkg/providers/proxmoxpool/pool.go\<close> that is made from it, the checks of the command line options of
  \<open>pkg/operator/options\<close> and the feature flags of \<open>cmd/proxmox-scheduler/flags.go\<close>.

  The YAML decoder, the constructor of the Proxmox client and the files are parameters. A list item
  that is null in the YAML document is a nil pointer, here \<open>None\<close>; reading a field of it panics.
\<close>

section \<open>Reading the configuration\<close>

record ProxmoxCluster =
  pc_URL :: string
  Insecure :: bool
  TokenID :: string
  TokenIDFile :: string
  TokenSecret :: string
  TokenSecretFile :: string
  Username :: string
  Password :: string
  pc_Region :: string

record ClustersConfig =
  cfg_Provider :: string
  cfg_Clusters :: "ProxmoxCluster option list"

definition ProviderDefault :: string where
  "ProviderDefault = ''default''"

definition ProviderCapmox :: string where
  "ProviderCapmox = ''capmox''"

datatype config_error =
    DecodeFailed
  | TokenNotAllowed int
  | CredentialsRequired int
  | RegionRequired int
  | URLRequired int
  | ConfigPanic
  | ConfigNotOpened string

definition check_cluster :: "int \<Rightarrow> ProxmoxCluster \<Rightarrow> config_error option" where
  "check_cluster idx c =
     (if Username c \<noteq> [] \<and> Password c \<noteq> [] \<and> (TokenID c \<noteq> [] \<or> TokenSecret c \<noteq> []) then Some (TokenNotAllowed (idx + 1))
      else if \<not> (Username c \<noteq> [] \<and> Password c \<noteq> []) \<and> (TokenID c = [] \<or> TokenSecret c = []) then Some (CredentialsRequired (idx + 1))
      else if pc_Region c = [] then Some (RegionRequired (idx + 1))
      else if pc_URL c = [] \<or> \<not> HasPrefix (pc_URL c) ''http'' then Some (URLRequired (idx + 1))
      else None)"

fun check_clusters :: "int \<Rightarrow> ProxmoxCluster option list \<Rightarrow> config_error option" where
  "check_clusters idx [] = None"
| "check_clusters idx (None # cs) = Some ConfigPanic"
| "check_clusters idx (Some c # cs) = (case check_cluster idx c of Some e \<Rightarrow> Some e | None \<Rightarrow> check_clusters (idx + 1) cs)"

definition empty_config :: ClustersConfig where
  "empty_config = \<lparr>cfg_Provider = [], cfg_Clusters = []\<rparr>"

text \<open>The reader may be nil, then the configuration is empty.\<close>

definition ReadCloudConfig :: "(string \<Rightarrow> ClustersConfig option) \<Rightarrow> string option \<Rightarrow> config_error + ClustersConfig" where
  "ReadCloudConfig decode config =
     (case (case config of None \<Rightarrow> Some empty_config | Some yaml \<Rightarrow> decode yaml) of
        None \<Rightarrow> Inl DecodeFailed
      | Some cfg \<Rightarrow>
          (case check_clusters 0 (cfg_Clusters cfg) of
             Some e \<Rightarrow> Inl e
           | None \<Rightarrow> Inr (if cfg_Provider cfg = [] then cfg\<lparr>cfg_Provider := ProviderDefault\<rparr> else cfg)))"

definition ReadCloudConfigFromFile ::
  "(string \<Rightarrow> ClustersConfig option) \<Rightarrow> (string \<Rightarrow> string option) \<Rightarrow> string \<Rightarrow> config_error + ClustersConfig" where
  "ReadCloudConfigFromFile decode files file =
     (case files file of None \<Rightarrow> Inl (ConfigNotOpened file) | Some yaml \<Rightarrow> ReadCloudConfig decode (Some yaml))"

section \<open>The pool of clients\<close>

datatype client_option =
    WithUserAgent string
  | WithInsecureHTTPClient
  | WithCredentials string string
  | WithAPIToken string string

datatype pool_error = ErrClustersNotFound | PathEmpty | FileNotRead string | ClientFailed | ErrRegionNotFound | PoolPanic

record 'c ProxmoxPool =
  clients :: "(string, 'c) go_map"

definition readValueFromFile :: "(string \<Rightarrow> string option) \<Rightarrow> string \<Rightarrow> pool_error + string" where
  "readValueFromFile files path =
     (if path = [] then Inl PathEmpty
      else case files path of None \<Rightarrow> Inl (FileNotRead path) | Some content \<Rightarrow> Inr (TrimSpace content))"

definition token_value :: "(string \<Rightarrow> string option) \<Rightarrow> string \<Rightarrow> string \<Rightarrow> pool_error + string" where
  "token_value files token path = (if token = [] \<and> path \<noteq> [] then readValueFromFile files path else Inr token)"

text \<open>The tokens that are read from files replace the empty ones of the configuration.\<close>

definition read_tokens :: "(string \<Rightarrow> string option) \<Rightarrow> ProxmoxCluster \<Rightarrow> pool_error + ProxmoxCluster" where
  "read_tokens files c =
     (case token_value files (TokenID c) (TokenIDFile c) of
        Inl e \<Rightarrow> Inl e
      | Inr tokenID \<Rightarrow>
          (case token_value files (TokenSecret c) (TokenSecretFile c) of
             Inl e \<Rightarrow> Inl e
           | Inr secret \<Rightarrow> Inr (c\<lparr>TokenID := tokenID, TokenSecret := secret\<rparr>)))"

definition credential_options :: "ProxmoxCluster \<Rightarrow> client_option list" where
  "credential_options c =
     (if Username c \<noteq> [] \<and> Password c \<noteq> [] then [WithCredentials (Username c) (Password c)]
      else if TokenID c \<noteq> [] \<and> TokenSecret c \<noteq> [] then [WithAPIToken (TokenID c) (TokenSecret c)] else [])"

definition client_options :: "ProxmoxCluster \<Rightarrow> client_option list" where
  "client_options c =
     WithUserAgent ''Karpenter v1.0'' # (if Insecure c then [WithInsecureHTTPClient] else []) @ credential_options c"

fun add_clients ::
  "(string \<Rightarrow> client_option list \<Rightarrow> 'c option) \<Rightarrow> (string \<Rightarrow> string option) \<Rightarrow> ProxmoxCluster option list \<Rightarrow> (string, 'c) go_map
   \<Rightarrow> pool_error + (string, 'c) go_map" where
  "add_clients NewAPIClient files [] m = Inr m"
| "add_clients NewAPIClient files (None # cs) m = Inl PoolPanic"
| "add_clients NewAPIClient files (Some c # cs) m =
     (case read_tokens files c of
        Inl e \<Rightarrow> Inl e
      | Inr c' \<Rightarrow>
          (case NewAPIClient (pc_URL c') (client_options c') of
             None \<Rightarrow> Inl ClientFailed
           | Some px \<Rightarrow> add_clients NewAPIClient files cs (go_update m (pc_Region c') px)))"

definition NewProxmoxPool ::
  "(string \<Rightarrow> client_option list \<Rightarrow> 'c option) \<Rightarrow> (string \<Rightarrow> string option) \<Rightarrow> ProxmoxCluster option list \<Rightarrow> pool_error + 'c ProxmoxPool" where
  "NewProxmoxPool NewAPIClient files config =
     (if config = [] then Inl ErrClustersNotFound
      else case add_clients NewAPIClient files config [] of Inl e \<Rightarrow> Inl e | Inr m \<Rightarrow> Inr \<lparr>clients = m\<rparr>)"

definition GetRegions :: "'c ProxmoxPool \<Rightarrow> string list" where
  "GetRegions p = map fst (clients p)"

definition GetProxmoxCluster :: "'c ProxmoxPool \<Rightarrow> string \<Rightarrow> pool_error + 'c" where
  "GetProxmoxCluster p region = (case map_of (clients p) region of Some px \<Rightarrow> Inr px | None \<Rightarrow> Inl ErrRegionNotFound)"

section \<open>Options and flags\<close>

record controller_options =
  CloudConfigPath :: string
  InstanceTypesFilePath :: string
  NodeSettingFilePath :: string
  co_NodePolicy :: string
  ProxmoxVMID :: int

datatype options_error = MissingCloudConfig | MissingNodePolicy

definition validateRequiredFields :: "controller_options \<Rightarrow> options_error option" where
  "validateRequiredFields opts =
     (if CloudConfigPath opts = [] then Some MissingCloudConfig
      else if co_NodePolicy opts = [] then Some MissingNodePolicy else None)"

definition FeatureKarpenter :: string where
  "FeatureKarpenter = ''karpenter''"

fun add_flags :: "string list \<Rightarrow> (string, bool) go_map \<Rightarrow> (string, bool) go_map" where
  "add_flags [] flags = flags"
| "add_flags (w # ws) flags = (let flag = TrimSpace w in add_flags ws (if flag \<noteq> [] then go_update flags flag True else flags))"

definition parseFeatureFlags :: "string \<Rightarrow> (string, bool) go_map" where
  "parseFeatureFlags flagsStr = (if flagsStr = [] then [] else add_flags (Split flagsStr (CHR '','')) [])"

definition IsEnabled :: "(string, bool) go_map \<Rightarrow> string \<Rightarrow> bool" where
  "IsEnabled flags feature = go_lookup False flags feature"

section \<open>A valid configuration\<close>

text \<open>What the checks leave: one kind of credentials, a region and an address.\<close>

definition valid_cluster :: "ProxmoxCluster \<Rightarrow> bool" where
  "valid_cluster c \<longleftrightarrow>
     (if Username c \<noteq> [] \<and> Password c \<noteq> [] then TokenID c = [] \<and> TokenSecret c = [] else TokenID c \<noteq> [] \<and> TokenSecret c \<noteq> []) \<and>
     pc_Region c \<noteq> [] \<and> HasPrefix (pc_URL c) ''http''"

lemma check_cluster_None: "check_cluster idx c = None \<longleftrightarrow> valid_cluster c"
  by (auto simp: check_cluster_def valid_cluster_def HasPrefix_def)

lemma check_clusters_None: "check_clusters idx cs = None \<longleftrightarrow> (\<exists>ds. cs = map Some ds \<and> list_all valid_cluster ds)"
proof (induction idx cs rule: check_clusters.induct)
  case (3 idx c cs)
  show ?case
  proof (cases "check_cluster idx c")
    case None
    then have "valid_cluster c" by (simp flip: check_cluster_None [of idx])
    with 3 None show ?thesis by (force simp: Cons_eq_map_conv)
  next
    case (Some e)
    then have "\<not> valid_cluster c" by (simp flip: check_cluster_None [of idx])
    with Some show ?thesis by (auto simp: Cons_eq_map_conv)
  qed
qed auto

lemma ReadCloudConfig_clusters:
  "ReadCloudConfig decode config = Inr cfg \<Longrightarrow> \<exists>cs. cfg_Clusters cfg = map Some cs \<and> list_all valid_cluster cs"
  by (subst check_clusters_None [of 0, symmetric]) (auto simp: ReadCloudConfig_def split: option.splits if_splits)

text \<open>Empty tokens are read from files only for clusters with a user name and a password.\<close>

lemma valid_credential: "valid_cluster c \<Longrightarrow> \<exists>cred. credential_options c = [cred]"
  by (auto simp: valid_cluster_def credential_options_def split: if_splits)

text \<open>The configuration names no files for its tokens.\<close>

definition no_token_files :: "ProxmoxCluster \<Rightarrow> bool" where
  "no_token_files c \<longleftrightarrow> TokenIDFile c = [] \<and> TokenSecretFile c = []"

lemma read_tokens_same: "TokenID c \<noteq> [] \<and> TokenSecret c \<noteq> [] \<or> no_token_files c \<Longrightarrow> read_tokens files c = Inr c"
  by (auto simp: read_tokens_def token_value_def no_token_files_def)

text \<open>The client of a region is made from the last cluster of the configuration with that region.\<close>

definition cluster_of :: "ProxmoxCluster list \<Rightarrow> string \<Rightarrow> ProxmoxCluster option" where
  "cluster_of cs region = find (\<lambda>c. pc_Region c = region) (rev cs)"

lemma cluster_of_Cons:
  "cluster_of (c # cs) region =
     (case cluster_of cs region of Some d \<Rightarrow> Some d | None \<Rightarrow> if pc_Region c = region then Some c else None)"
proof -
  have app: "find P (xs @ ys) = (case find P xs of None \<Rightarrow> find P ys | Some x \<Rightarrow> Some x)" for P and xs ys :: "ProxmoxCluster list"
    by (induction xs) auto
  show ?thesis by (simp add: cluster_of_def app split: option.split)
qed

lemma add_clients_made:
  assumes "\<And>c. c \<in> set cs \<Longrightarrow> read_tokens files c = Inr c"
  shows "\<exists>m'. add_clients (\<lambda>url opts. Some (mk url opts)) files (map Some cs) m = Inr m' \<and>
    (go_map_ok m \<longrightarrow> go_map_ok m') \<and>
    (\<forall>region. map_of m' region = (case cluster_of cs region of
       Some c \<Rightarrow> Some (mk (pc_URL c) (client_options c)) | None \<Rightarrow> map_of m region))"
  using assms
proof (induction cs arbitrary: m)
  case (Cons c cs)
  let ?new = "\<lambda>url opts. Some (mk url opts)" and ?m = "go_update m (pc_Region c) (mk (pc_URL c) (client_options c))"
  have "\<exists>m'. add_clients ?new files (map Some cs) ?m = Inr m' \<and> (go_map_ok ?m \<longrightarrow> go_map_ok m') \<and>
    (\<forall>region. map_of m' region = (case cluster_of cs region of
       Some d \<Rightarrow> Some (mk (pc_URL d) (client_options d)) | None \<Rightarrow> map_of ?m region))"
    by (rule Cons.IH) (simp add: Cons.prems)
  then show ?case
    by (elim exE, intro exI) (auto simp: Cons.prems cluster_of_Cons split: option.split)
qed (simp add: cluster_of_def)

text \<open>The tokens of a cluster can be read where they are in files, and its client can be made.\<close>

definition client_made :: "(string \<Rightarrow> client_option list \<Rightarrow> 'c option) \<Rightarrow> (string \<Rightarrow> string option) \<Rightarrow> ProxmoxCluster \<Rightarrow> bool" where
  "client_made NewAPIClient files c \<longleftrightarrow>
     (\<exists>c' px. read_tokens files c = Inr c' \<and> NewAPIClient (pc_URL c') (client_options c') = Some px)"

lemma read_tokens_region: "read_tokens files c = Inr c' \<Longrightarrow> pc_Region c' = pc_Region c"
  by (auto simp: read_tokens_def split: sum.splits)

lemma add_clients_iff:
  "(\<exists>m'. add_clients NewAPIClient files (map Some cs) m = Inr m') \<longleftrightarrow> (\<forall>c \<in> set cs. client_made NewAPIClient files c)"
  by (induction cs arbitrary: m) (auto simp: client_made_def split: sum.split option.split)

lemma add_clients_regions:
  "add_clients NewAPIClient files (map Some cs) m = Inr m' \<Longrightarrow> fst ` set m' = pc_Region ` set cs \<union> fst ` set m"
proof (induction cs arbitrary: m)
  case (Cons c cs)
  then show ?case by (auto simp: keys_go_update dest!: read_tokens_region split: sum.splits option.splits)
qed simp

lemma NewProxmoxPool_iff:
  "(\<exists>p. NewProxmoxPool NewAPIClient files (map Some cs) = Inr p) \<longleftrightarrow> cs \<noteq> [] \<and> (\<forall>c \<in> set cs. client_made NewAPIClient files c)"
  using add_clients_iff [of NewAPIClient files cs "[]"] by (auto simp: NewProxmoxPool_def split: sum.splits)

lemma NewProxmoxPool_regions:
  assumes "NewProxmoxPool NewAPIClient files (map Some cs) = Inr p"
  shows "set (GetRegions p) = pc_Region ` set cs"
proof -
  obtain m where "add_clients NewAPIClient files (map Some cs) [] = Inr m" "p = \<lparr>clients = m\<rparr>"
    using assms by (auto simp: NewProxmoxPool_def split: sum.splits if_splits)
  then show ?thesis using add_clients_regions [of NewAPIClient files cs "[]" m] by (simp add: GetRegions_def)
qed

lemma cluster_of_None: "cluster_of cs region = None \<longleftrightarrow> region \<notin> pc_Region ` set cs"
  by (auto simp: cluster_of_def find_None_iff)

lemma pool_of_config:
  assumes "ReadCloudConfig decode config = Inr cfg" and "cfg_Clusters cfg = map Some cs" and "cs \<noteq> []"
    and "\<forall>c \<in> set cs. Username c = [] \<or> Password c = [] \<or> no_token_files c"
  shows "\<exists>p. NewProxmoxPool (\<lambda>url opts. Some (mk url opts)) files (cfg_Clusters cfg) = Inr p \<and>
    distinct (GetRegions p) \<and> set (GetRegions p) = pc_Region ` set cs \<and>
    (\<forall>region. GetProxmoxCluster p region =
       (case cluster_of cs region of
          Some c \<Rightarrow> Inr (mk (pc_URL c) (client_options c)) | None \<Rightarrow> Inl ErrRegionNotFound)) \<and>
    (\<forall>c \<in> set cs. \<exists>cred. credential_options c = [cred])"
proof -
  have valid: "list_all valid_cluster cs"
    using ReadCloudConfig_clusters [OF assms(1)] assms(2) by (auto dest: map_injective)
  have "read_tokens files c = Inr c" if "c \<in> set cs" for c
    using valid assms(4) that by (intro read_tokens_same) (auto simp: list_all_iff valid_cluster_def split: if_splits)
  then obtain m where m: "add_clients (\<lambda>url opts. Some (mk url opts)) files (map Some cs) [] = Inr m" "go_map_ok m"
    "\<forall>region. map_of m region = (case cluster_of cs region of Some c \<Rightarrow> Some (mk (pc_URL c) (client_options c)) | None \<Rightarrow> None)"
    using add_clients_made [of cs files mk "[]"] by (auto simp: go_map_ok_def cong: option.case_cong)
  have "region \<in> fst ` set m \<longleftrightarrow> region \<in> pc_Region ` set cs" for region
    using m(3) cluster_of_None [of cs region] map_of_eq_None_iff [of m region] by (auto split: option.splits)
  then have "fst ` set m = pc_Region ` set cs" by blast
  moreover have "\<forall>c \<in> set cs. \<exists>cred. credential_options c = [cred]" using valid valid_credential by (auto simp: list_all_iff)
  ultimately show ?thesis
    using m assms(2,3)
    by (intro exI [of _ "\<lparr>clients = m\<rparr>"])
      (auto simp: NewProxmoxPool_def GetRegions_def GetProxmoxCluster_def go_map_ok_def split: option.split)
qed

text \<open>
  C32. A configuration that the reader accepts and that names at least one cluster, with no files for
  the tokens of clusters that log in with a password, gives a pool: every region of the configuration
  is in it once and no other one is, the client of a region is made from the last cluster with that
  region, and every cluster logs in with exactly one kind of credentials, whatever the files hold.
  The constructor of a client succeeds.
\<close>

theorem valid_config_pool:
  assumes "ReadCloudConfig decode config = Inr cfg" and "cfg_Clusters cfg = map Some cs" and "cs \<noteq> []"
    and "\<forall>c \<in> set cs. Username c = [] \<or> Password c = [] \<or> no_token_files c"
  shows "\<exists>p. NewProxmoxPool (\<lambda>url opts. Some (mk url opts)) files (cfg_Clusters cfg) = Inr p \<and>
    distinct (GetRegions p) \<and> set (GetRegions p) = pc_Region ` set cs \<and>
    (\<forall>region. GetProxmoxCluster p region =
       (case cluster_of cs region of
          Some c \<Rightarrow> Inr (mk (pc_URL c) (client_options c)) | None \<Rightarrow> Inl ErrRegionNotFound)) \<and>
    (\<forall>c \<in> set cs. \<exists>cred. credential_options c = [cred])"
  using assms by (rule pool_of_config)

definition example_token_cluster :: ProxmoxCluster where
  "example_token_cluster =
     \<lparr>pc_URL = ''https://example.com'', Insecure = False, TokenID = ''user!token-id'', TokenIDFile = ''/token'', TokenSecret = ''secret'',
      TokenSecretFile = [], Username = [], Password = [], pc_Region = ''cluster-1''\<rparr>"

definition example_password_cluster :: ProxmoxCluster where
  "example_password_cluster =
     \<lparr>pc_URL = ''https://example.com'', Insecure = True, TokenID = [], TokenIDFile = [], TokenSecret = [], TokenSecretFile = [],
      Username = ''user@pam'', Password = ''secret'', pc_Region = ''cluster-2''\<rparr>"

definition example_clusters :: ClustersConfig where
  "example_clusters = \<lparr>cfg_Provider = ''default'', cfg_Clusters = [Some example_token_cluster, Some example_password_cluster]\<rparr>"

lemma example_clusters_read: "ReadCloudConfig (\<lambda>yaml. Some example_clusters) (Some []) = Inr example_clusters"
  by (simp add: ReadCloudConfig_def example_clusters_def example_token_cluster_def example_password_cluster_def check_cluster_def HasPrefix_def)

theorem valid_config_pool_witness:
  "\<exists>p. NewProxmoxPool (\<lambda>url opts. Some (url, opts)) (\<lambda>path. None) (cfg_Clusters example_clusters) = Inr p \<and>
     set (GetRegions p) = {''cluster-1'', ''cluster-2''}"
  using valid_config_pool [OF example_clusters_read, of "[example_token_cluster, example_password_cluster]" Pair "\<lambda>path. None"]
  by (auto simp: example_clusters_def example_token_cluster_def example_password_cluster_def no_token_files_def)

text \<open>
  Two clusters with the same region are accepted, and the client of the first one is lost. A cluster
  that names files for its tokens is refused, although the pool could read them.
\<close>

lemma token_files_refused:
  "TokenID c = [] \<Longrightarrow> Username c = [] \<Longrightarrow> check_clusters 0 (Some c # cs) = Some (CredentialsRequired 1)"
  by (simp add: check_cluster_def)

end
