(* ===== verification/Reconciler.thy ===== *)
theory Reconciler
  imports Prelude
begin

text \<open>
  The event loop of the node scheduler (\<open>src/pkg/utils/reconciler/reconciler.go\<close>): file and timer
  events go through a bounded channel to one goroutine, which hands them to a handler and retries
  failed ones with growing delays. Times are nanoseconds; the zero time is \<open>0\<close> and the clock is
  past it. The handler is a parameter: it maps the state of the world and an event to the next
  state and tells whether it failed. (It does not send events itself: the only handler of the
  program leaves its \<open>sender\<close> alone.) The goroutines interleave at the channel, so the
  loop is a step relation; the operations on its queue are functions.
\<close>

section \<open>Events\<close>

type_synonym time = int

datatype EventType = FileEvent | SyncEvent

datatype event_data = FsData string "32 word" | TimeData time

record Event =
  ev_Type :: EventType
  ev_Key :: string
  ev_Data :: event_data

definition Event_Equal :: "Event \<Rightarrow> Event \<Rightarrow> bool" where
  "Event_Equal e other \<longleftrightarrow> ev_Type e = ev_Type other \<and> ev_Key e = ev_Key other"

record retryableEvent =
  re_event :: Event
  attempts :: int
  nextRetry :: time

record ReconcilerConfig =
  MaxRetries :: int
  BaseDelay :: time
  MaxDelay :: time
  WatchPath :: string
  SyncDelay :: time

definition DefaultConfig :: ReconcilerConfig where
  "DefaultConfig = \<lparr>MaxRetries = 5, BaseDelay = 2000000000, MaxDelay = 30000000000,
     WatchPath = ''/run/qemu-server'', SyncDelay = 0\<rparr>"

type_synonym 'w handler = "'w \<Rightarrow> Event \<Rightarrow> 'w \<times> bool"

section \<open>Retries\<close>

text \<open>
  The product of the base delay with a power of two is exact in \<open>float64\<close>; the conversion of a
  product beyond 63 bits yields the least integer (as on amd64).
\<close>

definition duration_of :: "int \<Rightarrow> time" where
  "duration_of x = (if x < 2 ^ 63 then x else - (2 ^ 63))"

definition retry_delay :: "ReconcilerConfig \<Rightarrow> int \<Rightarrow> time" where
  "retry_delay cfg n = min (duration_of (BaseDelay cfg * 2 ^ nat n)) (MaxDelay cfg)"

definition processRetryableEvent ::
  "ReconcilerConfig \<Rightarrow> 'w handler \<Rightarrow> time \<Rightarrow> retryableEvent \<Rightarrow> 'w \<Rightarrow> retryableEvent option \<times> 'w" where
  "processRetryableEvent cfg handle now re w =
     (let (w', failed) = handle w (re_event re)
      in if failed \<and> attempts re < MaxRetries cfg
         then (Some \<lparr>re_event = re_event re, attempts = attempts re + 1,
                     nextRetry = now + retry_delay cfg (attempts re)\<rparr>, w')
         else (None, w'))"

text \<open>An event from the channel replaces a waiting event for the same key.\<close>

fun replace_event :: "retryableEvent list \<Rightarrow> retryableEvent \<Rightarrow> retryableEvent list option" where
  "replace_event [] re = None"
| "replace_event (x # xs) re =
     (if Event_Equal (re_event x) (re_event re) then Some (re # xs)
      else map_option (Cons x) (replace_event xs re))"

definition receive_event ::
  "ReconcilerConfig \<Rightarrow> 'w handler \<Rightarrow> time \<Rightarrow> retryableEvent \<Rightarrow> retryableEvent list \<Rightarrow> 'w \<Rightarrow> retryableEvent list \<times> 'w" where
  "receive_event cfg handle now re queue w =
     (case replace_event queue re of
        Some queue' \<Rightarrow> (queue', w)
      | None \<Rightarrow>
          if attempts re = 0 \<or> now > nextRetry re
          then (case processRetryableEvent cfg handle now re w of
                  (Some retry, w') \<Rightarrow> (queue @ [retry], w')
                | (None, w') \<Rightarrow> (queue, w'))
          else (queue @ [re], w))"

text \<open>
  The ticker: every waiting event that is due is tried. The code builds the new queue in the array
  of the old one; it never writes past the element it reads.
\<close>

fun retry_tick ::
  "ReconcilerConfig \<Rightarrow> 'w handler \<Rightarrow> time \<Rightarrow> retryableEvent list \<Rightarrow> 'w \<Rightarrow> retryableEvent list \<times> 'w" where
  "retry_tick cfg handle now [] w = ([], w)"
| "retry_tick cfg handle now (re # res) w =
     (if now > nextRetry re
      then (let (retry, w') = processRetryableEvent cfg handle now re w;
                (queue, w'') = retry_tick cfg handle now res w'
            in (case retry of None \<Rightarrow> queue | Some r \<Rightarrow> r # queue, w''))
      else (let (queue, w') = retry_tick cfg handle now res w in (re # queue, w')))"

section \<open>The event loop\<close>

record 'w Reconciler =
  rf_channel :: "retryableEvent list"
  rf_queue :: "retryableEvent list"
  rf_cancelled :: bool
  rf_stopped :: bool
  rf_now :: time
  rf_world :: 'w

definition channel_capacity :: nat where
  "channel_capacity = 100"

definition NewReconciler :: "time \<Rightarrow> 'w \<Rightarrow> 'w Reconciler" where
  "NewReconciler now w = \<lparr>rf_channel = [], rf_queue = [], rf_cancelled = False, rf_stopped = False,
     rf_now = now, rf_world = w\<rparr>"

text \<open>\<open>SendEvent\<close>: possible outcomes; there is none while the channel is full and the context alive.\<close>

inductive SendEvent :: "'w Reconciler \<Rightarrow> Event \<Rightarrow> 'w Reconciler \<Rightarrow> bool" where
  send_stopped: "rf_stopped rf \<Longrightarrow> SendEvent rf e rf"
| send_cancelled: "\<not> rf_stopped rf \<Longrightarrow> rf_cancelled rf \<Longrightarrow> SendEvent rf e rf"
| send_queued: "\<not> rf_stopped rf \<Longrightarrow> length (rf_channel rf) < channel_capacity \<Longrightarrow>
    SendEvent rf e (rf\<lparr>rf_channel := rf_channel rf @ [\<lparr>re_event = e, attempts = 0, nextRetry = 0\<rparr>]\<rparr>)"

definition relevantOps :: "32 word" where
  "relevantOps = 7"

inductive rf_step ::
  "ReconcilerConfig \<Rightarrow> 'w handler \<Rightarrow> 'w Reconciler \<Rightarrow> 'w Reconciler \<Rightarrow> bool" for cfg handle where
  watchFiles: "WatchPath cfg \<noteq> [] \<Longrightarrow> and op relevantOps \<noteq> 0 \<Longrightarrow>
    SendEvent rf \<lparr>ev_Type = FileEvent, ev_Key = name, ev_Data = FsData name op\<rparr> rf' \<Longrightarrow> rf_step cfg handle rf rf'"
| watchTimer: "SyncDelay cfg > 0 \<Longrightarrow>
    SendEvent rf \<lparr>ev_Type = SyncEvent, ev_Key = ''sync'', ev_Data = TimeData (rf_now rf)\<rparr> rf' \<Longrightarrow> rf_step cfg handle rf rf'"
| processReceive: "rf_channel rf = re # res \<Longrightarrow>
    receive_event cfg handle (rf_now rf) re (rf_queue rf) (rf_world rf) = (queue, w) \<Longrightarrow>
    rf_step cfg handle rf (rf\<lparr>rf_channel := res, rf_queue := queue, rf_world := w\<rparr>)"
| processTick: "retry_tick cfg handle (rf_now rf) (rf_queue rf) (rf_world rf) = (queue, w) \<Longrightarrow>
    rf_step cfg handle rf (rf\<lparr>rf_queue := queue, rf_world := w\<rparr>)"
| clock: "t > rf_now rf \<Longrightarrow> rf_step cfg handle rf (rf\<lparr>rf_now := t\<rparr>)"
| Stop: "rf_step cfg handle rf (rf\<lparr>rf_cancelled := True, rf_stopped := True\<rparr>)"

inductive_cases SendEventE: "SendEvent rf e rf'"

section \<open>The queue\<close>

definition event_id :: "retryableEvent \<Rightarrow> EventType \<times> string" where
  "event_id re = (ev_Type (re_event re), ev_Key (re_event re))"

lemma Event_Equal_id: "Event_Equal (re_event x) (re_event y) \<longleftrightarrow> event_id x = event_id y"
  by (simp add: Event_Equal_def event_id_def)

text \<open>What the queue may hold at a time: one entry per key, none tried too often or due too late.\<close>

definition entry_bounded :: "ReconcilerConfig \<Rightarrow> time \<Rightarrow> retryableEvent \<Rightarrow> bool" where
  "entry_bounded cfg now re \<longleftrightarrow>
     0 \<le> attempts re \<and> attempts re \<le> max 0 (MaxRetries cfg) \<and> nextRetry re \<le> now + MaxDelay cfg"

definition queue_inv :: "ReconcilerConfig \<Rightarrow> time \<Rightarrow> retryableEvent list \<Rightarrow> bool" where
  "queue_inv cfg now queue \<longleftrightarrow> distinct (map event_id queue) \<and> list_all (entry_bounded cfg now) queue"

lemma retry_delay_le: "retry_delay cfg n \<le> MaxDelay cfg"
  by (simp add: retry_delay_def)

lemma processRetryableEvent_retry:
  assumes "processRetryableEvent cfg handle now re w = (Some r, w')"
  shows "event_id r = event_id re \<and> attempts r = attempts re + 1 \<and> attempts re < MaxRetries cfg \<and>
         nextRetry r = now + retry_delay cfg (attempts re)"
  using assms by (auto simp: processRetryableEvent_def event_id_def split: prod.splits if_splits)

lemma retry_bounded:
  assumes "processRetryableEvent cfg handle now re w = (Some r, w')" and "entry_bounded cfg now re"
  shows "entry_bounded cfg now r"
  using processRetryableEvent_retry [OF assms(1)] assms(2) retry_delay_le [of cfg "attempts re"]
  by (auto simp: entry_bounded_def)

lemma replace_event_None: "replace_event queue re = None \<longleftrightarrow> event_id re \<notin> event_id ` set queue"
  by (induction queue re rule: replace_event.induct) (auto simp: Event_Equal_id)

lemma replace_event_Some:
  "replace_event queue re = Some queue' \<Longrightarrow>
   map event_id queue' = map event_id queue \<and> set queue' \<subseteq> insert re (set queue)"
proof (induction queue re arbitrary: queue' rule: replace_event.induct)
  case (2 x xs re)
  then show ?case by (auto simp: Event_Equal_id split: if_splits)
qed simp

lemma receive_event_inv:
  assumes inv: "queue_inv cfg now queue" and re: "entry_bounded cfg now re"
    and run: "receive_event cfg handle now re queue w = (queue', w')"
  shows "queue_inv cfg now queue'"
proof (cases "replace_event queue re")
  case (Some q)
  with run replace_event_Some [OF Some] inv re show ?thesis
    by (auto simp: receive_event_def queue_inv_def list_all_iff)
next
  case None
  then have new: "event_id re \<notin> event_id ` set queue" by (simp add: replace_event_None)
  obtain retry v where p: "processRetryableEvent cfg handle now re w = (retry, v)" by fastforce
  show ?thesis
  proof (cases retry)
    case None
    with run p \<open>replace_event queue re = None\<close> inv re new show ?thesis
      by (auto simp: receive_event_def queue_inv_def split: if_splits)
  next
    case (Some r)
    have "event_id r = event_id re" "entry_bounded cfg now r"
      using processRetryableEvent_retry [OF p [unfolded Some]] retry_bounded [OF p [unfolded Some] re] by auto
    with run p Some \<open>replace_event queue re = None\<close> inv re new show ?thesis
      by (auto simp: receive_event_def queue_inv_def split: if_splits)
  qed
qed

lemma queue_inv_Cons:
  "queue_inv cfg now (re # res) \<longleftrightarrow> event_id re \<notin> event_id ` set res \<and> entry_bounded cfg now re \<and> queue_inv cfg now res"
  by (auto simp: queue_inv_def)

lemma retry_tick_inv:
  "queue_inv cfg now queue \<Longrightarrow> retry_tick cfg handle now queue w = (queue', w') \<Longrightarrow>
   queue_inv cfg now queue' \<and> event_id ` set queue' \<subseteq> event_id ` set queue"
proof (induction queue arbitrary: w queue' w')
  case (Cons re res)
  have re: "event_id re \<notin> event_id ` set res" "entry_bounded cfg now re" "queue_inv cfg now res"
    using Cons.prems(1) by (simp_all add: queue_inv_Cons)
  have keep: ?case if "queue' = r # q" "event_id r = event_id re" "entry_bounded cfg now r"
    "queue_inv cfg now q \<and> event_id ` set q \<subseteq> event_id ` set res" for r q
    using that re(1) by (auto simp: queue_inv_Cons)
  show ?case
  proof (cases "now > nextRetry re")
    case False
    obtain q v where q: "retry_tick cfg handle now res w = (q, v)" by fastforce
    show ?thesis by (rule keep [of re q]) (use False q Cons.prems(2) re Cons.IH [OF re(3) q] in auto)
  next
    case True
    obtain retry w1 where p: "processRetryableEvent cfg handle now re w = (retry, w1)" by fastforce
    obtain q v where q: "retry_tick cfg handle now res w1 = (q, v)" by fastforce
    note rest = Cons.IH [OF re(3) q]
    show ?thesis
    proof (cases retry)
      case None
      with True p q Cons.prems(2) rest show ?thesis by auto
    next
      case (Some r)
      show ?thesis
        by (rule keep [of r q])
          (use True p q Some Cons.prems(2) rest processRetryableEvent_retry [OF p [unfolded Some]]
            retry_bounded [OF p [unfolded Some] re(2)] in auto)
    qed
  qed
qed (simp add: queue_inv_def)

section \<open>Reachable states\<close>

definition rf_inv :: "ReconcilerConfig \<Rightarrow> 'w Reconciler \<Rightarrow> bool" where
  "rf_inv cfg rf \<longleftrightarrow>
     queue_inv cfg (rf_now rf) (rf_queue rf) \<and> list_all (\<lambda>re. attempts re = 0 \<and> nextRetry re = 0) (rf_channel rf) \<and>
     length (rf_channel rf) \<le> channel_capacity \<and> 0 \<le> rf_now rf"

lemma queue_inv_later: "queue_inv cfg now queue \<Longrightarrow> now \<le> t \<Longrightarrow> queue_inv cfg t queue"
  by (auto simp: queue_inv_def entry_bounded_def list_all_iff)

lemma SendEvent_inv: "SendEvent rf e rf' \<Longrightarrow> rf_inv cfg rf \<Longrightarrow> rf_inv cfg rf'"
  by (induction rule: SendEvent.induct) (auto simp: rf_inv_def)

lemma rf_step_inv:
  assumes "rf_step cfg handle rf rf'" and inv: "rf_inv cfg rf" and "0 \<le> MaxDelay cfg"
  shows "rf_inv cfg rf'"
  using assms(1)
proof cases
  case (watchFiles op name)
  then show ?thesis using SendEvent_inv inv by blast
next
  case watchTimer
  then show ?thesis using SendEvent_inv inv by blast
next
  case (processReceive re res queue w)
  have "entry_bounded cfg (rf_now rf) re"
    using inv assms(3) processReceive by (simp add: rf_inv_def entry_bounded_def)
  with receive_event_inv [OF _ this processReceive(3)] inv processReceive show ?thesis by (auto simp: rf_inv_def)
next
  case (processTick queue w)
  with retry_tick_inv [OF _ processTick(2)] inv show ?thesis by (auto simp: rf_inv_def)
next
  case (clock t)
  with inv queue_inv_later [of cfg "rf_now rf" "rf_queue rf" t] show ?thesis by (auto simp: rf_inv_def)
next
  case Stop
  with inv show ?thesis by (simp add: rf_inv_def)
qed

text \<open>What every call of the handler keeps, the event loop keeps.\<close>

lemma processRetryableEvent_world:
  assumes "\<And>w e. P w \<Longrightarrow> P (fst (handle w e))" and "P w" and "processRetryableEvent cfg handle now re w = (r, w')"
  shows "P w'"
  using assms(3) assms(1) [OF assms(2), of "re_event re"]
  by (auto simp: processRetryableEvent_def split: prod.splits if_splits)

lemma retry_tick_world:
  assumes keep: "\<And>w e. P w \<Longrightarrow> P (fst (handle w e))"
  shows "P w \<Longrightarrow> P (snd (retry_tick cfg handle now queue w))"
proof (induction queue arbitrary: w)
  case (Cons re res)
  obtain r w1 where p: "processRetryableEvent cfg handle now re w = (r, w1)" by fastforce
  have "P w1" using processRetryableEvent_world [of P, OF keep Cons.prems p] .
  with Cons p show ?case by (auto split: prod.split) (metis snd_conv)+
qed simp

lemma rf_step_world:
  assumes keep: "\<And>w e. P w \<Longrightarrow> P (fst (handle w e))" and step: "rf_step cfg handle rf rf'" and w: "P (rf_world rf)"
  shows "P (rf_world rf')"
  using step
proof cases
  case (watchFiles op name)
  from watchFiles(3) w show ?thesis by cases auto
next
  case watchTimer
  from watchTimer(2) w show ?thesis by cases auto
next
  case (processReceive re res queue v)
  obtain r w1 where p: "processRetryableEvent cfg handle (rf_now rf) re (rf_world rf) = (r, w1)" by fastforce
  have "P w1" using processRetryableEvent_world [of P, OF keep w p] .
  with processReceive p w show ?thesis
    by (auto simp: receive_event_def split: option.splits if_splits)
next
  case (processTick queue v)
  with retry_tick_world [where P = P and handle = handle and cfg = cfg and now = "rf_now rf" and queue = "rf_queue rf", OF keep w]
  show ?thesis by simp
qed (use w in auto)

section \<open>The life of one event\<close>

definition entry_of :: "Event \<Rightarrow> retryableEvent list \<Rightarrow> retryableEvent option" where
  "entry_of e queue = find (\<lambda>re. Event_Equal (re_event re) e) queue"

lemma entry_of_None: "entry_of e queue = None \<longleftrightarrow> (ev_Type e, ev_Key e) \<notin> event_id ` set queue"
  by (induction queue) (auto simp: entry_of_def Event_Equal_def event_id_def)

lemma entry_of_Cons:
  "entry_of e (re # queue) = (if event_id re = (ev_Type e, ev_Key e) then Some re else entry_of e queue)"
  by (simp add: entry_of_def Event_Equal_def event_id_def)

lemma retry_tick_ids:
  "retry_tick cfg handle now queue w = (queue', w') \<Longrightarrow> event_id ` set queue' \<subseteq> event_id ` set queue"
proof (induction queue arbitrary: w queue' w')
  case (Cons re res)
  then show ?case
    by (fastforce dest: processRetryableEvent_retry split: if_splits prod.splits option.splits)
qed simp

text \<open>One beat of the ticker, seen from the entry of an event.\<close>

lemma entry_of_tick:
  assumes "distinct (map event_id queue)" and "retry_tick cfg handle now queue w = (queue', w')"
    and "entry_of e queue = Some re"
  shows "\<exists>v. entry_of e queue' =
           (if now > nextRetry re then fst (processRetryableEvent cfg handle now re v) else Some re)"
  using assms
proof (induction queue arbitrary: w queue' w')
  case Nil
  then show ?case by (simp add: entry_of_def)
next
  case (Cons x xs)
  define id where "id = (ev_Type e, ev_Key e)"
  obtain r w1 where p: "(if now > nextRetry x then processRetryableEvent cfg handle now x w else (Some x, w)) = (r, w1)"
    by fastforce
  obtain q w2 where q: "retry_tick cfg handle now xs w1 = (q, w2)" by fastforce
  have queue': "queue' = (case r of None \<Rightarrow> q | Some y \<Rightarrow> y # q)"
    using Cons.prems(2) p q by (auto split: if_splits)
  have same: "event_id y = event_id x" if "r = Some y" for y
    using p that by (auto dest: processRetryableEvent_retry split: if_splits)
  show ?case
  proof (cases "event_id x = id")
    case True
    then have "entry_of e q = None" "re = x"
      using Cons.prems(1,3) retry_tick_ids [OF q] by (auto simp: entry_of_None entry_of_Cons id_def)
    then have "entry_of e queue' = r" using True same by (simp add: queue' entry_of_Cons id_def split: option.split)
    with p \<open>re = x\<close> show ?thesis by (metis fst_conv)
  next
    case False
    then have "entry_of e xs = Some re" using Cons.prems(3) by (simp add: entry_of_Cons id_def)
    from Cons.IH [OF _ q this] Cons.prems(1) obtain v where
      "entry_of e q = (if now > nextRetry re then fst (processRetryableEvent cfg handle now re v) else Some re)" by auto
    moreover have "entry_of e queue' = entry_of e q"
      using False same by (simp add: queue' entry_of_Cons id_def split: option.split)
    ultimately show ?thesis by (intro exI [of _ v]) simp
  qed
qed

fun run_ticks ::
  "ReconcilerConfig \<Rightarrow> 'w handler \<Rightarrow> time list \<Rightarrow> retryableEvent list \<Rightarrow> 'w \<Rightarrow> retryableEvent list \<times> 'w" where
  "run_ticks cfg handle [] queue w = (queue, w)"
| "run_ticks cfg handle (t # ts) queue w =
     (let (queue', w') = retry_tick cfg handle t queue w in run_ticks cfg handle ts queue' w')"

lemma retry_tick_distinct:
  "retry_tick cfg handle now queue w = (queue', w') \<Longrightarrow> distinct (map event_id queue) \<Longrightarrow> distinct (map event_id queue')"
proof (induction queue arbitrary: w queue' w')
  case (Cons x xs)
  obtain r w1 where p: "(if now > nextRetry x then processRetryableEvent cfg handle now x w else (Some x, w)) = (r, w1)"
    by fastforce
  obtain q w2 where q: "retry_tick cfg handle now xs w1 = (q, w2)" by fastforce
  have queue': "queue' = (case r of None \<Rightarrow> q | Some y \<Rightarrow> y # q)"
    using Cons.prems(1) p q by (auto split: if_splits)
  have "event_id y = event_id x" if "r = Some y" for y
    using p that by (auto dest: processRetryableEvent_retry split: if_splits)
  with Cons.IH [OF q] Cons.prems(2) retry_tick_ids [OF q] show ?case
    by (auto simp: queue' split: option.split)
qed simp

lemma run_ticks_append:
  "run_ticks cfg handle (ts @ us) queue w =
     (let (queue', w') = run_ticks cfg handle ts queue w in run_ticks cfg handle us queue' w')"
  by (induction ts arbitrary: queue w) (auto split: prod.split)

lemma run_ticks_distinct:
  "distinct (map event_id queue) \<Longrightarrow> distinct (map event_id (fst (run_ticks cfg handle ts queue w)))"
proof (induction ts arbitrary: queue w)
  case (Cons t ts)
  obtain queue' w' where "retry_tick cfg handle t queue w = (queue', w')" by fastforce
  with Cons retry_tick_distinct show ?case by fastforce
qed simp

text \<open>An entry stays as it is until it is due, and an event that has left the queue does not come back.\<close>

lemma run_ticks_waits:
  assumes "distinct (map event_id queue)" and "entry_of e queue = Some re" and "\<forall>t \<in> set ts. t \<le> nextRetry re"
  shows "entry_of e (fst (run_ticks cfg handle ts queue w)) = Some re"
  using assms
proof (induction ts arbitrary: queue w)
  case (Cons t ts)
  obtain queue' w' where tick: "retry_tick cfg handle t queue w = (queue', w')" by fastforce
  have "entry_of e queue' = Some re"
    using entry_of_tick [OF Cons.prems(1) tick Cons.prems(2)] Cons.prems(3) by auto
  with Cons.IH [OF retry_tick_distinct [OF tick Cons.prems(1)]] Cons.prems(3) tick show ?case by simp
qed simp

lemma run_ticks_gone:
  "entry_of e queue = None \<Longrightarrow> entry_of e (fst (run_ticks cfg handle ts queue w)) = None"
proof (induction ts arbitrary: queue w)
  case (Cons t ts)
  obtain queue' w' where tick: "retry_tick cfg handle t queue w = (queue', w')" by fastforce
  have "entry_of e queue' = None" using retry_tick_ids [OF tick] Cons.prems by (auto simp: entry_of_None)
  with Cons.IH tick show ?case by simp
qed simp

text \<open>The ticker of \<open>processRetries\<close> beats every second; the first \<open>n\<close> beats from a time on.\<close>

definition second :: time where
  "second = 1000000000"

definition beats :: "time \<Rightarrow> nat \<Rightarrow> time list" where
  "beats t n = map (\<lambda>i. t + int i * second) [0..<n]"

lemma beats_add: "beats t (m + n) = beats t m @ beats (t + int m * second) n"
  by (induction n) (simp_all add: beats_def algebra_simps)

text \<open>
  The beat of the \<open>k\<close>-th retry of an entry that is due at the first beat and has been tried \<open>a\<close> times:
  each delay is the base delay doubled with every try, up to the maximal one, and the entry is due at
  the first beat after it.
\<close>

fun retry_beat :: "ReconcilerConfig \<Rightarrow> nat \<Rightarrow> nat \<Rightarrow> nat" where
  "retry_beat cfg a 0 = 0"
| "retry_beat cfg a (Suc k) = retry_beat cfg a k + nat (min (BaseDelay cfg * 2 ^ (a + k)) (MaxDelay cfg) div second) + 1"

lemma retry_delay_doubles:
  assumes "0 \<le> BaseDelay cfg" and "BaseDelay cfg * 2 ^ nat (MaxRetries cfg) < 2 ^ 63" and "int n \<le> MaxRetries cfg"
  shows "retry_delay cfg (int n) = min (BaseDelay cfg * 2 ^ n) (MaxDelay cfg)"
proof -
  have "BaseDelay cfg * 2 ^ n \<le> BaseDelay cfg * 2 ^ nat (MaxRetries cfg)"
    using assms(1,3) by (intro mult_left_mono power_increasing) auto
  with assms(2) show ?thesis by (simp add: retry_delay_def duration_of_def)
qed

lemma beats_wait:
  assumes "0 \<le> d"
  shows "int (nat (d div second)) * second \<le> d" and "d < (int (nat (d div second)) + 1) * second"
proof -
  have "int (nat (d div second)) = d div second" using assms by (simp add: second_def pos_imp_zdiv_nonneg_iff)
  then show "int (nat (d div second)) * second \<le> d" "d < (int (nat (d div second)) + 1) * second"
    unfolding second_def by presburger+
qed

text \<open>The retry that is due, and the beats after it up to the next one.\<close>

lemma retry_round:
  assumes dist: "distinct (map event_id queue)" and entry: "entry_of e queue = Some re" and due: "nextRetry re < t"
    and fails: "\<And>w. snd (handle w (re_event re))" and left: "attempts re < MaxRetries cfg"
    and wait: "int n * second \<le> retry_delay cfg (attempts re)"
  shows "entry_of e (fst (run_ticks cfg handle (beats t (Suc n)) queue w)) =
    Some \<lparr>re_event = re_event re, attempts = attempts re + 1, nextRetry = t + retry_delay cfg (attempts re)\<rparr>"
proof -
  obtain queue' w' where tick: "retry_tick cfg handle t queue w = (queue', w')" by fastforce
  let ?re = "\<lparr>re_event = re_event re, attempts = attempts re + 1, nextRetry = t + retry_delay cfg (attempts re)\<rparr>"
  obtain v where "entry_of e queue' = fst (processRetryableEvent cfg handle t re v)"
    using entry_of_tick [OF dist tick entry] due by auto
  then have next_entry: "entry_of e queue' = Some ?re"
    using left fails [of v] by (auto simp: processRetryableEvent_def split: prod.split)
  have "u \<le> nextRetry ?re" if beat: "u \<in> set (beats (t + second) n)" for u
  proof -
    from beat obtain i where "i < n" "u = t + second + int i * second" by (auto simp: beats_def)
    moreover have "(int i + 1) * second \<le> int n * second" using \<open>i < n\<close> by (intro mult_right_mono) (auto simp: second_def)
    ultimately show ?thesis using wait by (simp add: algebra_simps)
  qed
  then have "entry_of e (fst (run_ticks cfg handle (beats (t + second) n) queue' w')) = Some ?re"
    by (intro run_ticks_waits [OF retry_tick_distinct [OF tick dist] next_entry]) blast
  moreover have "beats t (Suc n) = t # beats (t + second) n"
    using beats_add [of t 1 n] by (simp add: beats_def)
  ultimately show ?thesis using tick by simp
qed

text \<open>The last retry.\<close>

lemma retry_gives_up:
  assumes "distinct (map event_id queue)" and "entry_of e queue = Some re" and "nextRetry re < t"
    and "MaxRetries cfg \<le> attempts re"
  shows "entry_of e (fst (run_ticks cfg handle (beats t (Suc n)) queue w)) = None"
proof -
  obtain queue' w' where tick: "retry_tick cfg handle t queue w = (queue', w')" by fastforce
  have "entry_of e queue' = None"
    using entry_of_tick [OF assms(1) tick assms(2)] assms(3,4) by (auto simp: processRetryableEvent_def split: prod.splits)
  moreover have "beats t (Suc n) = t # beats (t + second) n"
    using beats_add [of t 1 n] by (simp add: beats_def)
  ultimately show ?thesis using tick run_ticks_gone by simp
qed

section \<open>Properties of the event loop\<close>

definition example_event :: Event where
  "example_event = \<lparr>ev_Type = FileEvent, ev_Key = ''100.pid'', ev_Data = FsData ''100.pid'' 1\<rparr>"

text \<open>
  C20. In every state the event loop reaches, whatever the handler does and however the watchers,
  the ticker, the clock and a shutdown interleave, the queue holds at most one entry for each
  event, no entry has been tried more often than allowed or is due later than the maximal delay
  from now, and the channel stays within its capacity.
\<close>

theorem retry_queue_bounded:
  assumes "(rf_step cfg handle)\<^sup>*\<^sup>* (NewReconciler now w) rf" and "0 \<le> now" and "0 \<le> MaxDelay cfg"
  shows "distinct (map event_id (rf_queue rf)) \<and>
         (\<forall>re \<in> set (rf_queue rf). attempts re \<le> max 0 (MaxRetries cfg) \<and> nextRetry re \<le> rf_now rf + MaxDelay cfg) \<and>
         length (rf_channel rf) \<le> 100"
proof -
  have "rf_inv cfg rf"
    using assms(1)
  proof (induction rule: rtranclp_induct)
    case base
    show ?case using assms(2) by (simp add: rf_inv_def NewReconciler_def queue_inv_def)
  next
    case (step q r)
    then show ?case using rf_step_inv assms(3) by blast
  qed
  then show ?thesis
    by (auto simp: rf_inv_def queue_inv_def list_all_iff entry_bounded_def channel_capacity_def)
qed

theorem retry_queue_bounded_witness:
  "let rf = (NewReconciler 5 ())\<lparr>rf_channel := [\<lparr>re_event = example_event, attempts = 0, nextRetry = 0\<rparr>]\<rparr>
   in distinct (map event_id (rf_queue rf)) \<and>
      (\<forall>re \<in> set (rf_queue rf). attempts re \<le> max 0 (MaxRetries DefaultConfig) \<and>
         nextRetry re \<le> rf_now rf + MaxDelay DefaultConfig) \<and>
      length (rf_channel rf) \<le> 100"
  unfolding Let_def
proof (rule retry_queue_bounded [where handle = "\<lambda>w e. (w, True)" and now = 5 and w = "()"])
  let ?rf = "NewReconciler 5 ()"
  have "SendEvent ?rf example_event
      (?rf\<lparr>rf_channel := rf_channel ?rf @ [\<lparr>re_event = example_event, attempts = 0, nextRetry = 0\<rparr>]\<rparr>)"
    by (rule SendEvent.send_queued) (simp_all add: NewReconciler_def channel_capacity_def)
  then have "rf_step DefaultConfig (\<lambda>w e. (w, True)) ?rf
      (?rf\<lparr>rf_channel := [\<lparr>re_event = example_event, attempts = 0, nextRetry = 0\<rparr>]\<rparr>)"
    by (intro rf_step.watchFiles [where op = 1 and name = "''100.pid''"])
      (simp_all add: DefaultConfig_def relevantOps_def NewReconciler_def example_event_def)
  then show "(rf_step DefaultConfig (\<lambda>w e. (w, True)))\<^sup>*\<^sup>* ?rf
      (?rf\<lparr>rf_channel := [\<lparr>re_event = example_event, attempts = 0, nextRetry = 0\<rparr>]\<rparr>)"
    by (rule r_into_rtranclp)
qed (simp_all add: DefaultConfig_def)

text \<open>The entry at the beat of its \<open>k\<close>-th retry.\<close>

lemma retry_beat_entry:
  assumes dist: "distinct (map event_id queue)" and entry: "entry_of e queue = Some re" "attempts re = int a"
    and fails: "\<And>w. snd (handle w (re_event re))" and due: "nextRetry re < t"
    and cfg: "0 \<le> BaseDelay cfg" "0 \<le> MaxDelay cfg" "BaseDelay cfg * 2 ^ nat (MaxRetries cfg) < 2 ^ 63"
  shows "int a + int k \<le> MaxRetries cfg \<Longrightarrow>
    \<exists>re'. entry_of e (fst (run_ticks cfg handle (beats t (retry_beat cfg a k)) queue w)) = Some re' \<and>
      re_event re' = re_event re \<and> attempts re' = int (a + k) \<and> nextRetry re' < t + int (retry_beat cfg a k) * second"
proof (induction k)
  case 0
  with entry due show ?case by (simp add: beats_def)
next
  case (Suc k)
  let ?b = "retry_beat cfg a k" and ?d = "min (BaseDelay cfg * 2 ^ (a + k)) (MaxDelay cfg)"
  obtain q v where run: "run_ticks cfg handle (beats t ?b) queue w = (q, v)" by fastforce
  obtain re1 where re1: "entry_of e q = Some re1" "re_event re1 = re_event re" "attempts re1 = int (a + k)"
    "nextRetry re1 < t + int ?b * second" using Suc run by auto
  have delay: "retry_delay cfg (attempts re1) = ?d"
    unfolding re1(3) by (rule retry_delay_doubles) (use Suc.prems cfg in auto)
  have "0 \<le> ?d" using cfg by simp
  note wait = beats_wait [OF this]
  have dist': "distinct (map event_id q)" using run_ticks_distinct [OF dist, of cfg handle "beats t ?b" w] run by simp
  have "entry_of e (fst (run_ticks cfg handle (beats (t + int ?b * second) (Suc (nat (?d div second)))) q v)) =
      Some \<lparr>re_event = re_event re, attempts = int (a + Suc k), nextRetry = t + int ?b * second + ?d\<rparr>"
    using retry_round [OF dist' re1(1,4), of handle cfg "nat (?d div second)" v] fails Suc.prems wait(1)
    unfolding delay by (simp add: re1)
  moreover have "beats t (retry_beat cfg a (Suc k)) = beats t ?b @ beats (t + int ?b * second) (Suc (nat (?d div second)))"
    using beats_add [of t ?b "Suc (nat (?d div second))"] by simp
  ultimately show ?case using wait(2) by (simp add: run_ticks_append run algebra_simps)
qed

text \<open>
  C21. An event whose handler keeps failing is retried at growing distances and then given up. With the
  ticker of the event loop, which beats every second, and the clock standing still while the handler
  runs, the waiting times double from the base delay on up to the maximal delay, and each retry happens at
  the first beat after its waiting time. Between two retries the number of tries stays the same; after the last
  one that is allowed the event has left the queue. With the default configuration an entry that has not
  been tried and is due at beat 0 is tried at the beats 0, 3, 8, 17, 34 and 65.
\<close>

theorem retries_exhausted:
  assumes dist: "distinct (map event_id queue)" and entry: "entry_of e queue = Some re" "attempts re = int a"
    and fails: "\<And>w. snd (handle w (re_event re))" and due: "nextRetry re < t"
    and cfg: "0 \<le> BaseDelay cfg" "0 \<le> MaxDelay cfg" "BaseDelay cfg * 2 ^ nat (MaxRetries cfg) < 2 ^ 63"
      "MaxRetries cfg = int a + int m"
  shows "(\<forall>k < m. \<forall>n. retry_beat cfg a k < n \<and> n \<le> retry_beat cfg a (Suc k) \<longrightarrow>
      map_option attempts (entry_of e (fst (run_ticks cfg handle (beats t n) queue w))) = Some (int a + int k + 1)) \<and>
    (\<forall>n > retry_beat cfg a m. entry_of e (fst (run_ticks cfg handle (beats t n) queue w)) = None)"
proof -
  have at_beat: "\<exists>q v re'. run_ticks cfg handle (beats t (retry_beat cfg a k)) queue w = (q, v) \<and> distinct (map event_id q) \<and>
      entry_of e q = Some re' \<and> re_event re' = re_event re \<and> attempts re' = int (a + k) \<and>
      nextRetry re' < t + int (retry_beat cfg a k) * second" if "k \<le> m" for k
    using retry_beat_entry [where handle = handle and k = k and w = w, OF dist entry fails due cfg(1-3)] that cfg(4)
      run_ticks_distinct [OF dist, of cfg handle "beats t (retry_beat cfg a k)" w]
    by (metis add_left_mono fst_conv of_nat_mono surj_pair)
  have later: "run_ticks cfg handle (beats t n) queue w =
      (let (q, v) = run_ticks cfg handle (beats t b) queue w in run_ticks cfg handle (beats (t + int b * second) (Suc (n - b - 1))) q v)"
    if "b < n" for b n
    using that beats_add [of t b "Suc (n - b - 1)"] by (simp add: run_ticks_append)
  have "map_option attempts (entry_of e (fst (run_ticks cfg handle (beats t n) queue w))) = Some (int a + int k + 1)"
    if k: "k < m" and n: "retry_beat cfg a k < n" "n \<le> retry_beat cfg a (Suc k)" for k n
  proof -
    from at_beat [of k] k obtain q v re' where q: "run_ticks cfg handle (beats t (retry_beat cfg a k)) queue w = (q, v)"
      "distinct (map event_id q)" "entry_of e q = Some re'" "re_event re' = re_event re" "attempts re' = int (a + k)"
      "nextRetry re' < t + int (retry_beat cfg a k) * second" by auto
    let ?d = "min (BaseDelay cfg * 2 ^ (a + k)) (MaxDelay cfg)"
    have delay: "retry_delay cfg (attempts re') = ?d"
      unfolding q(5) by (rule retry_delay_doubles) (use k cfg in auto)
    have "int (n - retry_beat cfg a k - 1) * second \<le> int (nat (?d div second)) * second"
      using n by (intro mult_right_mono) (auto simp: second_def)
    also have "\<dots> \<le> ?d" using cfg(1,2) by (intro beats_wait(1)) simp
    finally show ?thesis
      using retry_round [OF q(2,3,6), of handle cfg "n - retry_beat cfg a k - 1" v] fails k cfg(4) q(4,5)
      unfolding delay later [OF n(1)] q(1) by simp
  qed
  moreover have "entry_of e (fst (run_ticks cfg handle (beats t n) queue w)) = None" if n: "retry_beat cfg a m < n" for n
  proof -
    from at_beat [of m] obtain q v re' where q: "run_ticks cfg handle (beats t (retry_beat cfg a m)) queue w = (q, v)"
      "distinct (map event_id q)" "entry_of e q = Some re'" "attempts re' = int (a + m)"
      "nextRetry re' < t + int (retry_beat cfg a m) * second" by auto
    have "entry_of e (fst (run_ticks cfg handle (beats (t + int (retry_beat cfg a m) * second) (Suc l)) q v)) = None" for l
      by (rule retry_gives_up [OF q(2,3,5)]) (simp add: q(4) cfg(4))
    then show ?thesis unfolding later [OF n] q(1) by simp
  qed
  ultimately show ?thesis by blast
qed

theorem retries_exhausted_witness:
  "let queue = [\<lparr>re_event = example_event, attempts = 1, nextRetry = 0\<rparr>];
       entry = (\<lambda>n. entry_of example_event (fst (run_ticks DefaultConfig (\<lambda>w e. (w + 1, True)) (beats second n) queue (0::int))))
   in map_option attempts (entry 5) = Some 2 \<and> map_option attempts (entry 6) = Some 3 \<and> entry 63 = None"
proof -
  have beat: "retry_beat DefaultConfig 1 (Suc 0) = 5" "retry_beat DefaultConfig 1 (Suc (Suc 0)) = 14" "retry_beat DefaultConfig 1 4 = 62"
    by code_simp+
  let ?re = "\<lparr>re_event = example_event, attempts = 1, nextRetry = 0\<rparr>" and ?handle = "\<lambda>w e. (w + 1 :: int, True)"
  have run: "(\<forall>k < 4. \<forall>n. retry_beat DefaultConfig 1 k < n \<and> n \<le> retry_beat DefaultConfig 1 (Suc k) \<longrightarrow>
      map_option attempts (entry_of example_event (fst (run_ticks DefaultConfig ?handle (beats second n) [?re] 0))) = Some (int 1 + int k + 1)) \<and>
    (\<forall>n > retry_beat DefaultConfig 1 4. entry_of example_event (fst (run_ticks DefaultConfig ?handle (beats second n) [?re] 0)) = None)"
    by (rule retries_exhausted [where re = ?re]) (simp_all add: entry_of_def Event_Equal_def DefaultConfig_def second_def)
  have "map_option attempts (entry_of example_event (fst (run_ticks DefaultConfig ?handle (beats second 5) [?re] 0))) = Some (int 1 + int 0 + 1)"
    "map_option attempts (entry_of example_event (fst (run_ticks DefaultConfig ?handle (beats second 6) [?re] 0))) = Some (int 1 + int 1 + 1)"
    using conjunct1 [OF run, rule_format, of 0 5] conjunct1 [OF run, rule_format, of 1 6] beat(1,2)
    by (simp_all del: retry_beat.simps(2) run_ticks.simps)
  moreover have "entry_of example_event (fst (run_ticks DefaultConfig ?handle (beats second 63) [?re] 0)) = None"
    by (rule conjunct2 [OF run, rule_format]) (simp only: beat)
  ultimately show ?thesis unfolding Let_def by (simp del: run_ticks.simps)
qed

end
