(* ===== verification/Scheduler.thy ===== *)
theory Scheduler
  imports SysNode Reconciler SimplePolicy
begin

text \<open>
  The scheduler that runs on every Proxmox host (\<open>src/cmd/proxmox-scheduler/scheduler.go\<close>,
  \<open>vm.go\<close>): when a VM starts, its CPU threads are pinned to the cores of its affinity and the cores
  get the busy governor; when it stops, cores nobody else uses get the free governor. The handler
  keeps a table of the running VMs. Its operations map the host, that is the table together with
  the operating system, to the host afterwards. Maps of the code are association lists; the order
  in which \<open>UnsortedList\<close> enumerates a CPU set is a parameter.
\<close>

section \<open>State\<close>

record VMInfo =
  vi_VMID :: int
  vi_PID :: int
  vi_Name :: string
  vi_Cores :: int
  AffinitySet :: CPUSet

record VMTracker =
  vms :: "(int, VMInfo) go_map"
  sharedCPUs :: CPUSet
  tr_usedCPUs :: CPUSet

record scheduler_env =
  se_topology :: "Topology option"
  se_parse :: "string \<Rightarrow> CPUSet option"
  se_render :: "CPUSet \<Rightarrow> string"
  se_unsorted :: "CPUSet \<Rightarrow> int list"
  se_local :: "int \<Rightarrow> local_config option"
  watchPath :: string
  cpuGovernorBusy :: string
  cpuGovernorFree :: string

record host =
  tracker :: VMTracker
  host_os :: os

datatype scheduler_error =
    NoProcess int
  | NoThreads int
  | SysError sys_error
  | NoConfig int
  | BadAffinity string
  | NoPIDDirectory string

definition NewHandler :: VMTracker where
  "NewHandler = \<lparr>vms = [], sharedCPUs = {}, tr_usedCPUs = {}\<rparr>"

section \<open>Tracking\<close>

text \<open>An affinity that cannot be parsed is logged and ignored.\<close>

definition config_affinity :: "scheduler_env \<Rightarrow> local_config \<Rightarrow> CPUSet" where
  "config_affinity env cfg =
     (if lc_Affinity cfg = [] then {}
      else case se_parse env (lc_Affinity cfg) of None \<Rightarrow> {} | Some cpus \<Rightarrow> cpus)"

definition updateVMInfo :: "scheduler_env \<Rightarrow> int \<Rightarrow> int \<Rightarrow> local_config \<Rightarrow> VMTracker \<Rightarrow> VMTracker" where
  "updateVMInfo env vmID pid cfg t =
     (let affinity = config_affinity env cfg;
          used = tr_usedCPUs t \<union> affinity
      in t\<lparr>vms := go_update (vms t) vmID
              \<lparr>vi_VMID = vmID, vi_PID = pid, vi_Name = lc_Name cfg, vi_Cores = lc_Cores cfg, AffinitySet = affinity\<rparr>,
           tr_usedCPUs := used,
           sharedCPUs := (case se_topology env of
                            None \<Rightarrow> sharedCPUs t
                          | Some tp \<Rightarrow> CPUs (Details (CPUTopo tp)) - used)\<rparr>)"

text \<open>The cores only the stopped VM was pinned to.\<close>

definition freed_cpus :: "int \<Rightarrow> VMInfo \<Rightarrow> (int, VMInfo) go_map \<Rightarrow> CPUSet" where
  "freed_cpus vmID info m =
     foldl (\<lambda>cpus (i, other). if i = vmID then cpus
                              else if Size (AffinitySet other) > 0 then cpus - AffinitySet other else cpus)
       (AffinitySet info) m"

definition handleVMStop :: "scheduler_env \<Rightarrow> int \<Rightarrow> host \<Rightarrow> host" where
  "handleVMStop env vmID h =
     (case map_of (vms (tracker h)) vmID of
        None \<Rightarrow> h
      | Some info \<Rightarrow>
          let cpus = freed_cpus vmID info (vms (tracker h));
              os' = (if Size cpus > 0 \<and> cpuGovernorFree env \<noteq> []
                     then snd (SetCPUGovernor (host_os h) (List cpus) (cpuGovernorFree env)) else host_os h)
          in h\<lparr>tracker := (tracker h)\<lparr>vms := filter (\<lambda>(i, info). i \<noteq> vmID) (vms (tracker h))\<rparr>, host_os := os'\<rparr>)"

section \<open>Starting a VM\<close>

definition set_device_irqs :: "scheduler_env \<Rightarrow> CPUSet \<Rightarrow> VfioPciDevice \<Rightarrow> os \<Rightarrow> os" where
  "set_device_irqs env cpus dev os =
     (case GetPciDeviceIRQs os (HostAddress dev) of
        Inl e \<Rightarrow> os
      | Inr irqs \<Rightarrow> if irqs = [] then os else snd (SetPciIRQAffinity (se_render env) os irqs cpus))"

definition steer_devices :: "scheduler_env \<Rightarrow> int \<Rightarrow> local_config \<Rightarrow> CPUSet \<Rightarrow> os \<Rightarrow> os" where
  "steer_devices env pid cfg cpus os =
     (if lc_HostPCIs cfg = [] then os
      else case GetProcessCmdline os pid of
             Inl e \<Rightarrow> os
           | Inr args \<Rightarrow> fold (set_device_irqs env cpus) (ParseVfioPciDevices args) os)"

definition topology_mismatch :: "scheduler_env \<Rightarrow> CPUSet \<Rightarrow> bool" where
  "topology_mismatch env cpus =
     (case se_topology env of
        None \<Rightarrow> False
      | Some tp \<Rightarrow> Size (CPUs (Details (CPUTopo tp)) \<inter> cpus) \<noteq> Size cpus)"

definition pin_vm :: "scheduler_env \<Rightarrow> int \<Rightarrow> int list \<Rightarrow> CPUSet \<Rightarrow> os \<Rightarrow> os" where
  "pin_vm env pid threads cpus os =
     (let os1 = snd (PinThreadsToCores os pid threads (se_unsorted env cpus))
      in if cpuGovernorBusy env \<noteq> [] then snd (SetCPUGovernor os1 (List cpus) (cpuGovernorBusy env)) else os1)"

text \<open>
  A VM whose affinity does not fit the topology is left alone: the code returns before the table is
  updated. Failures to pin or to set a governor are logged only.
\<close>

definition handleVMStart :: "scheduler_env \<Rightarrow> int \<Rightarrow> int \<Rightarrow> host \<Rightarrow> scheduler_error option \<times> host" where
  "handleVMStart env vmID pid h =
     (if \<not> ProcessExists (host_os h) pid then (Some (NoProcess vmID), h)
      else case GetProcessThreads (host_os h) pid ''CPU'' of
             Inl e \<Rightarrow> (Some (SysError e), h)
           | Inr threads \<Rightarrow>
               if threads = [] then (Some (NoThreads vmID), h)
               else (case LoadVMConfig (se_parse env) (se_local env) vmID of
                       None \<Rightarrow> (Some (NoConfig vmID), h)
                     | Some cfg \<Rightarrow>
                         if lc_Affinity cfg = []
                         then (None, h\<lparr>tracker := updateVMInfo env vmID pid cfg (tracker h)\<rparr>)
                         else (case se_parse env (lc_Affinity cfg) of
                                 None \<Rightarrow> (Some (BadAffinity (lc_Affinity cfg)), h)
                               | Some cpus \<Rightarrow>
                                   if lc_Cores cfg = Size cpus \<and> topology_mismatch env cpus then (None, h)
                                   else let os1 = (if lc_Cores cfg = Size cpus
                                                   then pin_vm env pid threads cpus (host_os h) else host_os h)
                                        in (None, h\<lparr>tracker := updateVMInfo env vmID pid cfg (tracker h),
                                                    host_os := steer_devices env pid cfg cpus os1\<rparr>))))"

section \<open>Events\<close>

definition pidFileExtension :: string where
  "pidFileExtension = ''.pid''"

definition getVMIDs :: "os \<Rightarrow> string \<Rightarrow> (int \<times> int) option" where
  "getVMIDs os pidFile =
     (case CutSuffix pidFile pidFileExtension of
        None \<Rightarrow> None
      | Some s \<Rightarrow>
          (case Atoi (path_Base s) of
             None \<Rightarrow> None
           | Some vmID \<Rightarrow>
               (case GetPidFromFile os pidFile of Inl e \<Rightarrow> None | Inr pid \<Rightarrow> Some (vmID, pid))))"

definition getRunningVMs :: "scheduler_env \<Rightarrow> os \<Rightarrow> (int, int) go_map option" where
  "getRunningVMs env os =
     (case os_dir os (watchPath env) of
        None \<Rightarrow> None
      | Some entries \<Rightarrow>
          Some (foldl (\<lambda>m (name, dir).
            if dir \<or> CutSuffix name pidFileExtension = None then m
            else case getVMIDs os (watchPath env @ ''/'' @ name) of
                   None \<Rightarrow> m
                 | Some (vmID, pid) \<Rightarrow> if ProcessExists os pid then go_update m vmID pid else m) [] entries))"

definition handleSyncEvent :: "scheduler_env \<Rightarrow> host \<Rightarrow> scheduler_error option \<times> host" where
  "handleSyncEvent env h =
     (case getRunningVMs env (host_os h) of
        None \<Rightarrow> (Some (NoPIDDirectory (watchPath env)), h)
      | Some running \<Rightarrow>
          (None, h\<lparr>tracker :=
             foldl (\<lambda>t (vmID, pid).
                case LoadVMConfig (se_parse env) (se_local env) vmID of
                  None \<Rightarrow> t
                | Some cfg \<Rightarrow> updateVMInfo env vmID pid cfg t)
               ((tracker h)\<lparr>tr_usedCPUs := {}, vms := []\<rparr>) running\<rparr>))"

definition fsnotify_Remove :: "32 word" where
  "fsnotify_Remove = 4"

text \<open>The handler of the event loop.\<close>

definition Reconcile :: "scheduler_env \<Rightarrow> host handler" where
  "Reconcile env h event =
     (case ev_Type event of
        SyncEvent \<Rightarrow> (let (e, h') = handleSyncEvent env h in (h', e \<noteq> None))
      | FileEvent \<Rightarrow>
          (case ev_Data event of
             TimeData t \<Rightarrow> (h, False)
           | FsData name op \<Rightarrow>
               (case CutSuffix name pidFileExtension of
                  None \<Rightarrow> (h, False)
                | Some s \<Rightarrow>
                    (case Atoi (path_Base s) of
                       None \<Rightarrow> (h, False)
                     | Some vmID \<Rightarrow>
                         if vmID \<le> 0 then (h, False)
                         else if op = fsnotify_Remove then (handleVMStop env vmID h, False)
                         else (case GetPidFromFile (host_os h) name of
                                 Inl e \<Rightarrow> (h, True)
                               | Inr pid \<Rightarrow> (let (e, h') = handleVMStart env vmID pid h in (h', e \<noteq> None)))))))"

section \<open>The table of running VMs\<close>

definition tracker_inv :: "scheduler_env \<Rightarrow> VMTracker \<Rightarrow> bool" where
  "tracker_inv env t \<longleftrightarrow>
     (\<forall>(i, info) \<in> set (vms t). AffinitySet info \<subseteq> tr_usedCPUs t) \<and>
     sharedCPUs t \<inter> tr_usedCPUs t = {} \<and> (se_topology env = None \<longrightarrow> sharedCPUs t = {})"

lemma set_go_update: "set (go_update m k v) \<subseteq> insert (k, v) (set m)"
  by (induction m k v rule: go_update.induct) auto

lemma updateVMInfo_inv:
  assumes "tracker_inv env t"
  shows "tracker_inv env (updateVMInfo env vmID pid cfg t)"
proof -
  let ?t = "updateVMInfo env vmID pid cfg t"
  define affinity where "affinity = config_affinity env cfg"
  define info where "info = \<lparr>vi_VMID = vmID, vi_PID = pid, vi_Name = lc_Name cfg, vi_Cores = lc_Cores cfg, AffinitySet = affinity\<rparr>"
  have t: "vms ?t = go_update (vms t) vmID info" "tr_usedCPUs ?t = tr_usedCPUs t \<union> affinity"
    "sharedCPUs ?t = (case se_topology env of None \<Rightarrow> sharedCPUs t | Some tp \<Rightarrow> CPUs (Details (CPUTopo tp)) - (tr_usedCPUs t \<union> affinity))"
    by (simp_all add: updateVMInfo_def info_def Let_def flip: affinity_def)
  have "AffinitySet i \<subseteq> tr_usedCPUs ?t" if "(k, i) \<in> set (vms ?t)" for k i
  proof -
    have "(k, i) = (vmID, info) \<or> (k, i) \<in> set (vms t)"
      using that set_go_update [of "vms t" vmID info] unfolding t(1) by blast
    then show ?thesis using assms unfolding t(2) by (auto simp: tracker_inv_def info_def)
  qed
  then show ?thesis
    using assms unfolding tracker_inv_def t(3) by (auto simp: t(2) split: option.split)
qed

lemma handleVMStop_inv: "tracker_inv env (tracker h) \<Longrightarrow> tracker_inv env (tracker (handleVMStop env vmID h))"
  by (auto simp: handleVMStop_def tracker_inv_def Let_def split: option.split)

lemma handleVMStart_inv:
  assumes "tracker_inv env (tracker h)" and "handleVMStart env vmID pid h = (e, h')"
  shows "tracker_inv env (tracker h')"
  using assms updateVMInfo_inv [OF assms(1), of vmID pid]
  by (auto simp: handleVMStart_def Let_def split: if_splits option.splits sum.splits)

lemma handleSyncEvent_inv:
  assumes "tracker_inv env (tracker h)" and "handleSyncEvent env h = (e, h')"
  shows "tracker_inv env (tracker h')"
proof -
  let ?step = "\<lambda>t (vmID, pid). case LoadVMConfig (se_parse env) (se_local env) vmID of
                  None \<Rightarrow> t | Some cfg \<Rightarrow> updateVMInfo env vmID pid cfg t"
  have "tracker_inv env (foldl ?step t running)" if "tracker_inv env t" for t running
    using that
  proof (induction running arbitrary: t)
    case (Cons r rs)
    then have "tracker_inv env (?step t r)" by (cases r) (auto intro: updateVMInfo_inv split: option.split)
    with Cons.IH show ?case by simp
  qed simp
  moreover have "tracker_inv env ((tracker h)\<lparr>tr_usedCPUs := {}, vms := []\<rparr>)"
    using assms(1) by (simp add: tracker_inv_def)
  ultimately show ?thesis using assms by (auto simp: handleSyncEvent_def split: option.splits)
qed

lemma Reconcile_inv:
  assumes "tracker_inv env (tracker h)"
  shows "tracker_inv env (tracker (fst (Reconcile env h event)))"
proof -
  have sync: "tracker_inv env (tracker (snd (handleSyncEvent env h)))"
    using handleSyncEvent_inv [OF assms] by (cases "handleSyncEvent env h") auto
  have start: "tracker_inv env (tracker (snd (handleVMStart env vmID pid h)))" for vmID pid
    using handleVMStart_inv [OF assms] by (cases "handleVMStart env vmID pid h") auto
  from sync start assms show ?thesis
    by (auto simp: Reconcile_def prod.case_eq_if Let_def handleVMStop_inv
        split: EventType.split event_data.split option.split sum.split)
qed

section \<open>Governors\<close>

lemma governor_path_inj: "governor_path a = governor_path b \<Longrightarrow> 0 \<le> a \<Longrightarrow> 0 \<le> b \<Longrightarrow> a = b"
  by (auto simp: governor_path_def show_int_def dest: show_nat_inj)

lemma set_governors_frame:
  "path \<notin> governor_path ` set cpus \<Longrightarrow> os_file (snd (set_governors os cpus governor)) path = os_file os path"
proof (induction os cpus governor rule: set_governors.induct)
  case (2 os cpu cpus governor)
  then show ?case by (auto simp: write_file_def split: option.split)
qed simp

lemma SetCPUGovernor_frame:
  "path \<notin> governor_path ` set cpus \<Longrightarrow> os_file (snd (SetCPUGovernor os cpus governor)) path = os_file os path"
  by (auto simp: SetCPUGovernor_def set_governors_frame split: list.split)

lemma freed_cpus_eq:
  assumes "\<forall>(i, other) \<in> set m. finite (AffinitySet other)"
  shows "freed_cpus vmID info m = AffinitySet info - (\<Union>(i, other) \<in> set m. if i = vmID then {} else AffinitySet other)"
proof -
  let ?step = "\<lambda>cpus (i, other). if i = vmID then cpus
      else if Size (AffinitySet other) > 0 then cpus - AffinitySet other else cpus"
  have "foldl ?step cpus m = cpus - (\<Union>(i, other) \<in> set m. if i = vmID then {} else AffinitySet other)" for cpus
    using assms
  proof (induction m arbitrary: cpus)
    case (Cons a m)
    obtain i other where a: "a = (i, other)" by (cases a)
    have "?step cpus a = cpus - (if i = vmID then {} else AffinitySet other)"
      using Cons.prems a by (auto simp: Size_def card_gt_0_iff)
    moreover have "foldl ?step (?step cpus a) m =
        ?step cpus a - (\<Union>(i, other) \<in> set m. if i = vmID then {} else AffinitySet other)"
      using Cons.prems by (intro Cons.IH) simp
    ultimately show ?case using a by auto
  qed simp
  then show ?thesis unfolding freed_cpus_def .
qed

section \<open>Pinning\<close>

lemma pin_threads_frame: "t \<notin> set threads \<Longrightarrow> os_affinity (snd (pin_threads os threads cores)) t = os_affinity os t"
  by (induction os threads cores rule: pin_threads.induct) (auto simp: taskset_def)

lemma pin_threads_ok:
  "length threads = length cores \<Longrightarrow> distinct threads \<Longrightarrow> \<forall>t \<in> set threads. os_taskset os t \<Longrightarrow>
   fst (pin_threads os threads cores) = None \<and>
   (\<forall>i < length threads. os_affinity (snd (pin_threads os threads cores)) (threads ! i) = show_int (cores ! i))"
proof (induction os threads cores rule: pin_threads.induct)
  case (1 os thread threads core cores)
  let ?os = "taskset os thread (show_int core)"
  have rest: "fst (pin_threads ?os threads cores) = None \<and>
      (\<forall>i < length threads. os_affinity (snd (pin_threads ?os threads cores)) (threads ! i) = show_int (cores ! i))"
    using 1 by (simp add: taskset_def)
  have "os_affinity (snd (pin_threads ?os threads cores)) thread = show_int core"
    using pin_threads_frame [of thread threads ?os cores] "1.prems"(2) by (simp add: taskset_def)
  with rest "1.prems" show ?case by (auto simp: nth_Cons')
qed auto

lemma SetCPUGovernor_affinity: "os_affinity (snd (SetCPUGovernor os cpus governor)) = os_affinity os"
proof -
  have "os_affinity (snd (set_governors os cpus governor)) = os_affinity os" for os cpus
    by (induction os cpus governor rule: set_governors.induct) (auto simp: write_file_def split: option.split)
  then show ?thesis by (simp add: SetCPUGovernor_def split: list.split)
qed

lemma steer_devices_affinity: "os_affinity (steer_devices env pid cfg cpus os) = os_affinity os"
proof -
  have "os_affinity (snd (set_irqs os s irqs)) = os_affinity os" for os s irqs
    by (induction os s irqs rule: set_irqs.induct) (auto simp: write_file_def Let_def split: write_status.split)
  then have dev: "os_affinity (set_device_irqs env cpus d os) = os_affinity os" for d os
    by (auto simp: set_device_irqs_def SetPciIRQAffinity_def split: sum.split)
  have "os_affinity (fold (set_device_irqs env cpus) ds os) = os_affinity os" for ds os
    by (induction ds arbitrary: os) (auto simp: dev)
  then show ?thesis by (simp add: steer_devices_def split: sum.split)
qed

section \<open>Properties of the scheduler\<close>

text \<open>A host with a VM 100 of two CPU threads, 8 and 9, to be pinned to the CPUs 1 and 2.\<close>

definition example_os :: os where
  "example_os =
     \<lparr>os_missing = (\<lambda>p. False),
      os_file = map_of [(''/proc/7/stat'', ''7''), (''/proc/7/task/8/comm'', ''CPU 0/KVM''),
        (''/proc/7/task/9/comm'', ''CPU 1/KVM''), (''/run/qemu-server/100.pid'', ''7'')],
      os_dir = map_of [(''/proc/7/task'', [(''7'', True), (''8'', True), (''9'', True)])],
      os_writable = (\<lambda>p. Written), os_taskset = (\<lambda>t. True), os_affinity = (\<lambda>t. ''0-3'')\<rparr>"

definition example_config :: local_config where
  "example_config = \<lparr>lc_Name = ''vm'', lc_Cores = 2, lc_Memory = 1024, lc_Affinity = ''1,2'', lc_Description = [], lc_HostPCIs = []\<rparr>"

definition example_scheduler :: scheduler_env where
  "example_scheduler =
     \<lparr>se_topology = Some example_host, se_parse = example_parse, se_render = example_render, se_unsorted = List,
      se_local = (\<lambda>i. Some example_config), watchPath = ''/run/qemu-server'', cpuGovernorBusy = ''performance'',
      cpuGovernorFree = ''powersave''\<rparr>"

text \<open>
  C24. Through every run of the event loop with this handler, no CPU that is offered to VMs without
  an affinity belongs to the affinity of a running VM.
\<close>

theorem scheduler_shared_unpinned:
  assumes "(rf_step cfg (Reconcile env))\<^sup>*\<^sup>* (NewReconciler now h) rf" and "tracker h = NewHandler"
    and "(vmID, info) \<in> set (vms (tracker (rf_world rf)))"
  shows "sharedCPUs (tracker (rf_world rf)) \<inter> AffinitySet info = {}"
proof -
  have "tracker_inv env (tracker (rf_world rf))"
    using assms(1)
  proof (induction rule: rtranclp_induct)
    case base
    show ?case using assms(2) by (simp add: NewReconciler_def NewHandler_def tracker_inv_def)
  next
    case (step q r)
    from rf_step_world [where P = "\<lambda>h. tracker_inv env (tracker h)", OF Reconcile_inv step(2,3)] show ?case by simp
  qed
  with assms(3) show ?thesis by (fastforce simp: tracker_inv_def)
qed

text \<open>
  C23. When a VM stops, the scheduler touches no governor of a CPU that another running VM is pinned
  to, and no other VM leaves the table.
\<close>

theorem stop_keeps_busy_governors:
  assumes aff: "\<forall>(i, other) \<in> set (vms (tracker h)). finite (AffinitySet other) \<and> (\<forall>c \<in> AffinitySet other. 0 \<le> c)"
    and other: "(i, other) \<in> set (vms (tracker h))" "i \<noteq> vmID" and c: "c \<in> AffinitySet other"
  shows "os_file (host_os (handleVMStop env vmID h)) (governor_path c) = os_file (host_os h) (governor_path c) \<and>
         (i, other) \<in> set (vms (tracker (handleVMStop env vmID h)))"
proof (cases "map_of (vms (tracker h)) vmID")
  case None
  with other show ?thesis by (simp add: handleVMStop_def)
next
  case (Some info)
  let ?m = "vms (tracker h)" let ?cpus = "freed_cpus vmID info ?m"
  have freed: "?cpus = AffinitySet info - (\<Union>(i, other) \<in> set ?m. if i = vmID then {} else AffinitySet other)"
    by (rule freed_cpus_eq) (use aff in auto)
  have "(vmID, info) \<in> set ?m" using Some by (rule map_of_SomeD)
  with aff freed have cpus: "finite ?cpus" "\<And>x. x \<in> ?cpus \<Longrightarrow> 0 \<le> x" by auto
  have "c \<notin> ?cpus" using other c unfolding freed by force
  moreover have "0 \<le> c" using aff other(1) c by auto
  ultimately have "governor_path c \<notin> governor_path ` set (List ?cpus)"
    using cpus governor_path_inj by (metis imageE set_List)
  with SetCPUGovernor_frame [OF this] Some other show ?thesis
    by (auto simp: handleVMStop_def Let_def)
qed

theorem stop_keeps_busy_governors_witness:
  "let a = \<lparr>vi_VMID = 100, vi_PID = 7, vi_Name = ''a'', vi_Cores = 2, AffinitySet = {1, 2}\<rparr>;
       b = \<lparr>vi_VMID = 101, vi_PID = 9, vi_Name = ''b'', vi_Cores = 2, AffinitySet = {2, 3}\<rparr>;
       h = \<lparr>tracker = \<lparr>vms = [(100, a), (101, b)], sharedCPUs = {0}, tr_usedCPUs = {1, 2, 3}\<rparr>, host_os = example_os\<rparr>
   in os_file (host_os (handleVMStop example_scheduler 100 h)) (governor_path 2) = os_file (host_os h) (governor_path 2) \<and>
      (101, b) \<in> set (vms (tracker (handleVMStop example_scheduler 100 h)))"
  unfolding Let_def by (rule stop_keeps_busy_governors) auto

text \<open>
  C22. A VM that starts with an affinity of as many CPUs of the host as it has CPU threads ends up
  pinned and tracked: each thread is bound to one CPU of the affinity, no two to the same one, and
  the table holds the affinity.
\<close>

theorem start_pins_threads:
  assumes "ProcessExists (host_os h) pid" and "0 < pid"
    and threads: "GetProcessThreads (host_os h) pid ''CPU'' = Inr threads" "threads \<noteq> []" "distinct threads"
    and cfg: "LoadVMConfig (se_parse env) (se_local env) vmID = Some cfg" "lc_Affinity cfg \<noteq> []"
      "se_parse env (lc_Affinity cfg) = Some cpus" "lc_Cores cfg = Size cpus" "\<not> topology_mismatch env cpus"
    and cores: "se_unsorted env cpus = cores" "set cores = cpus" "distinct cores" "length cores = length threads"
    and "\<forall>t \<in> set threads. os_taskset (host_os h) t"
  shows "\<exists>h'. handleVMStart env vmID pid h = (None, h') \<and>
           (\<forall>i < length threads. os_affinity (host_os h') (threads ! i) = show_int (cores ! i) \<and> cores ! i \<in> cpus) \<and>
           (\<forall>i < length threads. \<forall>j < length threads. i \<noteq> j \<longrightarrow> cores ! i \<noteq> cores ! j) \<and>
           map_option AffinitySet (map_of (vms (tracker h')) vmID) = Some cpus"
proof -
  obtain r os1 where pin: "pin_threads (host_os h) threads cores = (r, os1)" by fastforce
  have ok: "r = None" "\<forall>i < length threads. os_affinity os1 (threads ! i) = show_int (cores ! i)"
    using pin_threads_ok [of threads cores "host_os h"] pin assms by auto
  have "cores \<noteq> []" using cores(4) threads(2) by auto
  then have "snd (PinThreadsToCores (host_os h) pid threads cores) = os1"
    using pin ok(1) assms(2) threads(2) cores(4) by (simp add: PinThreadsToCores_def)
  then have aff: "os_affinity (pin_vm env pid threads cpus (host_os h)) = os_affinity os1"
    by (simp add: pin_vm_def cores(1) SetCPUGovernor_affinity Let_def)
  let ?h = "h\<lparr>tracker := updateVMInfo env vmID pid cfg (tracker h),
      host_os := steer_devices env pid cfg cpus (pin_vm env pid threads cpus (host_os h))\<rparr>"
  have "handleVMStart env vmID pid h = (None, ?h)"
    using assms(1) threads(1,2) cfg by (simp add: handleVMStart_def Let_def)
  moreover have "map_option AffinitySet (map_of (vms (tracker ?h)) vmID) = Some cpus"
    using cfg by (simp add: updateVMInfo_def config_affinity_def Let_def)
  moreover have "os_affinity (host_os ?h) (threads ! i) = show_int (cores ! i) \<and> cores ! i \<in> cpus"
    if "i < length threads" for i
    using ok(2) aff cores(2,4) that nth_mem [of i cores] by (simp add: steer_devices_affinity)
  ultimately show ?thesis using cores(3,4) by (auto simp: nth_eq_iff_index_eq)
qed

lemma example_threads: "GetProcessThreads example_os 7 ''CPU'' = Inr [8, 9]" "ProcessExists example_os 7"
  unfolding ProcessExists_def by code_simp+

theorem start_pins_threads_witness:
  "let h = \<lparr>tracker = NewHandler, host_os = example_os\<rparr>
   in \<exists>h'. handleVMStart example_scheduler 100 7 h = (None, h') \<and>
        (\<forall>i < length [8, 9::int]. os_affinity (host_os h') ([8, 9] ! i) = show_int ([1, 2] ! i) \<and> [1, 2] ! i \<in> {1, 2::int}) \<and>
        (\<forall>i < length [8, 9::int]. \<forall>j < length [8, 9::int]. i \<noteq> j \<longrightarrow> [1, 2::int] ! i \<noteq> [1, 2] ! j) \<and>
        map_option AffinitySet (map_of (vms (tracker h')) 100) = Some {1, 2}"
proof -
  have "example_parse ''1,2'' = Some {1, 2}" "List {1, 2} = [1, 2]" "Size {1, 2} = 2"
    by code_simp+
  moreover have "\<not> topology_mismatch example_scheduler {1, 2}"
    unfolding topology_mismatch_def by code_simp
  ultimately show ?thesis
    unfolding Let_def
    by (intro start_pins_threads [where cfg = example_config])
      (simp_all add: example_threads, simp_all add: example_scheduler_def example_config_def LoadVMConfig_def example_os_def)
qed

theorem scheduler_shared_unpinned_witness:
  "let h = \<lparr>tracker = NewHandler, host_os = example_os\<rparr>;
       e = \<lparr>ev_Type = FileEvent, ev_Key = ''/run/qemu-server/100.pid'', ev_Data = FsData ''/run/qemu-server/100.pid'' 1\<rparr>;
       h' = fst (Reconcile example_scheduler h e)
   in \<forall>(vmID, info) \<in> set (vms (tracker h')). sharedCPUs (tracker h') \<inter> AffinitySet info = {}"
proof -
  let ?h = "\<lparr>tracker = NewHandler, host_os = example_os\<rparr>"
  let ?e = "\<lparr>ev_Type = FileEvent, ev_Key = ''/run/qemu-server/100.pid'', ev_Data = FsData ''/run/qemu-server/100.pid'' 1\<rparr>"
  let ?rf = "NewReconciler 5 ?h"
  let ?rf1 = "?rf\<lparr>rf_channel := [\<lparr>re_event = ?e, attempts = 0, nextRetry = 0\<rparr>]\<rparr>"
  obtain h' failed where h': "Reconcile example_scheduler ?h ?e = (h', failed)" by fastforce
  have "SendEvent ?rf ?e (?rf\<lparr>rf_channel := rf_channel ?rf @ [\<lparr>re_event = ?e, attempts = 0, nextRetry = 0\<rparr>]\<rparr>)"
    by (rule SendEvent.send_queued) (simp_all add: NewReconciler_def channel_capacity_def)
  then have one: "rf_step DefaultConfig (Reconcile example_scheduler) ?rf ?rf1"
    by (intro rf_step.watchFiles [where op = 1 and name = "''/run/qemu-server/100.pid''"])
      (simp_all add: DefaultConfig_def relevantOps_def NewReconciler_def)
  obtain q w where q: "receive_event DefaultConfig (Reconcile example_scheduler) 5
      \<lparr>re_event = ?e, attempts = 0, nextRetry = 0\<rparr> [] ?h = (q, w)" by fastforce
  then have w: "w = h'" using h' by (auto simp: receive_event_def processRetryableEvent_def split: if_splits)
  have two: "rf_step DefaultConfig (Reconcile example_scheduler) ?rf1 (?rf1\<lparr>rf_channel := [], rf_queue := q, rf_world := w\<rparr>)"
    by (rule rf_step.processReceive [of _ _ "[]"]) (use q in \<open>simp_all add: NewReconciler_def\<close>)
  have run: "(rf_step DefaultConfig (Reconcile example_scheduler))\<^sup>*\<^sup>* ?rf (?rf1\<lparr>rf_channel := [], rf_queue := q, rf_world := w\<rparr>)"
    using one two by (meson r_into_rtranclp rtranclp_trans)
  from scheduler_shared_unpinned [OF run] show ?thesis unfolding Let_def h' by (auto simp: w)
qed

end
