(* ===== verification/Operator.thy ===== *)
theory Operator
  imports ProviderControllers CapacityVM CloudConfig Scheduler
begin

text \<open>
  The start of the programs: of the controller (\<open>src/pkg/operator/operator.go\<close>), which reads the cloud
  configuration, makes the pool of clients and fills the providers from the clusters, of the scheduler on
  a host (\<open>src/cmd/proxmox-scheduler/main.go\<close>), and the command that prints instance types
  (\<open>src/cmd/instancetypes/main.go\<close>).

  The clients of Proxmox are a type of their own; what the capacity provider and the template provider
  see of a client are two views of it. An error ends the program with exit code 1.
\<close>

section \<open>Operations\<close>

record ('c, 'v, 'r) operator_env =
  oe_decode :: "string \<Rightarrow> ClustersConfig option"
  oe_files :: "string \<Rightarrow> string option"
  oe_NewAPIClient :: "string \<Rightarrow> client_option list \<Rightarrow> 'c option"
  oe_cluster :: "'c \<Rightarrow> cluster_api"
  oe_templates :: "'c \<Rightarrow> 'v template_api"
  oe_host :: environment
  oe_net :: net_lib
  oe_lib :: template_lib
  oe_scheduling :: "'r scheduling"
  oe_types :: "string \<Rightarrow> 'r InstanceTypeStatic list option"

record ('c, 'v, 'r) operator_state =
  op_pool :: "'c ProxmoxPool"
  op_capacity :: cloudProvider
  op_ipam :: nodeIpam
  op_templates :: "'v templates"
  op_types :: "'r InstanceTypeStatic list"

datatype operator_error = OpConfig config_error | OpPool pool_error | OpPanic | OpInstanceTypes

definition capacity_pool :: "('c \<Rightarrow> cluster_api) \<Rightarrow> 'c ProxmoxPool \<Rightarrow> proxmoxPool" where
  "capacity_pool view p =
     \<lparr>pool_GetRegions = GetRegions p,
      pool_GetProxmoxCluster = (\<lambda>region. case GetProxmoxCluster p region of Inl e \<Rightarrow> None | Inr px \<Rightarrow> Some (view px))\<rparr>"

definition templates_pool :: "('c \<Rightarrow> 'v template_api) \<Rightarrow> 'c ProxmoxPool \<Rightarrow> 'v template_pool" where
  "templates_pool view p =
     \<lparr>tp_GetRegions = GetRegions p,
      tp_GetProxmoxCluster = (\<lambda>region. case GetProxmoxCluster p region of Inl e \<Rightarrow> None | Inr px \<Rightarrow> Some (view px))\<rparr>"

text \<open>The providers as they are filled at the start, from a pool.\<close>

definition start_capacity :: "environment \<Rightarrow> proxmoxPool \<Rightarrow> cloudProvider" where
  "start_capacity env pool = SyncNodeStorageCapacity pool (SyncNodeCapacity env pool NewCapacityProvider)"

definition start_providers ::
  "('c, 'v, 'r) operator_env \<Rightarrow> controller_options \<Rightarrow> 'c ProxmoxPool \<Rightarrow> 'v \<Rightarrow> operator_error + ('c, 'v, 'r) operator_state" where
  "start_providers oe opts p w =
     (let cap = start_capacity (oe_host oe) (capacity_pool (oe_cluster oe) p)
      in case UpdateNodeCIDR (oe_net oe) cap NewIpamProvider of
           (Inl e, ipam) \<Rightarrow> Inl OpPanic
         | (Inr _, ipam) \<Rightarrow>
             let templates = SyncInstanceTemplates (oe_lib oe) (templates_pool (oe_templates oe) p) []
                   \<lparr>instanceTemplate = [], zoneLocks = {}, tpl_world = w\<rparr>
             in case UpdateInstanceTypes (oe_types oe) (InstanceTypesFilePath opts) loadDefaultInstanceTypes of
                  None \<Rightarrow> Inl OpInstanceTypes
                | Some types \<Rightarrow>
                    Inr \<lparr>op_pool = p, op_capacity = cap, op_ipam = ipam, op_templates = templates,
                         op_types = UpdateInstanceTypeOfferings (oe_scheduling oe) cap types\<rparr>)"

definition NewOperator ::
  "('c, 'v, 'r) operator_env \<Rightarrow> controller_options \<Rightarrow> 'v \<Rightarrow> operator_error + ('c, 'v, 'r) operator_state" where
  "NewOperator oe opts w =
     (case ReadCloudConfigFromFile (oe_decode oe) (oe_files oe) (CloudConfigPath opts) of
        Inl e \<Rightarrow> Inl (OpConfig e)
      | Inr cfg \<Rightarrow>
          (case NewProxmoxPool (oe_NewAPIClient oe) (oe_files oe) (cfg_Clusters cfg) of
             Inl e \<Rightarrow> Inl (OpPool e)
           | Inr p \<Rightarrow> start_providers oe opts p w))"

text \<open>
  The scheduler collects what it needs and starts with the topology of its host. A discovery VM that
  cannot be written is only reported. \<open>Inl\<close> is the exit code.
\<close>

definition scheduler_main ::
  "'w local_api \<Rightarrow> (CPUSet \<Rightarrow> string) \<Rightarrow> bool \<Rightarrow> string \<Rightarrow> cadvisor_MachineInfo option \<Rightarrow> 'w \<Rightarrow> (int + Topology option) \<times> 'w" where
  "scheduler_main api render showVersion featureFlags serverInfo w =
     (if showVersion then (Inl 0, w)
      else case serverInfo of
             None \<Rightarrow> (Inl 1, w)
           | Some info \<Rightarrow>
               (case DiscoverCadvisor (Some info) of
                  Inl e \<Rightarrow> (Inl 1, w)
                | Inr tp \<Rightarrow>
                    (Inr tp,
                     if IsEnabled (parseFeatureFlags featureFlags) FeatureKarpenter
                     then (case tp of None \<Rightarrow> w | Some t \<Rightarrow> snd (createProxmoxTopologyDiscoveryVM api render info t w))
                     else w)))"

text \<open>Words that are no numbers are dropped.\<close>

definition parse_counts :: "string \<Rightarrow> int list" where
  "parse_counts s = List.map_filter Atoi (Split s (CHR '',''))"

definition parseArgs :: "string \<Rightarrow> string \<Rightarrow> int \<Rightarrow> bool \<Rightarrow> bool \<Rightarrow> bool \<Rightarrow> InstanceTypeOptions" where
  "parseArgs cpus memfactor storage kubelet system eviction =
     \<lparr>opt_CPUs = parse_counts cpus, opt_MemFactors = parse_counts memfactor, opt_Storage = storage,
      opt_KubeletOverhead = kubelet, opt_SystemOverhead = system, opt_EvictionThreshold = eviction\<rparr>"

lemma parse_counts_join:
  assumes "list_all (\<lambda>i. - (2 ^ 63) \<le> i \<and> i < 2 ^ 63) is" and "is \<noteq> []"
  shows "parse_counts (Join (map show_int is) '','') = is"
proof -
  have "Split (Join (map show_int is) '','') (CHR '','') = map show_int is"
    using assms(2) by (intro Split_Join) (auto simp: show_int_plain)
  moreover have "List.map_filter Atoi (map show_int is) = is"
    using assms(1) by (induction "is") (auto simp: List.map_filter_simps Atoi_show_int)
  ultimately show ?thesis by (simp add: parse_counts_def)
qed

section \<open>The controller starts\<close>

text \<open>
  What the providers rely on when they walk over the regions of a pool: every region has a client, and
  only these have one.
\<close>

locale client_pool =
  fixes regions :: "string list" and cluster :: "string \<Rightarrow> 'c option"
  assumes known: "region \<in> set regions \<longleftrightarrow> cluster region \<noteq> None"
begin

lemma client:
  assumes "region \<in> set regions"
  obtains cl where "cluster region = Some cl"
  using assms known by auto

lemma reached: "{region \<in> set regions. \<exists>cl. cluster region = Some cl \<and> P cl} = {region. \<exists>cl. cluster region = Some cl \<and> P cl}"
  using known by auto

end

lemma pool_clients: "region \<in> set (GetRegions p) \<longleftrightarrow> (\<exists>px. GetProxmoxCluster p region = Inr px)"
  unfolding GetRegions_def GetProxmoxCluster_def using map_of_eq_None_iff [of "clients p" region] by (auto split: option.splits)

interpretation capacity_clients: client_pool "pool_GetRegions (capacity_pool view p)" "pool_GetProxmoxCluster (capacity_pool view p)" for view p
  by unfold_locales (auto simp: capacity_pool_def pool_clients split: sum.splits)

interpretation template_clients: client_pool "tp_GetRegions (templates_pool view p)" "tp_GetProxmoxCluster (templates_pool view p)" for view p
  by unfold_locales (auto simp: templates_pool_def pool_clients split: sum.splits)

lemma sync_regions_zones:
  "fst ` set (snd (snd (sync_regions env pool regions (caps, nets, zones)))) =
     {region \<in> set regions. \<exists>cl. pool_GetProxmoxCluster pool region = Some cl \<and> api_GetNodeListByFilter cl is_online \<noteq> None} \<union> fst ` set zones"
proof (induction regions arbitrary: caps nets zones)
  case (Cons region regions)
  show ?case
  proof (cases "pool_GetProxmoxCluster pool region")
    case None
    with Cons [of caps nets zones] show ?thesis by auto
  next
    case (Some cl)
    show ?thesis
    proof (cases "api_GetNodeListByFilter cl is_online")
      case None
      with Some Cons [of caps nets zones] show ?thesis by auto
    next
      case (Some ns)
      obtain caps' nets' where "sync_nodes env cl region ns (caps, nets) = (caps', nets')" by fastforce
      with Some \<open>pool_GetProxmoxCluster pool region = Some cl\<close> Cons [of caps' nets' "go_update zones region (map cr_Node ns)"]
      show ?thesis by (auto simp: keys_go_update)
    qed
  qed
qed simp

lemma start_capacity_regions:
  "set (Regions (start_capacity env (capacity_pool view p))) =
     {region. \<exists>px. GetProxmoxCluster p region = Inr px \<and> api_GetNodeListByFilter (view px) is_online \<noteq> None}"
proof -
  let ?pool = "capacity_pool view p"
  obtain caps nets zones where sync: "sync_regions env ?pool (pool_GetRegions ?pool) ([], [], []) = (caps, nets, zones)"
    using prod_cases3 by blast
  with sync_regions_zones [of env ?pool "pool_GetRegions ?pool" "[]" "[]" "[]"]
  have "set (Regions (start_capacity env ?pool)) =
      {region. \<exists>cl. pool_GetProxmoxCluster ?pool region = Some cl \<and> api_GetNodeListByFilter cl is_online \<noteq> None}"
    by (simp add: start_capacity_def SyncNodeStorageCapacity_def SyncNodeCapacity_def Regions_def capacity_clients.reached)
  moreover have "pool_GetProxmoxCluster ?pool region = Some cl \<longleftrightarrow> (\<exists>px. GetProxmoxCluster p region = Inr px \<and> cl = view px)" for region cl
    by (auto simp: capacity_pool_def split: sum.splits)
  ultimately show ?thesis by auto
qed

lemma start_capacity_inv: "cluster_ok env pool \<Longrightarrow> provider_inv (start_capacity env pool)"
  using SyncNodeCapacity_inv [of env pool NewCapacityProvider]
  by (simp add: start_capacity_def SyncNodeStorageCapacity_def provider_inv_def)

lemma start_addresses:
  assumes "lib_laws lib"
  shows "\<exists>ipam. UpdateNodeCIDR lib cap NewIpamProvider = (Inr (), ipam) \<and> ipam_inv ipam"
proof -
  have "ipam_inv NewIpamProvider" by (simp add: ipam_inv_def NewIpamProvider_def)
  from update_ifaces_inv [OF assms this, of "host_ifaces cap"] show ?thesis
    unfolding UpdateNodeCIDR_def by (cases "update_ifaces lib (host_ifaces cap) NewIpamProvider") auto
qed

text \<open>
  C8. The controller comes up exactly when it can make its clients. From a configuration file that the
  reader accepts and with instance types that can be loaded, it starts if and only if the file names a
  cluster and for every cluster the token files it needs can be read (a cluster that logs in with a
  password may name some too) and the constructor of the client succeeds; otherwise it exits. It
  then has a client for every region of the configuration and for no other, and knows the hosts of exactly
  those regions whose cluster answers. When the clusters supply regular hosts, the books
  satisfy the invariant of the capacity provider; the address pools satisfy theirs, and the instance types it offers
  are computed from these books. The networks of the hosts are written as IPv4 networks.
\<close>

theorem operator_starts:
  assumes cfg: "ReadCloudConfigFromFile (oe_decode oe) (oe_files oe) (CloudConfigPath opts) = Inr cfg" "cfg_Clusters cfg = map Some cs"
    and types: "UpdateInstanceTypes (oe_types oe) (InstanceTypesFilePath opts) loadDefaultInstanceTypes = Some types"
    and net: "lib_laws (oe_net oe)"
  shows "((\<exists>s. NewOperator oe opts w = Inr s) \<longleftrightarrow> cs \<noteq> [] \<and> (\<forall>c \<in> set cs. client_made (oe_NewAPIClient oe) (oe_files oe) c)) \<and>
    (\<forall>s. NewOperator oe opts w = Inr s \<longrightarrow>
       set (GetRegions (op_pool s)) = pc_Region ` set cs \<and>
       set (Regions (op_capacity s)) =
         {region. \<exists>px. GetProxmoxCluster (op_pool s) region = Inr px \<and> api_GetNodeListByFilter (oe_cluster oe px) is_online \<noteq> None} \<and>
       (cluster_ok (oe_host oe) (capacity_pool (oe_cluster oe) (op_pool s)) \<longrightarrow> provider_inv (op_capacity s)) \<and> ipam_inv (op_ipam s) \<and>
       op_types s = UpdateInstanceTypeOfferings (oe_scheduling oe) (op_capacity s) types)"
proof -
  let ?new = "NewProxmoxPool (oe_NewAPIClient oe) (oe_files oe) (map Some cs)"
  have run: "NewOperator oe opts w = (case ?new of Inl e \<Rightarrow> Inl (OpPool e) | Inr p \<Rightarrow> start_providers oe opts p w)"
    by (simp add: NewOperator_def cfg)
  have start: "\<exists>s. start_providers oe opts p w = Inr s \<and> op_pool s = p \<and> op_capacity s = start_capacity (oe_host oe) (capacity_pool (oe_cluster oe) p) \<and>
      ipam_inv (op_ipam s) \<and> op_types s = UpdateInstanceTypeOfferings (oe_scheduling oe) (op_capacity s) types" for p
    using start_addresses [OF net, of "start_capacity (oe_host oe) (capacity_pool (oe_cluster oe) p)"]
    by (elim exE conjE) (simp add: start_providers_def Let_def types)
  have "(\<exists>s. NewOperator oe opts w = Inr s) \<longleftrightarrow> (\<exists>p. ?new = Inr p)"
    unfolding run using start by (auto split: sum.split)
  moreover have "set (GetRegions (op_pool s)) = pc_Region ` set cs \<and>
      op_capacity s = start_capacity (oe_host oe) (capacity_pool (oe_cluster oe) (op_pool s)) \<and>
      ipam_inv (op_ipam s) \<and> op_types s = UpdateInstanceTypeOfferings (oe_scheduling oe) (op_capacity s) types" if s: "NewOperator oe opts w = Inr s" for s
  proof -
    obtain p where p: "?new = Inr p" "start_providers oe opts p w = Inr s" using s unfolding run by (auto split: sum.splits)
    with start [of p] NewProxmoxPool_regions [OF p(1)] show ?thesis by simp
  qed
  ultimately show ?thesis
    unfolding NewProxmoxPool_iff using start_capacity_inv by (simp add: start_capacity_regions)
qed

definition example_operator_env ::
  "(string \<times> client_option list, unit, (string \<times> selector_op \<times> string list) list) operator_env" where
  "example_operator_env =
     \<lparr>oe_decode = (\<lambda>yaml. Some example_clusters), oe_files = (\<lambda>path. if path = ''config.yaml'' then Some [] else None),
      oe_NewAPIClient = (\<lambda>url opts. Some (url, opts)), oe_cluster = (\<lambda>px. example_region), oe_templates = (\<lambda>px. example_template_api),
      oe_host = example_env, oe_net = example_lib, oe_lib = example_template_lib, oe_scheduling = plain_scheduling,
      oe_types = (\<lambda>name. None)\<rparr>"

definition example_controller_options :: controller_options where
  "example_controller_options =
     \<lparr>CloudConfigPath = ''config.yaml'', InstanceTypesFilePath = [], NodeSettingFilePath = [], co_NodePolicy = ''simple'', ProxmoxVMID = 20000\<rparr>"

lemma example_operator_hosts: "cluster_ok example_env (capacity_pool (\<lambda>px. example_region) p)"
  by (rule example_region_ok) (simp add: capacity_pool_def split: sum.splits)

theorem operator_starts_witness:
  "\<exists>s. NewOperator example_operator_env example_controller_options () = Inr s \<and>
     set (GetRegions (op_pool s)) = {''cluster-1'', ''cluster-2''} \<and> set (Regions (op_capacity s)) = {''cluster-1'', ''cluster-2''} \<and>
     provider_inv (op_capacity s) \<and> ipam_inv (op_ipam s)"
proof -
  let ?cs = "[example_token_cluster, example_password_cluster]"
  have read: "ReadCloudConfigFromFile (oe_decode example_operator_env) (oe_files example_operator_env)
      (CloudConfigPath example_controller_options) = Inr example_clusters"
    using example_clusters_read by (simp add: ReadCloudConfigFromFile_def example_operator_env_def example_controller_options_def)
  have clusters: "cfg_Clusters example_clusters = map Some ?cs" by (simp add: example_clusters_def)
  have types: "UpdateInstanceTypes (oe_types example_operator_env) (InstanceTypesFilePath example_controller_options)
      loadDefaultInstanceTypes = Some loadDefaultInstanceTypes"
    by (simp add: UpdateInstanceTypes_def example_controller_options_def)
  have net: "lib_laws (oe_net example_operator_env)" by (simp add: example_operator_env_def example_lib_laws)
  note starts = operator_starts [OF read clusters types net, of "()"]
  have "client_made (oe_NewAPIClient example_operator_env) (oe_files example_operator_env) c" if c: "c \<in> set ?cs" for c
    using c by (auto simp: client_made_def read_tokens_def token_value_def example_operator_env_def example_token_cluster_def
        example_password_cluster_def)
  then obtain s where s: "NewOperator example_operator_env example_controller_options () = Inr s"
    using starts by auto
  have online: "api_GetNodeListByFilter (oe_cluster example_operator_env px) is_online \<noteq> None" for px
    by (simp add: example_operator_env_def example_region(2))
  have "cluster_ok (oe_host example_operator_env) (capacity_pool (oe_cluster example_operator_env) (op_pool s))"
    by (simp add: example_operator_env_def example_operator_hosts)
  then have "set (GetRegions (op_pool s)) = pc_Region ` set ?cs" "provider_inv (op_capacity s)" "ipam_inv (op_ipam s)"
    "set (Regions (op_capacity s)) = {region. \<exists>px. GetProxmoxCluster (op_pool s) region = Inr px}"
    using starts s online by simp_all
  moreover have "{region. \<exists>px. GetProxmoxCluster (op_pool s) region = Inr px} = set (GetRegions (op_pool s))"
    using pool_clients [of _ "op_pool s"] by blast
  moreover have "pc_Region ` set ?cs = {''cluster-1'', ''cluster-2''}"
    by (simp add: example_token_cluster_def example_password_cluster_def)
  ultimately show ?thesis using s by simp
qed

section \<open>The scheduler starts\<close>

text \<open>
  The scheduler starts whenever the topology of its host is found; the discovery VM is written only
  when the feature is enabled, and has no influence on the start.
\<close>

lemma scheduler_main_starts:
  assumes "DiscoverCadvisor (Some info) = Inr tp"
  shows "fst (scheduler_main api render False flags (Some info) w) = Inr tp"
    and "\<not> IsEnabled (parseFeatureFlags flags) FeatureKarpenter \<Longrightarrow> snd (scheduler_main api render False flags (Some info) w) = w"
  using assms by (simp_all add: scheduler_main_def)

lemma feature_flags_example: "IsEnabled (parseFeatureFlags '' karpenter ,other'') FeatureKarpenter"
  by code_simp

end
