(* ===== verification/TemplateFunctions.thy ===== *)
theory TemplateFunctions
  imports InstanceNetwork
begin

text \<open>
  The functions that cloud-init templates may call
  (\<open>src/pkg/providers/instance/cloudinit/functions.go\<close>). A call that fails, or panics, ends the
  execution of the template: such functions return an option. The values of a template are those of
  \<open>template_value\<close>; a slice or a map may be nil. Strings are lists of characters; the case of letters and
  the escapes of \<open>%q\<close> are those of ASCII, other characters are kept. The regular expressions of package
  \<open>regexp\<close> are a parameter. The JSON and YAML encoders are not modelled.
\<close>

section \<open>Values\<close>

datatype template_value =
    NilValue
  | BoolVal bool
  | IntVal int
  | StringVal string
  | NilSlice
  | SliceVal "template_value list"
  | NilMap
  | MapVal "(string \<times> template_value) list"

text \<open>\<open>reflect.Value.IsZero\<close>: an empty slice or map that is not nil is not the zero value.\<close>

fun empty :: "template_value \<Rightarrow> bool" where
  "empty NilValue = True"
| "empty (BoolVal b) = (\<not> b)"
| "empty (IntVal i) = (i = 0)"
| "empty (StringVal s) = (s = [])"
| "empty NilSlice = True"
| "empty (SliceVal xs) = False"
| "empty NilMap = True"
| "empty (MapVal m) = False"

definition defaultFunc :: "template_value \<Rightarrow> template_value list \<Rightarrow> template_value" where
  "defaultFunc d given = (case given of [] \<Rightarrow> d | g # _ \<Rightarrow> if empty g then d else g)"

fun coalesce :: "template_value list \<Rightarrow> template_value" where
  "coalesce [] = NilValue"
| "coalesce (v # vs) = (if \<not> empty v then v else coalesce vs)"

definition ternary :: "template_value \<Rightarrow> template_value \<Rightarrow> bool \<Rightarrow> template_value" where
  "ternary vt vf v = (if v then vt else vf)"

text \<open>A nil map or slice is \<open>None\<close>.\<close>

definition hasKey :: "(string, template_value) go_map option \<Rightarrow> string \<Rightarrow> bool" where
  "hasKey m key = (case m of None \<Rightarrow> False | Some m \<Rightarrow> map_of m key \<noteq> None)"

definition hasTag :: "string list option \<Rightarrow> string \<Rightarrow> bool" where
  "hasTag tags tag = (case tags of None \<Rightarrow> False | Some ts \<Rightarrow> if tag = [] then False else tag \<in> set ts)"

section \<open>Strings\<close>

abbreviation newline :: char where
  "newline \<equiv> CHR 0x0A"

definition HasSuffix :: "string \<Rightarrow> string \<Rightarrow> bool" where
  "HasSuffix s p = HasPrefix (rev s) (rev p)"

definition TrimSuffix :: "string \<Rightarrow> string \<Rightarrow> string" where
  "TrimSuffix s p = (if HasSuffix s p then take (length s - length p) s else s)"

definition strings_TrimPrefix :: "string \<Rightarrow> string \<Rightarrow> string" where
  "strings_TrimPrefix s p = (if HasPrefix s p then drop (length p) s else s)"

fun replace_all :: "string \<Rightarrow> string \<Rightarrow> string \<Rightarrow> string" where
  "replace_all old new [] = []"
| "replace_all old new (c # s) =
     (if HasPrefix (c # s) old then new @ replace_all old new (drop (length old - 1) s) else c # replace_all old new s)"

definition ReplaceAll :: "string \<Rightarrow> string \<Rightarrow> string \<Rightarrow> string" where
  "ReplaceAll s old new = (if old = [] then new @ concat (map (\<lambda>c. c # new) s) else replace_all old new s)"

definition to_lower :: "char \<Rightarrow> char" where
  "to_lower c = (let n = of_char c :: nat in if 65 \<le> n \<and> n \<le> 90 then char_of (n + 32) else c)"

definition to_upper :: "char \<Rightarrow> char" where
  "to_upper c = (let n = of_char c :: nat in if 97 \<le> n \<and> n \<le> 122 then char_of (n - 32) else c)"

text \<open>The value comes last, so that it can be piped into the function.\<close>

definition tf_trimSuffix :: "string \<Rightarrow> string \<Rightarrow> string" where
  "tf_trimSuffix a b = TrimSuffix b a"

definition tf_trimPrefix :: "string \<Rightarrow> string \<Rightarrow> string" where
  "tf_trimPrefix a b = strings_TrimPrefix b a"

definition tf_replace :: "string \<Rightarrow> string \<Rightarrow> string \<Rightarrow> string" where
  "tf_replace old new s = ReplaceAll s old new"

definition tf_contains :: "string \<Rightarrow> string \<Rightarrow> bool" where
  "tf_contains substr str = Contains str substr"

definition tf_hasPrefix :: "string \<Rightarrow> string \<Rightarrow> bool" where
  "tf_hasPrefix substr str = HasPrefix str substr"

definition tf_hasSuffix :: "string \<Rightarrow> string \<Rightarrow> bool" where
  "tf_hasSuffix substr str = HasSuffix str substr"

text \<open>\<open>strings.Repeat\<close> panics for a negative count.\<close>

definition indent :: "int \<Rightarrow> string \<Rightarrow> string option" where
  "indent spaces v =
     (if spaces < 0 then None
      else let pad = replicate (nat spaces) (CHR '' '') in Some (pad @ ReplaceAll v [newline] (newline # pad)))"

definition nindent :: "int \<Rightarrow> string \<Rightarrow> string option" where
  "nindent spaces v = map_option (\<lambda>t. newline # t) (indent spaces v)"

definition hex_digit :: "nat \<Rightarrow> char" where
  "hex_digit d = (if d < 10 then char_of (48 + d) else char_of (87 + d))"

definition quote_char :: "char \<Rightarrow> string" where
  "quote_char c =
     (let n = of_char c :: nat; backslash = CHR 0x5C
      in if n = 34 \<or> n = 92 then [backslash, c]
         else if 32 \<le> n \<and> n \<noteq> 127 then [c]
         else if n = 7 then [backslash, CHR ''a''] else if n = 8 then [backslash, CHR ''b'']
         else if n = 12 then [backslash, CHR ''f''] else if n = 10 then [backslash, CHR ''n'']
         else if n = 13 then [backslash, CHR ''r''] else if n = 9 then [backslash, CHR ''t'']
         else if n = 11 then [backslash, CHR ''v'']
         else [backslash, CHR ''x'', hex_digit (n div 16), hex_digit (n mod 16)])"

definition quote_text :: "string \<Rightarrow> string" where
  "quote_text s = CHR 0x22 # concat (map quote_char s) @ [CHR 0x22]"

text \<open>What \<open>%v\<close> prints; maps are printed in the order of their keys.\<close>

fun string_below :: "string \<Rightarrow> string \<Rightarrow> bool" where
  "string_below s [] = False"
| "string_below [] (d # t) = True"
| "string_below (c # s) (d # t) = ((of_char c :: nat) < of_char d \<or> c = d \<and> string_below s t)"

fun strval :: "template_value \<Rightarrow> string" where
  "strval NilValue = ''<nil>''"
| "strval (BoolVal b) = (if b then ''true'' else ''false'')"
| "strval (IntVal i) = show_int i"
| "strval (StringVal s) = s"
| "strval NilSlice = ''[]''"
| "strval (SliceVal xs) = ''['' @ Join (map strval xs) '' '' @ '']''"
| "strval NilMap = ''map[]''"
| "strval (MapVal m) =
     ''map['' @ Join (map (\<lambda>(k, t). k @ '':'' @ t)
       (sort_slice (\<lambda>x y. string_below (fst x) (fst y)) (map (\<lambda>kv. (fst kv, strval (snd kv))) m))) '' '' @ '']''"

definition quote :: "template_value list \<Rightarrow> string" where
  "quote vs = Join (map (\<lambda>v. quote_text (strval v)) (filter (\<lambda>v. v \<noteq> NilValue) vs)) '' ''"

definition get :: "(string, string) go_map \<Rightarrow> string \<Rightarrow> string" where
  "get m key = (case map_of m key of Some val \<Rightarrow> val | None \<Rightarrow> [])"

text \<open>\<open>kv[1]\<close> panics for a part without an equals sign.\<close>

fun get_value :: "string list \<Rightarrow> string \<Rightarrow> string option" where
  "get_value [] key = Some []"
| "get_value (part # parts) key =
     (let kv = Split part (CHR ''='')
      in if kv ! 0 = key then (if length kv < 2 then None else Some (kv ! 1)) else get_value parts key)"

definition getValue :: "string \<Rightarrow> string \<Rightarrow> string option" where
  "getValue source key = get_value (Split source (CHR '';'')) key"

record 're regexp =
  Compile :: "string \<Rightarrow> 're option"
  FindStringSubmatch :: "'re \<Rightarrow> string \<Rightarrow> string list"
  FindString :: "'re \<Rightarrow> string \<Rightarrow> string"
  ReplaceAllString :: "'re \<Rightarrow> string \<Rightarrow> string \<Rightarrow> string"

definition regexFindString :: "'re regexp \<Rightarrow> string \<Rightarrow> string \<Rightarrow> int \<Rightarrow> string option" where
  "regexFindString lib regex s n =
     (case Compile lib regex of
        None \<Rightarrow> None
      | Some r \<Rightarrow>
          let matches = FindStringSubmatch lib r s
          in if int (length matches) < n + 1 then Some [] else if n < 0 then None else Some (matches ! nat n))"

definition regexReplaceAll :: "'re regexp \<Rightarrow> string \<Rightarrow> string \<Rightarrow> string \<Rightarrow> string option" where
  "regexReplaceAll lib regex s repl = map_option (\<lambda>r. ReplaceAllString lib r s repl) (Compile lib regex)"

definition regexFind :: "'re regexp \<Rightarrow> string \<Rightarrow> string \<Rightarrow> string option" where
  "regexFind lib regex s = map_option (\<lambda>r. FindString lib r s) (Compile lib regex)"

section \<open>Base64\<close>

definition b64_alphabet :: string where
  "b64_alphabet = ''ABCDEFGHIJKLMNOPQRSTUVWXYZabcdefghijklmnopqrstuvwxyz0123456789+/''"

definition b64_char :: "nat \<Rightarrow> char" where
  "b64_char i = b64_alphabet ! i"

definition b64_value :: "char \<Rightarrow> nat option" where
  "b64_value c = map_of (zip b64_alphabet [0..<64]) c"

fun base64encode :: "string \<Rightarrow> string" where
  "base64encode [] = []"
| "base64encode [a] = (let n = of_char a * 16 in [b64_char (n div 64), b64_char (n mod 64), CHR ''='', CHR ''=''])"
| "base64encode [a, b] =
     (let n = (of_char a * 256 + of_char b) * 4
      in [b64_char (n div 4096), b64_char (n div 64 mod 64), b64_char (n mod 64), CHR ''=''])"
| "base64encode (a # b # c # s) =
     (let n = of_char a * 65536 + of_char b * 256 + of_char c
      in b64_char (n div 262144) # b64_char (n div 4096 mod 64) # b64_char (n div 64 mod 64) # b64_char (n mod 64) # base64encode s)"

fun decode_quads :: "string \<Rightarrow> string option" where
  "decode_quads [] = Some []"
| "decode_quads (a # b # c # d # s) =
     (case (b64_value a, b64_value b) of
        (Some x, Some y) \<Rightarrow>
          if c = CHR ''='' then (if d = CHR ''='' \<and> s = [] then Some [char_of ((x * 64 + y) div 16)] else None)
          else (case b64_value c of
                  None \<Rightarrow> None
                | Some z \<Rightarrow>
                    let n = x * 4096 + y * 64 + z
                    in if d = CHR ''='' then (if s = [] then Some [char_of (n div 1024), char_of (n div 4 mod 256)] else None)
                       else (case b64_value d of
                               None \<Rightarrow> None
                             | Some v \<Rightarrow>
                                 let n = n * 64 + v
                                 in map_option (\<lambda>t. char_of (n div 65536) # char_of (n div 256 mod 256) # char_of (n mod 256) # t)
                                      (decode_quads s)))
      | _ \<Rightarrow> None)"
| "decode_quads _ = None"

text \<open>Line breaks in the input are skipped; it must be padded.\<close>

definition base64decode :: "string \<Rightarrow> string option" where
  "base64decode v = decode_quads (filter (\<lambda>c. c \<noteq> CHR 0x0A \<and> c \<noteq> CHR 0x0D) v)"

section \<open>Base64 is undone\<close>

lemma b64_char_range: "list_all (\<lambda>i. b64_value (b64_char i) = Some i \<and> b64_char i \<notin> {CHR ''='', CHR 0x0A, CHR 0x0D}) [0..<64]"
  by code_simp

lemma b64_char [simp]:
  assumes "i < 64"
  shows "b64_value (b64_char i) = Some i" "b64_char i \<noteq> CHR ''=''" "b64_char i \<noteq> CHR 0x0A" "b64_char i \<noteq> CHR 0x0D"
  using b64_char_range assms by (auto simp: list_all_iff)

lemma byte_bound: "(of_char c :: nat) < 256"
  by (rule nat_of_char_less_256)

text \<open>A number of 24 bits as three bytes and as four digits of 6 bits.\<close>

lemma two_digits: "(n :: nat) div 64 div 64 * 4096 + n div 64 mod 64 * 64 + n mod 64 = n"
proof -
  have "x * 64 + y = z \<Longrightarrow> z * 64 + w = n \<Longrightarrow> x * 4096 + y * 64 + w = n" for x y z w :: nat by simp
  from this [OF div_mult_mod_eq div_mult_mod_eq] show ?thesis .
qed

lemma digits_64: "(n :: nat) div 262144 * 4096 + n div 4096 mod 64 * 64 + n div 64 mod 64 = n div 64"
proof -
  have "n div 4096 = n div 64 div 64" "n div 262144 = n div 64 div 64 div 64" by (simp_all flip: div_mult2_eq)
  then show ?thesis using two_digits [of "n div 64"] by simp
qed

lemma bytes_256:
  assumes "b < 256" "c < (256 :: nat)"
  shows "(a * 65536 + b * 256 + c) div 65536 = a" "(a * 65536 + b * 256 + c) div 256 mod 256 = b" "(a * 65536 + b * 256 + c) mod 256 = c"
proof -
  have n: "a * 65536 + b * 256 + c = (a * 256 + b) * 256 + c" by simp
  have q: "(a * 65536 + b * 256 + c) div 256 = a * 256 + b" unfolding n using assms by simp
  have "(a * 65536 + b * 256 + c) div 65536 = (a * 65536 + b * 256 + c) div 256 div 256" by (simp flip: div_mult2_eq)
  then show "(a * 65536 + b * 256 + c) div 65536 = a" unfolding q using assms by simp
  show "(a * 65536 + b * 256 + c) div 256 mod 256 = b" unfolding q using assms by simp
  show "(a * 65536 + b * 256 + c) mod 256 = c" unfolding n using assms(2) by (simp only: mod_mult_self3 mod_less)
qed

lemma bound_64: "(n :: nat) < 16777216 \<Longrightarrow> n div 262144 < 64" "(n :: nat) < 262144 \<Longrightarrow> n div 4096 < 64" "(n :: nat) < 4096 \<Longrightarrow> n div 64 < 64"
  by (simp_all add: less_mult_imp_div_less)

lemma encode_bounds:
  "(of_char a * 65536 + of_char b * 256 + of_char c :: nat) < 16777216" "(of_char a * 256 + of_char b) * 4 < (262144 :: nat)"
  "of_char a * 16 < (4096 :: nat)"
proof -
  have b: "(of_char a :: nat) < 256" "(of_char b :: nat) < 256" "(of_char c :: nat) < 256" by (rule byte_bound)+
  then show "(of_char a * 65536 + of_char b * 256 + of_char c :: nat) < 16777216" by linarith
  have "of_char a * 1024 + of_char b * 4 < (262144 :: nat)" using b by linarith
  then show "(of_char a * 256 + of_char b) * 4 < (262144 :: nat)" by simp
  show "of_char a * 16 < (4096 :: nat)" using b by linarith
qed

lemmas encode_digits [simp] = bound_64(1) [OF encode_bounds(1)] bound_64(2) [OF encode_bounds(2)] bound_64(3) [OF encode_bounds(3)]

lemma base64_no_breaks: "filter (\<lambda>c. c \<noteq> CHR 0x0A \<and> c \<noteq> CHR 0x0D) (base64encode s) = base64encode s"
  by (induction s rule: base64encode.induct) (simp_all only: base64encode.simps Let_def filter.simps b64_char encode_digits mod_less_divisor, simp_all)

lemma decode_encode: "decode_quads (base64encode s) = Some s"
proof (induction s rule: base64encode.induct)
  case (2 a)
  define n where "n = of_char a * (16 :: nat)"
  have "n div 64 < 64" "(n div 64 * 64 + n mod 64) div 16 = of_char a"
    unfolding n_def by (rule encode_digits, subst div_mult_mod_eq, simp)
  then show ?case unfolding base64encode.simps Let_def n_def [symmetric] by simp
next
  case (3 a b)
  define n where "n = (of_char a * 256 + of_char b) * (4 :: nat)"
  have "n div 4096 < 64" unfolding n_def by (rule encode_digits)
  moreover have "n div 4096 * 4096 + n div 64 mod 64 * 64 + n mod 64 = n"
    using two_digits [of n] by (simp flip: div_mult2_eq)
  moreover have "n div 4 mod 256 = of_char b" using byte_bound [of b] by (simp add: n_def)
  then have "char_of (n div 4) = b" by (metis char_of_mod_256 char_of_char)
  moreover have "n div 1024 = of_char a"
  proof -
    have "n div 1024 = n div 4 div 256" by (simp flip: div_mult2_eq)
    then show ?thesis using byte_bound [of b] by (simp add: n_def)
  qed
  ultimately show ?case unfolding base64encode.simps Let_def n_def [symmetric] by simp
next
  case (4 a b c s)
  define n where "n = of_char a * 65536 + of_char b * 256 + (of_char c :: nat)"
  have "n div 262144 < 64" unfolding n_def by (rule encode_digits)
  moreover have "n div 65536 = of_char a" "n div 256 mod 256 = of_char b" "n mod 256 = of_char c"
    using bytes_256 [OF byte_bound [of b] byte_bound [of c], of "of_char a"] by (simp_all add: n_def)
  then have "char_of (n div 65536) = a" "char_of (n div 256) = b" "char_of n = c" by (metis char_of_mod_256 char_of_char)+
  moreover have "(n div 262144 * 4096 + n div 4096 mod 64 * 64 + n div 64 mod 64) * 64 + n mod 64 = n"
    unfolding digits_64 by simp
  ultimately show ?case using 4 unfolding base64encode.simps Let_def n_def [symmetric] by simp
qed simp

text \<open>
  Every text comes back from its base64 encoding: \<open>b64dec\<close> after \<open>b64enc\<close> returns the text, and does
  so as well when the encoding has been broken into lines.
\<close>

lemma base64_roundtrip:
  "base64decode (base64encode s) = Some s \<and>
   (filter (\<lambda>c. c \<noteq> CHR 0x0A \<and> c \<noteq> CHR 0x0D) t = base64encode s \<longrightarrow> base64decode t = Some s)"
  by (simp add: base64decode_def base64_no_breaks decode_encode)

section \<open>Lines and pairs\<close>

lemma replace_all_char: "replace_all [c] new s = Join (Split s c) new"
proof (induction s)
  case (Cons d s)
  obtain w ws where "Split s c = w # ws" by (cases "Split s c") auto
  with Cons show ?case by (cases ws) (auto simp: HasPrefix_def)
qed simp

lemma Split_prefix: "sep \<notin> set w \<Longrightarrow> Split (w @ s) sep = (w @ hd (Split s sep)) # tl (Split s sep)"
  by (induction w) auto

lemma Split_padded:
  assumes "sep \<notin> set pad" and "ws \<noteq> []" and "\<And>w. w \<in> set ws \<Longrightarrow> sep \<notin> set w"
  shows "Split (pad @ Join ws (sep # pad)) sep = map ((@) pad) ws"
  using assms(2,3)
proof (induction ws "sep # pad" rule: Join.induct)
  case (2 w)
  then show ?case using assms(1) by (simp add: Split_word)
next
  case (3 w v ws)
  have "Split (pad @ Join (w # v # ws) (sep # pad)) sep = Split ((pad @ w) @ sep # (pad @ Join (v # ws) (sep # pad))) sep"
    by simp
  also have "\<dots> = (pad @ w) # Split (pad @ Join (v # ws) (sep # pad)) sep"
    using assms(1) 3 by (intro Split_append) auto
  finally show ?case using 3 by simp
qed simp

text \<open>Every line is indented, and no line is added or lost.\<close>

lemma indent_lines:
  assumes "0 \<le> spaces"
  shows "\<exists>t. indent spaces v = Some t \<and> Split t newline = map ((@) (replicate (nat spaces) (CHR '' ''))) (Split v newline)"
  using assms Split_padded [of newline "replicate (nat spaces) (CHR '' '')" "Split v newline"]
  by (auto simp: indent_def Let_def ReplaceAll_def replace_all_char dest: Split_words)

definition pair_text :: "string \<times> string \<Rightarrow> string" where
  "pair_text kv = fst kv @ ''='' @ snd kv"

lemma get_value_pairs:
  "list_all (\<lambda>kv. CHR ''='' \<notin> set (fst kv) \<and> CHR ''='' \<notin> set (snd kv)) kvs \<Longrightarrow>
   get_value (map pair_text kvs) key = Some (get kvs key)"
  by (induction kvs) (auto simp: pair_text_def get_def Split_append Split_word)

text \<open>
  The value of a key in a list of pairs. A value is cut at an equals sign, and a part that is only a
  key makes the template fail.
\<close>

lemma getValue_pairs:
  assumes "kvs \<noteq> []" and "list_all (\<lambda>kv. set (fst kv @ snd kv) \<inter> {CHR ''='', CHR '';''} = {}) kvs"
  shows "getValue (Join (map pair_text kvs) '';'') key = Some (get kvs key)"
proof -
  have "Split (Join (map pair_text kvs) '';'') (CHR '';'') = map pair_text kvs"
    using assms by (intro Split_Join) (auto simp: list_all_iff pair_text_def)
  then show ?thesis
    using assms(2) get_value_pairs [of kvs key] unfolding getValue_def by (auto simp: list_all_iff)
qed

lemma getValue_cut: "getValue ''h=a=b'' ''h'' = Some ''a''" "getValue ''debug;h=a'' ''debug'' = None"
  by code_simp+

text \<open>
  The documentation calls these functions with the value first; then they return something else than it says.
\<close>

lemma documented_calls:
  "tf_trimSuffix ''hello'' ''lo'' = ''lo''" "tf_trimPrefix ''hello'' ''he'' = ''he''" "tf_replace ''hello'' ''l'' ''L'' = ''L''"
  "\<not> tf_contains ''hello'' ''lo''" "\<not> tf_hasPrefix ''hello'' ''he''" "\<not> tf_hasSuffix ''hello'' ''lo''"
  by code_simp+

section \<open>Quoted text stays on its line\<close>

lemma hex_digit_newline [simp]: "d < 16 \<Longrightarrow> hex_digit d \<noteq> newline" "d < 16 \<Longrightarrow> newline \<noteq> hex_digit d"
proof -
  have "of_char (hex_digit d) \<noteq> (10 :: nat)" if "d < 16" using that by (simp add: hex_digit_def)
  then show "d < 16 \<Longrightarrow> hex_digit d \<noteq> newline" "d < 16 \<Longrightarrow> newline \<noteq> hex_digit d"
    by (auto dest: arg_cong [of _ _ "of_char :: char \<Rightarrow> nat"])
qed

lemma quote_char_newline: "newline \<notin> set (quote_char c)"
proof -
  have "(of_char c :: nat) < 256" by (rule byte_bound)
  moreover have "c \<noteq> newline" if "32 \<le> (of_char c :: nat)" using that by auto
  ultimately show ?thesis by (auto simp: quote_char_def Let_def)
qed

lemma quote_text_newline [simp]: "newline \<notin> set (quote_text s)"
  using quote_char_newline by (auto simp: quote_text_def)

end
