(* ===== verification/NetworkTemplates.thy ===== *)
theory NetworkTemplates
  imports TemplateFunctions CloudInit
begin

text \<open>
  The default cloud-init templates for the metadata and the network of a VM
  (\<open>src/pkg/providers/instance/cloudinit/metadata.go\<close>, \<open>network.go\<close>), as the text that \<open>text/template\<close>
  makes of them. White space before an action that starts with a dash is trimmed, so every line of the
  output is a line of the template with its values put in; the functions below return these lines.
  \<open>None\<close> is an error of a function in the template. The YAML encoder is a parameter.
\<close>

section \<open>Templates\<close>

definition document :: "string list \<Rightarrow> string" where
  "document lines = Join lines [newline] @ [newline]"

definition only_if :: "bool \<Rightarrow> string list \<Rightarrow> string list" where
  "only_if b lines = (if b then lines else [])"

definition DefaultMetadata_lines :: "MetaData \<Rightarrow> string list" where
  "DefaultMetadata_lines md =
     [''hostname: '' @ md_Hostname md, ''local-hostname: '' @ md_Hostname md, ''instance-id: '' @ md_InstanceID md] @
     only_if (md_InstanceType md \<noteq> []) [''instance-type: '' @ md_InstanceType md] @
     only_if (md_ProviderID md \<noteq> []) [''provider-id: '' @ md_ProviderID md] @
     [''region: '' @ md_Region md, ''zone: '' @ md_Zone md, ''availability-zone: '' @ md_Zone md]"

definition quoted :: "string \<Rightarrow> string" where
  "quoted s = quote [StringVal s]"

definition mtu_line :: "string \<Rightarrow> InterfaceConfig \<Rightarrow> string list" where
  "mtu_line pad i = only_if (if_MTU i \<noteq> 0) [pad @ ''mtu: '' @ show_int (uint (if_MTU i))]"

text \<open>The address that SLAAC gives the VM in the network of its host, and the address of the host.\<close>

definition slaac_address :: "'a net_syntax_scheme \<Rightarrow> InterfaceConfig \<Rightarrow> (string \<times> string) option" where
  "slaac_address syn i =
     (case Slaac syn (MacAddr i) (NodeAddress6 i) of
        None \<Rightarrow> None
      | Some addr \<Rightarrow> map_option (\<lambda>gw. (addr, gw)) (CIDRHost syn (NodeAddress6 i) None))"

subsection \<open>Version 1\<close>

definition v1_static :: "string \<Rightarrow> string \<Rightarrow> string list \<Rightarrow> string list" where
  "v1_static kind gateway addrs =
     concat (map (\<lambda>a. [''  - type: '' @ kind, ''    address: '' @ quoted a] @ only_if (gateway \<noteq> []) [''    gateway: '' @ quoted gateway]) addrs)"

definition v1_ipv4 :: "InterfaceConfig \<Rightarrow> string list" where
  "v1_ipv4 i =
     only_if (DHCPv4 i \<or> DHCPv6 i \<or> if_Address4 i \<noteq> [] \<or> if_Address6 i \<noteq> [])
       (if DHCPv4 i then [''  - type: dhcp''] else v1_static ''static'' (if_Gateway4 i) (if_Address4 i))"

definition v1_ipv6 :: "'a net_syntax_scheme \<Rightarrow> InterfaceConfig \<Rightarrow> string list option" where
  "v1_ipv6 syn i =
     (if DHCPv6 i then Some [''  - type: dhcp6'']
      else if if_Address6 i \<noteq> [] \<and> if_Gateway6 i \<noteq> [] then Some (v1_static ''static6'' (if_Gateway6 i) (if_Address6 i))
      else if SLAAC i
           then (if NodeAddress6 i \<noteq> []
                 then map_option (\<lambda>(addr, gw). [''  - type: static6'', ''    address: '' @ quoted addr, ''    gateway: '' @ quoted gw])
                        (slaac_address syn i)
                 else Some [''  - type: ipv6_slaac''])
           else Some [])"

definition v1_iface :: "'a net_syntax_scheme \<Rightarrow> InterfaceConfig \<Rightarrow> string list option" where
  "v1_iface syn i =
     map_option (\<lambda>ipv6. [''- type: physical'', ''  name: '' @ if_Name i, ''  mac_address: '' @ quoted (map to_lower (MacAddr i))] @
       mtu_line ''  '' i @ [''  subnets:''] @ v1_ipv4 i @ ipv6) (v1_ipv6 syn i)"

definition v1_nameservers :: "(string list \<Rightarrow> string) \<Rightarrow> NetworkConfig \<Rightarrow> string list" where
  "v1_nameservers toYaml cfg =
     only_if (NameServers cfg \<noteq> [])
       ([''- type: nameserver'', ''  address:''] @ map (\<lambda>ns. ''  - '' @ quoted ns) (NameServers cfg) @
        only_if (SearchDomains cfg \<noteq> []) [''  search:'' @ the (nindent 2 (toYaml (SearchDomains cfg)))])"

definition DefaultNetworkV1 :: "'a net_syntax_scheme \<Rightarrow> (string list \<Rightarrow> string) \<Rightarrow> NetworkConfig \<Rightarrow> string option" where
  "DefaultNetworkV1 syn toYaml cfg =
     map_option (\<lambda>ifaces. document ([''version: 1'', ''config:''] @ concat ifaces @ v1_nameservers toYaml cfg))
       (those (map (v1_iface syn) (Interfaces cfg)))"

subsection \<open>Version 2\<close>

definition v2_item :: "string \<Rightarrow> string" where
  "v2_item a = ''      - '' @ quoted a"

definition v2_route :: "string \<Rightarrow> string \<Rightarrow> string list" where
  "v2_route net gateway = [''      - to: '' @ quoted net, ''        via: '' @ quoted gateway]"

definition v2_addresses :: "'a net_syntax_scheme \<Rightarrow> InterfaceConfig \<Rightarrow> string list option" where
  "v2_addresses syn i =
     (if if_Address4 i \<noteq> [] \<or> if_Address6 i \<noteq> []
      then Some ([''      addresses:''] @ map v2_item (if_Address4 i) @ map v2_item (if_Address6 i) @
             only_if (if_Gateway4 i \<noteq> [] \<or> if_Gateway6 i \<noteq> [])
               ([''      routes:''] @ only_if (if_Gateway4 i \<noteq> []) (v2_route ''0.0.0.0/0'' (if_Gateway4 i)) @
                only_if (if_Gateway6 i \<noteq> []) (v2_route ''::/0'' (if_Gateway6 i))))
      else if SLAAC i \<and> NodeAddress6 i \<noteq> []
           then map_option (\<lambda>(addr, gw). [''      addresses:'', v2_item addr, ''      routes:''] @ v2_route ''::/0'' gw) (slaac_address syn i)
           else Some [])"

definition v2_nameservers :: "NetworkConfig \<Rightarrow> string list" where
  "v2_nameservers cfg =
     only_if (NameServers cfg \<noteq> [] \<or> SearchDomains cfg \<noteq> [])
       ([''      nameservers:''] @
        only_if (NameServers cfg \<noteq> []) ([''        addresses:''] @ map (\<lambda>ns. ''        - '' @ quoted ns) (NameServers cfg)) @
        only_if (SearchDomains cfg \<noteq> []) ([''        search:''] @ map (\<lambda>d. ''        - '' @ quoted d) (SearchDomains cfg)))"

definition v2_iface :: "'a net_syntax_scheme \<Rightarrow> NetworkConfig \<Rightarrow> InterfaceConfig \<Rightarrow> string list option" where
  "v2_iface syn cfg i =
     map_option (\<lambda>addresses. [''    '' @ if_Name i @ '':'', ''      match:'', ''        macaddress: '' @ quoted (map to_lower (MacAddr i))] @
       mtu_line ''      '' i @ only_if (DHCPv4 i) [''      dhcp4: true''] @ only_if (DHCPv6 i) [''      dhcp6: true''] @ addresses @ v2_nameservers cfg)
       (v2_addresses syn i)"

definition v2_lines :: "'a net_syntax_scheme \<Rightarrow> NetworkConfig \<Rightarrow> string list option" where
  "v2_lines syn cfg =
     map_option (\<lambda>ifaces. [''network:'', ''  version: 2'', ''  renderer: networkd'', ''  ethernets:''] @ concat ifaces)
       (those (map (v2_iface syn cfg) (Interfaces cfg)))"

definition DefaultNetworkV2 :: "'a net_syntax_scheme \<Rightarrow> NetworkConfig \<Rightarrow> string option" where
  "DefaultNetworkV2 syn cfg = map_option document (v2_lines syn cfg)"

section \<open>The lines of a document\<close>

definition one_line :: "string \<Rightarrow> bool" where
  "one_line s \<longleftrightarrow> newline \<notin> set s"

lemma one_line_append [simp]: "one_line (s @ t) \<longleftrightarrow> one_line s \<and> one_line t"
  by (auto simp: one_line_def)

lemma one_line_Cons [simp]: "one_line (c # s) \<longleftrightarrow> c \<noteq> newline \<and> one_line s"
  by (auto simp: one_line_def)

lemma one_line_Nil [simp]: "one_line []"
  by (simp add: one_line_def)

lemma one_line_quoted [simp]: "one_line (quoted s)"
  by (simp add: quoted_def quote_def one_line_def)

lemma one_line_show_int [simp]: "one_line (show_int i)"
proof -
  have digit: "newline \<noteq> digit_char d" if "d < 10" for d
  proof -
    have "(of_char (digit_char d) :: nat) \<noteq> 10" using that by (simp add: digit_char_def)
    then show ?thesis by (auto dest: arg_cong [of _ _ "of_char :: char \<Rightarrow> nat"])
  qed
  have "newline \<notin> set (show_nat n)" for n using show_nat_chars [of newline n] digit by metis
  then show ?thesis by (auto simp: one_line_def show_int_def)
qed

lemma Split_document:
  assumes "lines \<noteq> []" and "list_all one_line lines"
  shows "Split (document lines) newline = lines @ [[]]"
proof -
  have "Split (s @ [newline]) newline = Split s newline @ [[]]" for s
    by (induction s) (auto split: list.split)
  moreover have "Split (Join lines [newline]) newline = lines"
    using assms by (intro Split_Join) (auto simp: list_all_iff one_line_def)
  ultimately show ?thesis by (simp add: document_def)
qed

lemma list_all_when [simp]: "list_all P (only_if b xs) \<longleftrightarrow> (b \<longrightarrow> list_all P xs)"
  by (simp add: only_if_def)

lemma v2_iface_lines:
  assumes "v2_iface syn cfg i = Some lines" and "one_line (if_Name i)"
  shows "list_all one_line lines"
proof -
  have "list_all one_line addresses" if "v2_addresses syn i = Some addresses" for addresses
    using that by (auto simp: v2_addresses_def v2_route_def v2_item_def list_all_iff only_if_def split: if_splits)
  then show ?thesis
    using assms by (auto simp: v2_iface_def v2_nameservers_def mtu_line_def list_all_iff only_if_def)
qed

lemma those_set: "those xs = Some ys \<Longrightarrow> set xs = Some ` set ys"
  by (induction xs arbitrary: ys) (auto split: option.splits)

text \<open>
  C33. No value can break out of its line in the network document of version 2: when the names of the
  interfaces are plain, the document consists of exactly the lines of the template, whatever the
  addresses, the gateways, the MAC addresses, the name servers and the search domains contain.
\<close>

theorem network_lines_kept:
  assumes "DefaultNetworkV2 syn cfg = Some doc" and "\<forall>i \<in> set (Interfaces cfg). one_line (if_Name i)"
  shows "\<exists>lines. v2_lines syn cfg = Some lines \<and> Split doc newline = lines @ [[]]"
proof -
  obtain ifaces where those: "those (map (v2_iface syn cfg) (Interfaces cfg)) = Some ifaces"
    and doc: "doc = document ([''network:'', ''  version: 2'', ''  renderer: networkd'', ''  ethernets:''] @ concat ifaces)"
    using assms(1) by (auto simp: DefaultNetworkV2_def v2_lines_def)
  have "list_all one_line lines" if "lines \<in> set ifaces" for lines
  proof -
    have "Some lines \<in> v2_iface syn cfg ` set (Interfaces cfg)" using those_set [OF those] that by force
    then show ?thesis using assms(2) v2_iface_lines by (metis imageE)
  qed
  then have "list_all one_line ([''network:'', ''  version: 2'', ''  renderer: networkd'', ''  ethernets:''] @ concat ifaces)"
    by (auto simp: list_all_iff)
  then show ?thesis using those unfolding doc by (subst Split_document) (auto simp: v2_lines_def)
qed

definition example_syntax :: net_syntax where
  "example_syntax =
     \<lparr>lib_ParseCIDR = lib_ParseCIDR example_lib, lib_ParseIP = lib_ParseIP example_lib, lib_Host = lib_Host example_lib,
      syn_NetworkDevice = (\<lambda>s. None), syn_IPConfig = (\<lambda>s. None), syn_IPConfigString = (\<lambda>c. None), syn_IPString = (\<lambda>a. []),
      syn_NetString = (\<lambda>n. []), syn_ParseMAC = (\<lambda>s. None)\<rparr>"

text \<open>An interface with an IPv6 address that contains a line break, and no gateway.\<close>

definition example_iface :: InterfaceConfig where
  "example_iface = empty_iface\<lparr>if_Name := ''eth0'', MacAddr := ''BC:24'', if_Address6 := [''fd00::1'' @ newline # ''x: 1'']\<rparr>"

definition example_network :: NetworkConfig where
  "example_network = \<lparr>Interfaces = [example_iface], SearchDomains = [], NameServers = [''fd00::53'']\<rparr>"

lemma example_network_v2: "DefaultNetworkV2 example_syntax example_network = Some (document (the (v2_lines example_syntax example_network)))"
  by (simp add: DefaultNetworkV2_def v2_lines_def v2_iface_def v2_addresses_def example_network_def example_iface_def)

theorem network_lines_kept_witness:
  "\<exists>doc lines. DefaultNetworkV2 example_syntax example_network = Some doc \<and> Split doc newline = lines @ [[]] \<and> length lines = 12"
proof -
  obtain lines where lines: "v2_lines example_syntax example_network = Some lines"
    "Split (document (the (v2_lines example_syntax example_network))) newline = lines @ [[]]"
    using network_lines_kept [OF example_network_v2] by (auto simp: example_network_def example_iface_def empty_iface_def)
  have "length lines = 12"
    using lines(1) by (auto simp: v2_lines_def v2_iface_def v2_addresses_def v2_nameservers_def mtu_line_def only_if_def
        example_network_def example_iface_def empty_iface_def)
  then show ?thesis using example_network_v2 lines(2) by blast
qed

section \<open>The two versions\<close>

text \<open>
  The lines that give an interface a static address. In version 1 they are named; in version 2 they
  are the quoted items of a list that are indented as deep as the list of addresses.
\<close>

definition v1_is_address :: "string \<Rightarrow> bool" where
  "v1_is_address line \<longleftrightarrow> HasPrefix line ''    address: ''"

definition v2_is_address :: "string \<Rightarrow> bool" where
  "v2_is_address line \<longleftrightarrow> HasPrefix line (''      - '' @ [CHR 0x22])"

definition slaac_list :: "'a net_syntax_scheme \<Rightarrow> InterfaceConfig \<Rightarrow> string list" where
  "slaac_list syn i =
     (if SLAAC i \<and> NodeAddress6 i \<noteq> [] then (case slaac_address syn i of None \<Rightarrow> [] | Some (addr, gw) \<Rightarrow> [addr]) else [])"

text \<open>The addresses each version configures.\<close>

definition v1_configured :: "'a net_syntax_scheme \<Rightarrow> InterfaceConfig \<Rightarrow> string list" where
  "v1_configured syn i =
     (if DHCPv4 i then [] else if_Address4 i) @
     (if DHCPv6 i then [] else if if_Address6 i \<noteq> [] \<and> if_Gateway6 i \<noteq> [] then if_Address6 i else slaac_list syn i)"

definition v2_configured :: "'a net_syntax_scheme \<Rightarrow> InterfaceConfig \<Rightarrow> string list" where
  "v2_configured syn i = (if if_Address4 i \<noteq> [] \<or> if_Address6 i \<noteq> [] then if_Address4 i @ if_Address6 i else slaac_list syn i)"

lemma filter_only_if [simp]: "filter P (only_if b xs) = only_if b (filter P xs)"
  by (simp add: only_if_def)

lemma only_if_Nil [simp]: "only_if b [] = []"
  by (simp add: only_if_def)

lemma v1_static_addresses:
  assumes "kind = ''static'' \<or> kind = ''static6''"
  shows "filter v1_is_address (v1_static kind gateway addrs) = map (\<lambda>a. ''    address: '' @ quoted a) addrs"
  using assms by (induction addrs) (auto simp: v1_static_def v1_is_address_def HasPrefix_def)

lemma v1_iface_addresses:
  assumes "v1_iface syn i = Some lines"
  shows "filter v1_is_address lines = map (\<lambda>a. ''    address: '' @ quoted a) (v1_configured syn i)"
proof -
  obtain ipv6 where ipv6: "v1_ipv6 syn i = Some ipv6" and lines: "lines = [''- type: physical'', ''  name: '' @ if_Name i,
      ''  mac_address: '' @ quoted (map to_lower (MacAddr i))] @ mtu_line ''  '' i @ [''  subnets:''] @ v1_ipv4 i @ ipv6"
    using assms by (auto simp: v1_iface_def)
  have "filter v1_is_address (v1_ipv4 i) = map (\<lambda>a. ''    address: '' @ quoted a) (if DHCPv4 i then [] else if_Address4 i)"
    by (auto simp: v1_ipv4_def v1_static_addresses only_if_def) (simp_all add: v1_is_address_def HasPrefix_def)
  moreover have "filter v1_is_address ipv6 = map (\<lambda>a. ''    address: '' @ quoted a)
      (if DHCPv6 i then [] else if if_Address6 i \<noteq> [] \<and> if_Gateway6 i \<noteq> [] then if_Address6 i else slaac_list syn i)"
    using ipv6 by (auto simp: v1_ipv6_def v1_static_addresses slaac_list_def v1_is_address_def HasPrefix_def split: if_splits)
  ultimately show ?thesis
    by (simp add: lines v1_configured_def mtu_line_def) (simp add: v1_is_address_def HasPrefix_def)
qed

lemma v2_item_address: "v2_is_address (v2_item a)"
  by (simp add: v2_is_address_def v2_item_def quoted_def quote_def quote_text_def HasPrefix_def)

lemma v2_addresses_items:
  assumes "v2_addresses syn i = Some lines"
  shows "filter v2_is_address lines = map v2_item (v2_configured syn i)"
proof -
  have items: "filter v2_is_address (map v2_item as) = map v2_item as" for as
    by (simp add: filter_map comp_def v2_item_address)
  have route: "filter v2_is_address (v2_route net gw) = []" for net gw
    by (simp add: v2_route_def v2_is_address_def HasPrefix_def)
  have heads: "\<not> v2_is_address ''      addresses:''" "\<not> v2_is_address ''      routes:''"
    by (simp_all add: v2_is_address_def HasPrefix_def)
  show ?thesis
    using assms by (auto simp: v2_addresses_def v2_configured_def slaac_list_def items route heads v2_item_address split: if_splits)
qed

lemma v2_iface_addresses:
  assumes "v2_iface syn cfg i = Some lines" and "\<not> HasPrefix (if_Name i) '' ''"
  shows "filter v2_is_address lines = map v2_item (v2_configured syn i)"
proof -
  obtain addresses where addresses: "v2_addresses syn i = Some addresses" and lines: "lines =
      [''    '' @ if_Name i @ '':'', ''      match:'', ''        macaddress: '' @ quoted (map to_lower (MacAddr i))] @
      mtu_line ''      '' i @ only_if (DHCPv4 i) [''      dhcp4: true''] @ only_if (DHCPv6 i) [''      dhcp6: true''] @ addresses @ v2_nameservers cfg"
    using assms(1) by (auto simp: v2_iface_def)
  have "filter v2_is_address (v2_nameservers cfg) = []"
    by (auto simp: v2_nameservers_def filter_empty_conv only_if_def v2_is_address_def HasPrefix_def)
  moreover have "\<not> v2_is_address (''    '' @ if_Name i @ '':'')"
    using assms(2) by (cases "if_Name i") (auto simp: v2_is_address_def HasPrefix_def)
  ultimately show ?thesis
    using v2_addresses_items [OF addresses]
    by (simp add: lines mtu_line_def) (simp add: v2_is_address_def HasPrefix_def)
qed

text \<open>
  C34. The static addresses the two network documents give an interface. Version 2 lists all IPv4 and
  IPv6 addresses of the interface, and the address SLAAC gives it only when it has no other one.
  Version 1 leaves out the addresses of a family that is configured by DHCP; of IPv6 it lists the
  static addresses when there is an IPv6 gateway, and the address of SLAAC otherwise. So both
  configure the same addresses when DHCP is off, every static IPv6 address has a gateway, and SLAAC is not used beside
  an IPv4 address alone; an interface with only static IPv6 addresses, no gateway and no SLAAC gets them
  from version 2 and none from version 1.
\<close>

theorem network_versions_compared:
  assumes "v1_iface syn i = Some l1" and "v2_iface syn cfg i = Some l2" and "\<not> HasPrefix (if_Name i) '' ''"
  shows "filter v1_is_address l1 = map (\<lambda>a. ''    address: '' @ quoted a) (v1_configured syn i) \<and>
    filter v2_is_address l2 = map v2_item (v2_configured syn i) \<and>
    (\<not> DHCPv4 i \<and> \<not> DHCPv6 i \<and> (if_Address6 i = [] \<or> if_Gateway6 i \<noteq> []) \<and>
       (if_Address4 i = [] \<or> if_Address6 i \<noteq> [] \<or> slaac_list syn i = []) \<longrightarrow> v1_configured syn i = v2_configured syn i) \<and>
    (if_Address4 i = [] \<and> if_Gateway6 i = [] \<and> \<not> SLAAC i \<longrightarrow> v1_configured syn i = [] \<and> v2_configured syn i = if_Address6 i)"
  using v1_iface_addresses [OF assms(1)] v2_iface_addresses [OF assms(2,3)]
  by (auto simp: v1_configured_def v2_configured_def slaac_list_def)

theorem network_versions_compared_witness:
  "\<exists>l1 l2. v1_iface example_syntax example_iface = Some l1 \<and> v2_iface example_syntax example_network example_iface = Some l2 \<and>
     filter v1_is_address l1 = [] \<and> filter v2_is_address l2 = map v2_item (if_Address6 example_iface)"
proof -
  obtain l1 l2 where l: "v1_iface example_syntax example_iface = Some l1" "v2_iface example_syntax example_network example_iface = Some l2"
    by (simp add: v1_iface_def v1_ipv6_def v2_iface_def v2_addresses_def example_iface_def empty_iface_def)
  then have "filter v1_is_address l1 = [] \<and> filter v2_is_address l2 = map v2_item (if_Address6 example_iface)"
    using network_versions_compared [OF l] by (simp add: example_iface_def empty_iface_def HasPrefix_def)
  with l show ?thesis by blast
qed

end
