(* ===== verification/Description.thy ===== *)
theory Description
  imports Instance Scheduler
begin

text \<open>
  The description of a VM carries its CPU affinity from \<open>instanceCreate\<close>
  (\<open>src/pkg/providers/instance/instance_utils.go\<close>) to the scheduler on the host
  (\<open>LoadVMConfig\<close>, \<open>src/pkg/utils/vmconfig/vmconfig.go\<close>), and the order in which instance types are tried.
\<close>

section \<open>Affinity in the description\<close>

lemma hd_Split: "\<exists>ws. Split s sep = takeWhile (\<lambda>c. c \<noteq> sep) s # ws"
  by (induction s) auto

lemma Split_three:
  "c \<notin> set u \<Longrightarrow> c \<notin> set v \<Longrightarrow> c \<notin> set w \<Longrightarrow>
   Split (u @ c # v @ c # w @ c # s) c = u # v # w # Split s c"
  by (simp add: Split_append)

lemma CutPrefix_TrimSpace_other:
  assumes "dropWhile go_space s = c # t" and "c \<noteq> d"
  shows "CutPrefix (TrimSpace s) (d # ds) = None"
proof -
  have "\<not> go_space c" using assms(1) by (metis dropWhile_eq_Cons_conv)
  then have "TrimSpace s = c # rev (dropWhile go_space (rev t))"
    unfolding TrimSpace_def assms(1) by (induction t rule: rev_induct) auto
  with assms(2) show ?thesis by (simp add: CutPrefix_def HasPrefix_def)
qed

lemma TrimSpace_front:
  assumes "\<not> go_space (hd w)" and "\<not> go_space (last w)" and "w \<noteq> []"
  shows "TrimSpace (CHR '' '' # w) = w"
proof -
  have "dropWhile go_space w = w" using assms(1,3) by (cases w) auto
  moreover have "dropWhile go_space (rev w) = rev w" using assms(2,3) by (cases w rule: rev_cases) auto
  ultimately show ?thesis by (simp add: TrimSpace_def go_space_def is_space_def)
qed

lemma description_parts:
  assumes "\<not> IsEmpty cpus" and "CHR '','' \<notin> set name" and "CHR '','' \<notin> set ct"
  shows "\<exists>ws. Split (instance_description render name ct cpus) (CHR '','') =
    ''Karpenter managed instance'' # (CHR '' '' # ''class='' @ name) # (CHR '' '' # ''capacity-type='' @ ct) #
    (CHR '' '' # ''affinity='' @ takeWhile (\<lambda>c. c \<noteq> CHR '','') (render cpus)) # ws"
proof -
  obtain ws where last: "Split (CHR '' '' # ''affinity='' @ render cpus) (CHR '','') =
      takeWhile (\<lambda>c. c \<noteq> CHR '','') (CHR '' '' # ''affinity='' @ render cpus) # ws"
    using hd_Split by blast
  have text_eq: "instance_description render name ct cpus =
      ''Karpenter managed instance'' @ CHR '','' # (CHR '' '' # ''class='' @ name) @ CHR '','' #
      (CHR '' '' # ''capacity-type='' @ ct) @ CHR '','' # CHR '' '' # ''affinity='' @ render cpus"
    using assms(1) by (simp add: instance_description_def)
  have parts: "Split (''Karpenter managed instance'' @ CHR '','' # (CHR '' '' # ''class='' @ name) @ CHR '','' #
      (CHR '' '' # ''capacity-type='' @ ct) @ CHR '','' # CHR '' '' # ''affinity='' @ render cpus) (CHR '','') =
      ''Karpenter managed instance'' # (CHR '' '' # ''class='' @ name) #
      (CHR '' '' # ''capacity-type='' @ ct) # Split (CHR '' '' # ''affinity='' @ render cpus) (CHR '','')"
    by (rule Split_three) (use assms(2,3) in simp_all)
  show ?thesis unfolding text_eq parts last by simp
qed

text \<open>
  C39. The affinity read back from the description is the text of the CPU set up to its first comma.
  A set that is printed without a comma survives; a set of several ranges, such as
  \<open>0-1,4-5\<close>, is cut to the first of them, and the scheduler treats the other CPUs of the VM as
  not its own. The names in the description contain no comma, the text of the CPU set no space.
\<close>

theorem description_affinity_cut:
  assumes "\<not> IsEmpty cpus" and "CHR '','' \<notin> set name" and "CHR '','' \<notin> set ct"
    and "\<And>c. c \<in> set (render cpus) \<Longrightarrow> \<not> go_space c"
    and "parse (takeWhile (\<lambda>c. c \<noteq> CHR '','') (render cpus)) \<noteq> None"
    and "local vmID = Some vm" and "lc_Affinity vm = []" and "lc_Description vm = instance_description render name ct cpus"
  shows "LoadVMConfig parse local vmID = Some (vm\<lparr>lc_Affinity := takeWhile (\<lambda>c. c \<noteq> CHR '','') (render cpus)\<rparr>)"
proof -
  let ?a = "takeWhile (\<lambda>c. c \<noteq> CHR '','') (render cpus)"
  have "last (''affinity='' @ ?a) \<in> insert (CHR ''='') (set (render cpus))"
    by (auto simp: last_append dest: set_takeWhileD last_in_set)
  moreover have "\<not> go_space (CHR ''='')" by (simp add: go_space_def is_space_def)
  ultimately have "\<not> go_space (last (''affinity='' @ ?a))" using assms(4) by (metis insertE)
  then have "TrimSpace (CHR '' '' # ''affinity='' @ ?a) = ''affinity='' @ ?a"
    by (intro TrimSpace_front) (auto simp: go_space_def is_space_def)
  then have trim: "CutPrefix (TrimSpace (CHR '' '' # ''affinity='' @ ?a)) ''affinity='' = Some ?a"
    by (simp add: CutPrefix_def HasPrefix_def)
  have other: "CutPrefix (TrimSpace ''Karpenter managed instance'') ''affinity='' = None"
    "CutPrefix (TrimSpace (CHR '' '' # ''class='' @ name)) ''affinity='' = None"
    "CutPrefix (TrimSpace (CHR '' '' # ''capacity-type='' @ ct)) ''affinity='' = None"
    by (auto intro!: CutPrefix_TrimSpace_other simp: go_space_def is_space_def)
  obtain ws where "Split (lc_Description vm) (CHR '','') =
      ''Karpenter managed instance'' # (CHR '' '' # ''class='' @ name) # (CHR '' '' # ''capacity-type='' @ ct) #
      (CHR '' '' # ''affinity='' @ ?a) # ws"
    using description_parts [where render = render, OF assms(1-3)] assms(8) by auto
  with trim other assms(5) have "description_affinity parse (Split (lc_Description vm) (CHR '','')) = ?a"
    by (simp only: description_affinity.simps option.case) simp
  with assms(6,7) show ?thesis by (simp add: LoadVMConfig_def)
qed

theorem description_affinity_cut_witness:
  "LoadVMConfig (\<lambda>s. Some {}) (\<lambda>i. Some \<lparr>lc_Name = ''claim-1'', lc_Cores = 4, lc_Memory = 8192, lc_Affinity = [],
       lc_Description = instance_description (\<lambda>c. ''0-1,4-5'') ''default'' ''on-demand'' {0, 1, 4, 5}, lc_HostPCIs = []\<rparr>) 100 =
   Some \<lparr>lc_Name = ''claim-1'', lc_Cores = 4, lc_Memory = 8192, lc_Affinity = ''0-1'',
       lc_Description = instance_description (\<lambda>c. ''0-1,4-5'') ''default'' ''on-demand'' {0, 1, 4, 5}, lc_HostPCIs = []\<rparr>"
proof -
  define vm where "vm = \<lparr>lc_Name = ''claim-1'', lc_Cores = 4, lc_Memory = 8192, lc_Affinity = [],
    lc_Description = instance_description (\<lambda>c. ''0-1,4-5'') ''default'' ''on-demand'' {0, 1, 4, 5}, lc_HostPCIs = []\<rparr>"
  have "LoadVMConfig (\<lambda>s. Some {}) (\<lambda>i. Some vm) 100 =
      Some (vm\<lparr>lc_Affinity := takeWhile (\<lambda>c. c \<noteq> CHR '','') ((\<lambda>c. ''0-1,4-5'') ({0, 1, 4, 5} :: CPUSet))\<rparr>)"
    by (rule description_affinity_cut [where name = "''default''" and ct = "''on-demand''"])
      (auto simp: vm_def IsEmpty_def Size_def go_space_def is_space_def)
  then show ?thesis by (simp add: vm_def)
qed

section \<open>Order of the instance types\<close>

lemma string_less_irrefl: "\<not> string_less s s"
  by (simp add: string_less_def lexord_irreflexive)

lemma string_less_trans: "string_less s t \<Longrightarrow> string_less t u \<Longrightarrow> string_less s u"
  unfolding string_less_def by (erule lexord_trans) (auto simp: trans_def)

lemma string_less_asym: "string_less s t \<Longrightarrow> \<not> string_less t s"
  using string_less_irrefl string_less_trans by blast

lemma string_less_total: "s \<noteq> t \<Longrightarrow> string_less s t \<or> string_less t s"
proof -
  have "\<forall>a b. (a, b) \<in> {(a, b). (of_char a :: nat) < of_char b} \<or> a = b \<or> (b, a) \<in> {(a, b). (of_char a :: nat) < of_char b}"
  proof (intro allI)
    fix a b :: char
    show "(a, b) \<in> {(a, b). (of_char a :: nat) < of_char b} \<or> a = b \<or> (b, a) \<in> {(a, b). (of_char a :: nat) < of_char b}"
      using linorder_less_linear [of "of_char a :: nat" "of_char b"] by simp
  qed
  from lexord_linear [OF this] show "s \<noteq> t \<Longrightarrow> string_less s t \<or> string_less t s" unfolding string_less_def by blast
qed

interpretation price: strict_weak_order "price_less sch reqs" for sch reqs
proof
  show "price_less sch reqs x y \<Longrightarrow> \<not> price_less sch reqs y x" for x y
    by (auto simp: price_less_def dest: string_less_asym split: if_splits)
  show "price_less sch reqs x z \<Longrightarrow> price_less sch reqs x y \<or> price_less sch reqs y z" for x y z
    using string_less_total [of "it_Name x" "it_Name y"] string_less_trans [of "it_Name y" "it_Name x" "it_Name z"]
    by (cases "it_Name x = it_Name y") (auto simp: price_less_def split: if_splits)
qed

text \<open>
  The instance types are tried from the cheapest on: the order keeps all of them, never puts
  a type before one with a cheaper available and compatible offering; a type without such an offering
  has the largest price a \<open>float64\<close> can hold.
\<close>

lemma order_by_price:
  "mset (orderInstanceTypesByPrice sch reqs its) = mset its \<and>
   sorted_wrt (\<lambda>a b. type_price sch reqs a \<le> type_price sch reqs b) (orderInstanceTypesByPrice sch reqs its)"
proof
  show "mset (orderInstanceTypesByPrice sch reqs its) = mset its" by (simp add: orderInstanceTypesByPrice_def)
  show "sorted_wrt (\<lambda>a b. type_price sch reqs a \<le> type_price sch reqs b) (orderInstanceTypesByPrice sch reqs its)"
    unfolding orderInstanceTypesByPrice_def
    by (rule sorted_wrt_mono_rel [OF _ price.sort_slice_sorted]) (auto simp: price_less_def split: if_splits)
qed

end
