(* ===== verification/Spec2Isabelle.thy ===== *)
theory Spec2Isabelle
  imports Operator NetworkTemplates Description
begin

text \<open>
  \<^bold>\<open>Verification of karpenter-provider-proxmox.\<close>

  The program lets karpenter create Kubernetes nodes as virtual machines in Proxmox clusters. It has two
  parts. The \<^emph>\<open>controller\<close> runs in Kubernetes: it keeps books of the CPUs and the memory of every Proxmox host,
  offers instance types that fit, creates, updates and deletes VMs, and hands out addresses. The
  \<^emph>\<open>scheduler\<close> runs on every host: it follows the VMs that start and stop, pins their threads to CPUs, and
  writes a VM that tells the controller the topology of the host.

  \<^bold>\<open>Method.\<close> The Go code is translated function by function into HOL functions, with the names of the
  source where HOL allows them. A struct is a record, an enumeration or an interface with known
  implementations a datatype, a map an association list (\<open>go_map\<close>: the order of a Go map is arbitrary, the
  one of the list stands for any), \<open>uint64\<close> a 64-bit word, \<open>int\<close> an integer, with the conversions
  written out where a value may leave its range. Errors are values of sum types, a nil pointer or a panic
  is \<open>None\<close> or an error of its own. State is passed explicitly; a world type \<open>'w\<close> stands for what the
  clients of Proxmox and Kubernetes change. Code outside of the repository (go-proxmox, client-go,
  karpenter, hashstructure, cpuset, gocidr, YAML) is a parameter, a record of functions; the documented
  behaviour that a theorem relies on is a named predicate (\<open>client_laws\<close>, \<open>secret_laws\<close>, \<open>lib_laws\<close>,
  \<open>condition_laws\<close>, \<open>patch_laws\<close>, \<open>cpuset_text_laws\<close>), and every such theorem has a witness with a concrete
  instance. The mutexes are not modelled: every operation of a provider is one step.

  \<^bold>\<open>Shared theories.\<close>
  \<^item> \<open>Prelude\<close>: the Go types and maps, \<open>sort.Slice\<close>, truncating division, decimal numbers; the locales
    \<open>strict_weak_order\<close> and \<open>strict_total_order\<close> of comparison functions, interpreted for the orders of the
    accumulator, of prices and of zone loads.
  \<^item> \<open>GoStrings\<close>: packages \<open>strings\<close> and \<open>strconv\<close>; splitting undoes joining, reading undoes printing.

  \<^bold>\<open>Capacity of a host\<close> (\<open>src/pkg/providers/cloudcapacity\<close>, \<open>src/pkg/proxmox/resources\<close>).
  \<^item> \<open>Topology\<close>, \<open>Discovery\<close>: \<open>cpumanager/topology\<close> and \<open>src/pkg/utils/nodesettings\<close>; the topology built from
    predicted settings is the regular one the allocators need.
  \<^item> \<open>CPUAccumulator\<close>, \<open>NUMAPacked\<close>, \<open>NUMADistributed\<close>: \<open>cpu_assignment.go\<close>. The packing allocator returns
    exactly the number of CPUs asked for, from the available ones; the distributing one takes only available
    CPUs, and a loop of it that may not end is a \<open>partial_function\<close>, with the input on which it hangs.
  \<^item> \<open>Resources\<close>, \<open>SimplePolicy\<close>, \<open>StaticPolicy\<close>: the two policies. The locale \<open>node_policy\<close> is the contract of
    the interface \<open>Policy\<close>: invariant, what allocating and releasing keep; both policies and the variant
    type of \<open>ResourceManager\<close> interpret it.
  \<^item> \<open>VMConfig\<close>, \<open>ResourceManager\<close>: reading the resources of VMs, building the policy of a host.
  \<^item> \<open>CloudCapacity\<close>, \<open>CapacityZones\<close>: the provider of all hosts as a transition system (\<open>provider_step\<close>) whose
    reachable states keep the books in order; allocating and releasing is the identity, offered zones can be
    allocated in.

  \<^bold>\<open>Addresses\<close> (\<open>src/pkg/providers/nodeipam\<close>, \<open>src/pkg/utils/ip\<close>).
  \<^item> \<open>IPPool\<close>: the bitmap of a subnet refines a set of addresses (locale \<open>address_pool\<close>, interpreted for IPv4).
  \<^item> \<open>NodeIpam\<close>: the pools of all subnets as a transition system (\<open>ipam_step\<close>), no bit outside of a map is touched.
  \<^item> \<open>InstanceNetwork\<close>: the network configuration of a VM.

  \<^bold>\<open>Instances\<close> (\<open>src/pkg/providers/instance*\<close>, \<open>bootstrap\<close>, \<open>src/pkg/apis/v1alpha1\<close>).
  \<^item> \<open>InstanceTypes\<close>, \<open>NodeClass\<close>, \<open>InstanceTemplate\<close>: types with their offerings, classes, and VM templates with the
    locks of their zones (a request for a lock that is held is the value \<open>Blocked\<close>).
  \<^item> \<open>Bootstrap\<close>, \<open>CloudInit\<close>, \<open>TemplateFunctions\<close>, \<open>NetworkTemplates\<close>: tokens, the values of the cloud-init documents,
    the functions of their templates, and the default network and metadata documents line by line.
  \<^item> \<open>ProviderID\<close>, \<open>Instance\<close>, \<open>InstanceLifecycle\<close>, \<open>Description\<close>: creating, updating and deleting a VM. A creation
    that fails leaves the books as they were but for the attempts whose clone returned no id
    (\<open>lost_clone\<close>), and deleting undoes creating; where the code does not do so a theorem shows the case.

  \<^bold>\<open>Controllers\<close> (\<open>src/pkg/cloudprovider\<close>, \<open>src/pkg/controllers\<close>).
  \<^item> \<open>CloudProvider\<close>: the interface to karpenter and the detection of drift.
  \<^item> \<open>Controllers\<close>, \<open>TemplateControllers\<close>, \<open>ClaimControllers\<close>, \<open>ProviderControllers\<close>: the reconcilers of node classes, of
    templates, of node claims, and of the providers. A reconciler is a function of the object, the providers
    and the world; its result includes the patch it sends and when it runs again.

  \<^bold>\<open>Scheduler\<close> (\<open>src/cmd/proxmox-scheduler\<close>, \<open>src/pkg/utils/{reconciler,sys,vmconfig}\<close>).
  \<^item> \<open>Reconciler\<close>: event channel, retry queue and timers as interleaved steps (\<open>rf_step\<close>); attempts are bounded.
  \<^item> \<open>SysNode\<close>, \<open>Scheduler\<close>: the files and threads of the host, and the handler of VM events.
  \<^item> \<open>CapacityVM\<close>: the discovery VM; the controller reads back the NUMA nodes the scheduler has written.

  \<^bold>\<open>Start.\<close> \<open>CloudConfig\<close> has the configuration, its checks, and the pool of clients; \<open>Operator\<close> composes
  everything: from a valid configuration the controller starts in a state that satisfies the invariants of
  the capacity provider and of the address management.
  The locale \<open>client_pool\<close> has what the start relies on of the pool, interpreted for the view the capacity
  provider has of it and for that of the template controllers.

  \<^bold>\<open>Bounds.\<close> No fuel is used but in \<open>next_candidate\<close>, whose bound is the loop bound of the source (the number of
  addresses of the subnet). Memory of a host is below \<open>2 ^ 63\<close> bytes, CPU numbers below \<open>2 ^ 31\<close>, as the code
  relies on when it converts. Prices are rational numbers where the source uses \<open>float64\<close>, and time is an
  integer of seconds or nanoseconds, as the text of the theory says.

  \<^bold>\<open>Not modelled.\<close> Logging and the printing methods (\<open>String\<close>, \<open>Status\<close>); generated deep copies and the
  registration of API types; the wiring of controllers into the manager and of flags into the command
  line; cadvisor, which reads the hardware; the JSON and YAML encoders; data races between goroutines, as
  the operations are steps.
\<close>

end
